(* ===== verification/Prelude.thy ===== *)
theory Prelude
  imports Main "HOL-Library.Monad_Syntax"
begin

text \<open>
  Shared vocabulary of the development.  A database transaction of the program is modelled as a
  function from the state to either an error or a result with the new state, so that an early
  return, a guard and a failed statement are all branches of the model.  This theory holds the
  combinators of that monad, a weakest-precondition calculus for it, the locale of relations that
  a transaction composes, and the lemmas about tables (lists of rows) that the components share.
\<close>

section \<open>Transactions\<close>

type_synonym ('s, 'e, 'a) trans = "'s \<Rightarrow> 'e + 'a \<times> 's"

named_theorems tx_simps \<open>running the transaction combinators\<close>
named_theorems wp_simps \<open>weakest preconditions of the transaction combinators\<close>
named_theorems table_simps \<open>facts about filtered, updated and extended tables\<close>

definition txReturn :: "'a \<Rightarrow> ('s, 'e, 'a) trans" where
  "txReturn x = (\<lambda>s. Inr (x, s))"

definition txFail :: "'e \<Rightarrow> ('s, 'e, 'a) trans" where
  "txFail e = (\<lambda>s. Inl e)"

definition txBind :: "('s, 'e, 'a) trans \<Rightarrow> ('a \<Rightarrow> ('s, 'e, 'b) trans) \<Rightarrow> ('s, 'e, 'b) trans" where
  "txBind m f = (\<lambda>s. case m s of Inl e \<Rightarrow> Inl e | Inr (x, s') \<Rightarrow> f x s')"

definition txThen :: "('s, 'e, 'a) trans \<Rightarrow> ('s, 'e, 'b) trans \<Rightarrow> ('s, 'e, 'b) trans" where
  "txThen m n = txBind m (\<lambda>_. n)"

definition txGets :: "('s \<Rightarrow> 'a) \<Rightarrow> ('s, 'e, 'a) trans" where
  "txGets f = (\<lambda>s. Inr (f s, s))"

definition txModify :: "('s \<Rightarrow> 's) \<Rightarrow> ('s, 'e, unit) trans" where
  "txModify f = (\<lambda>s. Inr ((), f s))"

text \<open>\<open>if !c \{ return e \}\<close>\<close>

definition txEnsure :: "bool \<Rightarrow> 'e \<Rightarrow> ('s, 'e, unit) trans" where
  "txEnsure c e = (if c then txReturn () else txFail e)"

text \<open>A pure computation that returns a value or an error.\<close>

definition txLift :: "'e + 'a \<Rightarrow> ('s, 'e, 'a) trans" where
  "txLift r = (case r of Inl e \<Rightarrow> txFail e | Inr x \<Rightarrow> txReturn x)"

text \<open>
  \<open>x, err := m\<close> with the error kept as a value.  It is used where the code inspects the error of
  a lookup; such a lookup has not changed the state when it fails.
\<close>

definition txAttempt :: "('s, 'e, 'a) trans \<Rightarrow> ('s, 'e, 'e + 'a) trans" where
  "txAttempt m = (\<lambda>s. case m s of Inl e \<Rightarrow> Inr (Inl e, s) | Inr (x, s') \<Rightarrow> Inr (Inr x, s'))"

text \<open>A guard that reads the state, and a rewriting of the error.\<close>

definition txCheck :: "('s \<Rightarrow> bool) \<Rightarrow> 'e \<Rightarrow> ('s, 'e, unit) trans" where
  "txCheck P e = (\<lambda>s. if P s then Inr ((), s) else Inl e)"

definition txMapError :: "('e \<Rightarrow> 'f) \<Rightarrow> ('s, 'e, 'a) trans \<Rightarrow> ('s, 'f, 'a) trans" where
  "txMapError h m = (\<lambda>s. case m s of Inl e \<Rightarrow> Inl (h e) | Inr r \<Rightarrow> Inr r)"

lemma txReturn_apply [simp, tx_simps]: "txReturn x s = Inr (x, s)"
  by (simp add: txReturn_def)

lemma txFail_apply [simp, tx_simps]: "txFail e s = Inl e"
  by (simp add: txFail_def)

lemma txGets_apply [simp, tx_simps]: "txGets f s = Inr (f s, s)"
  by (simp add: txGets_def)

lemma txModify_apply [simp, tx_simps]: "txModify f s = Inr ((), f s)"
  by (simp add: txModify_def)

lemma txEnsure_simps [simp, tx_simps]:
  "txEnsure True e s = Inr ((), s)"
  "txEnsure False e s = Inl e"
  by (simp_all add: txEnsure_def)

lemma txLift_simps [simp, tx_simps]:
  "txLift (Inl e) = txFail e"
  "txLift (Inr x) = txReturn x"
  by (simp_all add: txLift_def)

lemma txBind_return [simp]: "txBind (txReturn x) f = f x"
  by (simp add: txBind_def fun_eq_iff)

lemma txBind_fail [simp]: "txBind (txFail e) f = txFail e"
  by (simp add: txBind_def fun_eq_iff)

lemma txBind_Inr [tx_simps]:
  "txBind m f s = Inr (y, s'') \<longleftrightarrow> (\<exists>x s'. m s = Inr (x, s') \<and> f x s' = Inr (y, s''))"
  by (auto simp: txBind_def split: sum.splits prod.splits)

lemma txBind_run:
  "m s = Inr (x, s') \<Longrightarrow> txBind m f s = f x s'"
  "m s = Inl e \<Longrightarrow> txBind m f s = Inl e"
  by (simp_all add: txBind_def)

lemma txThen_Inr [tx_simps]:
  "txThen m n s = Inr (y, s'') \<longleftrightarrow> (\<exists>x s'. m s = Inr (x, s') \<and> n s' = Inr (y, s''))"
  by (simp add: txThen_def txBind_Inr)

lemma txThen_run:
  "m s = Inr (x, s') \<Longrightarrow> txThen m n s = n s'"
  "m s = Inl e \<Longrightarrow> txThen m n s = Inl e"
  by (simp_all add: txThen_def txBind_def)

lemma txEnsure_Inr [tx_simps]: "txEnsure c e s = Inr (u, s') \<longleftrightarrow> c \<and> s' = s"
  by (auto simp: txEnsure_def)

lemma txLift_Inr [tx_simps]: "txLift r s = Inr (x, s') \<longleftrightarrow> r = Inr x \<and> s' = s"
  by (cases r) auto

lemma txCheck_Inr [tx_simps]: "txCheck P e s = Inr (u, s') \<longleftrightarrow> P s \<and> s' = s"
  by (auto simp: txCheck_def)

lemma txMapError_Inr [simp, tx_simps]: "txMapError h m s = Inr r \<longleftrightarrow> m s = Inr r"
  by (auto simp: txMapError_def split: sum.splits)

lemma txMapError_Inl: "txMapError h m s = Inl e \<longleftrightarrow> (\<exists>e0. m s = Inl e0 \<and> e = h e0)"
  by (auto simp: txMapError_def split: sum.splits)

lemma txAttempt_Inr [tx_simps]:
  "txAttempt m s = Inr (r, s') \<longleftrightarrow>
     (case r of Inl e \<Rightarrow> m s = Inl e \<and> s' = s | Inr x \<Rightarrow> m s = Inr (x, s'))"
  by (auto simp: txAttempt_def split: sum.splits)

lemma txAttempt_run:
  "m s = Inr (x, s') \<Longrightarrow> txAttempt m s = Inr (Inr x, s')"
  "m s = Inl e \<Longrightarrow> txAttempt m s = Inr (Inl e, s)"
  by (simp_all add: txAttempt_def)

text \<open>The monad laws.\<close>

lemma txBind_assoc: "txBind (txBind m f) g = txBind m (\<lambda>x. txBind (f x) g)"
  by (auto simp: txBind_def fun_eq_iff split: sum.splits prod.splits)

lemma txBind_right_unit: "txBind m txReturn = m"
  by (auto simp: txBind_def fun_eq_iff split: sum.splits)

section \<open>Weakest preconditions\<close>

text \<open>
  \<open>wp m Q s\<close>: if the transaction succeeds from \<open>s\<close>, its result and final state satisfy \<open>Q\<close>.  A
  transaction that fails is rolled back by its caller, so its state is of no interest.
\<close>

definition wp :: "('s, 'e, 'a) trans \<Rightarrow> ('a \<Rightarrow> 's \<Rightarrow> bool) \<Rightarrow> 's \<Rightarrow> bool" where
  "wp m Q s \<longleftrightarrow> (case m s of Inl e \<Rightarrow> True | Inr (x, s') \<Rightarrow> Q x s')"

lemma wpI: "(\<And>x s'. m s = Inr (x, s') \<Longrightarrow> Q x s') \<Longrightarrow> wp m Q s"
  by (auto simp: wp_def split: sum.splits)

lemma wpD: "wp m Q s \<Longrightarrow> m s = Inr (x, s') \<Longrightarrow> Q x s'"
  by (simp add: wp_def)

lemma wp_iff: "wp m Q s \<longleftrightarrow> (\<forall>x s'. m s = Inr (x, s') \<longrightarrow> Q x s')"
  by (auto simp: wp_def split: sum.splits)

lemma wp_mono: "wp m Q s \<Longrightarrow> (\<And>x s'. Q x s' \<Longrightarrow> R x s') \<Longrightarrow> wp m R s"
  by (auto simp: wp_def split: sum.splits)

lemma wp_return [wp_simps]: "wp (txReturn x) Q s \<longleftrightarrow> Q x s"
  by (simp add: wp_def)

lemma wp_fail [wp_simps]: "wp (txFail e) Q s \<longleftrightarrow> True"
  by (simp add: wp_def)

lemma wp_gets [wp_simps]: "wp (txGets f) Q s \<longleftrightarrow> Q (f s) s"
  by (simp add: wp_def)

lemma wp_modify [wp_simps]: "wp (txModify f) Q s \<longleftrightarrow> Q () (f s)"
  by (simp add: wp_def)

lemma wp_ensure [wp_simps]: "wp (txEnsure c e) Q s \<longleftrightarrow> (c \<longrightarrow> Q () s)"
  by (simp add: wp_def txEnsure_def)

lemma wp_check [wp_simps]: "wp (txCheck P e) Q s \<longleftrightarrow> (P s \<longrightarrow> Q () s)"
  by (simp add: wp_def txCheck_def)

lemma wp_map_error [wp_simps]: "wp (txMapError h m) Q s \<longleftrightarrow> wp m Q s"
  by (simp add: wp_def txMapError_def split: sum.splits)

lemma wp_attempt [wp_simps]:
  "wp (txAttempt m) Q s \<longleftrightarrow> (\<forall>e. m s = Inl e \<longrightarrow> Q (Inl e) s) \<and> wp m (\<lambda>x. Q (Inr x)) s"
  by (auto simp: wp_def txAttempt_def split: sum.splits)

lemma wp_lift [wp_simps]: "wp (txLift r) Q s \<longleftrightarrow> (\<forall>x. r = Inr x \<longrightarrow> Q x s)"
  by (cases r) (simp_all add: wp_def)

lemma wp_bind [wp_simps]: "wp (txBind m f) Q s \<longleftrightarrow> wp m (\<lambda>x. wp (f x) Q) s"
  by (auto simp: wp_def txBind_def split: sum.splits)

lemma wp_then [wp_simps]: "wp (txThen m n) Q s \<longleftrightarrow> wp m (\<lambda>_. wp n Q) s"
  by (simp add: txThen_def wp_bind)

lemma wp_bindI:
  "wp m Q s \<Longrightarrow> (\<And>x s'. Q x s' \<Longrightarrow> wp (f x) R s') \<Longrightarrow> wp (txBind m f) R s"
  by (auto simp: wp_bind intro: wp_mono)

section \<open>Relations that transactions compose\<close>

text \<open>
  A reflexive and transitive relation between the state before and after is a law a transaction
  obeys as soon as each of its statements does: an invariant, a frame, an append-only log.  The
  rules below follow the combinators, so a law of a component is proved by one \<open>intro\<close>.
\<close>

locale tx_relation =
  fixes R :: "'s \<Rightarrow> 's \<Rightarrow> bool"
  assumes R_refl: "R s s"
    and R_trans: "R s t \<Longrightarrow> R t u \<Longrightarrow> R s u"
begin

definition obeys :: "('s, 'e, 'a) trans \<Rightarrow> bool" where
  "obeys m \<longleftrightarrow> (\<forall>s x s'. m s = Inr (x, s') \<longrightarrow> R s s')"

lemma obeysI: "(\<And>s x s'. m s = Inr (x, s') \<Longrightarrow> R s s') \<Longrightarrow> obeys m"
  by (simp add: obeys_def)

lemma obeysD: "obeys m \<Longrightarrow> m s = Inr (x, s') \<Longrightarrow> R s s'"
  by (simp add: obeys_def)

lemma obeys_return: "obeys (txReturn x)"
  by (simp add: obeys_def R_refl)

lemma obeys_fail: "obeys (txFail e)"
  by (simp add: obeys_def)

lemma obeys_gets: "obeys (txGets f)"
  by (simp add: obeys_def R_refl)

lemma obeys_ensure: "obeys (txEnsure c e)"
  by (simp add: obeys_def txEnsure_def R_refl)

lemma obeys_lift: "obeys (txLift r)"
  by (simp add: obeys_def txLift_Inr R_refl)

lemma obeys_check: "obeys (txCheck P e)"
  by (simp add: obeys_def txCheck_def R_refl)

lemma obeys_map_error: "obeys m \<Longrightarrow> obeys (txMapError h m)"
  by (simp add: obeys_def)

lemma obeys_modify: "(\<And>s. R s (f s)) \<Longrightarrow> obeys (txModify f)"
  by (simp add: obeys_def)

lemma obeys_bind: "obeys m \<Longrightarrow> (\<And>x. obeys (f x)) \<Longrightarrow> obeys (txBind m f)"
  unfolding obeys_def txBind_Inr by (blast intro: R_trans)

lemma obeys_then: "obeys m \<Longrightarrow> obeys n \<Longrightarrow> obeys (txThen m n)"
  unfolding txThen_def by (rule obeys_bind)

lemma obeys_attempt: "obeys m \<Longrightarrow> obeys (txAttempt m)"
  unfolding obeys_def txAttempt_def by (auto simp: R_refl split: sum.splits)

lemma obeys_if: "obeys m \<Longrightarrow> obeys n \<Longrightarrow> obeys (if c then m else n)"
  by simp

lemma obeys_option:
  "obeys m \<Longrightarrow> (\<And>x. obeys (f x)) \<Longrightarrow> obeys (case v of None \<Rightarrow> m | Some x \<Rightarrow> f x)"
  by (cases v) auto

lemma obeys_sum:
  "(\<And>e. obeys (g e)) \<Longrightarrow> (\<And>x. obeys (f x)) \<Longrightarrow> obeys (case v of Inl e \<Rightarrow> g e | Inr x \<Rightarrow> f x)"
  by (cases v) auto

lemma obeys_prod: "(\<And>x y. obeys (f x y)) \<Longrightarrow> obeys (case v of (x, y) \<Rightarrow> f x y)"
  by (cases v) auto

lemmas obeys_rules =
  obeys_return obeys_fail obeys_gets obeys_ensure obeys_check obeys_lift obeys_map_error obeys_bind obeys_then obeys_attempt
  obeys_if obeys_option obeys_sum obeys_prod

end

section \<open>Tables\<close>

text \<open>A table is the list of its rows in insertion order.\<close>

text \<open>\<open>SELECT \<dots> WHERE P\<close> read with \<open>Get\<close>: the first row, if there is one.\<close>

definition select_one :: "('r \<Rightarrow> bool) \<Rightarrow> 'r list \<Rightarrow> 'r option" where
  "select_one P rows = find P rows"

text \<open>\<open>UPDATE \<dots> SET f WHERE P\<close> and the number of rows it affects.\<close>

definition update_rows :: "('r \<Rightarrow> bool) \<Rightarrow> ('r \<Rightarrow> 'r) \<Rightarrow> 'r list \<Rightarrow> 'r list" where
  "update_rows P f rows = map (\<lambda>r. if P r then f r else r) rows"

definition count_rows :: "('r \<Rightarrow> bool) \<Rightarrow> 'r list \<Rightarrow> nat" where
  "count_rows P rows = length (filter P rows)"

text \<open>\<open>SUM(v) WHERE P\<close>\<close>

definition sum_rows :: "('r \<Rightarrow> bool) \<Rightarrow> ('r \<Rightarrow> int) \<Rightarrow> 'r list \<Rightarrow> int" where
  "sum_rows P v rows = sum_list (map v (filter P rows))"

text \<open>\<open>SELECT \<dots> WHERE P ORDER BY key LIMIT 1\<close>: the first row of the stable sort.\<close>

definition select_first :: "('r \<Rightarrow> 'k::linorder) \<Rightarrow> ('r \<Rightarrow> bool) \<Rightarrow> 'r list \<Rightarrow> 'r option" where
  "select_first key P rows =
     (case sort_key key (filter P rows) of [] \<Rightarrow> None | r # _ \<Rightarrow> Some r)"

lemma select_first_SomeD:
  assumes "select_first key P rows = Some r"
  shows "r \<in> set rows \<and> P r \<and> (\<forall>r'\<in>set rows. P r' \<longrightarrow> key r \<le> key r')"
proof -
  from assms obtain rs where rs: "sort_key key (filter P rows) = r # rs"
    by (auto simp: select_first_def split: list.splits)
  have members: "set (r # rs) = {x \<in> set rows. P x}"
    unfolding rs [symmetric] by simp
  have "sorted (map key (r # rs))" unfolding rs [symmetric] by simp
  then have "\<forall>x\<in>set (r # rs). key r \<le> key x" by auto
  then show ?thesis unfolding members using members by auto
qed

lemma select_first_None_iff: "select_first key P rows = None \<longleftrightarrow> (\<forall>r\<in>set rows. \<not> P r)"
proof -
  have "sort_key key (filter P rows) = [] \<longleftrightarrow> filter P rows = []"
    by (metis length_0_conv length_sort)
  then show ?thesis by (auto simp: select_first_def filter_empty_conv split: list.splits)
qed

lemma select_one_SomeD: "select_one P rows = Some r \<Longrightarrow> r \<in> set rows \<and> P r"
  by (auto simp: select_one_def find_Some_iff)

lemma select_one_None_iff: "select_one P rows = None \<longleftrightarrow> (\<forall>r\<in>set rows. \<not> P r)"
  by (auto simp: select_one_def find_None_iff)

lemma select_one_Nil [simp]: "select_one P [] = None"
  by (simp add: select_one_def)

lemma select_one_Cons [simp]:
  "select_one P (r # rows) = (if P r then Some r else select_one P rows)"
  by (simp add: select_one_def)

lemma select_one_append:
  "select_one P (rows @ rows') =
     (case select_one P rows of None \<Rightarrow> select_one P rows' | Some r \<Rightarrow> Some r)"
  by (induction rows) auto

lemma select_one_unique:
  assumes "distinct (map key rows)" and "r \<in> set rows" and "P r"
    and "\<And>r'. r' \<in> set rows \<Longrightarrow> P r' \<Longrightarrow> key r' = key r"
  shows "select_one P rows = Some r"
proof (cases "select_one P rows")
  case None
  with assms(2,3) show ?thesis by (auto simp: select_one_None_iff)
next
  case (Some r')
  then have "r' \<in> set rows" "P r'" by (auto dest: select_one_SomeD)
  with assms have "r' = r" by (metis distinct_map inj_onD)
  with Some show ?thesis by simp
qed

lemma set_update_rows: "set (update_rows P f rows) = (\<lambda>r. if P r then f r else r) ` set rows"
  by (simp add: update_rows_def)

lemma update_rows_simps [simp]:
  "update_rows P f [] = []"
  "update_rows P f (r # rows) = (if P r then f r else r) # update_rows P f rows"
  "update_rows P f (rows @ rows') = update_rows P f rows @ update_rows P f rows'"
  "length (update_rows P f rows) = length rows"
  by (simp_all add: update_rows_def)

lemma map_update_rows_same:
  "(\<And>r. P r \<Longrightarrow> v (f r) = v r) \<Longrightarrow> map v (update_rows P f rows) = map v rows"
  by (simp add: update_rows_def)

lemma image_update_rows_same:
  "(\<And>r. P r \<Longrightarrow> v (f r) = v r) \<Longrightarrow> v ` set (update_rows P f rows) = v ` set rows"
  by (metis map_update_rows_same set_map)

lemma update_rows_none: "(\<And>r. r \<in> set rows \<Longrightarrow> \<not> P r) \<Longrightarrow> update_rows P f rows = rows"
  by (induction rows) auto

lemma update_rowsE:
  assumes "r \<in> set (update_rows P f rows)"
  obtains (old) "r \<in> set rows" "\<not> P r" | (new) r0 where "r0 \<in> set rows" "P r0" "r = f r0"
  using assms by (auto simp: set_update_rows split: if_splits)

lemma count_rows_simps [simp]:
  "count_rows P [] = 0"
  "count_rows P (r # rows) = (if P r then 1 else 0) + count_rows P rows"
  "count_rows P (rows @ rows') = count_rows P rows + count_rows P rows'"
  by (simp_all add: count_rows_def)

lemma count_rows_zero_iff: "count_rows P rows = 0 \<longleftrightarrow> (\<forall>r\<in>set rows. \<not> P r)"
  by (auto simp: count_rows_def filter_empty_conv)

lemma sum_rows_simps [simp]:
  "sum_rows P v [] = 0"
  "sum_rows P v (r # rows) = (if P r then v r else 0) + sum_rows P v rows"
  "sum_rows P v (rows @ rows') = sum_rows P v rows + sum_rows P v rows'"
  by (simp_all add: sum_rows_def)

lemma sum_rows_cong:
  "(\<And>r. r \<in> set rows \<Longrightarrow> P r = P' r) \<Longrightarrow> (\<And>r. r \<in> set rows \<Longrightarrow> P r \<Longrightarrow> v r = v' r) \<Longrightarrow>
     sum_rows P v rows = sum_rows P' v' rows"
  by (induction rows) auto

lemma sum_rows_none: "(\<And>r. r \<in> set rows \<Longrightarrow> \<not> P r) \<Longrightarrow> sum_rows P v rows = 0"
  by (induction rows) auto

lemma sum_rows_nonneg:
  "(\<And>r. r \<in> set rows \<Longrightarrow> P r \<Longrightarrow> 0 \<le> v r) \<Longrightarrow> 0 \<le> sum_rows P v rows"
  by (induction rows) auto

text \<open>An update that hits rows outside the sum, or keeps value and membership, keeps the sum.\<close>

lemma sum_rows_update_same:
  assumes "\<And>r. r \<in> set rows \<Longrightarrow> U r \<Longrightarrow> (P (f r) \<longleftrightarrow> P r) \<and> (P r \<longrightarrow> v (f r) = v r)"
  shows "sum_rows P v (update_rows U f rows) = sum_rows P v rows"
  using assms by (induction rows) auto

text \<open>An update that adds \<open>d\<close> to every row it hits inside the sum.\<close>

lemma sum_rows_update_add:
  assumes "\<And>r. r \<in> set rows \<Longrightarrow> U r \<Longrightarrow> P r \<and> P (f r) \<and> v (f r) = v r + d"
  shows "sum_rows P v (update_rows U f rows) = sum_rows P v rows + int (count_rows U rows) * d"
  using assms by (induction rows) (auto simp: algebra_simps)

text \<open>An update that hits exactly one row and takes it out of the sum.\<close>

lemma sum_rows_update_drop:
  assumes "count_rows U rows = 1" and "r \<in> set rows" and "U r" and "P r" and "\<not> P (f r)"
  shows "sum_rows P v (update_rows U f rows) = sum_rows P v rows - v r"
  using assms
proof (induction rows)
  case Nil
  then show ?case by simp
next
  case (Cons a rows)
  show ?case
  proof (cases "U a")
    case True
    with Cons.prems have none: "\<forall>x\<in>set rows. \<not> U x"
      by (simp add: count_rows_zero_iff)
    with Cons.prems have "r = a" by auto
    moreover from none have "update_rows U f rows = rows" by (intro update_rows_none) auto
    ultimately show ?thesis using Cons.prems True by simp
  next
    case False
    with Cons show ?thesis by auto
  qed
qed

lemma count_rows_one_unique:
  "count_rows U rows = 1 \<Longrightarrow> r \<in> set rows \<Longrightarrow> U r \<Longrightarrow> r' \<in> set rows \<Longrightarrow> U r' \<Longrightarrow> r' = r"
proof (induction rows)
  case (Cons a rows)
  then show ?case
    by (cases "U a") (auto simp: count_rows_zero_iff)
qed simp

lemma count_rows_one:
  assumes "distinct (map key rows)" and "r \<in> set rows" "P r" and "\<And>r'. P r' \<Longrightarrow> key r' = key r"
  shows "count_rows P rows = 1"
  using assms(1,2)
proof (induction rows)
  case (Cons r' rows)
  show ?case
  proof (cases "r' = r")
    case True
    then have "key r \<notin> key ` set rows" using Cons.prems(1) by simp
    then have "\<not> P r''" if "r'' \<in> set rows" for r'' using that assms(4) [of r''] by (metis image_eqI)
    then show ?thesis using True assms(3) by (simp add: count_rows_zero_iff)
  next
    case False
    with Cons.prems have "key r' \<noteq> key r" by (metis distinct.simps(2) image_eqI list.set_map list.simps(9) set_ConsD)
    then show ?thesis using False Cons assms(4) [of r'] by auto
  qed
qed simp

lemma member_le_sum_rows:
  assumes "\<And>r. r \<in> set rows \<Longrightarrow> 0 \<le> v r" and "r \<in> set rows" "P r"
  shows "v r \<le> sum_rows P v rows"
  using assms(1,2)
proof (induction rows)
  case (Cons r' rows)
  have "0 \<le> sum_rows P v rows" by (rule sum_rows_nonneg) (simp add: Cons.prems)
  moreover have "0 \<le> v r'" by (rule Cons.prems(1)) simp
  moreover have "r \<in> set rows \<Longrightarrow> v r \<le> sum_rows P v rows" using Cons.IH Cons.prems(1) by simp
  ultimately show ?case using Cons.prems(2) assms(3) by (cases "r' = r") auto
qed simp

text \<open>Rows with distinct keys.\<close>

lemma distinct_keys_append:
  "distinct (map key (rows @ [r])) \<longleftrightarrow> distinct (map key rows) \<and> key r \<notin> key ` set rows"
  by auto

lemma distinct_keysD:
  "distinct (map key rows) \<Longrightarrow> r \<in> set rows \<Longrightarrow> r' \<in> set rows \<Longrightarrow> key r = key r' \<Longrightarrow> r = r'"
  by (auto simp: distinct_map dest: inj_onD)

end
