(* ===== verification/GoLib.thy ===== *)
theory GoLib
  imports Prelude "HOL-Library.Sublist" "HOL-Library.Char_ord" "HOL-Library.List_Lexorder"
    "HOL-Library.Product_Lexorder"
begin

text \<open>
  The part of Go and its standard library the program uses.  A Go string is the list of its bytes;
  \<open><\<close> on strings is the byte-wise order Go compares them with.  Integers of type \<open>int64\<close> are HOL
  integers, with the wrap-around of Go's arithmetic written out as \<open>int64_wrap\<close> and the range of a
  Postgres \<open>bigint\<close> as \<open>in_int64\<close>.  \<open>TrimSpace\<close> removes the UTF-8 encodings of every rune that
  \<open>unicode.IsSpace\<close> accepts.  \<open>ToLower\<close> and \<open>ToUpper\<close> map the ASCII letters and the four non-ASCII
  runes whose image is an ASCII letter; the other non-ASCII runes are left alone, since their image
  is not ASCII and the program only compares results with ASCII constants.
\<close>

section \<open>int64\<close>

definition int64_wrap :: "int \<Rightarrow> int" where
  "int64_wrap x = (x + 2 ^ 63) mod 2 ^ 64 - 2 ^ 63"

definition in_int64 :: "int \<Rightarrow> bool" where
  "in_int64 x \<longleftrightarrow> - (2 ^ 63) \<le> x \<and> x < 2 ^ 63"

lemma int64_wrap_in_range: "in_int64 (int64_wrap x)"
  by (simp add: in_int64_def int64_wrap_def)

lemma int64_wrap_id: "in_int64 x \<Longrightarrow> int64_wrap x = x"
  by (simp add: in_int64_def int64_wrap_def)

lemma int64_wrap_idem [simp]: "int64_wrap (int64_wrap x) = int64_wrap x"
  by (rule int64_wrap_id [OF int64_wrap_in_range])

lemma in_int64_uminus: "0 < x \<Longrightarrow> in_int64 x \<Longrightarrow> in_int64 (- x)"
  by (simp add: in_int64_def)

text \<open>\<open>strconv.FormatInt(v, 10)\<close> and \<open>strconv.FormatBool\<close>\<close>

fun decimal :: "nat \<Rightarrow> string" where
  "decimal n = (if n < 10 then [char_of (48 + n)] else decimal (n div 10) @ [char_of (48 + n mod 10)])"

declare decimal.simps [simp del]

definition FormatInt :: "int \<Rightarrow> string" where
  "FormatInt v = (if v < 0 then CHR ''-'' # decimal (nat (- v)) else decimal (nat v))"

definition FormatBool :: "bool \<Rightarrow> string" where
  "FormatBool b = (if b then ''true'' else ''false'')"

section \<open>strings.TrimSpace\<close>

fun drop_prefix :: "string \<Rightarrow> string \<Rightarrow> string option" where
  "drop_prefix [] s = Some s"
| "drop_prefix (x # p) [] = None"
| "drop_prefix (x # p) (y # s) = (if x = y then drop_prefix p s else None)"

lemma drop_prefix_Some_iff: "drop_prefix p s = Some t \<longleftrightarrow> s = p @ t"
  by (induction p s rule: drop_prefix.induct) auto

definition space_runes :: "string list" where
  "space_runes =
     [[CHR 0x09], [CHR 0x0A], [CHR 0x0B], [CHR 0x0C], [CHR 0x0D], [CHR 0x20],
      [CHR 0xC2, CHR 0x85], [CHR 0xC2, CHR 0xA0], [CHR 0xE1, CHR 0x9A, CHR 0x80],
      [CHR 0xE2, CHR 0x80, CHR 0x80], [CHR 0xE2, CHR 0x80, CHR 0x81],
      [CHR 0xE2, CHR 0x80, CHR 0x82], [CHR 0xE2, CHR 0x80, CHR 0x83],
      [CHR 0xE2, CHR 0x80, CHR 0x84], [CHR 0xE2, CHR 0x80, CHR 0x85],
      [CHR 0xE2, CHR 0x80, CHR 0x86], [CHR 0xE2, CHR 0x80, CHR 0x87],
      [CHR 0xE2, CHR 0x80, CHR 0x88], [CHR 0xE2, CHR 0x80, CHR 0x89],
      [CHR 0xE2, CHR 0x80, CHR 0x8A], [CHR 0xE2, CHR 0x80, CHR 0xA8],
      [CHR 0xE2, CHR 0x80, CHR 0xA9], [CHR 0xE2, CHR 0x80, CHR 0xAF],
      [CHR 0xE2, CHR 0x81, CHR 0x9F], [CHR 0xE3, CHR 0x80, CHR 0x80]]"

fun strip_rune :: "string list \<Rightarrow> string \<Rightarrow> string option" where
  "strip_rune [] s = None"
| "strip_rune (r # rs) s = (case drop_prefix r s of Some t \<Rightarrow> Some t | None \<Rightarrow> strip_rune rs s)"

lemma strip_rune_SomeD: "strip_rune rs s = Some t \<Longrightarrow> \<exists>r\<in>set rs. s = r @ t"
  by (induction rs) (auto simp: drop_prefix_Some_iff split: option.splits)

lemma strip_rune_None_iff: "strip_rune rs s = None \<longleftrightarrow> (\<forall>r\<in>set rs. \<forall>t. s \<noteq> r @ t)"
proof (induction rs)
  case (Cons r rs)
  show ?case
  proof (cases "drop_prefix r s")
    case None
    then have "\<forall>t. s \<noteq> r @ t" using drop_prefix_Some_iff [of r s] by auto
    with None Cons.IH show ?thesis by auto
  next
    case (Some t)
    then show ?thesis using drop_prefix_Some_iff [of r s t] by auto
  qed
qed simp

function trim_left :: "string list \<Rightarrow> string \<Rightarrow> string" where
  "trim_left rs s =
     (case strip_rune rs s of
        Some t \<Rightarrow> if length t < length s then trim_left rs t else s
      | None \<Rightarrow> s)"
  by pat_completeness auto
termination
  by (relation "measure (\<lambda>(rs, s). length s)") auto

declare trim_left.simps [simp del]

definition TrimSpace :: "string \<Rightarrow> string" where
  "TrimSpace s = rev (trim_left (map rev space_runes) (rev (trim_left space_runes s)))"

lemma trim_left_suffix: "\<exists>p. s = p @ trim_left rs s"
proof (induction rs s rule: trim_left.induct)
  case (1 rs s)
  show ?case
  proof (cases "strip_rune rs s")
    case None
    then show ?thesis by (simp add: trim_left.simps [of rs s])
  next
    case (Some t)
    then obtain r where r: "s = r @ t" by (auto dest: strip_rune_SomeD)
    show ?thesis
    proof (cases "length t < length s")
      case True
      with "1" Some obtain p where "t = p @ trim_left rs t" by blast
      with r have "s = (r @ p) @ trim_left rs t" by simp
      moreover from Some True have "trim_left rs s = trim_left rs t"
        by (simp add: trim_left.simps [of rs s])
      ultimately show ?thesis by metis
    next
      case False
      with Some show ?thesis by (simp add: trim_left.simps [of rs s])
    qed
  qed
qed

lemma trim_left_done: "[] \<notin> set rs \<Longrightarrow> strip_rune rs (trim_left rs s) = None"
proof (induction rs s rule: trim_left.induct)
  case (1 rs s)
  show ?case
  proof (cases "strip_rune rs s")
    case None
    then show ?thesis by (simp add: trim_left.simps [of rs s])
  next
    case (Some t)
    then obtain r where "r \<in> set rs" "s = r @ t" by (auto dest: strip_rune_SomeD)
    with "1.prems" have "length t < length s" by (cases r) auto
    with "1" Some show ?thesis by (simp add: trim_left.simps [of rs s])
  qed
qed

lemma trim_left_id: "strip_rune rs s = None \<Longrightarrow> trim_left rs s = s"
  by (simp add: trim_left.simps)

lemma trim_left_Nil [simp]: "trim_left rs [] = []"
  using trim_left_suffix [of "[]" rs] by simp

lemma space_runes_nonempty: "[] \<notin> set space_runes" "[] \<notin> set (map rev space_runes)"
  by (simp_all add: space_runes_def)

text \<open>A trimmed string neither starts nor ends with white space, so trimming again changes nothing.\<close>

lemma TrimSpace_front: "strip_rune space_runes (TrimSpace s) = None"
proof -
  let ?u = "trim_left space_runes s"
  obtain q where "rev ?u = q @ trim_left (map rev space_runes) (rev ?u)"
    using trim_left_suffix by blast
  then have "rev (rev ?u) = rev (q @ trim_left (map rev space_runes) (rev ?u))" by (rule arg_cong)
  then have u: "?u = TrimSpace s @ rev q" by (simp add: TrimSpace_def)
  have "strip_rune space_runes ?u = None"
    by (rule trim_left_done [OF space_runes_nonempty(1)])
  then show ?thesis by (subst (asm) u) (auto simp: strip_rune_None_iff)
qed

lemma TrimSpace_back: "strip_rune (map rev space_runes) (rev (TrimSpace s)) = None"
  unfolding TrimSpace_def by (simp add: trim_left_done [OF space_runes_nonempty(2)])

lemma TrimSpace_idem [simp]: "TrimSpace (TrimSpace s) = TrimSpace s"
  by (subst TrimSpace_def) (simp add: trim_left_id TrimSpace_front TrimSpace_back)

lemma TrimSpace_Nil [simp]: "TrimSpace [] = []"
  by (simp add: TrimSpace_def)

lemma TrimSpace_fixed_iff:
  "TrimSpace s = s \<longleftrightarrow>
     strip_rune space_runes s = None \<and> strip_rune (map rev space_runes) (rev s) = None"
proof
  assume "TrimSpace s = s"
  then show "strip_rune space_runes s = None \<and> strip_rune (map rev space_runes) (rev s) = None"
    using TrimSpace_front [of s] TrimSpace_back [of s] by simp
next
  assume "strip_rune space_runes s = None \<and> strip_rune (map rev space_runes) (rev s) = None"
  then show "TrimSpace s = s" by (simp add: TrimSpace_def trim_left_id)
qed

section \<open>Case mapping, search, join\<close>

definition ascii_lower :: "char \<Rightarrow> char" where
  "ascii_lower c = (let n = of_char c :: nat in if 65 \<le> n \<and> n \<le> 90 then char_of (n + 32) else c)"

definition ascii_upper :: "char \<Rightarrow> char" where
  "ascii_upper c = (let n = of_char c :: nat in if 97 \<le> n \<and> n \<le> 122 then char_of (n - 32) else c)"

text \<open>\<open>U+0130\<close> maps to \<open>i\<close> and \<open>U+212A\<close> (Kelvin) to \<open>k\<close>.\<close>

fun ToLower :: "string \<Rightarrow> string" where
  "ToLower [] = []"
| "ToLower [a] = [ascii_lower a]"
| "ToLower [a, b] =
     (if a = CHR 0xC4 \<and> b = CHR 0xB0 then ''i'' else [ascii_lower a, ascii_lower b])"
| "ToLower (a # b # c # s) =
     (if a = CHR 0xC4 \<and> b = CHR 0xB0 then CHR ''i'' # ToLower (c # s)
      else if a = CHR 0xE2 \<and> b = CHR 0x84 \<and> c = CHR 0xAA then CHR ''k'' # ToLower s
      else ascii_lower a # ToLower (b # c # s))"

text \<open>\<open>U+0131\<close> maps to \<open>I\<close> and \<open>U+017F\<close> to \<open>S\<close>.\<close>

fun ToUpper :: "string \<Rightarrow> string" where
  "ToUpper [] = []"
| "ToUpper [a] = [ascii_upper a]"
| "ToUpper (a # b # s) =
     (if a = CHR 0xC4 \<and> b = CHR 0xB1 then CHR ''I'' # ToUpper s
      else if a = CHR 0xC5 \<and> b = CHR 0xBF then CHR ''S'' # ToUpper s
      else ascii_upper a # ToUpper (b # s))"

text \<open>
  \<open>strings.EqualFold\<close> compares the runes up to simple case folding.  Besides the ASCII letters only
  \<open>U+212A\<close> (Kelvin) and \<open>U+017F\<close> (long s) fold to an ASCII letter.
\<close>

fun fold_case :: "string \<Rightarrow> string" where
  "fold_case [] = []"
| "fold_case [a] = [ascii_lower a]"
| "fold_case [a, b] =
     (if a = CHR 0xC5 \<and> b = CHR 0xBF then ''s'' else [ascii_lower a, ascii_lower b])"
| "fold_case (a # b # c # s) =
     (if a = CHR 0xC5 \<and> b = CHR 0xBF then CHR ''s'' # fold_case (c # s)
      else if a = CHR 0xE2 \<and> b = CHR 0x84 \<and> c = CHR 0xAA then CHR ''k'' # fold_case s
      else ascii_lower a # fold_case (b # c # s))"

definition EqualFold :: "string \<Rightarrow> string \<Rightarrow> bool" where
  "EqualFold s t \<longleftrightarrow> fold_case s = fold_case t"

fun Contains :: "string \<Rightarrow> string \<Rightarrow> bool" where
  "Contains [] sub = (sub = [])"
| "Contains (c # s) sub = (prefix sub (c # s) \<or> Contains s sub)"

lemma Contains_iff_sublist: "Contains s sub \<longleftrightarrow> sublist sub s"
  by (induction s) (auto simp: sublist_Cons_right)

fun Join :: "string list \<Rightarrow> string \<Rightarrow> string" where
  "Join [] sep = []"
| "Join [x] sep = x"
| "Join (x # y # xs) sep = x @ sep @ Join (y # xs) sep"

text \<open>The separator of the replay keys and fingerprints, \<open>"\x1f"\<close>.\<close>

definition unit_separator :: string where
  "unit_separator = [CHR 0x1F]"

text \<open>Parts that do not contain the separator can be read back from the joined string.\<close>

fun split_on :: "char \<Rightarrow> string \<Rightarrow> string list" where
  "split_on d [] = [[]]"
| "split_on d (c # s) =
     (if c = d then [] # split_on d s
      else case split_on d s of [] \<Rightarrow> [[c]] | w # ws \<Rightarrow> (c # w) # ws)"

lemma split_on_nonempty: "split_on d s \<noteq> []"
  by (cases s) (auto split: list.splits)

lemma split_on_word: "d \<notin> set x \<Longrightarrow> split_on d x = [x]"
  by (induction x) auto

lemma split_on_append: "d \<notin> set x \<Longrightarrow> split_on d (x @ d # s) = x # split_on d s"
  by (induction x) auto

lemma split_on_Join:
  "xs \<noteq> [] \<Longrightarrow> \<forall>x\<in>set xs. d \<notin> set x \<Longrightarrow> split_on d (Join xs [d]) = xs"
  by (induction xs "[d]" rule: Join.induct) (auto simp: split_on_word split_on_append)

lemma Join_separator_inj:
  assumes "xs \<noteq> []" "ys \<noteq> []"
    and "\<forall>x\<in>set xs. CHR 0x1F \<notin> set x" "\<forall>y\<in>set ys. CHR 0x1F \<notin> set y"
    and "Join xs unit_separator = Join ys unit_separator"
  shows "xs = ys"
  using assms split_on_Join unfolding unit_separator_def by metis

end
