(* ===== verification/Model.thy ===== *)
theory Model
  imports GoLib
begin

text \<open>
  The data of the core-banking package: the constants, error values and structs of
  \<open>model.go\<close> and of the provider boundary, and the request context.  A struct is a record whose
  fields carry the Go field name after a short prefix; a \<open>*string\<close> is a \<open>string option\<close>; a
  \<open>time.Time\<close> is an integer count of nanoseconds with 0 for Go's zero time.  Identifiers are the
  canonical text of a UUID, as the handlers pass them down with \<open>String()\<close>.
\<close>

section \<open>Constants\<close>

definition DemoInstitutionID :: string where
  "DemoInstitutionID = ''11111111-1111-1111-1111-111111111111''"

definition DemoBranchID :: string where
  "DemoBranchID = ''22222222-2222-2222-2222-222222222222''"

definition DemoCustomerID :: string where
  "DemoCustomerID = ''33333333-3333-3333-3333-333333333333''"

definition DemoCustomerAccountID :: string where
  "DemoCustomerAccountID = ''44444444-4444-4444-4444-444444444444''"

definition DemoClearingAccountID :: string where
  "DemoClearingAccountID = ''55555555-5555-5555-5555-555555555555''"

definition AccountKindCustomer :: string where
  "AccountKindCustomer = ''customer''"

definition AccountKindInternal :: string where
  "AccountKindInternal = ''internal''"

definition AccountStatusActive :: string where
  "AccountStatusActive = ''active''"

definition AccountStatusFrozen :: string where
  "AccountStatusFrozen = ''frozen''"

definition AccountStatusPostNoDebit :: string where
  "AccountStatusPostNoDebit = ''post_no_debit''"

definition AccountStatusClosed :: string where
  "AccountStatusClosed = ''closed''"

definition AccountProductStandardWallet :: string where
  "AccountProductStandardWallet = ''standard_wallet''"

definition AccountProductStandardCurrent :: string where
  "AccountProductStandardCurrent = ''standard_current''"

definition AccountProductStandardSavings :: string where
  "AccountProductStandardSavings = ''standard_savings''"

definition AccountProductInternal :: string where
  "AccountProductInternal = ''internal''"

definition NormalBalanceDebit :: string where
  "NormalBalanceDebit = ''debit''"

definition NormalBalanceCredit :: string where
  "NormalBalanceCredit = ''credit''"

definition PostingDebit :: string where
  "PostingDebit = ''debit''"

definition PostingCredit :: string where
  "PostingCredit = ''credit''"

definition TransferDirectionInbound :: string where
  "TransferDirectionInbound = ''inbound''"

definition TransferDirectionOutbound :: string where
  "TransferDirectionOutbound = ''outbound''"

definition TransferDirectionReversal :: string where
  "TransferDirectionReversal = ''reversal''"

definition TransactionDirectionCredit :: string where
  "TransactionDirectionCredit = ''credit''"

definition TransactionDirectionDebit :: string where
  "TransactionDirectionDebit = ''debit''"

definition TransferStatusPending :: string where
  "TransferStatusPending = ''pending''"

definition TransferStatusSucceeded :: string where
  "TransferStatusSucceeded = ''succeeded''"

definition TransferStatusFailed :: string where
  "TransferStatusFailed = ''failed''"

definition TransferProviderStatusUnknown :: string where
  "TransferProviderStatusUnknown = ''provider_unknown''"

definition LedgerStatusPending :: string where
  "LedgerStatusPending = ''pending''"

definition LedgerStatusPosted :: string where
  "LedgerStatusPosted = ''posted''"

definition LedgerStatusNoPosting :: string where
  "LedgerStatusNoPosting = ''no_posting''"

definition LedgerStatusReversalDeficit :: string where
  "LedgerStatusReversalDeficit = ''reversal_deficit''"

definition ReconciliationStatusPending :: string where
  "ReconciliationStatusPending = ''pending''"

definition ReconciliationStatusMatched :: string where
  "ReconciliationStatusMatched = ''matched''"

definition ReconciliationStatusNoAction :: string where
  "ReconciliationStatusNoAction = ''no_action''"

definition ReconciliationStatusManualReview :: string where
  "ReconciliationStatusManualReview = ''manual_review''"

definition HoldStatusActive :: string where
  "HoldStatusActive = ''active''"

definition HoldStatusReleased :: string where
  "HoldStatusReleased = ''released''"

definition HoldStatusConsumed :: string where
  "HoldStatusConsumed = ''consumed''"

definition CustomerTypeIndividual :: string where
  "CustomerTypeIndividual = ''individual''"

definition CustomerTypeBusiness :: string where
  "CustomerTypeBusiness = ''business''"

definition CustomerKYCTier1 :: string where
  "CustomerKYCTier1 = ''tier1''"

definition CustomerIdentityStatusNotCollected :: string where
  "CustomerIdentityStatusNotCollected = ''not_collected''"

definition ProviderMockNIP :: string where
  "ProviderMockNIP = ''mock_nip''"

definition ProviderLedgerInternal :: string where
  "ProviderLedgerInternal = ''ledger_internal''"

definition ReconciliationReviewStatusReviewed :: string where
  "ReconciliationReviewStatusReviewed = ''reviewed''"

definition ReconciliationReviewStatusResolvedNoAction :: string where
  "ReconciliationReviewStatusResolvedNoAction = ''resolved_no_action''"

definition ReconciliationReviewStatusManualFollowupRequired :: string where
  "ReconciliationReviewStatusManualFollowupRequired = ''manual_followup_required''"

definition ReconciliationActionRequeryProvider :: string where
  "ReconciliationActionRequeryProvider = ''requery_provider''"

definition ReconciliationActionInspectJournal :: string where
  "ReconciliationActionInspectJournal = ''inspect_journal''"

definition ReconciliationActionContactProvider :: string where
  "ReconciliationActionContactProvider = ''contact_provider''"

definition ReconciliationActionManualCustomerReceivableReview :: string where
  "ReconciliationActionManualCustomerReceivableReview = ''manual_customer_receivable_review''"

definition ReconciliationActionNoAction :: string where
  "ReconciliationActionNoAction = ''no_action''"

definition providerUnknownFailureReason :: string where
  "providerUnknownFailureReason = ''provider_status_unknown''"

lemmas const_defs =
  DemoInstitutionID_def DemoBranchID_def DemoCustomerID_def
  DemoCustomerAccountID_def DemoClearingAccountID_def AccountKindCustomer_def
  AccountKindInternal_def AccountStatusActive_def AccountStatusFrozen_def
  AccountStatusPostNoDebit_def AccountStatusClosed_def AccountProductStandardWallet_def
  AccountProductStandardCurrent_def AccountProductStandardSavings_def AccountProductInternal_def
  NormalBalanceDebit_def NormalBalanceCredit_def PostingDebit_def
  PostingCredit_def TransferDirectionInbound_def TransferDirectionOutbound_def
  TransferDirectionReversal_def TransactionDirectionCredit_def TransactionDirectionDebit_def
  TransferStatusPending_def TransferStatusSucceeded_def TransferStatusFailed_def
  TransferProviderStatusUnknown_def LedgerStatusPending_def LedgerStatusPosted_def
  LedgerStatusNoPosting_def LedgerStatusReversalDeficit_def ReconciliationStatusPending_def
  ReconciliationStatusMatched_def ReconciliationStatusNoAction_def ReconciliationStatusManualReview_def
  HoldStatusActive_def HoldStatusReleased_def HoldStatusConsumed_def
  CustomerTypeIndividual_def CustomerTypeBusiness_def CustomerKYCTier1_def
  CustomerIdentityStatusNotCollected_def ProviderMockNIP_def ProviderLedgerInternal_def
  ReconciliationReviewStatusReviewed_def ReconciliationReviewStatusResolvedNoAction_def ReconciliationReviewStatusManualFollowupRequired_def
  ReconciliationActionRequeryProvider_def ReconciliationActionInspectJournal_def ReconciliationActionContactProvider_def
  ReconciliationActionManualCustomerReceivableReview_def ReconciliationActionNoAction_def providerUnknownFailureReason_def


text \<open>
  The constants stay folded in proofs; all that proofs use of them is that the values of one column
  are pairwise different.
\<close>

lemma account_kind_distinct [simp]:
  "AccountKindCustomer \<noteq> AccountKindInternal"
  "AccountKindInternal \<noteq> AccountKindCustomer"
  by (simp_all add: const_defs)

lemma account_status_distinct [simp]:
  "AccountStatusActive \<noteq> AccountStatusFrozen"
  "AccountStatusActive \<noteq> AccountStatusPostNoDebit"
  "AccountStatusActive \<noteq> AccountStatusClosed"
  "AccountStatusFrozen \<noteq> AccountStatusActive"
  "AccountStatusFrozen \<noteq> AccountStatusPostNoDebit"
  "AccountStatusFrozen \<noteq> AccountStatusClosed"
  "AccountStatusPostNoDebit \<noteq> AccountStatusActive"
  "AccountStatusPostNoDebit \<noteq> AccountStatusFrozen"
  "AccountStatusPostNoDebit \<noteq> AccountStatusClosed"
  "AccountStatusClosed \<noteq> AccountStatusActive"
  "AccountStatusClosed \<noteq> AccountStatusFrozen"
  "AccountStatusClosed \<noteq> AccountStatusPostNoDebit"
  by (simp_all add: const_defs)

lemma normal_balance_distinct [simp]:
  "NormalBalanceDebit \<noteq> NormalBalanceCredit"
  "NormalBalanceCredit \<noteq> NormalBalanceDebit"
  by (simp_all add: const_defs)

lemma posting_direction_distinct [simp]:
  "PostingDebit \<noteq> PostingCredit"
  "PostingCredit \<noteq> PostingDebit"
  by (simp_all add: const_defs)

lemma transfer_direction_distinct [simp]:
  "TransferDirectionInbound \<noteq> TransferDirectionOutbound"
  "TransferDirectionInbound \<noteq> TransferDirectionReversal"
  "TransferDirectionOutbound \<noteq> TransferDirectionInbound"
  "TransferDirectionOutbound \<noteq> TransferDirectionReversal"
  "TransferDirectionReversal \<noteq> TransferDirectionInbound"
  "TransferDirectionReversal \<noteq> TransferDirectionOutbound"
  by (simp_all add: const_defs)

lemma transfer_status_distinct [simp]:
  "TransferStatusPending \<noteq> TransferStatusSucceeded"
  "TransferStatusPending \<noteq> TransferStatusFailed"
  "TransferStatusPending \<noteq> TransferProviderStatusUnknown"
  "TransferStatusSucceeded \<noteq> TransferStatusPending"
  "TransferStatusSucceeded \<noteq> TransferStatusFailed"
  "TransferStatusSucceeded \<noteq> TransferProviderStatusUnknown"
  "TransferStatusFailed \<noteq> TransferStatusPending"
  "TransferStatusFailed \<noteq> TransferStatusSucceeded"
  "TransferStatusFailed \<noteq> TransferProviderStatusUnknown"
  "TransferProviderStatusUnknown \<noteq> TransferStatusPending"
  "TransferProviderStatusUnknown \<noteq> TransferStatusSucceeded"
  "TransferProviderStatusUnknown \<noteq> TransferStatusFailed"
  by (simp_all add: const_defs)

lemma ledger_status_distinct [simp]:
  "LedgerStatusPending \<noteq> LedgerStatusPosted"
  "LedgerStatusPending \<noteq> LedgerStatusNoPosting"
  "LedgerStatusPending \<noteq> LedgerStatusReversalDeficit"
  "LedgerStatusPosted \<noteq> LedgerStatusPending"
  "LedgerStatusPosted \<noteq> LedgerStatusNoPosting"
  "LedgerStatusPosted \<noteq> LedgerStatusReversalDeficit"
  "LedgerStatusNoPosting \<noteq> LedgerStatusPending"
  "LedgerStatusNoPosting \<noteq> LedgerStatusPosted"
  "LedgerStatusNoPosting \<noteq> LedgerStatusReversalDeficit"
  "LedgerStatusReversalDeficit \<noteq> LedgerStatusPending"
  "LedgerStatusReversalDeficit \<noteq> LedgerStatusPosted"
  "LedgerStatusReversalDeficit \<noteq> LedgerStatusNoPosting"
  by (simp_all add: const_defs)

lemma reconciliation_status_distinct [simp]:
  "ReconciliationStatusPending \<noteq> ReconciliationStatusMatched"
  "ReconciliationStatusPending \<noteq> ReconciliationStatusNoAction"
  "ReconciliationStatusPending \<noteq> ReconciliationStatusManualReview"
  "ReconciliationStatusMatched \<noteq> ReconciliationStatusPending"
  "ReconciliationStatusMatched \<noteq> ReconciliationStatusNoAction"
  "ReconciliationStatusMatched \<noteq> ReconciliationStatusManualReview"
  "ReconciliationStatusNoAction \<noteq> ReconciliationStatusPending"
  "ReconciliationStatusNoAction \<noteq> ReconciliationStatusMatched"
  "ReconciliationStatusNoAction \<noteq> ReconciliationStatusManualReview"
  "ReconciliationStatusManualReview \<noteq> ReconciliationStatusPending"
  "ReconciliationStatusManualReview \<noteq> ReconciliationStatusMatched"
  "ReconciliationStatusManualReview \<noteq> ReconciliationStatusNoAction"
  by (simp_all add: const_defs)

lemma hold_status_distinct [simp]:
  "HoldStatusActive \<noteq> HoldStatusReleased"
  "HoldStatusActive \<noteq> HoldStatusConsumed"
  "HoldStatusReleased \<noteq> HoldStatusActive"
  "HoldStatusReleased \<noteq> HoldStatusConsumed"
  "HoldStatusConsumed \<noteq> HoldStatusActive"
  "HoldStatusConsumed \<noteq> HoldStatusReleased"
  by (simp_all add: const_defs)

lemma provider_name_distinct [simp]:
  "ProviderMockNIP \<noteq> ProviderLedgerInternal"
  "ProviderLedgerInternal \<noteq> ProviderMockNIP"
  by (simp_all add: const_defs)

lemma status_nonempty [simp]:
  "TransferStatusPending \<noteq> []" "TransferStatusSucceeded \<noteq> []" "TransferStatusFailed \<noteq> []"
  "TransferProviderStatusUnknown \<noteq> []" "ProviderLedgerInternal \<noteq> []" "ProviderMockNIP \<noteq> []"
  by (simp_all add: const_defs)
definition DefaultTransactionHistoryLimit :: int where
  "DefaultTransactionHistoryLimit = 100"

definition MaxTransactionHistoryLimit :: int where
  "MaxTransactionHistoryLimit = 200"

definition DefaultTransferListLimit :: int where
  "DefaultTransferListLimit = DefaultTransactionHistoryLimit"

definition MaxTransferListLimit :: int where
  "MaxTransferListLimit = MaxTransactionHistoryLimit"

definition DefaultAuditEventListLimit :: int where
  "DefaultAuditEventListLimit = MaxTransactionHistoryLimit"

definition MaxAuditEventListLimit :: int where
  "MaxAuditEventListLimit = MaxTransactionHistoryLimit"

definition DefaultReconciliationItemLimit :: int where
  "DefaultReconciliationItemLimit = DefaultTransactionHistoryLimit"

definition MaxReconciliationItemLimit :: int where
  "MaxReconciliationItemLimit = MaxTransactionHistoryLimit"

definition DefaultReconciliationStalePendingMinutes :: int where
  "DefaultReconciliationStalePendingMinutes = 24 * 60"

lemmas limit_defs =
  DefaultTransactionHistoryLimit_def MaxTransactionHistoryLimit_def
  DefaultTransferListLimit_def MaxTransferListLimit_def
  DefaultAuditEventListLimit_def MaxAuditEventListLimit_def
  DefaultReconciliationItemLimit_def MaxReconciliationItemLimit_def
  DefaultReconciliationStalePendingMinutes_def

section \<open>Errors\<close>

text \<open>
  The package's error values, the context errors of Go, and \<open>SQLError\<close> for a statement Postgres
  rejects (its SQLSTATE code) and \<open>SQLNoRows\<close> for \<open>sql.ErrNoRows\<close>.  \<open>ErrUnsupportedProvider\<close> joins \<open>ErrInvalidRequest\<close> with a message, so
  \<open>errors.Is\<close> finds \<open>ErrInvalidRequest\<close> in it.
\<close>

datatype error =
    ErrNotFound
  | ErrInsufficient
  | ErrInvalidRequest
  | ErrUnauthorized
  | ErrForbidden
  | ErrConflict
  | ErrDataIntegrity
  | ErrUnsupportedProvider
  | ErrProviderStatusUnknown
  | ErrProviderUnavailable
  | ContextCanceled
  | ContextDeadlineExceeded
  | SQLNoRows
  | SQLError string

definition errors_Is :: "error \<Rightarrow> error \<Rightarrow> bool" where
  "errors_Is err target \<longleftrightarrow>
     err = target \<or> (err = ErrUnsupportedProvider \<and> target = ErrInvalidRequest)"

lemma errors_Is_NotFound [simp]: "errors_Is e ErrNotFound \<longleftrightarrow> e = ErrNotFound"
  by (auto simp: errors_Is_def)

lemma errors_Is_refl [simp]: "errors_Is e e"
  by (simp add: errors_Is_def)

section \<open>Structs\<close>

type_synonym time = int

record Institution =
  inst_ID :: string
  inst_Name :: string
  inst_ShortName :: string
  inst_Code :: string
  inst_CurrencyID :: string
  inst_Status :: string
  inst_CreatedAt :: time
  inst_UpdatedAt :: time

record Branch =
  br_ID :: string
  br_InstitutionID :: string
  br_Code :: string
  br_Name :: string
  br_Status :: string
  br_CreatedAt :: time
  br_UpdatedAt :: time

record Customer =
  cus_ID :: string
  cus_InstitutionID :: string
  cus_BranchID :: string
  cus_CustomerType :: string
  cus_FirstName :: string
  cus_LastName :: string
  cus_BusinessName :: "string option"
  cus_Email :: string
  cus_Phone :: string
  cus_Status :: string
  cus_KYCTier :: string
  cus_BVNStatus :: string
  cus_NINStatus :: string
  cus_CreatedAt :: time
  cus_UpdatedAt :: time

record CreateCustomerInput =
  cci_InstitutionID :: string
  cci_BranchID :: string
  cci_CustomerType :: string
  cci_FirstName :: string
  cci_LastName :: string
  cci_BusinessName :: string
  cci_Email :: string
  cci_Phone :: string
  cci_kycTier :: string
  cci_bvnStatus :: string
  cci_ninStatus :: string

record CreateAccountInput =
  cai_InstitutionID :: string
  cai_CustomerID :: string
  cai_AccountNumber :: string
  cai_Name :: string
  cai_ProductType :: string
  cai_CurrencyID :: string
  cai_AllowNegativeBalance :: bool

record InternalCreditInput =
  ici_InstitutionID :: string
  ici_AccountID :: string
  ici_SourceAccountID :: string
  ici_AmountMinor :: int
  ici_CurrencyID :: string
  ici_IdempotencyKey :: string
  ici_Narration :: string
  ici_Reference :: string

record InternalDebitInput =
  idi_InstitutionID :: string
  idi_AccountID :: string
  idi_DestinationAccountID :: string
  idi_AmountMinor :: int
  idi_CurrencyID :: string
  idi_IdempotencyKey :: string
  idi_Narration :: string
  idi_Reference :: string

record InternalTransferInput =
  iti_InstitutionID :: string
  iti_SourceAccountID :: string
  iti_DestinationAccountID :: string
  iti_AmountMinor :: int
  iti_CurrencyID :: string
  iti_IdempotencyKey :: string
  iti_Narration :: string
  iti_Reference :: string

record AccountControlInput =
  aci_InstitutionID :: string
  aci_AccountID :: string
  aci_Reference :: string
  aci_Reason :: string

record AccountLienInput =
  ali_InstitutionID :: string
  ali_AccountID :: string
  ali_AmountMinor :: int
  ali_CurrencyID :: string
  ali_Reference :: string
  ali_Reason :: string

record ReleaseLienInput =
  rli_InstitutionID :: string
  rli_AccountID :: string
  rli_LienID :: string
  rli_Reference :: string
  rli_Reason :: string

text \<open>\<open>map[string]string\<close> metadata is an association list, in the order the code writes it.\<close>

type_synonym metadata = "(string \<times> string) list"

record AuditEvent =
  ev_ID :: string
  ev_InstitutionID :: string
  ev_ActorType :: string
  ev_ActorID :: string
  ev_RequestID :: string
  ev_Action :: string
  ev_EntityType :: string
  ev_EntityID :: string
  ev_CustomerID :: "string option"
  ev_AccountID :: "string option"
  ev_TransferID :: "string option"
  ev_JournalEntryID :: "string option"
  ev_IdempotencyKey :: "string option"
  ev_Reference :: "string option"
  ev_OldStatus :: "string option"
  ev_NewStatus :: "string option"
  ev_Metadata :: metadata
  ev_CreatedAt :: time

record Account =
  acc_ID :: string
  acc_InstitutionID :: string
  acc_CustomerID :: "string option"
  acc_AccountNumber :: string
  acc_Name :: string
  acc_Kind :: string
  acc_ProductType :: string
  acc_AllowNegative :: bool
  acc_CurrencyID :: string
  acc_NormalBalance :: string
  acc_Status :: string
  acc_CreatedAt :: time
  acc_UpdatedAt :: time

record AccountBalance =
  bal_AccountID :: string
  bal_InstitutionID :: string
  bal_AvailableMinor :: int
  bal_LedgerMinor :: int
  bal_CurrencyID :: string
  bal_LastJournalEntryID :: "string option"
  bal_UpdatedAt :: time

text \<open>
  A row of the table \<open>transfers\<close>: the fields of the struct \<open>Transfer\<close>, then the four review columns
  of the table, which the struct does not scan.
\<close>

record Transfer =
  tr_ID :: string
  tr_InstitutionID :: string
  tr_AccountID :: string
  tr_Direction :: string
  tr_Status :: string
  tr_ProviderStatus :: string
  tr_LedgerStatus :: string
  tr_ReconciliationStatus :: string
  tr_AmountMinor :: int
  tr_CurrencyID :: string
  tr_IdempotencyKey :: string
  tr_Provider :: string
  tr_ProviderReference :: string
  tr_ProviderEventID :: "string option"
  tr_JournalEntryID :: "string option"
  tr_ReversalOfTransferID :: "string option"
  tr_RequestFingerprint :: string
  tr_FailureReason :: "string option"
  tr_Narration :: string
  tr_CreatedAt :: time
  tr_UpdatedAt :: time
  tr_ReviewStatus :: "string option"
  tr_ReviewNote :: "string option"
  tr_ReviewedAt :: "time option"
  tr_ReviewedBy :: "string option"

record JournalEntry =
  je_ID :: string
  je_InstitutionID :: string
  je_TransferID :: "string option"
  je_EntryType :: string
  je_CurrencyID :: string
  je_Narration :: string
  je_TotalDebitMinor :: int
  je_TotalCreditMinor :: int
  je_CreatedAt :: time

record Posting =
  po_ID :: string
  po_InstitutionID :: string
  po_JournalEntryID :: string
  po_AccountID :: string
  po_Direction :: string
  po_AmountMinor :: int
  po_CurrencyID :: string
  po_CreatedAt :: time

record AccountHold =
  ho_ID :: string
  ho_InstitutionID :: string
  ho_AccountID :: string
  ho_TransferID :: "string option"
  ho_AmountMinor :: int
  ho_CurrencyID :: string
  ho_Status :: string
  ho_Reason :: string
  ho_Reference :: string
  ho_CreatedAt :: time
  ho_UpdatedAt :: time
  ho_ReleasedAt :: "time option"

text \<open>A row of the table \<open>provider_events\<close>.\<close>

record ProviderEvent =
  pe_ID :: string
  pe_InstitutionID :: string
  pe_Provider :: string
  pe_ProviderEventID :: string
  pe_ProviderReference :: string
  pe_TransferID :: "string option"
  pe_RequestFingerprint :: string
  pe_CreatedAt :: time

record JournalWithPostings =
  jp_JournalEntry :: JournalEntry
  jp_Postings :: "Posting list"
  jp_Balanced :: bool

record RecordTransferInput =
  in_InstitutionID :: string
  in_AccountID :: string
  in_ClearingAccountID :: string
  in_Direction :: string
  in_Status :: string
  in_AmountMinor :: int
  in_CurrencyID :: string
  in_IdempotencyKey :: string
  in_Provider :: string
  in_ProviderReference :: string
  in_ProviderEventID :: string
  in_ProviderStatus :: string
  in_ReversalOfTransferID :: string
  in_RequestFingerprint :: string
  in_FailureReason :: string
  in_Narration :: string
  in_RejectInsufficient :: bool
  in_RequireAvailable :: bool

record RecordProviderEventReviewInput =
  rv_InstitutionID :: string
  rv_AccountID :: string
  rv_Direction :: string
  rv_Status :: string
  rv_ProviderStatus :: string
  rv_AmountMinor :: int
  rv_CurrencyID :: string
  rv_IdempotencyKey :: string
  rv_Provider :: string
  rv_ProviderReference :: string
  rv_ProviderEventID :: string
  rv_RequestFingerprint :: string
  rv_FailureReason :: string
  rv_Narration :: string
  rv_ReserveProviderEvent :: bool

record ReverseTransferInput =
  rt_InstitutionID :: string
  rt_TransferID :: string
  rt_IdempotencyKey :: string
  rt_Provider :: string
  rt_ProviderReference :: string
  rt_ProviderEventID :: string
  rt_FailureReason :: string
  rt_Narration :: string

record TransferRequest =
  req_InstitutionID :: string
  req_AccountID :: string
  req_AmountMinor :: int
  req_CurrencyID :: string
  req_IdempotencyKey :: string
  req_ProviderEventID :: string
  req_ProviderReference :: string
  req_Status :: string
  req_Narration :: string
  req_Scenario :: string
  req_DelaySeconds :: int

section \<open>The request context and the code outside the repository\<close>

record Principal =
  pr_InstitutionID :: string
  pr_ActorType :: string
  pr_ActorID :: string
  pr_Roles :: "string list"
  pr_Scopes :: "string list"
  pr_SourceIP :: string
  pr_UserAgent :: string

text \<open>The places where one operation draws a random identifier.\<close>

datatype draw =
    DrawTransfer
  | DrawJournal
  | DrawPosting nat
  | DrawHold
  | DrawProviderEvent
  | DrawAudit nat
  | DrawAccount
  | DrawCustomer
  | DrawReference

text \<open>What the database answers to \<open>BeginTxx\<close> and \<open>Commit\<close>.\<close>

datatype tx_outcome = TxCommits | BeginFails string | CommitFails string

text \<open>
  What one operation reads from its surroundings: the successive values of \<open>time.Now\<close>, the random
  identifiers of \<open>uuid.NewRandom\<close>, the principal and request id of the request context, and whether
  the database begins and commits the transaction.  No freshness of identifiers is assumed: the primary keys of the tables reject a repeated one.
\<close>

record env =
  env_clock :: "nat \<Rightarrow> time"
  env_uuid :: "draw \<Rightarrow> string"
  env_principal :: "Principal option"
  env_request_id :: string
  env_tx_outcome :: tx_outcome

text \<open>
  Code that is not in the repository and is the same for every operation: the hexadecimal SHA-256
  digest, the parser of \<open>github.com/google/uuid\<close> (does it accept the text), and the mail address
  parser (the address it extracts).
\<close>

record externals =
  ext_sha256_hex :: "string \<Rightarrow> string"
  ext_uuid_valid :: "string \<Rightarrow> bool"
  ext_mail_address :: "string \<Rightarrow> string option"

end
