(* ===== verification/Store.thy ===== *)
theory Store
  imports Model
begin

text \<open>
  The Postgres tables of \<open>migrations/\<close> as a record of row lists, and the statements the repositories
  run on them.  An insert and an update check the constraints the migrations declare (primary keys,
  unique indexes, \<open>CHECK\<close> clauses, foreign keys and the range of \<open>bigint\<close>) and fail with the SQLSTATE
  class Postgres reports.  \<open>WithTx\<close> (\<open>transaction.go\<close>) runs a transaction: its writes are kept when it
  returns without error and the commit succeeds, and dropped otherwise.  A transaction is one atomic
  step; \<open>advisory_locks\<close> records the transaction-scoped locks it takes.
\<close>

record store =
  institutions :: "Institution list"
  branches :: "Branch list"
  currencies :: "string list"
  customers :: "Customer list"
  accounts :: "Account list"
  account_balances :: "AccountBalance list"
  journal_entries :: "JournalEntry list"
  postings :: "Posting list"
  transfers :: "Transfer list"
  account_holds :: "AccountHold list"
  provider_events :: "ProviderEvent list"
  audit_events :: "AuditEvent list"
  advisory_locks :: "string list"

type_synonym 'a tx = "(store, error, 'a) trans"

text \<open>
  A call of a repository method or of a service operation: it always ends in a state, also when it
  returns an error, since what was committed before the error stays.
\<close>

type_synonym ('s, 'a) call = "'s \<Rightarrow> (error + 'a) \<times> 's"

type_synonym 'a repo = "(store, 'a) call"

section \<open>transaction.go\<close>

definition WithTx :: "env \<Rightarrow> 'a tx \<Rightarrow> 'a repo" where
  "WithTx e fn s =
     (case env_tx_outcome e of
        BeginFails c \<Rightarrow> (Inl (SQLError c), s)
      | CommitFails c \<Rightarrow>
          (case fn (s\<lparr>advisory_locks := []\<rparr>) of
             Inl err \<Rightarrow> (Inl err, s)
           | Inr (x, s') \<Rightarrow> (Inl (SQLError c), s))
      | TxCommits \<Rightarrow>
          (case fn (s\<lparr>advisory_locks := []\<rparr>) of
             Inl err \<Rightarrow> (Inl err, s)
           | Inr (x, s') \<Rightarrow> (Inr x, s'\<lparr>advisory_locks := []\<rparr>)))"

text \<open>A read outside a transaction.\<close>

definition readDB :: "'a tx \<Rightarrow> 'a repo" where
  "readDB m s = (case m s of Inl err \<Rightarrow> (Inl err, s) | Inr (x, _) \<Rightarrow> (Inr x, s))"

text \<open>Sequencing at the service level: an error returns at once and keeps what is committed.\<close>

definition repoReturn :: "'a \<Rightarrow> ('s, 'a) call" where
  "repoReturn x = (\<lambda>s. (Inr x, s))"

definition repoFail :: "error \<Rightarrow> ('s, 'a) call" where
  "repoFail err = (\<lambda>s. (Inl err, s))"

definition repoBind :: "('s, 'a) call \<Rightarrow> ('a \<Rightarrow> ('s, 'b) call) \<Rightarrow> ('s, 'b) call" where
  "repoBind m f = (\<lambda>s. case m s of (Inl err, s') \<Rightarrow> (Inl err, s') | (Inr x, s') \<Rightarrow> f x s')"

definition repoAttempt :: "('s, 'a) call \<Rightarrow> ('s, error + 'a) call" where
  "repoAttempt m = (\<lambda>s. case m s of (r, s') \<Rightarrow> (Inr r, s'))"

definition repoEnsure :: "bool \<Rightarrow> error \<Rightarrow> ('s, unit) call" where
  "repoEnsure c err = (if c then repoReturn () else repoFail err)"

definition repoLift :: "error + 'a \<Rightarrow> ('s, 'a) call" where
  "repoLift r = (\<lambda>s. (r, s))"

named_theorems repo_simps \<open>running the service-level combinators\<close>

lemma repo_run [simp, repo_simps]:
  "repoReturn x s = (Inr x, s)"
  "repoFail err s = (Inl err, s)"
  "repoEnsure c err s = (if c then Inr () else Inl err, s)"
  "repoLift r s = (r, s)"
  "repoAttempt m s = (Inr (fst (m s)), snd (m s))"
  by (simp_all add: repoReturn_def repoFail_def repoEnsure_def repoLift_def repoAttempt_def
      split: prod.splits)

lemma repoBind_run [repo_simps]:
  "repoBind m f s =
     (case fst (m s) of Inl err \<Rightarrow> (Inl err, snd (m s)) | Inr x \<Rightarrow> f x (snd (m s)))"
  by (simp add: repoBind_def split: prod.splits sum.splits)

lemma repoBind_Inr:
  "repoBind m f s = (Inr y, s'') \<longleftrightarrow> (\<exists>x s'. m s = (Inr x, s') \<and> f x s' = (Inr y, s''))"
  by (auto simp: repoBind_def split: prod.splits sum.splits)

lemma snd_repoBind:
  "snd (repoBind m f s) = (case fst (m s) of Inl err \<Rightarrow> snd (m s) | Inr x \<Rightarrow> snd (f x (snd (m s))))"
  by (simp add: repoBind_def split: prod.splits sum.splits)

lemma readDB_state [simp]: "snd (readDB m s) = s"
  by (simp add: readDB_def split: sum.splits prod.splits)

lemma readDB_Inr: "readDB m s = (Inr x, s') \<longleftrightarrow> s' = s \<and> (\<exists>t. m s = Inr (x, t))"
  by (auto simp: readDB_def split: sum.splits)

text \<open>Either the transaction's writes are the new state, or nothing changed.\<close>

lemma WithTx_cases:
  obtains (committed) x s' where
      "fn (s\<lparr>advisory_locks := []\<rparr>) = Inr (x, s')"
      "WithTx e fn s = (Inr x, s'\<lparr>advisory_locks := []\<rparr>)"
  | (rolled_back) err where "WithTx e fn s = (Inl err, s)"
proof (cases "fn (s\<lparr>advisory_locks := []\<rparr>)")
  case (Inl err)
  then have "\<exists>err. WithTx e fn s = (Inl err, s)"
    by (auto simp: WithTx_def split: tx_outcome.splits)
  with rolled_back show thesis by blast
next
  case (Inr r)
  then show thesis
    by (cases "env_tx_outcome e"; cases r) (auto simp: WithTx_def intro: committed rolled_back)
qed

lemma WithTx_error_unchanged: "fst (WithTx e fn s) = Inl err \<Longrightarrow> snd (WithTx e fn s) = s"
  by (cases rule: WithTx_cases [of fn s e]) auto

lemma WithTx_Inr:
  "WithTx e fn s = (Inr x, t) \<longleftrightarrow>
     env_tx_outcome e = TxCommits \<and>
     (\<exists>s'. fn (s\<lparr>advisory_locks := []\<rparr>) = Inr (x, s') \<and> t = s'\<lparr>advisory_locks := []\<rparr>)"
  by (auto simp: WithTx_def split: tx_outcome.splits sum.splits)

lemma WithTx_invariant:
  assumes "I s"
    and locks: "\<And>s l. I (s\<lparr>advisory_locks := l\<rparr>) \<longleftrightarrow> I s"
    and step: "\<And>s x s'. I s \<Longrightarrow> fn s = Inr (x, s') \<Longrightarrow> I s'"
  shows "I (snd (WithTx e fn s))"
proof (cases rule: WithTx_cases [of fn s e])
  case (committed x s')
  from assms(1) have "I (s\<lparr>advisory_locks := []\<rparr>)" by (simp add: locks)
  from step [OF this committed(1)] have "I s'" .
  with committed(2) show ?thesis by (simp add: locks)
next
  case (rolled_back err)
  with assms(1) show ?thesis by simp
qed

section \<open>sql_errors.go and sql_integrity.go\<close>

definition normalizeSQLError :: "error \<Rightarrow> error" where
  "normalizeSQLError err = (if errors_Is err SQLNoRows then ErrNotFound else err)"

text \<open>\<open>GetContext\<close>: the row of the query, or \<open>sql.ErrNoRows\<close>.\<close>

definition getContext :: "(store \<Rightarrow> 'r option) \<Rightarrow> 'r tx" where
  "getContext q = (\<lambda>s. case q s of None \<Rightarrow> Inl SQLNoRows | Some r \<Rightarrow> Inr (r, s))"

text \<open>The recurring \<open>err := GetContext(\<dots>); return &row, normalizeSQLError(err)\<close>\<close>

definition getRow :: "(store \<Rightarrow> 'r option) \<Rightarrow> 'r tx" where
  "getRow q = txMapError normalizeSQLError (getContext q)"

definition requireOneRow :: "nat \<Rightarrow> unit tx" where
  "requireOneRow rows = txEnsure (rows = 1) ErrDataIntegrity"

definition execOneRow :: "nat tx \<Rightarrow> unit tx" where
  "execOneRow query = txBind query requireOneRow"

lemma getContext_Inr [tx_simps]: "getContext q s = Inr (r, s') \<longleftrightarrow> q s = Some r \<and> s' = s"
  by (auto simp: getContext_def split: option.splits)

lemma getRow_Inr [tx_simps]: "getRow q s = Inr (r, s') \<longleftrightarrow> q s = Some r \<and> s' = s"
  by (simp add: getRow_def getContext_Inr)

lemma getRow_Inl [tx_simps]: "getRow q s = Inl err \<longleftrightarrow> q s = None \<and> err = ErrNotFound"
  by (auto simp: getRow_def getContext_def txMapError_Inl normalizeSQLError_def split: option.splits)

lemma wp_getRow [wp_simps]: "wp (getRow q) Q s \<longleftrightarrow> (\<forall>r. q s = Some r \<longrightarrow> Q r s)"
  by (auto simp: wp_iff getRow_Inr)

lemma execOneRow_Inr [tx_simps]: "execOneRow query s = Inr (u, s') \<longleftrightarrow> query s = Inr (1, s')"
  by (auto simp: execOneRow_def requireOneRow_def tx_simps)

text \<open>
  \<open>if x, err := m; err == nil \{ \<dots> \} else if !errors.Is(err, ErrNotFound) \{ return err \}\<close>
\<close>

definition ifFound :: "'a tx \<Rightarrow> ('a \<Rightarrow> 'b tx) \<Rightarrow> 'b tx \<Rightarrow> 'b tx" where
  "ifFound m found missing =
     txBind (txAttempt m) (\<lambda>r. case r of
       Inr x \<Rightarrow> found x
     | Inl err \<Rightarrow> if errors_Is err ErrNotFound then missing else txFail err)"

lemma ifFound_getRow:
  "ifFound (getRow q) found missing s =
     (case q s of None \<Rightarrow> missing s | Some r \<Rightarrow> found r s)"
  by (cases "q s")
    (simp_all add: ifFound_def txBind_def txAttempt_def getRow_def getContext_def txMapError_def
      normalizeSQLError_def)

lemma wp_ifFound_getRow [wp_simps]:
  "wp (ifFound (getRow q) found missing) Q s \<longleftrightarrow>
     (q s = None \<longrightarrow> wp missing Q s) \<and> (\<forall>r. q s = Some r \<longrightarrow> wp (found r) Q s)"
  by (cases "q s") (simp_all add: wp_def ifFound_getRow)

section \<open>Constraints\<close>

definition check_violation :: error where
  "check_violation = SQLError ''23514''"

definition unique_violation :: error where
  "unique_violation = SQLError ''23505''"

definition foreign_key_violation :: error where
  "foreign_key_violation = SQLError ''23503''"

definition numeric_out_of_range :: error where
  "numeric_out_of_range = SQLError ''22003''"

text \<open>A \<open>uuid\<close> column refuses the empty text.\<close>

definition invalid_text :: error where
  "invalid_text = SQLError ''22P02''"

definition institution_exists :: "store \<Rightarrow> string \<Rightarrow> bool" where
  "institution_exists s i \<longleftrightarrow> i \<in> inst_ID ` set (institutions s)"

definition account_exists :: "store \<Rightarrow> string \<Rightarrow> bool" where
  "account_exists s a \<longleftrightarrow> a \<in> acc_ID ` set (accounts s)"

definition transfer_exists :: "store \<Rightarrow> string \<Rightarrow> bool" where
  "transfer_exists s t \<longleftrightarrow> t \<in> tr_ID ` set (transfers s)"

definition journal_exists :: "store \<Rightarrow> string \<Rightarrow> bool" where
  "journal_exists s j \<longleftrightarrow> j \<in> je_ID ` set (journal_entries s)"

definition optional_ref :: "('k \<Rightarrow> bool) \<Rightarrow> 'k option \<Rightarrow> bool" where
  "optional_ref ok k = (case k of None \<Rightarrow> True | Some x \<Rightarrow> ok x)"

text \<open>The \<open>CHECK\<close> clauses of \<open>transfers\<close>.\<close>

definition transfer_check :: "Transfer \<Rightarrow> bool" where
  "transfer_check t \<longleftrightarrow>
     tr_Direction t \<in> {TransferDirectionInbound, TransferDirectionOutbound, TransferDirectionReversal} \<and>
     tr_Status t \<in> {TransferStatusPending, TransferStatusSucceeded, TransferStatusFailed} \<and>
     tr_AmountMinor t > 0 \<and> in_int64 (tr_AmountMinor t) \<and>
     tr_ProviderStatus t \<in> {TransferStatusPending, TransferStatusSucceeded, TransferStatusFailed,
       TransferProviderStatusUnknown} \<and>
     tr_LedgerStatus t \<in> {LedgerStatusPending, LedgerStatusPosted, LedgerStatusNoPosting,
       LedgerStatusReversalDeficit} \<and>
     tr_ReconciliationStatus t \<in> {ReconciliationStatusPending, ReconciliationStatusMatched,
       ReconciliationStatusNoAction, ReconciliationStatusManualReview} \<and>
     (case tr_ReviewStatus t of None \<Rightarrow> True
      | Some r \<Rightarrow> r \<in> {ReconciliationReviewStatusReviewed, ReconciliationReviewStatusResolvedNoAction,
          ReconciliationReviewStatusManualFollowupRequired})"

text \<open>\<open>transfers_one_active_reversal_idx\<close>\<close>

definition active_reversal :: "Transfer \<Rightarrow> bool" where
  "active_reversal t \<longleftrightarrow>
     tr_Direction t = TransferDirectionReversal \<and>
     (tr_Status t = TransferStatusSucceeded \<or> tr_Status t = TransferStatusPending) \<and>
     tr_ReversalOfTransferID t \<noteq> None"

definition reversal_index :: "Transfer list \<Rightarrow> (string \<times> string option) list" where
  "reversal_index ts =
     map (\<lambda>t. (tr_InstitutionID t, tr_ReversalOfTransferID t)) (filter active_reversal ts)"

section \<open>Statements\<close>

definition insert_journal :: "JournalEntry \<Rightarrow> unit tx" where
  "insert_journal j =
     txThen (txEnsure (je_EntryType j \<in> {TransferDirectionInbound, TransferDirectionOutbound,
         TransferDirectionReversal} \<and> 0 \<le> je_TotalDebitMinor j \<and> 0 \<le> je_TotalCreditMinor j \<and>
         je_TotalDebitMinor j = je_TotalCreditMinor j) check_violation)
     (txThen (txCheck (\<lambda>s. \<not> journal_exists s (je_ID j)) unique_violation)
     (txThen (txCheck (\<lambda>s. institution_exists s (je_InstitutionID j) \<and>
         je_CurrencyID j \<in> set (currencies s)) foreign_key_violation)
     (txModify (\<lambda>s. s\<lparr>journal_entries := journal_entries s @ [j]\<rparr>))))"

definition insert_posting :: "Posting \<Rightarrow> unit tx" where
  "insert_posting p =
     txThen (txEnsure (po_Direction p \<in> {PostingDebit, PostingCredit} \<and> 0 < po_AmountMinor p \<and>
         in_int64 (po_AmountMinor p)) check_violation)
     (txThen (txCheck (\<lambda>s. po_ID p \<notin> po_ID ` set (postings s)) unique_violation)
     (txThen (txCheck (\<lambda>s. institution_exists s (po_InstitutionID p) \<and>
         journal_exists s (po_JournalEntryID p) \<and> account_exists s (po_AccountID p) \<and>
         po_CurrencyID p \<in> set (currencies s)) foreign_key_violation)
     (txModify (\<lambda>s. s\<lparr>postings := postings s @ [p]\<rparr>))))"

definition idempotency_unique :: "Transfer \<Rightarrow> store \<Rightarrow> bool" where
  "idempotency_unique t s \<longleftrightarrow>
     (\<forall>r\<in>set (transfers s). \<not> (tr_InstitutionID r = tr_InstitutionID t \<and>
        tr_IdempotencyKey r = tr_IdempotencyKey t))"

definition insert_transfer :: "Transfer \<Rightarrow> unit tx" where
  "insert_transfer t =
     txThen (txEnsure (transfer_check t) check_violation)
     (txThen (txCheck (\<lambda>s. \<not> transfer_exists s (tr_ID t) \<and> idempotency_unique t s \<and>
         distinct (reversal_index (transfers s @ [t]))) unique_violation)
     (txThen (txCheck (\<lambda>s. institution_exists s (tr_InstitutionID t) \<and>
         account_exists s (tr_AccountID t) \<and> tr_CurrencyID t \<in> set (currencies s) \<and>
         optional_ref (journal_exists s) (tr_JournalEntryID t) \<and>
         optional_ref (transfer_exists s) (tr_ReversalOfTransferID t)) foreign_key_violation)
     (txModify (\<lambda>s. s\<lparr>transfers := transfers s @ [t]\<rparr>))))"

text \<open>
  An update of \<open>transfers\<close>.  No statement of the program writes the identifier, the institution or
  the idempotency key, so those unique constraints need no new check.
\<close>

definition update_transfers :: "(Transfer \<Rightarrow> bool) \<Rightarrow> (Transfer \<Rightarrow> Transfer) \<Rightarrow> nat tx" where
  "update_transfers P f =
     txThen (txCheck (\<lambda>s. \<forall>r\<in>set (transfers s). P r \<longrightarrow> transfer_check (f r)) check_violation)
     (txThen (txCheck (\<lambda>s. distinct (reversal_index (update_rows P f (transfers s)))) unique_violation)
     (txThen (txCheck (\<lambda>s. \<forall>r\<in>set (transfers s). P r \<longrightarrow>
         optional_ref (journal_exists s) (tr_JournalEntryID (f r))) foreign_key_violation)
     (txBind (txGets (\<lambda>s. count_rows P (transfers s))) (\<lambda>n.
      txThen (txModify (\<lambda>s. s\<lparr>transfers := update_rows P f (transfers s)\<rparr>)) (txReturn n)))))"

text \<open>\<open>account_holds_transfer_unique_idx\<close> and \<open>account_holds_active_lien_reference_idx\<close>\<close>

definition same_transfer_hold :: "AccountHold \<Rightarrow> AccountHold \<Rightarrow> bool" where
  "same_transfer_hold h r \<longleftrightarrow>
     ho_TransferID h \<noteq> None \<and> ho_InstitutionID r = ho_InstitutionID h \<and>
     ho_TransferID r = ho_TransferID h"

definition active_lien_reference :: "AccountHold \<Rightarrow> bool" where
  "active_lien_reference h \<longleftrightarrow>
     ho_TransferID h = None \<and> ho_Status h = HoldStatusActive \<and> ho_Reference h \<noteq> []"

definition same_lien :: "AccountHold \<Rightarrow> AccountHold \<Rightarrow> bool" where
  "same_lien h r \<longleftrightarrow>
     active_lien_reference h \<and> active_lien_reference r \<and> ho_InstitutionID r = ho_InstitutionID h \<and>
     ho_AccountID r = ho_AccountID h \<and> ho_Reference r = ho_Reference h"

definition hold_unique :: "AccountHold \<Rightarrow> store \<Rightarrow> bool" where
  "hold_unique h s \<longleftrightarrow>
     (\<forall>r\<in>set (account_holds s). ho_ID r \<noteq> ho_ID h \<and> \<not> same_transfer_hold h r \<and> \<not> same_lien h r)"

definition insert_hold :: "AccountHold \<Rightarrow> unit tx" where
  "insert_hold h =
     txThen (txEnsure (0 < ho_AmountMinor h \<and> in_int64 (ho_AmountMinor h) \<and>
         ho_Status h \<in> {HoldStatusActive, HoldStatusReleased, HoldStatusConsumed}) check_violation)
     (txThen (txCheck (hold_unique h) unique_violation)
     (txThen (txCheck (\<lambda>s. institution_exists s (ho_InstitutionID h) \<and>
         account_exists s (ho_AccountID h) \<and> ho_CurrencyID h \<in> set (currencies s) \<and>
         optional_ref (transfer_exists s) (ho_TransferID h)) foreign_key_violation)
     (txModify (\<lambda>s. s\<lparr>account_holds := account_holds s @ [h]\<rparr>))))"

definition update_holds :: "(AccountHold \<Rightarrow> bool) \<Rightarrow> (AccountHold \<Rightarrow> AccountHold) \<Rightarrow> nat tx" where
  "update_holds P f =
     txBind (txGets (\<lambda>s. count_rows P (account_holds s))) (\<lambda>n.
     txThen (txModify (\<lambda>s. s\<lparr>account_holds := update_rows P f (account_holds s)\<rparr>)) (txReturn n))"

definition balance_in_range :: "AccountBalance \<Rightarrow> bool" where
  "balance_in_range b \<longleftrightarrow> in_int64 (bal_AvailableMinor b) \<and> in_int64 (bal_LedgerMinor b)"

definition update_balances :: "(AccountBalance \<Rightarrow> bool) \<Rightarrow> (AccountBalance \<Rightarrow> AccountBalance) \<Rightarrow> nat tx" where
  "update_balances P f =
     txThen (txCheck (\<lambda>s. \<forall>r\<in>set (account_balances s). P r \<longrightarrow> balance_in_range (f r))
         numeric_out_of_range)
     (txBind (txGets (\<lambda>s. count_rows P (account_balances s))) (\<lambda>n.
      txThen (txModify (\<lambda>s. s\<lparr>account_balances := update_rows P f (account_balances s)\<rparr>)) (txReturn n)))"

text \<open>\<open>INSERT INTO provider_events \<dots> ON CONFLICT \<dots> DO NOTHING\<close>: the number of rows inserted.\<close>

definition event_key :: "string \<Rightarrow> string \<Rightarrow> string \<Rightarrow> ProviderEvent \<Rightarrow> bool" where
  "event_key i p k r \<longleftrightarrow> pe_InstitutionID r = i \<and> pe_Provider r = p \<and> pe_ProviderEventID r = k"

definition insert_event :: "ProviderEvent \<Rightarrow> nat tx" where
  "insert_event r =
     txBind (txGets (\<lambda>s. \<exists>r'\<in>set (provider_events s).
         event_key (pe_InstitutionID r) (pe_Provider r) (pe_ProviderEventID r) r')) (\<lambda>conflict.
     if conflict then txReturn 0
     else txThen (txCheck (\<lambda>s. pe_ID r \<notin> pe_ID ` set (provider_events s)) unique_violation)
      (txThen (txCheck (\<lambda>s. institution_exists s (pe_InstitutionID r) \<and>
          optional_ref (transfer_exists s) (pe_TransferID r)) foreign_key_violation)
      (txThen (txModify (\<lambda>s. s\<lparr>provider_events := provider_events s @ [r]\<rparr>)) (txReturn 1))))"

definition update_events :: "(ProviderEvent \<Rightarrow> bool) \<Rightarrow> (ProviderEvent \<Rightarrow> ProviderEvent) \<Rightarrow> nat tx" where
  "update_events P f =
     txThen (txCheck (\<lambda>s. \<forall>r\<in>set (provider_events s). P r \<longrightarrow>
         optional_ref (transfer_exists s) (pe_TransferID (f r))) foreign_key_violation)
     (txBind (txGets (\<lambda>s. count_rows P (provider_events s))) (\<lambda>n.
      txThen (txModify (\<lambda>s. s\<lparr>provider_events := update_rows P f (provider_events s)\<rparr>)) (txReturn n)))"

definition insert_audit_row :: "AuditEvent \<Rightarrow> unit tx" where
  "insert_audit_row ev =
     txThen (txCheck (\<lambda>s. ev_ID ev \<notin> ev_ID ` set (audit_events s)) unique_violation)
     (txThen (txCheck (\<lambda>s. institution_exists s (ev_InstitutionID ev)) foreign_key_violation)
     (txModify (\<lambda>s. s\<lparr>audit_events := audit_events s @ [ev]\<rparr>)))"

definition insert_customer :: "Customer \<Rightarrow> unit tx" where
  "insert_customer c =
     txThen (txCheck (\<lambda>s. cus_ID c \<notin> cus_ID ` set (customers s)) unique_violation)
     (txThen (txCheck (\<lambda>s. institution_exists s (cus_InstitutionID c) \<and>
         cus_BranchID c \<in> br_ID ` set (branches s)) foreign_key_violation)
     (txModify (\<lambda>s. s\<lparr>customers := customers s @ [c]\<rparr>)))"

definition insert_account :: "Account \<Rightarrow> unit tx" where
  "insert_account a =
     txThen (txEnsure (acc_ID a \<noteq> []) invalid_text)
     (txThen (txEnsure (acc_Kind a \<in> {AccountKindCustomer, AccountKindInternal} \<and>
         acc_NormalBalance a \<in> {NormalBalanceDebit, NormalBalanceCredit}) check_violation)
     (txThen (txCheck (\<lambda>s. \<not> account_exists s (acc_ID a) \<and>
         (\<forall>r\<in>set (accounts s). \<not> (acc_InstitutionID r = acc_InstitutionID a \<and>
            acc_AccountNumber r = acc_AccountNumber a))) unique_violation)
     (txThen (txCheck (\<lambda>s. institution_exists s (acc_InstitutionID a) \<and>
         optional_ref (\<lambda>c. c \<in> cus_ID ` set (customers s)) (acc_CustomerID a) \<and>
         acc_CurrencyID a \<in> set (currencies s)) foreign_key_violation)
     (txModify (\<lambda>s. s\<lparr>accounts := accounts s @ [a]\<rparr>)))))"

definition update_accounts :: "(Account \<Rightarrow> bool) \<Rightarrow> (Account \<Rightarrow> Account) \<Rightarrow> nat tx" where
  "update_accounts P f =
     txBind (txGets (\<lambda>s. count_rows P (accounts s))) (\<lambda>n.
     txThen (txModify (\<lambda>s. s\<lparr>accounts := update_rows P f (accounts s)\<rparr>)) (txReturn n))"

definition insert_balance :: "AccountBalance \<Rightarrow> unit tx" where
  "insert_balance b =
     txThen (txCheck (\<lambda>s. bal_AccountID b \<notin> bal_AccountID ` set (account_balances s)) unique_violation)
     (txThen (txCheck (\<lambda>s. institution_exists s (bal_InstitutionID b) \<and>
         account_exists s (bal_AccountID b) \<and> bal_CurrencyID b \<in> set (currencies s))
         foreign_key_violation)
     (txModify (\<lambda>s. s\<lparr>account_balances := account_balances s @ [b]\<rparr>)))"

text \<open>
  \<open>lockReplayKey\<close> of \<open>sql_transfer_repository.go\<close>: a transaction-scoped advisory lock on the joined
  key.  The lock is released when the transaction ends, which \<open>WithTx\<close> does by clearing the list.
\<close>

definition replayKey :: "string \<Rightarrow> string list \<Rightarrow> string" where
  "replayKey scope parts =
     Join ([''lenz-core'', ''corebanking'', TrimSpace scope] @ map TrimSpace parts) unit_separator"

definition lockReplayKey :: "string \<Rightarrow> string list \<Rightarrow> unit tx" where
  "lockReplayKey scope parts =
     txModify (\<lambda>s. s\<lparr>advisory_locks := advisory_locks s @ [replayKey scope parts]\<rparr>)"

text \<open>What a statement that succeeds has done.\<close>

lemmas statement_defs =
  insert_journal_def insert_posting_def insert_transfer_def update_transfers_def insert_hold_def
  update_holds_def update_balances_def insert_event_def update_events_def insert_audit_row_def
  insert_customer_def insert_account_def update_accounts_def insert_balance_def lockReplayKey_def

lemma insert_journal_Inr [tx_simps]:
  "insert_journal j s = Inr (u, s') \<longleftrightarrow>
     (je_EntryType j \<in> {TransferDirectionInbound, TransferDirectionOutbound, TransferDirectionReversal} \<and>
      0 \<le> je_TotalDebitMinor j \<and> 0 \<le> je_TotalCreditMinor j \<and>
      je_TotalDebitMinor j = je_TotalCreditMinor j) \<and>
     \<not> journal_exists s (je_ID j) \<and> institution_exists s (je_InstitutionID j) \<and>
     je_CurrencyID j \<in> set (currencies s) \<and> s' = s\<lparr>journal_entries := journal_entries s @ [j]\<rparr>"
  by (auto simp: insert_journal_def tx_simps)

lemma insert_posting_Inr [tx_simps]:
  "insert_posting p s = Inr (u, s') \<longleftrightarrow>
     (po_Direction p \<in> {PostingDebit, PostingCredit} \<and> 0 < po_AmountMinor p \<and>
      in_int64 (po_AmountMinor p)) \<and>
     po_ID p \<notin> po_ID ` set (postings s) \<and> institution_exists s (po_InstitutionID p) \<and>
     journal_exists s (po_JournalEntryID p) \<and> account_exists s (po_AccountID p) \<and>
     po_CurrencyID p \<in> set (currencies s) \<and> s' = s\<lparr>postings := postings s @ [p]\<rparr>"
  by (auto simp: insert_posting_def tx_simps)

lemma insert_transfer_Inr [tx_simps]:
  "insert_transfer t s = Inr (u, s') \<longleftrightarrow>
     transfer_check t \<and> \<not> transfer_exists s (tr_ID t) \<and> idempotency_unique t s \<and>
     distinct (reversal_index (transfers s @ [t])) \<and>
     institution_exists s (tr_InstitutionID t) \<and> account_exists s (tr_AccountID t) \<and>
     tr_CurrencyID t \<in> set (currencies s) \<and> optional_ref (journal_exists s) (tr_JournalEntryID t) \<and>
     optional_ref (transfer_exists s) (tr_ReversalOfTransferID t) \<and>
     s' = s\<lparr>transfers := transfers s @ [t]\<rparr>"
  by (auto simp: insert_transfer_def tx_simps)

lemma update_transfers_Inr [tx_simps]:
  "update_transfers P f s = Inr (n, s') \<longleftrightarrow>
     (\<forall>r\<in>set (transfers s). P r \<longrightarrow> transfer_check (f r)) \<and>
     distinct (reversal_index (update_rows P f (transfers s))) \<and>
     (\<forall>r\<in>set (transfers s). P r \<longrightarrow> optional_ref (journal_exists s) (tr_JournalEntryID (f r))) \<and>
     n = count_rows P (transfers s) \<and> s' = s\<lparr>transfers := update_rows P f (transfers s)\<rparr>"
  by (auto simp: update_transfers_def tx_simps)

lemma insert_hold_Inr [tx_simps]:
  "insert_hold h s = Inr (u, s') \<longleftrightarrow>
     (0 < ho_AmountMinor h \<and> in_int64 (ho_AmountMinor h) \<and>
      ho_Status h \<in> {HoldStatusActive, HoldStatusReleased, HoldStatusConsumed}) \<and>
     hold_unique h s \<and>
     institution_exists s (ho_InstitutionID h) \<and> account_exists s (ho_AccountID h) \<and>
     ho_CurrencyID h \<in> set (currencies s) \<and> optional_ref (transfer_exists s) (ho_TransferID h) \<and>
     s' = s\<lparr>account_holds := account_holds s @ [h]\<rparr>"
  by (auto simp: insert_hold_def tx_simps)

lemma update_holds_Inr [tx_simps]:
  "update_holds P f s = Inr (n, s') \<longleftrightarrow>
     n = count_rows P (account_holds s) \<and>
     s' = s\<lparr>account_holds := update_rows P f (account_holds s)\<rparr>"
  by (auto simp: update_holds_def tx_simps)

lemma update_balances_Inr [tx_simps]:
  "update_balances P f s = Inr (n, s') \<longleftrightarrow>
     (\<forall>r\<in>set (account_balances s). P r \<longrightarrow> balance_in_range (f r)) \<and>
     n = count_rows P (account_balances s) \<and>
     s' = s\<lparr>account_balances := update_rows P f (account_balances s)\<rparr>"
  by (auto simp: update_balances_def tx_simps)

lemma insert_event_Inr [tx_simps]:
  "insert_event r s = Inr (n, s') \<longleftrightarrow>
     (if \<exists>r'\<in>set (provider_events s).
           event_key (pe_InstitutionID r) (pe_Provider r) (pe_ProviderEventID r) r'
      then n = 0 \<and> s' = s
      else pe_ID r \<notin> pe_ID ` set (provider_events s) \<and> institution_exists s (pe_InstitutionID r) \<and>
        optional_ref (transfer_exists s) (pe_TransferID r) \<and> n = 1 \<and>
        s' = s\<lparr>provider_events := provider_events s @ [r]\<rparr>)"
  by (auto simp: insert_event_def tx_simps split: if_splits)

lemma update_events_Inr [tx_simps]:
  "update_events P f s = Inr (n, s') \<longleftrightarrow>
     (\<forall>r\<in>set (provider_events s). P r \<longrightarrow> optional_ref (transfer_exists s) (pe_TransferID (f r))) \<and>
     n = count_rows P (provider_events s) \<and>
     s' = s\<lparr>provider_events := update_rows P f (provider_events s)\<rparr>"
  by (auto simp: update_events_def tx_simps)

lemma insert_audit_row_Inr [tx_simps]:
  "insert_audit_row ev s = Inr (u, s') \<longleftrightarrow>
     ev_ID ev \<notin> ev_ID ` set (audit_events s) \<and> institution_exists s (ev_InstitutionID ev) \<and>
     s' = s\<lparr>audit_events := audit_events s @ [ev]\<rparr>"
  by (auto simp: insert_audit_row_def tx_simps)

lemma insert_customer_Inr [tx_simps]:
  "insert_customer c s = Inr (u, s') \<longleftrightarrow>
     cus_ID c \<notin> cus_ID ` set (customers s) \<and> institution_exists s (cus_InstitutionID c) \<and>
     cus_BranchID c \<in> br_ID ` set (branches s) \<and> s' = s\<lparr>customers := customers s @ [c]\<rparr>"
  by (auto simp: insert_customer_def tx_simps)

lemma insert_account_Inr [tx_simps]:
  "insert_account a s = Inr (u, s') \<longleftrightarrow>
     acc_ID a \<noteq> [] \<and>
     acc_Kind a \<in> {AccountKindCustomer, AccountKindInternal} \<and>
     acc_NormalBalance a \<in> {NormalBalanceDebit, NormalBalanceCredit} \<and>
     \<not> account_exists s (acc_ID a) \<and>
     (\<forall>r\<in>set (accounts s). \<not> (acc_InstitutionID r = acc_InstitutionID a \<and>
        acc_AccountNumber r = acc_AccountNumber a)) \<and>
     institution_exists s (acc_InstitutionID a) \<and>
     optional_ref (\<lambda>c. c \<in> cus_ID ` set (customers s)) (acc_CustomerID a) \<and>
     acc_CurrencyID a \<in> set (currencies s) \<and> s' = s\<lparr>accounts := accounts s @ [a]\<rparr>"
  by (auto simp: insert_account_def tx_simps)

lemma update_accounts_Inr [tx_simps]:
  "update_accounts P f s = Inr (n, s') \<longleftrightarrow>
     n = count_rows P (accounts s) \<and> s' = s\<lparr>accounts := update_rows P f (accounts s)\<rparr>"
  by (auto simp: update_accounts_def tx_simps)

lemma insert_balance_Inr [tx_simps]:
  "insert_balance b s = Inr (u, s') \<longleftrightarrow>
     bal_AccountID b \<notin> bal_AccountID ` set (account_balances s) \<and>
     institution_exists s (bal_InstitutionID b) \<and> account_exists s (bal_AccountID b) \<and>
     bal_CurrencyID b \<in> set (currencies s) \<and>
     s' = s\<lparr>account_balances := account_balances s @ [b]\<rparr>"
  by (auto simp: insert_balance_def tx_simps)

lemma lockReplayKey_Inr [tx_simps]:
  "lockReplayKey scope parts s = Inr (u, s') \<longleftrightarrow>
     s' = s\<lparr>advisory_locks := advisory_locks s @ [replayKey scope parts]\<rparr>"
  by (auto simp: lockReplayKey_def)

text \<open>Existence of a referenced row survives every statement, since no row is ever deleted.\<close>

lemma exists_append [simp]:
  "account_exists (s\<lparr>accounts := accounts s @ [a]\<rparr>) k \<longleftrightarrow> account_exists s k \<or> k = acc_ID a"
  "transfer_exists (s\<lparr>transfers := transfers s @ [t]\<rparr>) k \<longleftrightarrow> transfer_exists s k \<or> k = tr_ID t"
  "journal_exists (s\<lparr>journal_entries := journal_entries s @ [j]\<rparr>) k \<longleftrightarrow>
     journal_exists s k \<or> k = je_ID j"
  by (auto simp: account_exists_def transfer_exists_def journal_exists_def)

end
