(* ===== verification/AuditTrail.thy ===== *)
theory AuditTrail
  imports Store "HOL-Library.AList"
begin

text \<open>
  \<open>audit.go\<close> and the insert of \<open>sql_audit_repository.go\<close>: who acted (the principal of the request
  context), what is kept of the metadata (keys and values that look like credentials or identity
  numbers are dropped or redacted), and the row appended to \<open>audit_events\<close>.
\<close>

section \<open>Actions\<close>

definition AuditActionCustomerCreated :: string where
  "AuditActionCustomerCreated = ''customer.created''"

definition AuditActionAccountCreated :: string where
  "AuditActionAccountCreated = ''account.created''"

definition AuditActionInternalCreditPosted :: string where
  "AuditActionInternalCreditPosted = ''internal_credit.posted''"

definition AuditActionInternalDebitPosted :: string where
  "AuditActionInternalDebitPosted = ''internal_debit.posted''"

definition AuditActionInternalTransferPosted :: string where
  "AuditActionInternalTransferPosted = ''internal_transfer.posted''"

definition AuditActionAccountFrozen :: string where
  "AuditActionAccountFrozen = ''account.frozen''"

definition AuditActionAccountUnfrozen :: string where
  "AuditActionAccountUnfrozen = ''account.unfrozen''"

definition AuditActionPNDActivated :: string where
  "AuditActionPNDActivated = ''account.pnd_activated''"

definition AuditActionPNDDeactivated :: string where
  "AuditActionPNDDeactivated = ''account.pnd_deactivated''"

definition AuditActionLienPlaced :: string where
  "AuditActionLienPlaced = ''account.lien_placed''"

definition AuditActionLienReleased :: string where
  "AuditActionLienReleased = ''account.lien_released''"

definition AuditActionReconciliationReviewed :: string where
  "AuditActionReconciliationReviewed = ''reconciliation.reviewed''"

definition AuditActionExternalOutboundSucceeded :: string where
  "AuditActionExternalOutboundSucceeded = ''external_outbound.succeeded''"

definition AuditActionExternalOutboundFailed :: string where
  "AuditActionExternalOutboundFailed = ''external_outbound.failed''"

definition AuditActionExternalOutboundPending :: string where
  "AuditActionExternalOutboundPending = ''external_outbound.pending''"

definition AuditActionExternalOutboundUnknown :: string where
  "AuditActionExternalOutboundUnknown = ''external_outbound.provider_unknown''"

definition AuditActionExternalInboundSucceeded :: string where
  "AuditActionExternalInboundSucceeded = ''external_inbound.succeeded''"

definition AuditActionExternalInboundFailed :: string where
  "AuditActionExternalInboundFailed = ''external_inbound.failed''"

definition AuditActionExternalInboundPending :: string where
  "AuditActionExternalInboundPending = ''external_inbound.pending''"

definition AuditActionExternalInboundReview :: string where
  "AuditActionExternalInboundReview = ''external_inbound.manual_review''"

record auditEventInput =
  ai_InstitutionID :: string
  ai_Action :: string
  ai_EntityType :: string
  ai_EntityID :: string
  ai_CustomerID :: string
  ai_AccountID :: string
  ai_TransferID :: string
  ai_JournalEntryID :: string
  ai_IdempotencyKey :: string
  ai_Reference :: string
  ai_OldStatus :: string
  ai_NewStatus :: string
  ai_Metadata :: metadata
  ai_CreatedAt :: time

text \<open>The zero value of the struct, which the code's composite literals start from.\<close>

definition auditEventInput_zero :: auditEventInput where
  "auditEventInput_zero =
     \<lparr>ai_InstitutionID = [], ai_Action = [], ai_EntityType = [], ai_EntityID = [], ai_CustomerID = [],
      ai_AccountID = [], ai_TransferID = [], ai_JournalEntryID = [], ai_IdempotencyKey = [],
      ai_Reference = [], ai_OldStatus = [], ai_NewStatus = [], ai_Metadata = [], ai_CreatedAt = 0\<rparr>"

section \<open>Metadata\<close>

definition unsafeAuditMetadataKey :: "string \<Rightarrow> bool" where
  "unsafeAuditMetadataKey key =
     (let key = ToLower (TrimSpace key) in
      Contains key ''authorization'' \<or> Contains key ''token'' \<or> Contains key ''secret'' \<or>
      Contains key ''password'' \<or> Contains key ''credential'' \<or> Contains key ''api_key'' \<or>
      Contains key ''apikey'' \<or> key = ''bvn'' \<or> key = ''nin'')"

definition sensitive_words :: "string list" where
  "sensitive_words =
     [''authorization'', ''bearer '', ''token'', ''secret'', ''password'', ''credential'', ''api key'',
      ''api_key'', ''apikey'', ''bvn'', ''nin'']"

definition sanitizeAuditMetadataValue :: "string \<Rightarrow> string" where
  "sanitizeAuditMetadataValue value =
     (let value = TrimSpace value; lower = ToLower value in
      if lower = [] then []
      else if list_ex (Contains lower) sensitive_words then ''[redacted]''
      else value)"

fun sanitize_into :: "metadata \<Rightarrow> metadata \<Rightarrow> metadata" where
  "sanitize_into out [] = out"
| "sanitize_into out ((key, value) # input) =
     (let key = TrimSpace key in
      if key = [] \<or> unsafeAuditMetadataKey key then sanitize_into out input
      else sanitize_into (AList.update key (sanitizeAuditMetadataValue value) out) input)"

definition sanitizedAuditMetadata :: "metadata \<Rightarrow> metadata" where
  "sanitizedAuditMetadata input = sanitize_into [] input"

definition mergeAuditMetadata :: "metadata \<Rightarrow> metadata \<Rightarrow> metadata" where
  "mergeAuditMetadata base extra =
     fold (\<lambda>(key, value) out. AList.update key value out) (sanitizedAuditMetadata extra) base"

text \<open>What the two filters promise of every stored entry.\<close>

definition clean_entry :: "string \<times> string \<Rightarrow> bool" where
  "clean_entry kv \<longleftrightarrow>
     \<not> unsafeAuditMetadataKey (fst kv) \<and> fst kv \<noteq> [] \<and>
     \<not> list_ex (Contains (ToLower (snd kv))) sensitive_words"

definition clean_metadata :: "metadata \<Rightarrow> bool" where
  "clean_metadata m \<longleftrightarrow> list_all clean_entry m"

lemma set_AList_update: "set (AList.update k v m) \<subseteq> insert (k, v) (set m)"
  by (induction m) auto

lemma redacted_clean: "\<not> list_ex (Contains (ToLower ''[redacted]'')) sensitive_words"
  by code_simp

lemma empty_clean: "\<not> list_ex (Contains (ToLower [])) sensitive_words"
  by code_simp

lemma sanitized_value_clean:
  "\<not> list_ex (Contains (ToLower (sanitizeAuditMetadataValue v))) sensitive_words"
  using redacted_clean empty_clean by (simp add: sanitizeAuditMetadataValue_def Let_def)

lemma clean_metadata_update:
  "clean_metadata m \<Longrightarrow> clean_entry (k, v) \<Longrightarrow> clean_metadata (AList.update k v m)"
  using set_AList_update [of k v m] by (auto simp: clean_metadata_def list_all_iff)

lemma clean_sanitize_into: "clean_metadata out \<Longrightarrow> clean_metadata (sanitize_into out input)"
proof (induction out input rule: sanitize_into.induct)
  case (2 out key v input)
  have "clean_metadata (AList.update (TrimSpace key) (sanitizeAuditMetadataValue v) out)"
    if "TrimSpace key \<noteq> []" "\<not> unsafeAuditMetadataKey (TrimSpace key)"
    using "2.prems" that by (intro clean_metadata_update) (auto simp: clean_entry_def sanitized_value_clean)
  with 2 show ?case by (simp add: Let_def)
qed simp

lemma clean_sanitized: "clean_metadata (sanitizedAuditMetadata input)"
  unfolding sanitizedAuditMetadata_def
  by (rule clean_sanitize_into) (simp add: clean_metadata_def)

lemma clean_metadata_Cons: "clean_metadata (kv # m) \<longleftrightarrow> clean_entry kv \<and> clean_metadata m"
  by (simp add: clean_metadata_def)

lemma clean_merge_fold:
  "clean_metadata base \<Longrightarrow> clean_metadata extra \<Longrightarrow>
     clean_metadata (fold (\<lambda>(key, value) out. AList.update key value out) extra base)"
proof (induction extra arbitrary: base)
  case (Cons kv extra)
  then have "clean_metadata (AList.update (fst kv) (snd kv) base)"
    by (simp add: clean_metadata_Cons clean_metadata_update)
  with Cons show ?case by (simp add: clean_metadata_Cons case_prod_beta)
qed simp

lemma clean_merge: "clean_metadata base \<Longrightarrow> clean_metadata (mergeAuditMetadata base extra)"
  unfolding mergeAuditMetadata_def by (rule clean_merge_fold [OF _ clean_sanitized])

section \<open>Events\<close>

definition PrincipalFromContext :: "env \<Rightarrow> Principal option" where
  "PrincipalFromContext e =
     (case env_principal e of
        None \<Rightarrow> None
      | Some p \<Rightarrow> if pr_InstitutionID p = [] then None else Some p)"

definition auditContext :: "env \<Rightarrow> string \<times> string \<times> string \<times> metadata" where
  "auditContext e =
     (let reqID = TrimSpace (env_request_id e);
          requestID = (if reqID \<noteq> [] then reqID else ''service'') in
      case PrincipalFromContext e of
        None \<Rightarrow> (''system'', ''system'', requestID, [])
      | Some p \<Rightarrow>
          (let actorType = TrimSpace (pr_ActorType p);
               actorID = TrimSpace (pr_ActorID p);
               sourceIP = TrimSpace (pr_SourceIP p);
               userAgent = TrimSpace (pr_UserAgent p);
               metadata =
                 (if pr_Roles p \<noteq> [] then [(''actor_roles'', Join (pr_Roles p) '','')] else []) @
                 (if pr_Scopes p \<noteq> [] then [(''actor_scopes'', Join (pr_Scopes p) '','')] else []) @
                 (if sourceIP \<noteq> [] then [(''source_ip'', sourceIP)] else []) @
                 (if userAgent \<noteq> [] then [(''user_agent'', userAgent)] else [])
           in (if actorType = [] then ''principal'' else actorType,
               if actorID = [] then ''unknown'' else actorID, requestID, metadata)))"

definition optionalAuditString :: "string \<Rightarrow> string option" where
  "optionalAuditString value = (let value = TrimSpace value in if value = [] then None else Some value)"

definition optionalAuditValue :: "string option \<Rightarrow> string" where
  "optionalAuditValue value = (case value of None \<Rightarrow> [] | Some v \<Rightarrow> v)"

definition formatAuditInt :: "int \<Rightarrow> string" where
  "formatAuditInt value = FormatInt value"

text \<open>\<open>k\<close> numbers the audit events of one operation, for the identifier it draws.\<close>

definition newAuditEvent :: "env \<Rightarrow> nat \<Rightarrow> auditEventInput \<Rightarrow> error + AuditEvent" where
  "newAuditEvent e k input =
     (let now = (if ai_CreatedAt input = 0 then env_clock e 0 else ai_CreatedAt input) in
      case auditContext e of (actorType, actorID, requestID, contextMetadata) \<Rightarrow>
      let event =
        \<lparr>ev_ID = env_uuid e (DrawAudit k),
         ev_InstitutionID = TrimSpace (ai_InstitutionID input),
         ev_ActorType = actorType, ev_ActorID = actorID, ev_RequestID = requestID,
         ev_Action = TrimSpace (ai_Action input),
         ev_EntityType = TrimSpace (ai_EntityType input),
         ev_EntityID = TrimSpace (ai_EntityID input),
         ev_CustomerID = optionalAuditString (ai_CustomerID input),
         ev_AccountID = optionalAuditString (ai_AccountID input),
         ev_TransferID = optionalAuditString (ai_TransferID input),
         ev_JournalEntryID = optionalAuditString (ai_JournalEntryID input),
         ev_IdempotencyKey = optionalAuditString (ai_IdempotencyKey input),
         ev_Reference = optionalAuditString (ai_Reference input),
         ev_OldStatus = optionalAuditString (ai_OldStatus input),
         ev_NewStatus = optionalAuditString (ai_NewStatus input),
         ev_Metadata = mergeAuditMetadata (sanitizedAuditMetadata (ai_Metadata input)) contextMetadata,
         ev_CreatedAt = now\<rparr>
      in if ev_InstitutionID event = [] \<or> ev_Action event = [] \<or> ev_EntityType event = [] \<or>
            ev_EntityID event = []
         then Inl ErrInvalidRequest else Inr event)"

definition insertAuditEvent :: "env \<Rightarrow> nat \<Rightarrow> auditEventInput \<Rightarrow> AuditEvent tx" where
  "insertAuditEvent e k input =
     txBind (txLift (newAuditEvent e k input)) (\<lambda>event.
     txThen (insert_audit_row event) (txReturn event))"

lemma newAuditEvent_clean: "newAuditEvent e k input = Inr event \<Longrightarrow> clean_metadata (ev_Metadata event)"
  by (auto simp: newAuditEvent_def Let_def clean_merge clean_sanitized split: if_splits prod.splits)

lemma insertAuditEvent_Inr:
  "insertAuditEvent e k input s = Inr (event, s') \<longleftrightarrow>
     newAuditEvent e k input = Inr event \<and> ev_ID event \<notin> ev_ID ` set (audit_events s) \<and>
     institution_exists s (ev_InstitutionID event) \<and>
     s' = s\<lparr>audit_events := audit_events s @ [event]\<rparr>"
  by (auto simp: insertAuditEvent_def tx_simps)

text \<open>An optional audit event: nothing is written when there is no input.\<close>

definition auditWhen :: "env \<Rightarrow> nat \<Rightarrow> auditEventInput option \<Rightarrow> unit tx" where
  "auditWhen e k input =
     (case input of
        None \<Rightarrow> txReturn ()
      | Some i \<Rightarrow> txThen (insertAuditEvent e k i) (txReturn ()))"

lemma auditWhen_Inr:
  "auditWhen e k input s = Inr (u, s') \<Longrightarrow>
     \<exists>evs. s' = s\<lparr>audit_events := audit_events s @ evs\<rparr> \<and> length evs = (if input = None then 0 else 1) \<and>
       (\<forall>ev\<in>set evs. ev_ID ev \<notin> ev_ID ` set (audit_events s) \<and>
          institution_exists s (ev_InstitutionID ev) \<and>
          (\<exists>a. input = Some a \<and> newAuditEvent e k a = Inr ev))"
  by (cases input)
    (auto simp: auditWhen_def tx_simps insertAuditEvent_Inr intro: exI [of _ "[]"])

lemma newAuditEvent_Inr:
  "newAuditEvent e k a = Inr ev \<Longrightarrow>
     ev_InstitutionID ev = TrimSpace (ai_InstitutionID a) \<and> ev_Action ev = TrimSpace (ai_Action a) \<and>
     ev_EntityID ev = TrimSpace (ai_EntityID a) \<and> ev_ID ev = env_uuid e (DrawAudit k) \<and>
     ev_Action ev \<noteq> [] \<and> ev_EntityID ev \<noteq> [] \<and> clean_metadata (ev_Metadata ev)"
  by (auto simp: newAuditEvent_def Let_def clean_merge clean_sanitized split: if_splits prod.splits)

end
