(* ===== verification/TransferAudit.thy ===== *)
theory TransferAudit
  imports AuditTrail
begin

text \<open>
  The audit events of transfers in \<open>sql_transfer_repository.go\<close>: which transfers are audited, under
  which action, and what the event says.
\<close>

definition postedInternalTransferAuditInput ::
  "RecordTransferInput \<Rightarrow> Transfer \<Rightarrow> Account \<Rightarrow> Account \<Rightarrow> auditEventInput option" where
  "postedInternalTransferAuditInput input transfer account clearing =
     (if tr_Status transfer \<noteq> TransferStatusSucceeded \<or> in_Provider input \<noteq> ProviderLedgerInternal \<or>
         in_ReversalOfTransferID input \<noteq> [] then None
      else
        (let metadata0 = [(''amount_minor'', formatAuditInt (in_AmountMinor input)),
                          (''currency_id'', in_CurrencyID input)];
             toCustomer = (in_Direction input = TransferDirectionOutbound \<and>
                           acc_Kind clearing = AccountKindCustomer);
             action = (if toCustomer then AuditActionInternalTransferPosted
                       else if in_Direction input = TransferDirectionOutbound
                       then AuditActionInternalDebitPosted
                       else AuditActionInternalCreditPosted);
             metadata = (if toCustomer
               then metadata0 @ [(''source_account_id'', acc_ID account),
                                 (''destination_account_id'', acc_ID clearing)]
               else metadata0)
         in Some (auditEventInput_zero
              \<lparr>ai_InstitutionID := tr_InstitutionID transfer, ai_Action := action,
               ai_EntityType := ''transfer'', ai_EntityID := tr_ID transfer,
               ai_AccountID := acc_ID account, ai_TransferID := tr_ID transfer,
               ai_JournalEntryID := optionalAuditValue (tr_JournalEntryID transfer),
               ai_IdempotencyKey := in_IdempotencyKey input,
               ai_Reference := in_ProviderReference input, ai_Metadata := metadata,
               ai_CreatedAt := tr_CreatedAt transfer\<rparr>)))"

definition externalInboundTransferAuditInput ::
  "Transfer \<Rightarrow> Account \<Rightarrow> string \<Rightarrow> auditEventInput option" where
  "externalInboundTransferAuditInput transfer account failureReason =
     (if tr_Direction transfer \<noteq> TransferDirectionInbound \<or>
         tr_Provider transfer = ProviderLedgerInternal \<or> tr_ReversalOfTransferID transfer \<noteq> None
      then None
      else
        (let action =
               (if tr_ReconciliationStatus transfer = ReconciliationStatusManualReview
                then AuditActionExternalInboundReview
                else if tr_Status transfer = TransferStatusSucceeded
                then AuditActionExternalInboundSucceeded
                else if tr_Status transfer = TransferStatusFailed
                then AuditActionExternalInboundFailed
                else AuditActionExternalInboundPending);
             metadata0 =
               [(''amount_minor'', formatAuditInt (tr_AmountMinor transfer)),
                (''currency_id'', tr_CurrencyID transfer),
                (''provider'', tr_Provider transfer),
                (''provider_status'', tr_ProviderStatus transfer),
                (''ledger_status'', tr_LedgerStatus transfer),
                (''reconciliation_status'', tr_ReconciliationStatus transfer),
                (''account_status'', acc_Status account)];
             failureReason =
               (if failureReason = [] then optionalAuditValue (tr_FailureReason transfer)
                else failureReason);
             metadata = (if failureReason \<noteq> [] then metadata0 @ [(''failure_reason'', failureReason)]
                         else metadata0)
         in Some (auditEventInput_zero
              \<lparr>ai_InstitutionID := tr_InstitutionID transfer, ai_Action := action,
               ai_EntityType := ''transfer'', ai_EntityID := tr_ID transfer,
               ai_AccountID := acc_ID account, ai_TransferID := tr_ID transfer,
               ai_JournalEntryID := optionalAuditValue (tr_JournalEntryID transfer),
               ai_IdempotencyKey := tr_IdempotencyKey transfer,
               ai_Reference := tr_ProviderReference transfer, ai_NewStatus := tr_Status transfer,
               ai_Metadata := metadata, ai_CreatedAt := tr_UpdatedAt transfer\<rparr>)))"

definition externalOutboundTransferAuditInput ::
  "RecordTransferInput \<Rightarrow> Transfer \<Rightarrow> Account \<Rightarrow> Account \<Rightarrow> auditEventInput option" where
  "externalOutboundTransferAuditInput input transfer account clearing =
     (if tr_Direction transfer \<noteq> TransferDirectionOutbound \<or>
         in_Provider input = ProviderLedgerInternal \<or> in_ReversalOfTransferID input \<noteq> []
      then None
      else
        (let action =
               (if tr_ProviderStatus transfer = TransferProviderStatusUnknown
                then AuditActionExternalOutboundUnknown
                else if tr_Status transfer = TransferStatusSucceeded
                then AuditActionExternalOutboundSucceeded
                else if tr_Status transfer = TransferStatusFailed
                then AuditActionExternalOutboundFailed
                else AuditActionExternalOutboundPending);
             metadata0 =
               [(''amount_minor'', formatAuditInt (tr_AmountMinor transfer)),
                (''currency_id'', tr_CurrencyID transfer),
                (''provider'', tr_Provider transfer),
                (''provider_status'', tr_ProviderStatus transfer),
                (''ledger_status'', tr_LedgerStatus transfer),
                (''reconciliation_status'', tr_ReconciliationStatus transfer),
                (''clearing_account_id'', acc_ID clearing),
                (''account_status'', acc_Status account)];
             metadata = (case tr_FailureReason transfer of
                None \<Rightarrow> metadata0 | Some r \<Rightarrow> metadata0 @ [(''failure_reason'', r)])
         in Some (auditEventInput_zero
              \<lparr>ai_InstitutionID := tr_InstitutionID transfer, ai_Action := action,
               ai_EntityType := ''transfer'', ai_EntityID := tr_ID transfer,
               ai_AccountID := acc_ID account, ai_TransferID := tr_ID transfer,
               ai_JournalEntryID := optionalAuditValue (tr_JournalEntryID transfer),
               ai_IdempotencyKey := tr_IdempotencyKey transfer,
               ai_Reference := tr_ProviderReference transfer, ai_NewStatus := tr_Status transfer,
               ai_Metadata := metadata, ai_CreatedAt := tr_UpdatedAt transfer\<rparr>)))"

text \<open>\<open>k\<close> numbers the audit events of one repository operation.\<close>

definition auditPostedInternalTransfer ::
  "env \<Rightarrow> nat \<Rightarrow> RecordTransferInput \<Rightarrow> Transfer \<Rightarrow> Account \<Rightarrow> Account \<Rightarrow> unit tx" where
  "auditPostedInternalTransfer e k input transfer account clearing =
     auditWhen e k (postedInternalTransferAuditInput input transfer account clearing)"

definition auditExternalOutboundTransfer ::
  "env \<Rightarrow> nat \<Rightarrow> RecordTransferInput \<Rightarrow> Transfer \<Rightarrow> Account \<Rightarrow> Account \<Rightarrow> unit tx" where
  "auditExternalOutboundTransfer e k input transfer account clearing =
     auditWhen e k (externalOutboundTransferAuditInput input transfer account clearing)"

definition auditExternalInboundTransfer ::
  "env \<Rightarrow> nat \<Rightarrow> RecordTransferInput \<Rightarrow> Transfer \<Rightarrow> Account \<Rightarrow> unit tx" where
  "auditExternalInboundTransfer e k input transfer account =
     auditWhen e k (externalInboundTransferAuditInput transfer account (in_FailureReason input))"

definition auditExternalInboundReview ::
  "env \<Rightarrow> nat \<Rightarrow> RecordProviderEventReviewInput \<Rightarrow> Transfer \<Rightarrow> Account \<Rightarrow> unit tx" where
  "auditExternalInboundReview e k input transfer account =
     auditWhen e k
       (case externalInboundTransferAuditInput transfer account (rv_FailureReason input) of
          None \<Rightarrow> None
        | Some a \<Rightarrow>
            Some (a\<lparr>ai_Action := AuditActionExternalInboundReview,
                    ai_Metadata :=
                      (if rv_FailureReason input \<noteq> []
                       then AList.update ''review_reason'' (rv_FailureReason input) (ai_Metadata a)
                       else ai_Metadata a)\<rparr>))"

lemmas transfer_audit_defs =
  auditPostedInternalTransfer_def auditExternalOutboundTransfer_def auditExternalInboundTransfer_def
  auditExternalInboundReview_def

text \<open>
  Posted internal transfers and external inbound transfers are audited by different rules; no
  transfer is audited twice by one settlement.
\<close>

lemma audit_inputs_disjoint:
  assumes "tr_Provider transfer = in_Provider input" "tr_Direction transfer = in_Direction input"
  shows "postedInternalTransferAuditInput input transfer account clearing = None \<or>
         externalInboundTransferAuditInput transfer account reason = None"
  using assms
  by (auto simp: postedInternalTransferAuditInput_def externalInboundTransferAuditInput_def)

end
