(* ===== verification/Fingerprint.thy ===== *)
theory Fingerprint
  imports Model
begin

text \<open>
  \<open>idempotency.go\<close>: the request fingerprint that decides whether a repeated idempotency key is a
  replay or a conflict.  The SHA-256 digest is the parameter \<open>ext_sha256_hex\<close>.
\<close>

definition fingerprint_text :: "string list \<Rightarrow> string" where
  "fingerprint_text values = Join (map TrimSpace values) unit_separator"

definition fingerprintValues :: "externals \<Rightarrow> string list \<Rightarrow> string" where
  "fingerprintValues x values = ''v1:'' @ ext_sha256_hex x (fingerprint_text values)"

definition record_transfer_fields :: "RecordTransferInput \<Rightarrow> string list" where
  "record_transfer_fields input =
     [''record_transfer'', in_InstitutionID input, in_Provider input, in_Direction input,
      in_Status input, in_AccountID input, in_ClearingAccountID input,
      FormatInt (in_AmountMinor input), in_CurrencyID input, in_ProviderReference input,
      in_ProviderEventID input, in_ProviderStatus input, in_ReversalOfTransferID input,
      FormatBool (in_RejectInsufficient input), FormatBool (in_RequireAvailable input)]"

definition transferRequestFingerprint :: "externals \<Rightarrow> RecordTransferInput \<Rightarrow> string" where
  "transferRequestFingerprint x input =
     (let fingerprint = TrimSpace (in_RequestFingerprint input) in
      if fingerprint \<noteq> [] then fingerprint
      else fingerprintValues x (record_transfer_fields input))"

definition transferRequestFingerprintMatches :: "Transfer \<Rightarrow> string \<Rightarrow> bool" where
  "transferRequestFingerprintMatches transfer requestFingerprint \<longleftrightarrow>
     TrimSpace (tr_RequestFingerprint transfer) \<noteq> [] \<and>
     TrimSpace (tr_RequestFingerprint transfer) = TrimSpace requestFingerprint"

definition mockTransferRequestFingerprint :: "externals \<Rightarrow> string \<Rightarrow> TransferRequest \<Rightarrow> string" where
  "mockTransferRequestFingerprint x direction req =
     fingerprintValues x
       [''mock_transfer'', direction, req_InstitutionID req, req_AccountID req,
        FormatInt (req_AmountMinor req), req_CurrencyID req, req_IdempotencyKey req,
        req_ProviderReference req, req_ProviderEventID req, req_Status req, req_Scenario req,
        FormatInt (req_DelaySeconds req)]"

text \<open>A computed fingerprint is never blank, since it starts with the version prefix.\<close>

lemma TrimSpace_keeps_head:
  assumes "\<forall>r\<in>set space_runes. \<forall>t. c # s \<noteq> r @ t" and "c \<noteq> CHR 0x20"
    and "\<forall>r\<in>set space_runes. c \<notin> set r"
  shows "TrimSpace (c # s) \<noteq> []"
proof
  assume empty: "TrimSpace (c # s) = []"
  have l: "trim_left space_runes (c # s) = c # s"
    using assms(1) by (intro trim_left_id) (simp add: strip_rune_None_iff)
  obtain p where "rev (c # s) = p @ trim_left (map rev space_runes) (rev (c # s))"
    using trim_left_suffix by blast
  have kept: "c \<in> set (trim_left (map rev space_runes) u)" if "c \<in> set u" for u
    using that
  proof (induction "map rev space_runes" u rule: trim_left.induct)
    case (1 u)
    show ?case
    proof (cases "strip_rune (map rev space_runes) u")
      case None
      with 1 show ?thesis by (simp add: trim_left_id)
    next
      case (Some t)
      then obtain r where r: "r \<in> set space_runes" "u = rev r @ t"
        using strip_rune_SomeD [OF Some] by auto
      with assms(3) 1 have "c \<in> set t" by auto
      with 1 Some show ?thesis
        by (subst trim_left.simps) auto
    qed
  qed
  from empty have "trim_left (map rev space_runes) (rev (c # s)) = []"
    unfolding TrimSpace_def l by simp
  with kept [of "rev (c # s)"] show False by simp
qed

lemma fingerprintValues_nonblank: "TrimSpace (fingerprintValues x values) \<noteq> []"
proof -
  have "TrimSpace (CHR ''v'' # ''1:'' @ ext_sha256_hex x (fingerprint_text values)) \<noteq> []"
    by (rule TrimSpace_keeps_head) (auto simp: space_runes_def)
  then show ?thesis by (simp add: fingerprintValues_def)
qed

lemma transferRequestFingerprint_nonblank: "TrimSpace (transferRequestFingerprint x input) \<noteq> []"
  by (simp add: transferRequestFingerprint_def Let_def fingerprintValues_nonblank)

text \<open>The stored fingerprint of an input matches the fingerprint of the same input.\<close>

lemma fingerprint_replay:
  "tr_RequestFingerprint t = transferRequestFingerprint x input \<Longrightarrow>
     transferRequestFingerprintMatches t (transferRequestFingerprint x input)"
  by (simp add: transferRequestFingerprintMatches_def transferRequestFingerprint_nonblank)

text \<open>
  When no two texts the program hashes collide, equal fingerprints mean equal trimmed fields, as
  long as no field contains the separator byte.
\<close>

lemma fingerprint_text_inj:
  assumes "values \<noteq> []" "values' \<noteq> []"
    and "\<forall>v\<in>set values. CHR 0x1F \<notin> set (TrimSpace v)"
    and "\<forall>v\<in>set values'. CHR 0x1F \<notin> set (TrimSpace v)"
    and "fingerprint_text values = fingerprint_text values'"
  shows "map TrimSpace values = map TrimSpace values'"
  using assms unfolding fingerprint_text_def by (intro Join_separator_inj) auto

end
