(* ===== verification/Policy.thy ===== *)
theory Policy
  imports Model
begin

text \<open>
  \<open>policy.go\<close>: the account policy of a transfer (who may spend, which account states block it), the
  reversal-deficit test, and the ledger and reconciliation statuses that go with a status.
\<close>

definition customerInitiatedOutbound :: "RecordTransferInput \<Rightarrow> bool" where
  "customerInitiatedOutbound input \<longleftrightarrow>
     in_Direction input = TransferDirectionOutbound \<and> in_ReversalOfTransferID input = []"

definition canUseAvailableBalance :: "Account \<Rightarrow> int \<Rightarrow> int \<Rightarrow> bool" where
  "canUseAvailableBalance account availableMinor amountMinor =
     (if acc_AllowNegative account then True
      else if acc_Kind account \<noteq> AccountKindCustomer then True
      else availableMinor \<ge> amountMinor)"

definition enforcePrimaryAccountControls :: "RecordTransferInput \<Rightarrow> Account \<Rightarrow> error + unit" where
  "enforcePrimaryAccountControls input account =
     (if acc_Kind account \<noteq> AccountKindCustomer then Inr ()
      else if acc_Status account = AccountStatusFrozen \<or> acc_Status account = AccountStatusClosed
      then Inl ErrInvalidRequest
      else if acc_Status account = AccountStatusPostNoDebit \<and>
              in_Direction input = TransferDirectionOutbound
      then Inl ErrInvalidRequest
      else Inr ())"

definition enforceCounterpartyAccountControls :: "RecordTransferInput \<Rightarrow> Account \<Rightarrow> error + unit" where
  "enforceCounterpartyAccountControls input account =
     (if acc_Kind account \<noteq> AccountKindCustomer then Inr ()
      else if acc_Status account = AccountStatusFrozen \<or> acc_Status account = AccountStatusClosed
      then Inl ErrInvalidRequest
      else Inr ())"

definition enforceTransferControls :: "RecordTransferInput \<Rightarrow> Account \<Rightarrow> Account \<Rightarrow> error + unit" where
  "enforceTransferControls input account clearing =
     (case enforcePrimaryAccountControls input account of
        Inl err \<Rightarrow> Inl err
      | Inr _ \<Rightarrow> enforceCounterpartyAccountControls input clearing)"

definition wouldCreateReversalDeficit :: "Account \<Rightarrow> AccountBalance \<Rightarrow> RecordTransferInput \<Rightarrow> bool" where
  "wouldCreateReversalDeficit account balance input =
     (if in_ReversalOfTransferID input = [] \<or> in_Direction input \<noteq> TransferDirectionOutbound then False
      else if acc_Kind account \<noteq> AccountKindCustomer \<or> acc_AllowNegative account then False
      else int64_wrap (bal_LedgerMinor balance - in_AmountMinor input) < 0)"

definition transferStatuses :: "string \<Rightarrow> string \<times> string" where
  "transferStatuses status =
     (if status = TransferStatusSucceeded then (LedgerStatusPosted, ReconciliationStatusMatched)
      else if status = TransferStatusFailed then (LedgerStatusNoPosting, ReconciliationStatusNoAction)
      else (LedgerStatusPending, ReconciliationStatusPending))"

text \<open>The status vocabularies of \<open>service.go\<close>.\<close>

definition validTransferStatus :: "string \<Rightarrow> bool" where
  "validTransferStatus status \<longleftrightarrow>
     status \<in> {TransferStatusSucceeded, TransferStatusPending, TransferStatusFailed}"

definition validProviderStatus :: "string \<Rightarrow> bool" where
  "validProviderStatus status \<longleftrightarrow>
     status \<in> {TransferStatusSucceeded, TransferStatusPending, TransferStatusFailed,
       TransferProviderStatusUnknown}"

definition requeryableProviderStatus :: "string \<Rightarrow> bool" where
  "requeryableProviderStatus status \<longleftrightarrow> status \<in> {TransferStatusPending, TransferProviderStatusUnknown}"

text \<open>
  The controls as one condition: a blocked customer account on either side, or a post-no-debit
  account on the debited side, stops the transfer; nothing else does.
\<close>

definition blocked :: "Account \<Rightarrow> bool" where
  "blocked a \<longleftrightarrow>
     acc_Kind a = AccountKindCustomer \<and>
     (acc_Status a = AccountStatusFrozen \<or> acc_Status a = AccountStatusClosed)"

definition no_debit :: "Account \<Rightarrow> bool" where
  "no_debit a \<longleftrightarrow> acc_Kind a = AccountKindCustomer \<and> acc_Status a = AccountStatusPostNoDebit"

lemma enforceTransferControls_iff:
  "enforceTransferControls input account clearing = Inr u \<longleftrightarrow>
     \<not> blocked account \<and> \<not> blocked clearing \<and>
     \<not> (no_debit account \<and> in_Direction input = TransferDirectionOutbound)"
  by (auto simp: enforceTransferControls_def enforcePrimaryAccountControls_def
      enforceCounterpartyAccountControls_def blocked_def no_debit_def)

lemma enforceTransferControls_error:
  "enforceTransferControls input account clearing = Inl err \<Longrightarrow> err = ErrInvalidRequest"
  by (auto simp: enforceTransferControls_def enforcePrimaryAccountControls_def
      enforceCounterpartyAccountControls_def split: if_splits)

lemma transferStatuses_simps [simp]:
  "transferStatuses TransferStatusSucceeded = (LedgerStatusPosted, ReconciliationStatusMatched)"
  "transferStatuses TransferStatusFailed = (LedgerStatusNoPosting, ReconciliationStatusNoAction)"
  "transferStatuses TransferStatusPending = (LedgerStatusPending, ReconciliationStatusPending)"
  by (simp_all add: transferStatuses_def)

end
