(* ===== verification/Ledger.thy ===== *)
theory Ledger
  imports Store
begin

text \<open>
  \<open>sql_ledger_repository.go\<close>: posting a journal of two legs and applying each leg to the balance row
  of its account.  The lemmas describe the rows a successful \<open>postJournal\<close> writes and what the legs
  do to the two balances of an account.
\<close>

section \<open>Reading a journal\<close>

definition GetJournal :: "string \<Rightarrow> string \<Rightarrow> JournalWithPostings tx" where
  "GetJournal institutionID journalEntryID =
     txBind (getRow (\<lambda>s. select_one (\<lambda>j. je_InstitutionID j = institutionID \<and> je_ID j = journalEntryID)
         (journal_entries s))) (\<lambda>entry.
     txBind (txGets (\<lambda>s. sort_key (\<lambda>p. (po_CreatedAt p, po_ID p))
         (filter (\<lambda>p. po_InstitutionID p = institutionID \<and> po_JournalEntryID p = journalEntryID)
           (postings s)))) (\<lambda>posts.
     txReturn
       \<lparr>jp_JournalEntry = entry, jp_Postings = posts,
        jp_Balanced = (je_TotalDebitMinor entry = je_TotalCreditMinor entry)\<rparr>))"

section \<open>Posting\<close>

record postingBalanceOptions =
  HeldAccountID :: string

definition bal_key :: "string \<Rightarrow> string \<Rightarrow> AccountBalance \<Rightarrow> bool" where
  "bal_key i a b \<longleftrightarrow> bal_InstitutionID b = i \<and> bal_AccountID b = a"

text \<open>The change of the ledger balance: the sign rule of the account's normal balance.\<close>

definition postingDelta :: "string \<Rightarrow> string \<Rightarrow> int \<Rightarrow> int" where
  "postingDelta normalBalance direction amountMinor =
     (if (normalBalance = NormalBalanceDebit \<and> direction = PostingDebit) \<or>
         (normalBalance = NormalBalanceCredit \<and> direction = PostingCredit)
      then amountMinor else int64_wrap (- amountMinor))"

definition applyPostingBalance ::
  "string \<Rightarrow> string \<Rightarrow> string \<Rightarrow> string \<Rightarrow> int \<Rightarrow> string \<Rightarrow> time \<Rightarrow> bool \<Rightarrow> int \<Rightarrow> unit tx" where
  "applyPostingBalance institutionID accountID normalBalance direction amountMinor journalID now
     availableDeltaOverride availableDelta =
     (let delta = postingDelta normalBalance direction amountMinor;
          availableDelta = (if \<not> availableDeltaOverride then delta else availableDelta)
      in execOneRow (update_balances (bal_key institutionID accountID)
           (\<lambda>b. b\<lparr>bal_AvailableMinor := bal_AvailableMinor b + availableDelta,
                  bal_LedgerMinor := bal_LedgerMinor b + delta,
                  bal_LastJournalEntryID := Some journalID,
                  bal_UpdatedAt := now\<rparr>)))"

definition normal_rows :: "store \<Rightarrow> string \<Rightarrow> string \<Rightarrow> string \<Rightarrow> (string \<times> string) list" where
  "normal_rows s i a b =
     map (\<lambda>r. (acc_ID r, acc_NormalBalance r))
       (filter (\<lambda>r. acc_InstitutionID r = i \<and> acc_ID r \<in> {a, b}) (accounts s))"

definition normalBalances :: "string \<Rightarrow> string \<Rightarrow> string \<Rightarrow> (string \<rightharpoonup> string) tx" where
  "normalBalances institutionID firstAccountID secondAccountID =
     txBind (txGets (\<lambda>s. map_of (rev (normal_rows s institutionID firstAccountID secondAccountID))))
       (\<lambda>balances.
     txThen (txEnsure (balances firstAccountID \<noteq> None) ErrNotFound)
     (txThen (txEnsure (balances secondAccountID \<noteq> None) ErrNotFound)
     (txReturn balances)))"

text \<open>A Go map read without the \<open>ok\<close> result.\<close>

definition map_get :: "(string \<rightharpoonup> string) \<Rightarrow> string \<Rightarrow> string" where
  "map_get m k = (case m k of None \<Rightarrow> [] | Some v \<Rightarrow> v)"

definition new_posting ::
  "env \<Rightarrow> RecordTransferInput \<Rightarrow> string \<Rightarrow> time \<Rightarrow> nat \<Rightarrow> string \<times> string \<Rightarrow> Posting" where
  "new_posting e input journalID now k leg =
     \<lparr>po_ID = env_uuid e (DrawPosting k), po_InstitutionID = in_InstitutionID input,
      po_JournalEntryID = journalID, po_AccountID = fst leg, po_Direction = snd leg,
      po_AmountMinor = in_AmountMinor input, po_CurrencyID = in_CurrencyID input, po_CreatedAt = now\<rparr>"

primrec postLegs ::
  "env \<Rightarrow> RecordTransferInput \<Rightarrow> string \<Rightarrow> time \<Rightarrow> postingBalanceOptions \<Rightarrow> (string \<rightharpoonup> string) \<Rightarrow> nat \<Rightarrow>
     (string \<times> string) list \<Rightarrow> unit tx" where
  "postLegs e input journalID now options balances k [] = txReturn ()"
| "postLegs e input journalID now options balances k (leg # legs) =
     txThen (insert_posting (new_posting e input journalID now k leg))
     (txThen (applyPostingBalance (in_InstitutionID input) (fst leg) (map_get balances (fst leg))
         (snd leg) (in_AmountMinor input) journalID now (fst leg = HeldAccountID options) 0)
     (postLegs e input journalID now options balances (Suc k) legs))"

definition new_journal :: "env \<Rightarrow> RecordTransferInput \<Rightarrow> string \<Rightarrow> time \<Rightarrow> JournalEntry" where
  "new_journal e input transferID now =
     \<lparr>je_ID = env_uuid e DrawJournal, je_InstitutionID = in_InstitutionID input,
      je_TransferID = Some transferID,
      je_EntryType = (if in_ReversalOfTransferID input \<noteq> [] then TransferDirectionReversal
                      else in_Direction input),
      je_CurrencyID = in_CurrencyID input, je_Narration = in_Narration input,
      je_TotalDebitMinor = in_AmountMinor input, je_TotalCreditMinor = in_AmountMinor input,
      je_CreatedAt = now\<rparr>"

definition debitAccount :: "RecordTransferInput \<Rightarrow> string" where
  "debitAccount input =
     (if in_Direction input = TransferDirectionOutbound then in_AccountID input
      else in_ClearingAccountID input)"

definition creditAccount :: "RecordTransferInput \<Rightarrow> string" where
  "creditAccount input =
     (if in_Direction input = TransferDirectionOutbound then in_ClearingAccountID input
      else in_AccountID input)"

definition postJournal ::
  "env \<Rightarrow> RecordTransferInput \<Rightarrow> string \<Rightarrow> time \<Rightarrow> postingBalanceOptions \<Rightarrow> string tx" where
  "postJournal e input transferID now options =
     (let journalID = env_uuid e DrawJournal in
      txThen (insert_journal (new_journal e input transferID now))
      (txBind (normalBalances (in_InstitutionID input) (debitAccount input) (creditAccount input))
        (\<lambda>balances.
       txThen (postLegs e input journalID now options balances 0
          [(debitAccount input, PostingDebit), (creditAccount input, PostingCredit)])
       (txReturn journalID))))"

section \<open>What the books say\<close>

text \<open>The normal balance the repository looks up for an account of an institution.\<close>

definition normal_of :: "store \<Rightarrow> string \<Rightarrow> string \<rightharpoonup> string" where
  "normal_of s i = map_of (rev (map (\<lambda>r. (acc_ID r, acc_NormalBalance r))
     (filter (\<lambda>r. acc_InstitutionID r = i) (accounts s))))"

definition ledger_of :: "store \<Rightarrow> string \<Rightarrow> string \<Rightarrow> int" where
  "ledger_of s i a = sum_rows (bal_key i a) bal_LedgerMinor (account_balances s)"

definition available_of :: "store \<Rightarrow> string \<Rightarrow> string \<Rightarrow> int" where
  "available_of s i a = sum_rows (bal_key i a) bal_AvailableMinor (account_balances s)"

definition hold_key :: "string \<Rightarrow> string \<Rightarrow> AccountHold \<Rightarrow> bool" where
  "hold_key i a h \<longleftrightarrow> ho_InstitutionID h = i \<and> ho_AccountID h = a \<and> ho_Status h = HoldStatusActive"

definition active_holds :: "store \<Rightarrow> string \<Rightarrow> string \<Rightarrow> int" where
  "active_holds s i a = sum_rows (hold_key i a) ho_AmountMinor (account_holds s)"

definition signed :: "string option \<Rightarrow> string \<Rightarrow> int \<Rightarrow> int" where
  "signed normal direction amount =
     (if (normal = Some NormalBalanceDebit \<and> direction = PostingDebit) \<or>
         (normal = Some NormalBalanceCredit \<and> direction = PostingCredit)
      then amount else - amount)"

definition post_key :: "string \<Rightarrow> string \<Rightarrow> Posting \<Rightarrow> bool" where
  "post_key i a p \<longleftrightarrow> po_InstitutionID p = i \<and> po_AccountID p = a"

definition posted :: "store \<Rightarrow> string \<Rightarrow> string \<Rightarrow> int" where
  "posted s i a =
     sum_rows (post_key i a) (\<lambda>p. signed (normal_of s i a) (po_Direction p) (po_AmountMinor p)) (postings s)"

definition debits :: "Posting list \<Rightarrow> int" where
  "debits ps = sum_rows (\<lambda>p. po_Direction p = PostingDebit) po_AmountMinor ps"

definition credits :: "Posting list \<Rightarrow> int" where
  "credits ps = sum_rows (\<lambda>p. po_Direction p = PostingCredit) po_AmountMinor ps"

lemma postingDelta_signed:
  assumes "0 < amount" and "in_int64 amount"
  shows "postingDelta n d amount = signed (Some n) d amount"
proof -
  from assms have "int64_wrap (- amount) = - amount"
    by (intro int64_wrap_id in_int64_uminus)
  then show ?thesis by (simp add: postingDelta_def signed_def)
qed

lemma map_of_filter_key: "k \<in> K \<Longrightarrow> map_of (filter (\<lambda>(x, _). x \<in> K) xs) k = map_of xs k"
  by (induction xs) auto

lemma normal_rows_map:
  assumes "k \<in> {a, b}"
  shows "map_of (rev (normal_rows s i a b)) k = normal_of s i k"
proof -
  let ?row = "\<lambda>r. (acc_ID r, acc_NormalBalance r)"
  have "rev (normal_rows s i a b) =
     filter (\<lambda>(x, _). x \<in> {a, b}) (rev (map ?row (filter (\<lambda>r. acc_InstitutionID r = i) (accounts s))))"
    by (simp add: normal_rows_def rev_map rev_filter filter_map o_def conj_commute)
  then show ?thesis
    unfolding normal_of_def by (simp only: map_of_filter_key [OF assms])
qed

lemma normalBalances_Inr:
  "normalBalances i a b s = Inr (m, s') \<longleftrightarrow>
     s' = s \<and> m = map_of (rev (normal_rows s i a b)) \<and> normal_of s i a \<noteq> None \<and> normal_of s i b \<noteq> None"
  by (auto simp: normalBalances_def tx_simps normal_rows_map)

section \<open>Moving a balance\<close>

text \<open>
  The one balance row of an account gets a new available and ledger balance, within the range of
  \<open>bigint\<close>; every other row is left alone.
\<close>

definition moved :: "string \<Rightarrow> string \<Rightarrow> int \<Rightarrow> int \<Rightarrow> AccountBalance list \<Rightarrow> AccountBalance list \<Rightarrow> bool" where
  "moved i a dA dL bs bs' \<longleftrightarrow>
     count_rows (bal_key i a) bs = 1 \<and>
     (\<exists>f. bs' = update_rows (bal_key i a) f bs \<and>
       (\<forall>b. bal_InstitutionID (f b) = bal_InstitutionID b \<and> bal_AccountID (f b) = bal_AccountID b \<and>
          bal_CurrencyID (f b) = bal_CurrencyID b \<and>
          bal_AvailableMinor (f b) = bal_AvailableMinor b + dA \<and>
          bal_LedgerMinor (f b) = bal_LedgerMinor b + dL) \<and>
       (\<forall>b\<in>set bs. bal_key i a b \<longrightarrow> balance_in_range (f b)))"

lemma movedI:
  assumes "execOneRow (update_balances (bal_key i a) f) s = Inr (u, s')"
    and "\<And>b. bal_InstitutionID (f b) = bal_InstitutionID b \<and> bal_AccountID (f b) = bal_AccountID b \<and>
          bal_CurrencyID (f b) = bal_CurrencyID b \<and>
          bal_AvailableMinor (f b) = bal_AvailableMinor b + dA \<and>
          bal_LedgerMinor (f b) = bal_LedgerMinor b + dL"
  shows "\<exists>bs. s' = s\<lparr>account_balances := bs\<rparr> \<and> moved i a dA dL (account_balances s) bs"
  using assms by (auto simp: tx_simps moved_def)

lemma moved_sum:
  assumes "moved i a dA dL bs bs'"
  shows "sum_rows (bal_key i' a') bal_LedgerMinor bs' =
      sum_rows (bal_key i' a') bal_LedgerMinor bs + (if i' = i \<and> a' = a then dL else 0)"
    and "sum_rows (bal_key i' a') bal_AvailableMinor bs' =
      sum_rows (bal_key i' a') bal_AvailableMinor bs + (if i' = i \<and> a' = a then dA else 0)"
proof -
  from assms obtain f where one: "count_rows (bal_key i a) bs = 1"
    and bs': "bs' = update_rows (bal_key i a) f bs"
    and f: "\<And>b. bal_InstitutionID (f b) = bal_InstitutionID b \<and> bal_AccountID (f b) = bal_AccountID b \<and>
          bal_AvailableMinor (f b) = bal_AvailableMinor b + dA \<and>
          bal_LedgerMinor (f b) = bal_LedgerMinor b + dL"
    by (auto simp: moved_def)
  have hit: "sum_rows (bal_key i a) v bs' = sum_rows (bal_key i a) v bs + d"
    if "\<And>b. v (f b) = v b + d" for v d
    unfolding bs' using f that one by (subst sum_rows_update_add [where d = d]) (auto simp: bal_key_def)
  have miss: "sum_rows (bal_key i' a') v bs' = sum_rows (bal_key i' a') v bs"
    if "\<not> (i' = i \<and> a' = a)" for v :: "AccountBalance \<Rightarrow> int"
    unfolding bs' using f that by (intro sum_rows_update_same) (auto simp: bal_key_def)
  show "sum_rows (bal_key i' a') bal_LedgerMinor bs' =
      sum_rows (bal_key i' a') bal_LedgerMinor bs + (if i' = i \<and> a' = a then dL else 0)"
    using hit [of bal_LedgerMinor dL] miss [of bal_LedgerMinor] f by auto
  show "sum_rows (bal_key i' a') bal_AvailableMinor bs' =
      sum_rows (bal_key i' a') bal_AvailableMinor bs + (if i' = i \<and> a' = a then dA else 0)"
    using hit [of bal_AvailableMinor dA] miss [of bal_AvailableMinor] f by auto
qed

lemma moved_keys:
  assumes "moved i a dA dL bs bs'"
  shows "map bal_AccountID bs' = map bal_AccountID bs"
    and "map (\<lambda>b. (bal_InstitutionID b, bal_AccountID b, bal_CurrencyID b)) bs' =
         map (\<lambda>b. (bal_InstitutionID b, bal_AccountID b, bal_CurrencyID b)) bs"
    and "\<And>P. (\<And>b. P b \<Longrightarrow> bal_InstitutionID b \<noteq> i) \<Longrightarrow> filter P bs' = filter P bs"
    and "list_all balance_in_range bs \<Longrightarrow> list_all balance_in_range bs'"
proof -
  from assms obtain f where bs': "bs' = update_rows (bal_key i a) f bs"
    and f: "\<And>b. bal_InstitutionID (f b) = bal_InstitutionID b \<and> bal_AccountID (f b) = bal_AccountID b \<and>
          bal_CurrencyID (f b) = bal_CurrencyID b"
    and range: "\<And>b. b \<in> set bs \<Longrightarrow> bal_key i a b \<Longrightarrow> balance_in_range (f b)"
    by (auto simp: moved_def)
  show "map bal_AccountID bs' = map bal_AccountID bs"
    "map (\<lambda>b. (bal_InstitutionID b, bal_AccountID b, bal_CurrencyID b)) bs' =
         map (\<lambda>b. (bal_InstitutionID b, bal_AccountID b, bal_CurrencyID b)) bs"
    unfolding bs' using f by (auto intro: map_update_rows_same)
  show "filter P bs' = filter P bs" if "\<And>b. P b \<Longrightarrow> bal_InstitutionID b \<noteq> i" for P
    unfolding bs' using f that by (induction bs) (auto simp: bal_key_def)
  show "list_all balance_in_range bs'" if "list_all balance_in_range bs"
    unfolding bs' using range that by (auto simp: list_all_iff set_update_rows)
qed

section \<open>The effect of a journal\<close>

definition leg_posted ::
  "string \<Rightarrow> int \<Rightarrow> string \<Rightarrow> string \<Rightarrow> string \<Rightarrow> store \<Rightarrow> JournalEntry \<Rightarrow> Posting \<Rightarrow>
     AccountBalance list \<Rightarrow> AccountBalance list \<Rightarrow> bool" where
  "leg_posted i amount held a d s j p bs bs' \<longleftrightarrow>
     po_InstitutionID p = i \<and> po_JournalEntryID p = je_ID j \<and> po_AccountID p = a \<and>
     po_Direction p = d \<and> po_AmountMinor p = amount \<and> po_ID p \<notin> po_ID ` set (postings s) \<and>
     account_exists s a \<and> normal_of s i a \<noteq> None \<and>
     moved i a (if a = held then 0 else signed (normal_of s i a) d amount)
       (signed (normal_of s i a) d amount) bs bs'"

definition journal_effect ::
  "string \<Rightarrow> string \<Rightarrow> int \<Rightarrow> string \<Rightarrow> string \<Rightarrow> string \<Rightarrow> JournalEntry \<Rightarrow> store \<Rightarrow> store \<Rightarrow> bool" where
  "journal_effect i k amount db cr held j s s' \<longleftrightarrow>
     0 < amount \<and> je_InstitutionID j = i \<and> je_TransferID j = Some k \<and>
     je_TotalDebitMinor j = amount \<and> je_TotalCreditMinor j = amount \<and> \<not> journal_exists s (je_ID j) \<and>
     institution_exists s i \<and>
     (\<exists>p1 p2 b1 b2.
        leg_posted i amount held db PostingDebit s j p1 (account_balances s) b1 \<and>
        leg_posted i amount held cr PostingCredit s j p2 b1 b2 \<and> po_ID p1 \<noteq> po_ID p2 \<and>
        s' = s\<lparr>journal_entries := journal_entries s @ [j], postings := postings s @ [p1, p2],
               account_balances := b2\<rparr>)"

lemma normal_of_frame [simp]:
  "normal_of (s\<lparr>journal_entries := x1\<rparr>) = normal_of s"
  "normal_of (s\<lparr>postings := x2\<rparr>) = normal_of s"
  "normal_of (s\<lparr>account_balances := x3\<rparr>) = normal_of s"
  "normal_of (s\<lparr>transfers := x4\<rparr>) = normal_of s"
  "normal_of (s\<lparr>account_holds := x5\<rparr>) = normal_of s"
  "normal_of (s\<lparr>provider_events := x6\<rparr>) = normal_of s"
  "normal_of (s\<lparr>audit_events := x7\<rparr>) = normal_of s"
  "normal_of (s\<lparr>advisory_locks := x8\<rparr>) = normal_of s"
  "normal_of (s\<lparr>customers := x9\<rparr>) = normal_of s"
  by (simp_all add: normal_of_def fun_eq_iff)

lemma applyPostingBalance_Inr:
  assumes "applyPostingBalance i a n d amount j now override 0 s = Inr (u, s')"
    and "0 < amount" "in_int64 amount"
  shows "\<exists>bs. s' = s\<lparr>account_balances := bs\<rparr> \<and>
     moved i a (if override then 0 else signed (Some n) d amount) (signed (Some n) d amount)
       (account_balances s) bs"
  using assms(1) unfolding applyPostingBalance_def Let_def postingDelta_signed [OF assms(2,3)]
  by (rule movedI) auto

text \<open>One leg: a posting row and a move of the balance of its account.\<close>

lemma post_leg_Inr:
  assumes "insert_posting (new_posting e input j now k (a, d)) s0 = Inr (u, s1)"
    and "applyPostingBalance (in_InstitutionID input) a n d (in_AmountMinor input) j now (a = held) 0 s1
         = Inr (u', s2)"
  shows "po_ID (new_posting e input j now k (a, d)) \<notin> po_ID ` set (postings s0) \<and> account_exists s0 a \<and>
     institution_exists s0 (in_InstitutionID input) \<and> 0 < in_AmountMinor input \<and>
     in_int64 (in_AmountMinor input) \<and> d \<in> {PostingDebit, PostingCredit} \<and>
     (\<exists>bs. s2 = s0\<lparr>postings := postings s0 @ [new_posting e input j now k (a, d)], account_balances := bs\<rparr> \<and>
       moved (in_InstitutionID input) a (if a = held then 0 else signed (Some n) d (in_AmountMinor input))
         (signed (Some n) d (in_AmountMinor input)) (account_balances s0) bs)"
proof -
  let ?p = "new_posting e input j now k (a, d)"
  from assms(1) have one: "po_ID ?p \<notin> po_ID ` set (postings s0)" "account_exists s0 a"
    "institution_exists s0 (in_InstitutionID input)" "0 < in_AmountMinor input"
    "in_int64 (in_AmountMinor input)" "d \<in> {PostingDebit, PostingCredit}"
    and s1: "s1 = s0\<lparr>postings := postings s0 @ [?p]\<rparr>"
    by (auto simp: insert_posting_Inr new_posting_def)
  from applyPostingBalance_Inr [OF assms(2) one(4,5)] obtain bs where
    "s2 = s1\<lparr>account_balances := bs\<rparr>"
    "moved (in_InstitutionID input) a (if a = held then 0 else signed (Some n) d (in_AmountMinor input))
         (signed (Some n) d (in_AmountMinor input)) (account_balances s0) bs"
    by (auto simp: s1)
  with one s1 show ?thesis by auto
qed

lemma map_get_normal: "normal_of s i a \<noteq> None \<Longrightarrow> a \<in> {x, y} \<Longrightarrow>
    Some (map_get (map_of (rev (normal_rows s i x y))) a) = normal_of s i a"
  by (auto simp: map_get_def normal_rows_map)

lemma postJournal_effect:
  assumes "postJournal e input k now options s = Inr (jid, s')"
  shows "jid = env_uuid e DrawJournal \<and>
    journal_effect (in_InstitutionID input) k (in_AmountMinor input) (debitAccount input)
      (creditAccount input) (HeldAccountID options) (new_journal e input k now) s s'"
proof -
  let ?i = "in_InstitutionID input" and ?j = "new_journal e input k now"
  let ?db = "debitAccount input" and ?cr = "creditAccount input" and ?m = "in_AmountMinor input"
  let ?jid = "env_uuid e DrawJournal"
  let ?p1 = "new_posting e input ?jid now 0 (?db, PostingDebit)"
  let ?p2 = "new_posting e input ?jid now (Suc 0) (?cr, PostingCredit)"
  let ?s1 = "s\<lparr>journal_entries := journal_entries s @ [?j]\<rparr>"
  let ?bal = "map_of (rev (normal_rows ?s1 ?i ?db ?cr))"
  from assms obtain s2 s3 s4 where
    jid: "jid = ?jid" and fresh: "\<not> journal_exists s (je_ID ?j)" and
    n: "normal_of s ?i ?db \<noteq> None" "normal_of s ?i ?cr \<noteq> None" and
    p1: "insert_posting ?p1 ?s1 = Inr ((), s2)" and
    a1: "applyPostingBalance ?i ?db (map_get ?bal ?db) PostingDebit ?m ?jid now
           (?db = HeldAccountID options) 0 s2 = Inr ((), s3)" and
    p2: "insert_posting ?p2 s3 = Inr ((), s4)" and
    a2: "applyPostingBalance ?i ?cr (map_get ?bal ?cr) PostingCredit ?m ?jid now
           (?cr = HeldAccountID options) 0 s4 = Inr ((), s')"
    unfolding postJournal_def Let_def
    by (auto simp add: txBind_Inr txThen_Inr insert_journal_Inr normalBalances_Inr simp del: txBind_return)
  have keys: "je_ID ?j = ?jid" "je_InstitutionID ?j = ?i" "je_TransferID ?j = Some k"
    "je_TotalDebitMinor ?j = ?m" "je_TotalCreditMinor ?j = ?m"
    by (simp_all add: new_journal_def)
  have bal: "Some (map_get ?bal ?db) = normal_of s ?i ?db" "Some (map_get ?bal ?cr) = normal_of s ?i ?cr"
    using n map_get_normal [of ?s1 ?i] by auto
  from post_leg_Inr [OF p1 a1] obtain b1 where leg1:
    "leg_posted ?i ?m (HeldAccountID options) ?db PostingDebit s ?j ?p1 (account_balances s) b1"
    "s3 = s\<lparr>journal_entries := journal_entries s @ [?j], postings := postings s @ [?p1], account_balances := b1\<rparr>"
    and base: "0 < ?m" "institution_exists s ?i"
    unfolding bal leg_posted_def using n keys
    by (auto simp: new_posting_def account_exists_def institution_exists_def)
  from post_leg_Inr [OF p2 a2] obtain b2 where leg2:
    "leg_posted ?i ?m (HeldAccountID options) ?cr PostingCredit s ?j ?p2 b1 b2" "po_ID ?p1 \<noteq> po_ID ?p2"
    "s' = s\<lparr>journal_entries := journal_entries s @ [?j], postings := postings s @ [?p1, ?p2], account_balances := b2\<rparr>"
    unfolding bal leg_posted_def using n keys leg1(2)
    by (auto simp: new_posting_def account_exists_def)
  from jid fresh base keys leg1(1) leg2 show ?thesis
    unfolding journal_effect_def by blast
qed

section \<open>What a journal does to the books\<close>

lemma journal_effect_books:
  assumes "journal_effect i k amount db cr held j s s'"
  shows "ledger_of s' i' a - ledger_of s i' a = posted s' i' a - posted s i' a"
    and "available_of s' i' a - available_of s i' a =
      (ledger_of s' i' a - ledger_of s i' a) -
      (if i' = i \<and> a = held \<and> a = db then signed (normal_of s i a) PostingDebit amount else 0) -
      (if i' = i \<and> a = held \<and> a = cr then signed (normal_of s i a) PostingCredit amount else 0)"
    and "debits (postings s') = debits (postings s) + amount"
    and "credits (postings s') = credits (postings s) + amount"
proof -
  from assms obtain p1 p2 b1 b2 where
    l1: "leg_posted i amount held db PostingDebit s j p1 (account_balances s) b1" and
    l2: "leg_posted i amount held cr PostingCredit s j p2 b1 b2" and
    s': "s' = s\<lparr>journal_entries := journal_entries s @ [j], postings := postings s @ [p1, p2],
               account_balances := b2\<rparr>"
    by (auto simp: journal_effect_def)
  from l1 l2 have m: "moved i db (if db = held then 0 else signed (normal_of s i db) PostingDebit amount)
       (signed (normal_of s i db) PostingDebit amount) (account_balances s) b1"
     "moved i cr (if cr = held then 0 else signed (normal_of s i cr) PostingCredit amount)
       (signed (normal_of s i cr) PostingCredit amount) b1 b2"
    and p: "po_InstitutionID p1 = i" "po_AccountID p1 = db" "po_Direction p1 = PostingDebit"
      "po_AmountMinor p1 = amount" "po_InstitutionID p2 = i" "po_AccountID p2 = cr"
      "po_Direction p2 = PostingCredit" "po_AmountMinor p2 = amount"
    by (simp_all add: leg_posted_def)
  show "ledger_of s' i' a - ledger_of s i' a = posted s' i' a - posted s i' a"
    using p by (simp add: s' ledger_of_def posted_def moved_sum(1) [OF m(1)] moved_sum(1) [OF m(2)] post_key_def)
  show "available_of s' i' a - available_of s i' a =
      (ledger_of s' i' a - ledger_of s i' a) -
      (if i' = i \<and> a = held \<and> a = db then signed (normal_of s i a) PostingDebit amount else 0) -
      (if i' = i \<and> a = held \<and> a = cr then signed (normal_of s i a) PostingCredit amount else 0)"
    unfolding s' ledger_of_def available_of_def
    by (cases "a = db"; cases "a = cr"; cases "a = held")
      (auto simp: moved_sum [OF m(1)] moved_sum [OF m(2)])
  show "debits (postings s') = debits (postings s) + amount"
    "credits (postings s') = credits (postings s) + amount"
    using p by (simp_all add: s' debits_def credits_def)
qed

end
