(* ===== verification/Holds.thy ===== *)
theory Holds
  imports Ledger
begin

text \<open>
  \<open>sql_holds.go\<close>: the hold of a pending outbound transfer.  Creating it takes its amount out of the
  available balance, releasing it gives the amount back, and consuming it leaves the balance to the
  posting that settles the transfer.  A transfer has at most one hold, by the unique index
  \<open>account_holds_transfer_unique_idx\<close>.
\<close>

definition create_hold :: "env \<Rightarrow> Transfer \<Rightarrow> time \<Rightarrow> unit tx" where
  "create_hold e transfer now =
     txThen (insert_hold
       \<lparr>ho_ID = env_uuid e DrawHold, ho_InstitutionID = tr_InstitutionID transfer,
        ho_AccountID = tr_AccountID transfer, ho_TransferID = Some (tr_ID transfer),
        ho_AmountMinor = tr_AmountMinor transfer, ho_CurrencyID = tr_CurrencyID transfer,
        ho_Status = HoldStatusActive, ho_Reason = ''pending_outbound_transfer'',
        ho_Reference = tr_ProviderReference transfer, ho_CreatedAt = now, ho_UpdatedAt = now,
        ho_ReleasedAt = None\<rparr>)
     (execOneRow (update_balances (bal_key (tr_InstitutionID transfer) (tr_AccountID transfer))
       (\<lambda>b. b\<lparr>bal_AvailableMinor := bal_AvailableMinor b - tr_AmountMinor transfer,
              bal_UpdatedAt := now\<rparr>)))"

definition active_for :: "string \<Rightarrow> string \<Rightarrow> AccountHold \<Rightarrow> bool" where
  "active_for institutionID transferID h \<longleftrightarrow>
     ho_InstitutionID h = institutionID \<and> ho_TransferID h = Some transferID \<and>
     ho_Status h = HoldStatusActive"

definition getActiveForTransfer :: "string \<Rightarrow> string \<Rightarrow> AccountHold tx" where
  "getActiveForTransfer institutionID transferID =
     getRow (\<lambda>s. select_one (active_for institutionID transferID) (account_holds s))"

definition getForTransfer :: "string \<Rightarrow> string \<Rightarrow> AccountHold tx" where
  "getForTransfer institutionID transferID =
     getRow (\<lambda>s. select_one (\<lambda>h. ho_InstitutionID h = institutionID \<and> ho_TransferID h = Some transferID)
       (account_holds s))"

definition hold_id :: "string \<Rightarrow> string \<Rightarrow> AccountHold \<Rightarrow> bool" where
  "hold_id institutionID holdID h \<longleftrightarrow> ho_InstitutionID h = institutionID \<and> ho_ID h = holdID"

definition release_hold :: "string \<Rightarrow> string \<Rightarrow> time \<Rightarrow> unit tx" where
  "release_hold institutionID transferID now =
     ifFound (getActiveForTransfer institutionID transferID)
       (\<lambda>hold.
         txThen (execOneRow (update_holds (hold_id institutionID (ho_ID hold))
           (\<lambda>h. h\<lparr>ho_Status := HoldStatusReleased, ho_UpdatedAt := now, ho_ReleasedAt := Some now\<rparr>)))
         (execOneRow (update_balances (bal_key institutionID (ho_AccountID hold))
           (\<lambda>b. b\<lparr>bal_AvailableMinor := bal_AvailableMinor b + ho_AmountMinor hold,
                  bal_UpdatedAt := now\<rparr>))))
       (txReturn ())"

definition consume_hold :: "string \<Rightarrow> string \<Rightarrow> time \<Rightarrow> unit tx" where
  "consume_hold institutionID transferID now =
     txBind (getActiveForTransfer institutionID transferID) (\<lambda>hold.
     execOneRow (update_holds (hold_id institutionID (ho_ID hold))
       (\<lambda>h. h\<lparr>ho_Status := HoldStatusConsumed, ho_UpdatedAt := now, ho_ReleasedAt := Some now\<rparr>)))"

section \<open>Effects\<close>

text \<open>
  The two things that happen to a hold: a new active row appears, or one active row gets its final
  status; the sum of the active holds of an account moves by its amount.
\<close>

definition hold_placed :: "AccountHold \<Rightarrow> store \<Rightarrow> store \<Rightarrow> bool" where
  "hold_placed h s s' \<longleftrightarrow>
     ho_Status h = HoldStatusActive \<and> 0 < ho_AmountMinor h \<and> hold_unique h s \<and>
     institution_exists s (ho_InstitutionID h) \<and> account_exists s (ho_AccountID h) \<and>
     (\<exists>bs. moved (ho_InstitutionID h) (ho_AccountID h) (- ho_AmountMinor h) 0 (account_balances s) bs \<and>
       s' = s\<lparr>account_holds := account_holds s @ [h], account_balances := bs\<rparr>)"

definition closes_hold :: "(AccountHold \<Rightarrow> AccountHold) \<Rightarrow> string \<Rightarrow> bool" where
  "closes_hold f status \<longleftrightarrow>
     (\<forall>h. \<exists>now. f h = h\<lparr>ho_Status := status, ho_UpdatedAt := now, ho_ReleasedAt := Some now\<rparr>)"

definition hold_closed :: "AccountHold \<Rightarrow> string \<Rightarrow> AccountHold list \<Rightarrow> AccountHold list \<Rightarrow> bool" where
  "hold_closed h status hs hs' \<longleftrightarrow>
     h \<in> set hs \<and> ho_Status h = HoldStatusActive \<and> status \<noteq> HoldStatusActive \<and>
     (\<exists>U f. closes_hold f status \<and> count_rows U hs = 1 \<and> U h \<and>
        (\<forall>x. U x \<longrightarrow> ho_ID x = ho_ID h \<and> ho_InstitutionID x = ho_InstitutionID h) \<and>
        hs' = update_rows U f hs)"

definition hold_released :: "AccountHold \<Rightarrow> store \<Rightarrow> store \<Rightarrow> bool" where
  "hold_released h s s' \<longleftrightarrow>
     (\<exists>hs bs. hold_closed h HoldStatusReleased (account_holds s) hs \<and>
        moved (ho_InstitutionID h) (ho_AccountID h) (ho_AmountMinor h) 0 (account_balances s) bs \<and>
        s' = s\<lparr>account_holds := hs, account_balances := bs\<rparr>)"

definition hold_consumed :: "AccountHold \<Rightarrow> store \<Rightarrow> store \<Rightarrow> bool" where
  "hold_consumed h s s' \<longleftrightarrow>
     (\<exists>hs. hold_closed h HoldStatusConsumed (account_holds s) hs \<and> s' = s\<lparr>account_holds := hs\<rparr>)"

lemma hold_closed_member:
  assumes "hold_closed h status hs hs'" and "x \<in> set hs'"
  shows "\<exists>y\<in>set hs. ho_ID x = ho_ID y \<and> ho_InstitutionID x = ho_InstitutionID y \<and>
      ho_AccountID x = ho_AccountID y \<and> ho_TransferID x = ho_TransferID y \<and>
      ho_AmountMinor x = ho_AmountMinor y \<and> ho_CurrencyID x = ho_CurrencyID y \<and>
      (if y = h then ho_Status x = status else x = y)"
proof -
  from assms obtain U f where f: "closes_hold f status" and one: "count_rows U hs = 1" "U h"
    and hs': "hs' = update_rows U f hs" and h: "h \<in> set hs"
    by (auto simp: hold_closed_def)
  from assms(2) obtain y where y: "y \<in> set hs" "x = (if U y then f y else y)"
    by (auto simp: hs' set_update_rows)
  have "U y \<longleftrightarrow> y = h" using count_rows_one_unique [OF one(1) h one(2) y(1)] one(2) by auto
  moreover obtain now where
    "f y = y\<lparr>ho_Status := status, ho_UpdatedAt := now, ho_ReleasedAt := Some now\<rparr>"
    using f by (auto simp: closes_hold_def)
  ultimately show ?thesis using y by (intro bexI [of _ y]) auto
qed

lemma hold_closed_keys:
  assumes "hold_closed h status hs hs'"
  shows "map (\<lambda>x. (ho_ID x, ho_InstitutionID x, ho_AccountID x, ho_TransferID x, ho_AmountMinor x, ho_Reference x)) hs' =
    map (\<lambda>x. (ho_ID x, ho_InstitutionID x, ho_AccountID x, ho_TransferID x, ho_AmountMinor x, ho_Reference x)) hs"
proof -
  from assms obtain U f where f: "closes_hold f status" and hs': "hs' = update_rows U f hs"
    by (auto simp: hold_closed_def)
  have "ho_ID (f x) = ho_ID x \<and> ho_InstitutionID (f x) = ho_InstitutionID x \<and>
    ho_AccountID (f x) = ho_AccountID x \<and> ho_TransferID (f x) = ho_TransferID x \<and>
    ho_AmountMinor (f x) = ho_AmountMinor x \<and> ho_Reference (f x) = ho_Reference x" for x
  proof -
    from f obtain now where
      "f x = x\<lparr>ho_Status := status, ho_UpdatedAt := now, ho_ReleasedAt := Some now\<rparr>"
      unfolding closes_hold_def by blast
    then show ?thesis by simp
  qed
  then show ?thesis unfolding hs' by (intro map_update_rows_same) simp
qed

lemma hold_closed_sum:
  assumes "hold_closed h status hs hs'"
  shows "sum_rows (hold_key i a) ho_AmountMinor hs' = sum_rows (hold_key i a) ho_AmountMinor hs -
     (if i = ho_InstitutionID h \<and> a = ho_AccountID h then ho_AmountMinor h else 0)"
proof -
  from assms obtain U f where f: "closes_hold f status" and one: "count_rows U hs = 1" "U h"
    and hs': "hs' = update_rows U f hs" and h: "h \<in> set hs" "ho_Status h = HoldStatusActive"
    and st: "status \<noteq> HoldStatusActive"
    by (auto simp: hold_closed_def)
  have closed: "\<not> hold_key i a (f x)" for x
    using f st by (auto simp: closes_hold_def hold_key_def dest: spec [of _ x])
  have only: "x = h" if "x \<in> set hs" "U x" for x
    by (rule count_rows_one_unique [OF one(1) h(1) one(2) that])
  show ?thesis
  proof (cases "hold_key i a h")
    case True
    from sum_rows_update_drop [OF one(1) h(1) one(2), of "hold_key i a" f ho_AmountMinor] True closed
    show ?thesis by (auto simp: hs' hold_key_def)
  next
    case False
    have "sum_rows (hold_key i a) ho_AmountMinor hs' = sum_rows (hold_key i a) ho_AmountMinor hs"
      unfolding hs' using closed False only by (intro sum_rows_update_same) auto
    with False h show ?thesis by (auto simp: hold_key_def)
  qed
qed

section \<open>What the operations do\<close>

lemma create_hold_effect:
  assumes "create_hold e t now s = Inr (u, s')"
  shows "\<exists>h. hold_placed h s s' \<and> ho_InstitutionID h = tr_InstitutionID t \<and>
     ho_AccountID h = tr_AccountID t \<and> ho_TransferID h = Some (tr_ID t) \<and>
     ho_AmountMinor h = tr_AmountMinor t \<and> ho_CurrencyID h = tr_CurrencyID t"
proof -
  from assms obtain h s1 where
    ins: "insert_hold h s = Inr ((), s1)" and
    bal: "execOneRow (update_balances (bal_key (tr_InstitutionID t) (tr_AccountID t))
       (\<lambda>b. b\<lparr>bal_AvailableMinor := bal_AvailableMinor b - tr_AmountMinor t, bal_UpdatedAt := now\<rparr>)) s1
       = Inr ((), s')" and
    h: "ho_InstitutionID h = tr_InstitutionID t" "ho_AccountID h = tr_AccountID t"
      "ho_TransferID h = Some (tr_ID t)" "ho_AmountMinor h = tr_AmountMinor t"
      "ho_CurrencyID h = tr_CurrencyID t" "ho_Status h = HoldStatusActive"
    unfolding create_hold_def txThen_Inr by fastforce
  from ins have i: "0 < ho_AmountMinor h" "hold_unique h s" "institution_exists s (ho_InstitutionID h)"
    "account_exists s (ho_AccountID h)" "s1 = s\<lparr>account_holds := account_holds s @ [h]\<rparr>"
    by (auto simp: insert_hold_Inr)
  from movedI [OF bal, of "- tr_AmountMinor t" 0] obtain bs where
    "s' = s1\<lparr>account_balances := bs\<rparr>"
    "moved (tr_InstitutionID t) (tr_AccountID t) (- tr_AmountMinor t) 0 (account_balances s) bs"
    by (auto simp: i)
  with h i have "hold_placed h s s'" by (auto simp: hold_placed_def)
  with h show ?thesis by blast
qed

lemma getActiveForTransfer_Inr:
  "getActiveForTransfer i k s = Inr (h, s') \<longleftrightarrow>
     select_one (active_for i k) (account_holds s) = Some h \<and> s' = s"
  by (simp add: getActiveForTransfer_def getRow_Inr)

lemma closes_hold_intro:
  "closes_hold (\<lambda>h. h\<lparr>ho_Status := status, ho_UpdatedAt := now, ho_ReleasedAt := Some now\<rparr>) status"
  by (auto simp: closes_hold_def)

lemma close_row:
  assumes "execOneRow (update_holds (hold_id i (ho_ID h))
      (\<lambda>h. h\<lparr>ho_Status := status, ho_UpdatedAt := now, ho_ReleasedAt := Some now\<rparr>)) s = Inr (u, s')"
    and "h \<in> set (account_holds s)" "active_for i k h" "status \<noteq> HoldStatusActive"
  shows "\<exists>hs. hold_closed h status (account_holds s) hs \<and> s' = s\<lparr>account_holds := hs\<rparr>"
proof -
  from assms(1) have one: "count_rows (hold_id i (ho_ID h)) (account_holds s) = 1"
    and s': "s' = s\<lparr>account_holds := update_rows (hold_id i (ho_ID h))
      (\<lambda>h. h\<lparr>ho_Status := status, ho_UpdatedAt := now, ho_ReleasedAt := Some now\<rparr>) (account_holds s)\<rparr>"
    by (auto simp: execOneRow_Inr update_holds_Inr)
  have "hold_closed h status (account_holds s) (update_rows (hold_id i (ho_ID h))
      (\<lambda>h. h\<lparr>ho_Status := status, ho_UpdatedAt := now, ho_ReleasedAt := Some now\<rparr>) (account_holds s))"
    unfolding hold_closed_def
    by (intro conjI exI [of _ "hold_id i (ho_ID h)"] exI) (use assms one closes_hold_intro in
      \<open>auto simp: hold_id_def active_for_def\<close>)
  with s' show ?thesis by blast
qed

lemma consume_hold_effect:
  assumes "consume_hold i k now s = Inr (u, s')"
  shows "\<exists>h. select_one (active_for i k) (account_holds s) = Some h \<and> hold_consumed h s s'"
proof -
  from assms obtain h where h: "select_one (active_for i k) (account_holds s) = Some h"
    and c: "execOneRow (update_holds (hold_id i (ho_ID h))
      (\<lambda>h. h\<lparr>ho_Status := HoldStatusConsumed, ho_UpdatedAt := now, ho_ReleasedAt := Some now\<rparr>)) s
      = Inr (u, s')"
    by (auto simp: consume_hold_def txBind_Inr getActiveForTransfer_Inr)
  from select_one_SomeD [OF h] close_row [OF c] have "hold_consumed h s s'"
    by (auto simp: hold_consumed_def)
  with h show ?thesis by blast
qed

lemma release_hold_effect:
  assumes "release_hold i k now s = Inr (u, s')"
  shows "select_one (active_for i k) (account_holds s) = None \<and> s' = s \<or>
     (\<exists>h. select_one (active_for i k) (account_holds s) = Some h \<and> hold_released h s s')"
proof (cases "select_one (active_for i k) (account_holds s)")
  case None
  with assms show ?thesis
    by (simp add: release_hold_def getActiveForTransfer_def ifFound_getRow)
next
  case (Some h)
  with assms obtain s1 where
    c: "execOneRow (update_holds (hold_id i (ho_ID h))
      (\<lambda>h. h\<lparr>ho_Status := HoldStatusReleased, ho_UpdatedAt := now, ho_ReleasedAt := Some now\<rparr>)) s
      = Inr ((), s1)" and
    b: "execOneRow (update_balances (bal_key i (ho_AccountID h))
           (\<lambda>b. b\<lparr>bal_AvailableMinor := bal_AvailableMinor b + ho_AmountMinor h,
                  bal_UpdatedAt := now\<rparr>)) s1 = Inr (u, s')"
    by (auto simp: release_hold_def getActiveForTransfer_def ifFound_getRow txThen_Inr)
  from select_one_SomeD [OF Some] have h: "h \<in> set (account_holds s)" "active_for i k h" by auto
  from close_row [OF c h] obtain hs where
    hs: "hold_closed h HoldStatusReleased (account_holds s) hs" "s1 = s\<lparr>account_holds := hs\<rparr>" by auto
  from movedI [OF b, of "ho_AmountMinor h" 0] obtain bs where
    "s' = s1\<lparr>account_balances := bs\<rparr>" "moved i (ho_AccountID h) (ho_AmountMinor h) 0 (account_balances s) bs"
    by (auto simp: hs)
  with hs h have "hold_released h s s'" by (auto simp: hold_released_def active_for_def)
  with Some show ?thesis by blast
qed

text \<open>The available balance net of the active holds is what none of the three operations changes.\<close>

definition hold_gap :: "store \<Rightarrow> string \<Rightarrow> string \<Rightarrow> int" where
  "hold_gap s i a = available_of s i a - ledger_of s i a + active_holds s i a"

lemma hold_placed_gap: "hold_placed h s s' \<Longrightarrow> hold_gap s' i a = hold_gap s i a"
  by (auto simp: hold_placed_def hold_gap_def available_of_def ledger_of_def active_holds_def moved_sum
      hold_key_def)

lemma hold_released_gap: "hold_released h s s' \<Longrightarrow> hold_gap s' i a = hold_gap s i a"
  by (auto simp: hold_released_def hold_gap_def available_of_def ledger_of_def active_holds_def moved_sum
      hold_closed_sum)

lemma hold_consumed_gap:
  "hold_consumed h s s' \<Longrightarrow>
     hold_gap s' i a = hold_gap s i a -
       (if i = ho_InstitutionID h \<and> a = ho_AccountID h then ho_AmountMinor h else 0)"
  by (auto simp: hold_consumed_def hold_gap_def available_of_def ledger_of_def active_holds_def
      hold_closed_sum)

end
