(* ===== verification/ProviderEvents.thy ===== *)
theory ProviderEvents
  imports Store Fingerprint
begin

text \<open>
  \<open>sql_provider_event_repository.go\<close>: the reservation of a provider's event identifier, which makes a
  redelivered event a replay, and \<open>existingProviderEventTransfer\<close> of \<open>sql_transfer_repository.go\<close>.
\<close>

definition reserve ::
  "env \<Rightarrow> externals \<Rightarrow> RecordTransferInput \<Rightarrow> string \<Rightarrow> time \<Rightarrow> bool tx" where
  "reserve e x input transferID now =
     (let linkedTransferID = (if transferID \<noteq> [] then Some transferID else None);
          requestFingerprint = transferRequestFingerprint x input
      in txBind (insert_event
           \<lparr>pe_ID = env_uuid e DrawProviderEvent, pe_InstitutionID = in_InstitutionID input,
            pe_Provider = in_Provider input, pe_ProviderEventID = in_ProviderEventID input,
            pe_ProviderReference = in_ProviderReference input, pe_TransferID = linkedTransferID,
            pe_RequestFingerprint = requestFingerprint, pe_CreatedAt = now\<rparr>) (\<lambda>rows.
         txReturn (rows = 1)))"

definition input_event :: "RecordTransferInput \<Rightarrow> ProviderEvent \<Rightarrow> bool" where
  "input_event input =
     event_key (in_InstitutionID input) (in_Provider input) (in_ProviderEventID input)"

definition payloadMatches :: "RecordTransferInput \<Rightarrow> string \<Rightarrow> bool tx" where
  "payloadMatches input requestFingerprint =
     txBind (getRow (\<lambda>s. select_one (input_event input) (provider_events s))) (\<lambda>existing.
     txReturn (if pe_RequestFingerprint existing = [] then True
               else pe_RequestFingerprint existing = requestFingerprint))"

definition event_transfer :: "string \<Rightarrow> string \<Rightarrow> string \<Rightarrow> store \<Rightarrow> Transfer option" where
  "event_transfer institutionID provider providerEventID s =
     (case select_one (\<lambda>r. event_key institutionID provider providerEventID r \<and> pe_TransferID r \<noteq> None)
         (provider_events s) of
        None \<Rightarrow> None
      | Some r \<Rightarrow> select_one (\<lambda>t. tr_InstitutionID t = institutionID \<and> Some (tr_ID t) = pe_TransferID r)
          (transfers s))"

definition getEventTransfer :: "string \<Rightarrow> string \<Rightarrow> string \<Rightarrow> Transfer tx" where
  "getEventTransfer institutionID provider providerEventID =
     getRow (event_transfer institutionID provider providerEventID)"

definition linkTransfer :: "string \<Rightarrow> string \<Rightarrow> string \<Rightarrow> string \<Rightarrow> unit tx" where
  "linkTransfer transferID institutionID provider providerEventID =
     txBind (update_events (\<lambda>r. event_key institutionID provider providerEventID r \<and>
         (pe_TransferID r = None \<or> pe_TransferID r = Some transferID))
       (\<lambda>r. r\<lparr>pe_TransferID := Some transferID\<rparr>)) (\<lambda>rows.
     txEnsure (rows = 1) ErrConflict)"

definition existingProviderEventTransfer :: "RecordTransferInput \<Rightarrow> string \<Rightarrow> Transfer tx" where
  "existingProviderEventTransfer input requestFingerprint =
     txBind (payloadMatches input requestFingerprint) (\<lambda>ok.
     txThen (txEnsure ok ErrConflict)
     (ifFound (getEventTransfer (in_InstitutionID input) (in_Provider input) (in_ProviderEventID input))
        txReturn (txFail ErrConflict)))"

section \<open>What they read and write\<close>

text \<open>Only \<open>provider_events\<close> is written: a row appended, or the transfer of a row filled in.\<close>

lemma reserve_effect:
  assumes "reserve e x input k now s = Inr (b, s')"
  shows "\<exists>es. s' = s\<lparr>provider_events := provider_events s @ es\<rparr> \<and>
     (b \<longleftrightarrow> es \<noteq> []) \<and>
     (b \<longleftrightarrow> \<not> (\<exists>r\<in>set (provider_events s). input_event input r)) \<and>
     (\<forall>r\<in>set es. input_event input r \<and>
        pe_RequestFingerprint r = transferRequestFingerprint x input \<and>
        pe_TransferID r = (if k \<noteq> [] then Some k else None)) \<and> length es \<le> 1"
  using assms
  by (auto simp: reserve_def Let_def tx_simps input_event_def event_key_def split: if_splits
      intro: exI [of _ "[]"])

lemma payloadMatches_Inr:
  "payloadMatches input fp s = Inr (ok, s') \<longleftrightarrow> s' = s \<and>
     (\<exists>r. select_one (input_event input) (provider_events s) = Some r \<and>
        ok = (pe_RequestFingerprint r = [] \<or> pe_RequestFingerprint r = fp))"
  by (auto simp: payloadMatches_def tx_simps)

lemma getEventTransfer_Inr:
  "getEventTransfer i p k s = Inr (t, s') \<longleftrightarrow> s' = s \<and> event_transfer i p k s = Some t"
  by (auto simp: getEventTransfer_def tx_simps)

lemma existingProviderEventTransfer_Inr:
  "existingProviderEventTransfer input fp s = Inr (t, s') \<longleftrightarrow> s' = s \<and>
     (\<exists>r. select_one (input_event input) (provider_events s) = Some r \<and>
        (pe_RequestFingerprint r = [] \<or> pe_RequestFingerprint r = fp)) \<and>
     event_transfer (in_InstitutionID input) (in_Provider input) (in_ProviderEventID input) s = Some t"
  by (auto simp: existingProviderEventTransfer_def tx_simps payloadMatches_Inr getEventTransfer_def
      ifFound_getRow split: option.splits)

lemma event_transfer_SomeD:
  "event_transfer i p k s = Some t \<Longrightarrow> t \<in> set (transfers s) \<and> tr_InstitutionID t = i"
  by (auto simp: event_transfer_def split: option.splits dest!: select_one_SomeD)

definition links_event :: "(ProviderEvent \<Rightarrow> ProviderEvent) \<Rightarrow> bool" where
  "links_event f \<longleftrightarrow> (\<forall>r. \<exists>k. f r = r\<lparr>pe_TransferID := k\<rparr>)"

lemma linkTransfer_effect:
  assumes "linkTransfer k i p ev s = Inr (u, s')"
  shows "\<exists>U f. s' = s\<lparr>provider_events := update_rows U f (provider_events s)\<rparr> \<and> links_event f \<and>
     (\<forall>r. U r \<longrightarrow> pe_InstitutionID r = i)"
proof -
  from assms have "s' = s\<lparr>provider_events := update_rows (\<lambda>r. event_key i p ev r \<and>
         (pe_TransferID r = None \<or> pe_TransferID r = Some k)) (\<lambda>r. r\<lparr>pe_TransferID := Some k\<rparr>)
         (provider_events s)\<rparr>"
    by (auto simp: linkTransfer_def tx_simps)
  moreover have "links_event (\<lambda>r. r\<lparr>pe_TransferID := Some k\<rparr>)" by (auto simp: links_event_def)
  ultimately show ?thesis by (auto simp: event_key_def)
qed

end
