(* ===== verification/AccountLocks.thy ===== *)
theory AccountLocks
  imports Ledger
begin

text \<open>
  The balance locks of \<open>sql_account_repository.go\<close>: an account with its balance row, read for
  update, and the pair of accounts of a transfer, locked in the order of their identifiers so that
  two transfers between the same accounts never wait for each other.
\<close>

record lockedAccountBalance =
  lk_Account :: Account
  lk_Balance :: AccountBalance

definition account_row :: "string \<Rightarrow> string \<Rightarrow> store \<Rightarrow> Account option" where
  "account_row institutionID accountID s =
     select_one (\<lambda>a. acc_InstitutionID a = institutionID \<and> acc_ID a = accountID) (accounts s)"

definition balance_row :: "string \<Rightarrow> string \<Rightarrow> store \<Rightarrow> AccountBalance option" where
  "balance_row institutionID accountID s =
     select_one (bal_key institutionID accountID) (account_balances s)"

definition lockAccountBalance :: "string \<Rightarrow> string \<Rightarrow> lockedAccountBalance tx" where
  "lockAccountBalance institutionID accountID =
     txBind (getRow (account_row institutionID accountID)) (\<lambda>account.
     txBind (txMapError (\<lambda>err. if errors_Is err ErrNotFound then ErrDataIntegrity else err)
         (getRow (balance_row institutionID accountID))) (\<lambda>balance.
     txReturn \<lparr>lk_Account = account, lk_Balance = balance\<rparr>))"

definition lockOrder :: "string \<Rightarrow> string \<Rightarrow> string \<times> string" where
  "lockOrder accountID clearingAccountID =
     (if clearingAccountID < accountID then (clearingAccountID, accountID)
      else (accountID, clearingAccountID))"

definition lockTransferAccountBalances ::
  "string \<Rightarrow> string \<Rightarrow> string \<Rightarrow> (lockedAccountBalance \<times> lockedAccountBalance) tx" where
  "lockTransferAccountBalances institutionID accountID clearingAccountID =
     txThen (txEnsure (accountID \<noteq> clearingAccountID) ErrInvalidRequest)
     (case lockOrder accountID clearingAccountID of (firstID, secondID) \<Rightarrow>
      txBind (lockAccountBalance institutionID firstID) (\<lambda>first.
      txBind (lockAccountBalance institutionID secondID) (\<lambda>second.
      txReturn (if acc_ID (lk_Account first) = accountID then (first, second) else (second, first)))))"

definition locked_row :: "string \<Rightarrow> string \<Rightarrow> store \<Rightarrow> lockedAccountBalance option" where
  "locked_row i a s =
     (case (account_row i a s, balance_row i a s) of
        (Some r, Some b) \<Rightarrow> Some \<lparr>lk_Account = r, lk_Balance = b\<rparr>
      | _ \<Rightarrow> None)"

lemma locked_row_Some_iff:
  "locked_row i a s = Some l \<longleftrightarrow>
     account_row i a s = Some (lk_Account l) \<and> balance_row i a s = Some (lk_Balance l)"
  by (cases l) (auto simp: locked_row_def split: option.splits)

lemma lockAccountBalance_Inr:
  "lockAccountBalance i a s = Inr (l, s') \<longleftrightarrow> s' = s \<and> locked_row i a s = Some l"
  by (cases l) (auto simp: lockAccountBalance_def tx_simps locked_row_Some_iff)

text \<open>A missing balance row of an existing account is reported as a broken book.\<close>

lemma lockAccountBalance_Inl:
  "lockAccountBalance i a s = Inl err \<longleftrightarrow>
     (account_row i a s = None \<and> err = ErrNotFound) \<or>
     (account_row i a s \<noteq> None \<and> balance_row i a s = None \<and> err = ErrDataIntegrity)"
  by (cases "account_row i a s"; cases "balance_row i a s")
    (auto simp: lockAccountBalance_def txBind_def getRow_def getContext_def txMapError_def
      normalizeSQLError_def)

lemma account_row_SomeD:
  "account_row i a s = Some r \<Longrightarrow> r \<in> set (accounts s) \<and> acc_InstitutionID r = i \<and> acc_ID r = a"
  by (auto simp: account_row_def dest!: select_one_SomeD)

lemma balance_row_SomeD:
  "balance_row i a s = Some r \<Longrightarrow> r \<in> set (account_balances s) \<and> bal_key i a r"
  by (auto simp: balance_row_def dest!: select_one_SomeD)

lemma locked_row_SomeD:
  "locked_row i a s = Some l \<Longrightarrow>
     lk_Account l \<in> set (accounts s) \<and> acc_InstitutionID (lk_Account l) = i \<and> acc_ID (lk_Account l) = a \<and>
     lk_Balance l \<in> set (account_balances s) \<and> bal_key i a (lk_Balance l)"
  by (auto simp: locked_row_Some_iff dest: account_row_SomeD balance_row_SomeD)

text \<open>The pair comes back as account and clearing account, whichever was locked first.\<close>

lemma lockTransferAccountBalances_Inr:
  "lockTransferAccountBalances i a c s = Inr (p, s') \<longleftrightarrow>
     s' = s \<and> a \<noteq> c \<and> locked_row i a s = Some (fst p) \<and> locked_row i c s = Some (snd p)"
proof (cases "c < a")
  case True
  have "acc_ID (lk_Account x) \<noteq> a" if "locked_row i c s = Some x" for x
    using locked_row_SomeD [OF that] True by auto
  with True show ?thesis
    by (cases p) (auto simp: lockTransferAccountBalances_def lockOrder_def tx_simps lockAccountBalance_Inr)
next
  case False
  then show ?thesis
    by (cases p) (auto simp: lockTransferAccountBalances_def lockOrder_def tx_simps lockAccountBalance_Inr
      dest: locked_row_SomeD)
qed

lemma lockOrder_sym: "lockOrder a c = lockOrder c a"
  by (auto simp: lockOrder_def)

lemma lockOrder_sorted: "lockOrder a c = (x, y) \<Longrightarrow> x \<le> y \<and> {x, y} = {a, c}"
  by (auto simp: lockOrder_def split: if_splits)

end
