(* ===== verification/Transfers.thy ===== *)
theory Transfers
  imports TransferAudit Fingerprint Policy Holds ProviderEvents AccountLocks
begin

text \<open>
  \<open>sql_transfer_repository.go\<close>: recording a transfer, settling a pending one, completing an external
  outbound transfer, the provider requery, the manual-review record of an unmatched provider event,
  and reversals.  Every operation is one database transaction; a repeated request is recognised by
  its idempotency key, its provider event or its provider reference before anything is written.
\<close>

section \<open>Lookups\<close>

definition tr_key :: "string \<Rightarrow> string \<Rightarrow> Transfer \<Rightarrow> bool" where
  "tr_key institutionID transferID t \<longleftrightarrow> tr_InstitutionID t = institutionID \<and> tr_ID t = transferID"

definition getTransferForUpdate :: "string \<Rightarrow> string \<Rightarrow> Transfer tx" where
  "getTransferForUpdate institutionID transferID =
     getRow (\<lambda>s. select_one (tr_key institutionID transferID) (transfers s))"

definition idempotency_row :: "string \<Rightarrow> string \<Rightarrow> store \<Rightarrow> Transfer option" where
  "idempotency_row institutionID idempotencyKey s =
     select_one (\<lambda>t. tr_InstitutionID t = institutionID \<and> tr_IdempotencyKey t = idempotencyKey)
       (transfers s)"

definition getTransferByIdempotency :: "string \<Rightarrow> string \<Rightarrow> Transfer tx" where
  "getTransferByIdempotency institutionID idempotencyKey =
     getRow (idempotency_row institutionID idempotencyKey)"

definition getActiveReversalOf :: "string \<Rightarrow> string \<Rightarrow> Transfer tx" where
  "getActiveReversalOf institutionID originalTransferID =
     getRow (\<lambda>s. select_one (\<lambda>t. tr_InstitutionID t = institutionID \<and>
         tr_ReversalOfTransferID t = Some originalTransferID \<and>
         tr_Direction t = TransferDirectionReversal \<and>
         tr_Status t \<in> {TransferStatusSucceeded, TransferStatusPending}) (transfers s))"

definition provider_reference_key :: "string \<Rightarrow> string \<Rightarrow> string \<Rightarrow> string \<Rightarrow> Transfer \<Rightarrow> bool" where
  "provider_reference_key institutionID provider providerReference direction t \<longleftrightarrow>
     tr_InstitutionID t = institutionID \<and> tr_Provider t = provider \<and>
     tr_ProviderReference t = providerReference \<and> tr_Direction t = direction"

definition pending_reference_row ::
  "string \<Rightarrow> string \<Rightarrow> string \<Rightarrow> string \<Rightarrow> store \<Rightarrow> Transfer option" where
  "pending_reference_row institutionID provider providerReference direction s =
     select_first tr_CreatedAt
       (\<lambda>t. provider_reference_key institutionID provider providerReference direction t \<and>
          tr_Status t = TransferStatusPending) (transfers s)"

definition getPendingTransferByProviderReference ::
  "string \<Rightarrow> string \<Rightarrow> string \<Rightarrow> string \<Rightarrow> Transfer tx" where
  "getPendingTransferByProviderReference institutionID provider providerReference direction =
     getRow (pending_reference_row institutionID provider providerReference direction)"

definition settled_reference_row ::
  "string \<Rightarrow> string \<Rightarrow> string \<Rightarrow> string \<Rightarrow> store \<Rightarrow> Transfer option" where
  "settled_reference_row institutionID provider providerReference direction s =
     select_first (\<lambda>t. (- tr_UpdatedAt t, - tr_CreatedAt t))
       (\<lambda>t. provider_reference_key institutionID provider providerReference direction t \<and>
          tr_Status t \<noteq> TransferStatusPending) (transfers s)"

definition getSettledTransferByProviderReference ::
  "string \<Rightarrow> string \<Rightarrow> string \<Rightarrow> string \<Rightarrow> Transfer tx" where
  "getSettledTransferByProviderReference institutionID provider providerReference direction =
     getRow (settled_reference_row institutionID provider providerReference direction)"

definition counterparties :: "Transfer \<Rightarrow> string \<Rightarrow> store \<Rightarrow> string list" where
  "counterparties original journalID s =
     sort (map po_AccountID
       (filter (\<lambda>p. po_InstitutionID p = tr_InstitutionID original \<and> po_JournalEntryID p = journalID \<and>
          po_AccountID p \<noteq> tr_AccountID original) (postings s)))"

definition originalCounterpartyAccountID :: "Transfer \<Rightarrow> string tx" where
  "originalCounterpartyAccountID original =
     (case tr_JournalEntryID original of
        None \<Rightarrow> txFail ErrInvalidRequest
      | Some journalID \<Rightarrow>
          txBind (txGets (counterparties original journalID)) (\<lambda>accountIDs.
          case accountIDs of [a] \<Rightarrow> txReturn a | _ \<Rightarrow> txFail ErrDataIntegrity))"

section \<open>Replays\<close>

definition sameTransferReplayFields :: "Transfer \<Rightarrow> RecordTransferInput \<Rightarrow> bool" where
  "sameTransferReplayFields transfer input \<longleftrightarrow>
     tr_InstitutionID transfer = in_InstitutionID input \<and>
     tr_Provider transfer = in_Provider input \<and>
     tr_ProviderReference transfer = in_ProviderReference input \<and>
     tr_Direction transfer = in_Direction input \<and>
     tr_AccountID transfer = in_AccountID input \<and>
     tr_AmountMinor transfer = in_AmountMinor input \<and>
     tr_CurrencyID transfer = in_CurrencyID input \<and>
     (case tr_ReversalOfTransferID transfer of None \<Rightarrow> [] | Some r \<Rightarrow> r) = in_ReversalOfTransferID input"

definition sameTransferReplayByFields :: "Transfer \<Rightarrow> RecordTransferInput \<Rightarrow> bool tx" where
  "sameTransferReplayByFields transfer input =
     (if \<not> sameTransferReplayFields transfer input then txReturn False
      else if tr_JournalEntryID transfer = None \<or> in_ClearingAccountID input = [] then txReturn False
      else txBind (originalCounterpartyAccountID transfer) (\<lambda>counterparty.
        txReturn (counterparty = in_ClearingAccountID input)))"

definition sameTransferReplay :: "Transfer \<Rightarrow> RecordTransferInput \<Rightarrow> string \<Rightarrow> bool tx" where
  "sameTransferReplay transfer input requestFingerprint =
     (if transferRequestFingerprintMatches transfer requestFingerprint then txReturn True
      else if TrimSpace (tr_RequestFingerprint transfer) \<noteq> [] then txReturn False
      else sameTransferReplayByFields transfer input)"

section \<open>Statuses\<close>

definition resolvedProviderStatus :: "RecordTransferInput \<Rightarrow> string" where
  "resolvedProviderStatus input =
     (let providerStatus = ToLower (TrimSpace (in_ProviderStatus input)) in
      if providerStatus = [] then in_Status input else providerStatus)"

text \<open>\<open>*string\<close> of a text that is absent when empty.\<close>

definition optional_text :: "string \<Rightarrow> string option" where
  "optional_text v = (if v \<noteq> [] then Some v else None)"

definition externalOutboundTransferStatuses :: "RecordTransferInput \<Rightarrow> error + string \<times> string" where
  "externalOutboundTransferStatuses input =
     (let providerStatus = resolvedProviderStatus input;
          status = ToLower (TrimSpace (in_Status input));
          status = (if providerStatus = TransferProviderStatusUnknown then TransferStatusPending else status);
          status = (if status = [] then providerStatus else status)
      in if \<not> validTransferStatus status \<or> \<not> validProviderStatus providerStatus
         then Inl ErrInvalidRequest else Inr (status, providerStatus))"

section \<open>Settling a pending transfer\<close>

definition pendingUpdate ::
  "string \<Rightarrow> string \<Rightarrow> string \<Rightarrow> string \<Rightarrow> string \<Rightarrow> string option \<Rightarrow> string option \<Rightarrow> string option \<Rightarrow>
     string \<Rightarrow> time \<Rightarrow> Transfer \<Rightarrow> Transfer" where
  "pendingUpdate status providerStatus ledgerStatus reconciliationStatus providerReference
     providerEventID journalEntryID failure narration now t =
     t\<lparr>tr_Status := status, tr_ProviderStatus := providerStatus, tr_LedgerStatus := ledgerStatus,
       tr_ReconciliationStatus := reconciliationStatus, tr_ProviderReference := providerReference,
       tr_ProviderEventID := providerEventID, tr_JournalEntryID := journalEntryID,
       tr_FailureReason := failure, tr_Narration := narration, tr_UpdatedAt := now\<rparr>"

text \<open>
  The success case that both settlements share: controls, the hold of a customer's outbound transfer,
  the reversal-deficit mark, the journal, and the consumption of the hold.
\<close>

definition settleSucceeded ::
  "env \<Rightarrow> RecordTransferInput \<Rightarrow> Transfer \<Rightarrow> lockedAccountBalance \<Rightarrow> lockedAccountBalance \<Rightarrow>
     string \<Rightarrow> bool \<Rightarrow> string \<times> string \<Rightarrow> time \<Rightarrow> (string \<times> string \<times> string option) tx" where
  "settleSucceeded e input pending account clearing heldAccountID consume statuses now =
     txThen (txLift (enforceTransferControls input (lk_Account account) (lk_Account clearing)))
     (txThen (if customerInitiatedOutbound input \<and> \<not> acc_AllowNegative (lk_Account account)
        then txThen (getActiveForTransfer (tr_InstitutionID pending) (tr_ID pending)) (txReturn ())
        else txReturn ())
     (let deficit = wouldCreateReversalDeficit (lk_Account account) (lk_Balance account) input;
          ledgerStatus = (if deficit then LedgerStatusReversalDeficit else fst statuses);
          reconciliationStatus =
            (if deficit then ReconciliationStatusManualReview else snd statuses)
      in txBind (postJournal e input (tr_ID pending) now \<lparr>HeldAccountID = heldAccountID\<rparr>) (\<lambda>journalID.
         txThen (if consume
           then consume_hold (tr_InstitutionID pending) (tr_ID pending) now else txReturn ())
         (txReturn (ledgerStatus, reconciliationStatus, Some journalID)))))"

definition settleStatus :: "RecordTransferInput \<Rightarrow> string" where
  "settleStatus input =
     (if resolvedProviderStatus input = TransferProviderStatusUnknown then TransferStatusPending
      else in_Status input)"

definition settleStatuses :: "string \<Rightarrow> string \<Rightarrow> string \<times> string" where
  "settleStatuses status providerStatus =
     (let (ledgerStatus, reconciliationStatus) = transferStatuses status in
      (ledgerStatus,
       if providerStatus = TransferProviderStatusUnknown then ReconciliationStatusManualReview
       else reconciliationStatus))"

definition heldOutbound :: "Transfer \<Rightarrow> bool" where
  "heldOutbound pending \<longleftrightarrow>
     tr_Direction pending = TransferDirectionOutbound \<and> tr_ReversalOfTransferID pending = None"

definition heldAccount :: "Transfer \<Rightarrow> string" where
  "heldAccount pending = (if heldOutbound pending then tr_AccountID pending else [])"

definition settleEffects ::
  "env \<Rightarrow> RecordTransferInput \<Rightarrow> Transfer \<Rightarrow> lockedAccountBalance \<Rightarrow> lockedAccountBalance \<Rightarrow> time \<Rightarrow>
     (string \<times> string \<times> string option) tx" where
  "settleEffects e input pending account clearing now =
     (let status = settleStatus input;
          statuses = settleStatuses status (resolvedProviderStatus input)
      in if status = TransferStatusSucceeded
         then settleSucceeded e input pending account clearing (heldAccount pending)
           (heldAccount pending \<noteq> []) statuses now
         else if status = TransferStatusFailed
         then txThen (if heldOutbound pending
                then release_hold (tr_InstitutionID pending) (tr_ID pending) now else txReturn ())
              (txReturn (fst statuses, snd statuses, None))
         else txFail ErrInvalidRequest)"

text \<open>The event of the input is reserved for the pending transfer; a repeated event is a replay.\<close>

definition reserveEventOr ::
  "env \<Rightarrow> externals \<Rightarrow> RecordTransferInput \<Rightarrow> string \<Rightarrow> string \<Rightarrow> time \<Rightarrow> (Transfer \<Rightarrow> 'a) \<Rightarrow> 'a tx \<Rightarrow> 'a tx" where
  "reserveEventOr e x input transferID requestFingerprint now replayed continue =
     (if in_ProviderEventID input \<noteq> []
      then txBind (reserve e x input transferID now) (\<lambda>inserted.
        if \<not> inserted
        then txBind (existingProviderEventTransfer input requestFingerprint) (\<lambda>t. txReturn (replayed t))
        else continue)
      else continue)"

definition settledEventID :: "RecordTransferInput \<Rightarrow> Transfer \<Rightarrow> string option" where
  "settledEventID input pending =
     (if in_ProviderEventID input \<noteq> [] then Some (in_ProviderEventID input)
      else tr_ProviderEventID pending)"

definition settledNarration :: "RecordTransferInput \<Rightarrow> Transfer \<Rightarrow> string" where
  "settledNarration input pending =
     (let narration = TrimSpace (in_Narration input) in
      if narration = [] then tr_Narration pending else narration)"

definition settlePendingTransfer ::
  "env \<Rightarrow> externals \<Rightarrow> Transfer \<Rightarrow> RecordTransferInput \<Rightarrow> Transfer tx" where
  "settlePendingTransfer e x pending input =
     txThen (txEnsure (tr_Direction pending = in_Direction input \<and>
         tr_AccountID pending = in_AccountID input \<and> tr_AmountMinor pending = in_AmountMinor input \<and>
         tr_CurrencyID pending = in_CurrencyID input) ErrConflict)
     (txBind (lockTransferAccountBalances (tr_InstitutionID pending) (tr_AccountID pending)
         (in_ClearingAccountID input)) (\<lambda>(account, clearing).
     let now = env_clock e 0 in
     reserveEventOr e x input (tr_ID pending) (transferRequestFingerprint x input) now id
     (txBind (settleEffects e input pending account clearing now)
         (\<lambda>(ledgerStatus, reconciliationStatus, journalEntryID).
     txThen (update_transfers (tr_key (tr_InstitutionID pending) (tr_ID pending))
         (\<lambda>t. pendingUpdate (settleStatus input) (resolvedProviderStatus input) ledgerStatus
           reconciliationStatus (tr_ProviderReference t) (settledEventID input pending) journalEntryID
           (optional_text (in_FailureReason input)) (settledNarration input pending) now t))
     (txBind (getTransferForUpdate (tr_InstitutionID pending) (tr_ID pending)) (\<lambda>updated.
     txThen (auditPostedInternalTransfer e 0 input updated (lk_Account account) (lk_Account clearing))
     (txThen (auditExternalInboundTransfer e 1 input updated (lk_Account account))
     (txReturn updated))))))))"

definition updatePendingInboundTransferRequery ::
  "env \<Rightarrow> Transfer \<Rightarrow> RecordTransferInput \<Rightarrow> string \<Rightarrow> Transfer tx" where
  "updatePendingInboundTransferRequery e pending input providerStatus =
     txThen (txEnsure (tr_Direction pending = TransferDirectionInbound \<and>
         tr_AccountID pending = in_AccountID input \<and> tr_AmountMinor pending = in_AmountMinor input \<and>
         tr_CurrencyID pending = in_CurrencyID input) ErrConflict)
     (txBind (lockAccountBalance (tr_InstitutionID pending) (tr_AccountID pending)) (\<lambda>account.
     let now = env_clock e 0;
         statuses = settleStatuses TransferStatusPending providerStatus;
         failureReason = TrimSpace (in_FailureReason input);
         failureReason =
           (if providerStatus = TransferProviderStatusUnknown \<and> failureReason = []
            then providerUnknownFailureReason else failureReason)
     in
     txThen (update_transfers (tr_key (tr_InstitutionID pending) (tr_ID pending))
         (\<lambda>t. pendingUpdate TransferStatusPending providerStatus (fst statuses) (snd statuses)
           (in_ProviderReference input) (tr_ProviderEventID t) (tr_JournalEntryID t)
           (optional_text failureReason) (settledNarration input pending) now t))
     (txBind (getTransferForUpdate (tr_InstitutionID pending) (tr_ID pending)) (\<lambda>updated.
     txThen (auditExternalInboundTransfer e 0 (input\<lparr>in_FailureReason := failureReason\<rparr>) updated
         (lk_Account account))
     (txReturn updated)))))"

section \<open>Completing an external outbound transfer\<close>

definition completeEffects ::
  "env \<Rightarrow> RecordTransferInput \<Rightarrow> Transfer \<Rightarrow> lockedAccountBalance \<Rightarrow> lockedAccountBalance \<Rightarrow>
     string \<Rightarrow> string \<Rightarrow> time \<Rightarrow> (string \<times> string \<times> string option) tx" where
  "completeEffects e input pending account clearing status providerStatus now =
     (let statuses = settleStatuses status providerStatus in
      if status = TransferStatusSucceeded
      then settleSucceeded e input pending account clearing (tr_AccountID pending) True statuses now
      else if status = TransferStatusFailed
      then txThen (release_hold (tr_InstitutionID pending) (tr_ID pending) now)
           (txReturn (fst statuses, snd statuses, None))
      else if status = TransferStatusPending
      then txThen (getActiveForTransfer (tr_InstitutionID pending) (tr_ID pending))
           (txReturn (fst statuses, snd statuses, None))
      else txFail ErrInvalidRequest)"

definition completePending ::
  "env \<Rightarrow> externals \<Rightarrow> Transfer \<Rightarrow> RecordTransferInput \<Rightarrow> Transfer tx" where
  "completePending e x pending input =
     txBind (lockTransferAccountBalances (tr_InstitutionID pending) (tr_AccountID pending)
         (in_ClearingAccountID input)) (\<lambda>(account, clearing).
     let now = env_clock e 0 in
     reserveEventOr e x input (tr_ID pending) (transferRequestFingerprint x input) now id
     (txBind (txLift (externalOutboundTransferStatuses input)) (\<lambda>(status, providerStatus).
     txBind (completeEffects e input pending account clearing status providerStatus now)
         (\<lambda>(ledgerStatus, reconciliationStatus, journalEntryID).
     let providerReference = TrimSpace (in_ProviderReference input);
         providerReference =
           (if providerReference = [] then tr_ProviderReference pending else providerReference)
     in
     txThen (update_transfers (tr_key (tr_InstitutionID pending) (tr_ID pending))
         (\<lambda>t. pendingUpdate status providerStatus ledgerStatus reconciliationStatus providerReference
           (settledEventID input pending) journalEntryID
           (optional_text (TrimSpace (in_FailureReason input))) (settledNarration input pending) now t))
     (txBind (getTransferForUpdate (tr_InstitutionID pending) (tr_ID pending)) (\<lambda>updated.
     txThen (if in_ProviderEventID input \<noteq> []
       then linkTransfer (tr_ID updated) (in_InstitutionID input) (in_Provider input)
         (in_ProviderEventID input)
       else txReturn ())
     (txThen (auditExternalOutboundTransfer e 0 input updated (lk_Account account) (lk_Account clearing))
     (txReturn updated))))))))"

definition completeExternalOutboundTransfer ::
  "env \<Rightarrow> externals \<Rightarrow> string \<Rightarrow> RecordTransferInput \<Rightarrow> Transfer tx" where
  "completeExternalOutboundTransfer e x transferID input =
     txThen (txEnsure (transferID \<noteq> [] \<and> in_InstitutionID input \<noteq> [] \<and> in_AccountID input \<noteq> [] \<and>
         in_ClearingAccountID input \<noteq> []) ErrInvalidRequest)
     (txThen (if in_ProviderEventID input \<noteq> []
        then lockReplayKey ''provider_event''
          [in_InstitutionID input, in_Provider input, in_ProviderEventID input]
        else txReturn ())
     (txBind (getTransferForUpdate (in_InstitutionID input) transferID) (\<lambda>pending.
     txThen (txEnsure (tr_Direction pending = TransferDirectionOutbound \<and>
         tr_AccountID pending = in_AccountID input \<and> tr_AmountMinor pending = in_AmountMinor input \<and>
         tr_CurrencyID pending = in_CurrencyID input \<and> tr_Provider pending = in_Provider input)
         ErrConflict)
     (txThen (txEnsure (\<not> (in_RequestFingerprint input \<noteq> [] \<and> tr_RequestFingerprint pending \<noteq> [] \<and>
         in_RequestFingerprint input \<noteq> tr_RequestFingerprint pending)) ErrConflict)
     (if tr_Status pending \<noteq> TransferStatusPending then txReturn pending
      else completePending e x pending input)))))"

section \<open>Recording a transfer\<close>

definition recordTransferLocks :: "RecordTransferInput \<Rightarrow> unit tx" where
  "recordTransferLocks input =
     txThen (if in_IdempotencyKey input \<noteq> []
       then lockReplayKey ''idempotency'' [in_InstitutionID input, in_IdempotencyKey input]
       else txReturn ())
     (txThen (if in_ProviderEventID input \<noteq> []
       then lockReplayKey ''provider_event''
         [in_InstitutionID input, in_Provider input, in_ProviderEventID input]
       else txReturn ())
     (if in_ProviderReference input \<noteq> [] \<and> in_Status input \<noteq> TransferStatusPending
      then lockReplayKey ''provider_reference''
        [in_InstitutionID input, in_Provider input, in_ProviderReference input, in_Direction input]
      else txReturn ()))"

text \<open>What the code decides about a new transfer before it writes anything.\<close>

record transferDecision =
  dec_Status :: string
  dec_ProviderStatus :: string
  dec_LedgerStatus :: string
  dec_ReconciliationStatus :: string
  dec_FailureReason :: string

definition insufficientFunds :: "RecordTransferInput \<Rightarrow> lockedAccountBalance \<Rightarrow> bool" where
  "insufficientFunds input account \<longleftrightarrow>
     (customerInitiatedOutbound input \<and>
        \<not> canUseAvailableBalance (lk_Account account) (bal_AvailableMinor (lk_Balance account))
            (in_AmountMinor input)) \<or>
     (customerInitiatedOutbound input \<and> in_RequireAvailable input \<and>
        bal_AvailableMinor (lk_Balance account) < in_AmountMinor input)"

definition decideTransfer ::
  "RecordTransferInput \<Rightarrow> lockedAccountBalance \<Rightarrow> error + transferDecision" where
  "decideTransfer input account =
     (let providerStatus = resolvedProviderStatus input;
          status = settleStatus input;
          insufficient = insufficientFunds input account
      in if insufficient \<and> in_RejectInsufficient input then Inl ErrInsufficient
         else
           let status = (if insufficient then TransferStatusFailed else status);
               failureReason = (if insufficient then ''insufficient_funds'' else in_FailureReason input);
               statuses = settleStatuses status providerStatus;
               deficit = (status = TransferStatusSucceeded \<and>
                 wouldCreateReversalDeficit (lk_Account account) (lk_Balance account) input)
           in Inr
             \<lparr>dec_Status = status, dec_ProviderStatus = providerStatus,
              dec_LedgerStatus = (if deficit then LedgerStatusReversalDeficit else fst statuses),
              dec_ReconciliationStatus =
                (if deficit then ReconciliationStatusManualReview else snd statuses),
              dec_FailureReason = failureReason\<rparr>)"

definition newTransfer ::
  "env \<Rightarrow> externals \<Rightarrow> RecordTransferInput \<Rightarrow> transferDecision \<Rightarrow> string option \<Rightarrow> time \<Rightarrow> Transfer" where
  "newTransfer e x input d journalEntryID now =
     \<lparr>tr_ID = env_uuid e DrawTransfer, tr_InstitutionID = in_InstitutionID input,
      tr_AccountID = in_AccountID input, tr_Direction = in_Direction input,
      tr_Status = dec_Status d, tr_ProviderStatus = dec_ProviderStatus d,
      tr_LedgerStatus = dec_LedgerStatus d, tr_ReconciliationStatus = dec_ReconciliationStatus d,
      tr_AmountMinor = in_AmountMinor input, tr_CurrencyID = in_CurrencyID input,
      tr_IdempotencyKey = in_IdempotencyKey input, tr_Provider = in_Provider input,
      tr_ProviderReference = in_ProviderReference input,
      tr_ProviderEventID = optional_text (in_ProviderEventID input),
      tr_JournalEntryID = journalEntryID,
      tr_ReversalOfTransferID = optional_text (in_ReversalOfTransferID input),
      tr_RequestFingerprint = transferRequestFingerprint x input,
      tr_FailureReason = optional_text (dec_FailureReason d), tr_Narration = in_Narration input,
      tr_CreatedAt = now, tr_UpdatedAt = now, tr_ReviewStatus = None, tr_ReviewNote = None,
      tr_ReviewedAt = None, tr_ReviewedBy = None\<rparr>"

definition writeNewTransfer ::
  "env \<Rightarrow> externals \<Rightarrow> RecordTransferInput \<Rightarrow> Account \<Rightarrow> Account \<Rightarrow> transferDecision \<Rightarrow> time \<Rightarrow>
     (Transfer \<times> bool) tx" where
  "writeNewTransfer e x input account clearing d now =
     txBind (if dec_Status d = TransferStatusSucceeded
       then txBind (postJournal e input (env_uuid e DrawTransfer) now \<lparr>HeldAccountID = []\<rparr>)
         (\<lambda>journalID. txReturn (Some journalID))
       else txReturn None) (\<lambda>journalEntryID.
     let transfer = newTransfer e x input d journalEntryID now in
     txThen (insert_transfer transfer)
     (txThen (if dec_Status d = TransferStatusPending \<and>
         in_Direction input = TransferDirectionOutbound \<and> in_ReversalOfTransferID input = []
       then create_hold e transfer now else txReturn ())
     (txThen (if in_ProviderEventID input \<noteq> []
       then linkTransfer (tr_ID transfer) (in_InstitutionID input) (in_Provider input)
         (in_ProviderEventID input)
       else txReturn ())
     (txThen (auditPostedInternalTransfer e 0 input transfer account clearing)
     (txThen (auditExternalInboundTransfer e 1 input transfer account)
     (txReturn (transfer, True)))))))"

definition recordNewTransfer ::
  "env \<Rightarrow> externals \<Rightarrow> RecordTransferInput \<Rightarrow> (Transfer \<times> bool) tx" where
  "recordNewTransfer e x input =
     txBind (lockTransferAccountBalances (in_InstitutionID input) (in_AccountID input)
         (in_ClearingAccountID input)) (\<lambda>(account, clearing).
     txThen (txLift (enforceTransferControls input (lk_Account account) (lk_Account clearing)))
     (txBind (txLift (decideTransfer input account)) (\<lambda>d.
     let now = env_clock e 0 in
     reserveEventOr e x input [] (transferRequestFingerprint x input) now (\<lambda>t. (t, False))
       (writeNewTransfer e x input (lk_Account account) (lk_Account clearing) d now))))"

definition recordByReference ::
  "env \<Rightarrow> externals \<Rightarrow> RecordTransferInput \<Rightarrow> (Transfer \<times> bool) tx" where
  "recordByReference e x input =
     (if in_ProviderReference input \<noteq> [] \<and> in_Status input \<noteq> TransferStatusPending
      then ifFound (getPendingTransferByProviderReference (in_InstitutionID input) (in_Provider input)
             (in_ProviderReference input) (in_Direction input))
           (\<lambda>pending. txBind (settlePendingTransfer e x pending input) (\<lambda>t. txReturn (t, False)))
        (ifFound (getSettledTransferByProviderReference (in_InstitutionID input) (in_Provider input)
             (in_ProviderReference input) (in_Direction input))
           (\<lambda>settled. txBind (sameTransferReplayByFields settled input) (\<lambda>ok.
              txThen (txEnsure ok ErrConflict) (txReturn (settled, False))))
           (recordNewTransfer e x input))
      else recordNewTransfer e x input)"

definition recordByEvent ::
  "env \<Rightarrow> externals \<Rightarrow> RecordTransferInput \<Rightarrow> (Transfer \<times> bool) tx" where
  "recordByEvent e x input =
     (if in_ProviderEventID input \<noteq> []
      then ifFound (getEventTransfer (in_InstitutionID input) (in_Provider input) (in_ProviderEventID input))
           (\<lambda>existing. txBind (payloadMatches input (transferRequestFingerprint x input)) (\<lambda>ok.
              txThen (txEnsure ok ErrConflict) (txReturn (existing, False))))
           (recordByReference e x input)
      else recordByReference e x input)"

definition recordTransfer ::
  "env \<Rightarrow> externals \<Rightarrow> RecordTransferInput \<Rightarrow> (Transfer \<times> bool) tx" where
  "recordTransfer e x input =
     txThen (recordTransferLocks input)
     (ifFound (getTransferByIdempotency (in_InstitutionID input) (in_IdempotencyKey input))
        (\<lambda>existing. txBind (sameTransferReplay existing input (transferRequestFingerprint x input)) (\<lambda>ok.
           txThen (txEnsure ok ErrConflict) (txReturn (existing, False))))
        (recordByEvent e x input))"

end
