(* ===== verification/TransferOps.thy ===== *)
theory TransferOps
  imports Transfers
begin

text \<open>
  The transactions of \<open>sql_transfer_repository.go\<close> that the service calls: \<open>RecordTransfer\<close>,
  \<open>BeginExternalOutboundTransfer\<close>, \<open>CompleteExternalOutboundTransfer\<close>,
  \<open>CompleteExternalTransferRequery\<close>, \<open>RecordProviderEventReview\<close> and \<open>ReverseTransfer\<close>.
\<close>

section \<open>The manual-review record of an unmatched event\<close>

definition normalizeProviderEventReviewInput ::
  "RecordProviderEventReviewInput \<Rightarrow> error + RecordProviderEventReviewInput" where
  "normalizeProviderEventReviewInput input0 =
     (let input =
       \<lparr>rv_InstitutionID = TrimSpace (rv_InstitutionID input0),
        rv_AccountID = TrimSpace (rv_AccountID input0),
        rv_Direction = ToLower (TrimSpace (rv_Direction input0)),
        rv_Status = ToLower (TrimSpace (rv_Status input0)),
        rv_ProviderStatus = ToLower (TrimSpace (rv_ProviderStatus input0)),
        rv_AmountMinor = rv_AmountMinor input0,
        rv_CurrencyID = ToUpper (TrimSpace (rv_CurrencyID input0)),
        rv_IdempotencyKey = TrimSpace (rv_IdempotencyKey input0),
        rv_Provider = TrimSpace (rv_Provider input0),
        rv_ProviderReference = TrimSpace (rv_ProviderReference input0),
        rv_ProviderEventID = TrimSpace (rv_ProviderEventID input0),
        rv_RequestFingerprint = TrimSpace (rv_RequestFingerprint input0),
        rv_FailureReason = TrimSpace (rv_FailureReason input0),
        rv_Narration = TrimSpace (rv_Narration input0),
        rv_ReserveProviderEvent = rv_ReserveProviderEvent input0\<rparr>;
          input = (if rv_ProviderStatus input = []
                   then input\<lparr>rv_ProviderStatus := rv_Status input\<rparr> else input)
      in if rv_InstitutionID input = [] \<or> rv_AccountID input = [] \<or> rv_Direction input = [] \<or>
            rv_AmountMinor input \<le> 0 \<or> rv_CurrencyID input \<noteq> ''NGN'' \<or>
            rv_IdempotencyKey input = [] \<or> rv_Provider input = [] \<or> rv_ProviderEventID input = [] \<or>
            rv_ProviderReference input = [] \<or> rv_RequestFingerprint input = [] \<or>
            \<not> validTransferStatus (rv_Status input) \<or> \<not> validProviderStatus (rv_ProviderStatus input)
         then Inl ErrInvalidRequest
         else Inr (if rv_Narration input = []
                   then input\<lparr>rv_Narration := ''Provider event manual review''\<rparr> else input))"

definition providerReviewRecordTransferInput :: "RecordProviderEventReviewInput \<Rightarrow> RecordTransferInput" where
  "providerReviewRecordTransferInput input =
     \<lparr>in_InstitutionID = rv_InstitutionID input, in_AccountID = rv_AccountID input,
      in_ClearingAccountID = [], in_Direction = rv_Direction input, in_Status = rv_Status input,
      in_AmountMinor = rv_AmountMinor input, in_CurrencyID = rv_CurrencyID input,
      in_IdempotencyKey = rv_IdempotencyKey input, in_Provider = rv_Provider input,
      in_ProviderReference = rv_ProviderReference input, in_ProviderEventID = rv_ProviderEventID input,
      in_ProviderStatus = rv_ProviderStatus input, in_ReversalOfTransferID = [],
      in_RequestFingerprint = rv_RequestFingerprint input, in_FailureReason = rv_FailureReason input,
      in_Narration = rv_Narration input, in_RejectInsufficient = False, in_RequireAvailable = False\<rparr>"

definition reviewTransfer :: "env \<Rightarrow> RecordProviderEventReviewInput \<Rightarrow> time \<Rightarrow> Transfer" where
  "reviewTransfer e input now =
     \<lparr>tr_ID = env_uuid e DrawTransfer, tr_InstitutionID = rv_InstitutionID input,
      tr_AccountID = rv_AccountID input, tr_Direction = rv_Direction input,
      tr_Status = rv_Status input, tr_ProviderStatus = rv_ProviderStatus input,
      tr_LedgerStatus = LedgerStatusNoPosting,
      tr_ReconciliationStatus = ReconciliationStatusManualReview,
      tr_AmountMinor = rv_AmountMinor input, tr_CurrencyID = rv_CurrencyID input,
      tr_IdempotencyKey = rv_IdempotencyKey input, tr_Provider = rv_Provider input,
      tr_ProviderReference = rv_ProviderReference input,
      tr_ProviderEventID = Some (rv_ProviderEventID input), tr_JournalEntryID = None,
      tr_ReversalOfTransferID = None, tr_RequestFingerprint = rv_RequestFingerprint input,
      tr_FailureReason = optional_text (rv_FailureReason input), tr_Narration = rv_Narration input,
      tr_CreatedAt = now, tr_UpdatedAt = now, tr_ReviewStatus = None, tr_ReviewNote = None,
      tr_ReviewedAt = None, tr_ReviewedBy = None\<rparr>"

definition writeReview ::
  "env \<Rightarrow> RecordProviderEventReviewInput \<Rightarrow> Account \<Rightarrow> time \<Rightarrow> Transfer tx" where
  "writeReview e input account now =
     (let transfer = reviewTransfer e input now in
      txThen (insert_transfer transfer)
      (txThen (if rv_ReserveProviderEvent input
        then linkTransfer (tr_ID transfer) (rv_InstitutionID input) (rv_Provider input)
          (rv_ProviderEventID input)
        else txReturn ())
      (txThen (auditExternalInboundReview e 0 input transfer account)
      (txReturn transfer))))"

definition recordNewReview ::
  "env \<Rightarrow> externals \<Rightarrow> RecordProviderEventReviewInput \<Rightarrow> Transfer tx" where
  "recordNewReview e x input =
     (let eventInput = providerReviewRecordTransferInput input in
      ifFound (getTransferByIdempotency (rv_InstitutionID input) (rv_IdempotencyKey input))
        (\<lambda>existing. txThen (txEnsure (transferRequestFingerprintMatches existing
            (rv_RequestFingerprint input)) ErrConflict) (txReturn existing))
        (txBind (lockAccountBalance (rv_InstitutionID input) (rv_AccountID input)) (\<lambda>account.
         let now = env_clock e 0 in
         if rv_ReserveProviderEvent input
         then txBind (reserve e x eventInput [] now) (\<lambda>inserted.
           if \<not> inserted then existingProviderEventTransfer eventInput (rv_RequestFingerprint input)
           else writeReview e input (lk_Account account) now)
         else writeReview e input (lk_Account account) now)))"

definition recordProviderEventReview ::
  "env \<Rightarrow> externals \<Rightarrow> RecordProviderEventReviewInput \<Rightarrow> Transfer tx" where
  "recordProviderEventReview e x input0 =
     txBind (txLift (normalizeProviderEventReviewInput input0)) (\<lambda>input.
     txThen (lockReplayKey ''idempotency'' [rv_InstitutionID input, rv_IdempotencyKey input])
     (txThen (if rv_ReserveProviderEvent input
       then lockReplayKey ''provider_event''
         [rv_InstitutionID input, rv_Provider input, rv_ProviderEventID input]
       else txReturn ())
     (if rv_ReserveProviderEvent input
      then ifFound (getEventTransfer (rv_InstitutionID input) (rv_Provider input)
             (rv_ProviderEventID input))
           (\<lambda>existing. txBind (payloadMatches (providerReviewRecordTransferInput input)
               (rv_RequestFingerprint input)) (\<lambda>ok.
              txThen (txEnsure ok ErrConflict) (txReturn existing)))
           (recordNewReview e x input)
      else recordNewReview e x input)))"

section \<open>Requery\<close>

definition normalizeRequeryInput :: "RecordTransferInput \<Rightarrow> RecordTransferInput" where
  "normalizeRequeryInput input =
     input\<lparr>in_InstitutionID := TrimSpace (in_InstitutionID input),
           in_AccountID := TrimSpace (in_AccountID input),
           in_ClearingAccountID := TrimSpace (in_ClearingAccountID input),
           in_Direction := ToLower (TrimSpace (in_Direction input)),
           in_Status := ToLower (TrimSpace (in_Status input)),
           in_Provider := TrimSpace (in_Provider input),
           in_ProviderReference := TrimSpace (in_ProviderReference input),
           in_ProviderStatus := ToLower (TrimSpace (in_ProviderStatus input)),
           in_CurrencyID := ToUpper (TrimSpace (in_CurrencyID input)),
           in_FailureReason := TrimSpace (in_FailureReason input),
           in_Narration := TrimSpace (in_Narration input)\<rparr>"

definition requeryPending ::
  "env \<Rightarrow> externals \<Rightarrow> string \<Rightarrow> Transfer \<Rightarrow> RecordTransferInput \<Rightarrow> Transfer tx" where
  "requeryPending e x transferID current input =
     txThen (txEnsure (tr_LedgerStatus current = LedgerStatusPending \<and>
         requeryableProviderStatus (tr_ProviderStatus current)) ErrInvalidRequest)
     (txBind (txLift (externalOutboundTransferStatuses input)) (\<lambda>(status, providerStatus).
     if tr_Direction current = TransferDirectionOutbound
     then completeExternalOutboundTransfer e x transferID input
     else if tr_Direction current = TransferDirectionInbound
     then (if status = TransferStatusPending
           then updatePendingInboundTransferRequery e current input providerStatus
           else settlePendingTransfer e x current input)
     else txFail ErrInvalidRequest))"

definition completeExternalTransferRequery ::
  "env \<Rightarrow> externals \<Rightarrow> string \<Rightarrow> RecordTransferInput \<Rightarrow> Transfer tx" where
  "completeExternalTransferRequery e x transferID0 input0 =
     (let transferID = TrimSpace transferID0; input = normalizeRequeryInput input0 in
      txThen (txEnsure (transferID \<noteq> [] \<and> in_InstitutionID input \<noteq> [] \<and> in_AccountID input \<noteq> [] \<and>
          in_ClearingAccountID input \<noteq> [] \<and> in_Provider input \<noteq> [] \<and> in_CurrencyID input \<noteq> [])
          ErrInvalidRequest)
      (txBind (getTransferForUpdate (in_InstitutionID input) transferID) (\<lambda>current.
      txThen (txEnsure (tr_Provider current \<noteq> ProviderLedgerInternal) ErrInvalidRequest)
      (txThen (txEnsure (tr_Provider current = in_Provider input \<and>
          tr_Direction current = in_Direction input \<and> tr_AccountID current = in_AccountID input \<and>
          tr_AmountMinor current = in_AmountMinor input \<and> tr_CurrencyID current = in_CurrencyID input)
          ErrConflict)
      (let input = (if in_ProviderReference input = []
                    then input\<lparr>in_ProviderReference := tr_ProviderReference current\<rparr> else input)
       in txThen (txEnsure (in_ProviderReference input \<noteq> []) ErrInvalidRequest)
       (txThen (txEnsure (\<not> (tr_ProviderReference current \<noteq> [] \<and>
           tr_ProviderReference current \<noteq> in_ProviderReference input)) ErrConflict)
       (if tr_Status current \<noteq> TransferStatusPending then txReturn current
        else requeryPending e x transferID current input)))))))"

section \<open>Reversal\<close>

definition reversalInput :: "ReverseTransferInput \<Rightarrow> Transfer \<Rightarrow> string \<Rightarrow> RecordTransferInput" where
  "reversalInput input original counterpartyAccountID =
     (let provider = TrimSpace (rt_Provider input);
          provider = (if provider = [] then tr_Provider original else provider);
          originalReference = TrimSpace (tr_ProviderReference original);
          originalReference = (if originalReference = [] then tr_ID original else originalReference);
          providerReference = TrimSpace (rt_ProviderReference input);
          providerReference = (if providerReference = [] then ''reversal:'' @ originalReference
                               else providerReference);
          narration = TrimSpace (rt_Narration input);
          narration = (if narration = [] then ''Reversal of '' @ tr_ID original else narration)
      in \<lparr>in_InstitutionID = rt_InstitutionID input, in_AccountID = tr_AccountID original,
          in_ClearingAccountID = counterpartyAccountID,
          in_Direction = (if tr_Direction original = TransferDirectionOutbound
                          then TransferDirectionInbound else TransferDirectionOutbound),
          in_Status = TransferStatusSucceeded, in_AmountMinor = tr_AmountMinor original,
          in_CurrencyID = tr_CurrencyID original, in_IdempotencyKey = rt_IdempotencyKey input,
          in_Provider = provider, in_ProviderReference = providerReference,
          in_ProviderEventID = TrimSpace (rt_ProviderEventID input), in_ProviderStatus = [],
          in_ReversalOfTransferID = tr_ID original, in_RequestFingerprint = [],
          in_FailureReason = TrimSpace (rt_FailureReason input), in_Narration = narration,
          in_RejectInsufficient = False, in_RequireAvailable = False\<rparr>)"

definition recordReversal ::
  "env \<Rightarrow> externals \<Rightarrow> ReverseTransferInput \<Rightarrow> Transfer \<Rightarrow> Transfer tx" where
  "recordReversal e x input original =
     txBind (originalCounterpartyAccountID original) (\<lambda>counterpartyAccountID.
     txBind (recordTransfer e x (reversalInput input original counterpartyAccountID)) (\<lambda>(transfer, created).
     txThen (txEnsure (tr_ReversalOfTransferID transfer = Some (tr_ID original)) ErrConflict)
     (txThen (update_transfers (tr_key (rt_InstitutionID input) (tr_ID transfer))
         (\<lambda>t. t\<lparr>tr_Direction := TransferDirectionReversal, tr_UpdatedAt := env_clock e 1\<rparr>))
     (txReturn (transfer\<lparr>tr_Direction := TransferDirectionReversal\<rparr>)))))"

definition reverseTransfer ::
  "env \<Rightarrow> externals \<Rightarrow> ReverseTransferInput \<Rightarrow> Transfer tx" where
  "reverseTransfer e x input0 =
     (let input = input0\<lparr>rt_InstitutionID := TrimSpace (rt_InstitutionID input0),
                         rt_TransferID := TrimSpace (rt_TransferID input0),
                         rt_IdempotencyKey := TrimSpace (rt_IdempotencyKey input0)\<rparr> in
      txThen (txEnsure (rt_InstitutionID input \<noteq> [] \<and> rt_TransferID input \<noteq> [] \<and>
          rt_IdempotencyKey input \<noteq> []) ErrInvalidRequest)
      (txBind (getTransferForUpdate (rt_InstitutionID input) (rt_TransferID input)) (\<lambda>original.
      txThen (txEnsure (tr_Status original = TransferStatusSucceeded \<and>
          tr_JournalEntryID original \<noteq> None \<and>
          tr_Direction original \<noteq> TransferDirectionReversal) ErrInvalidRequest)
      (ifFound (getActiveReversalOf (rt_InstitutionID input) (tr_ID original))
        (\<lambda>existing. txThen (txEnsure (tr_IdempotencyKey existing = rt_IdempotencyKey input) ErrConflict)
           (txReturn existing))
        (recordReversal e x input original)))))"

section \<open>The repository's methods\<close>

definition RecordTransfer :: "env \<Rightarrow> externals \<Rightarrow> RecordTransferInput \<Rightarrow> Transfer repo" where
  "RecordTransfer e x input =
     WithTx e (txBind (recordTransfer e x input) (\<lambda>(transfer, created). txReturn transfer))"

definition RecordProviderEventReview ::
  "env \<Rightarrow> externals \<Rightarrow> RecordProviderEventReviewInput \<Rightarrow> Transfer repo" where
  "RecordProviderEventReview e x input = WithTx e (recordProviderEventReview e x input)"

definition BeginExternalOutboundTransfer ::
  "env \<Rightarrow> externals \<Rightarrow> RecordTransferInput \<Rightarrow> (Transfer \<times> bool) repo" where
  "BeginExternalOutboundTransfer e x input = WithTx e (recordTransfer e x input)"

definition CompleteExternalOutboundTransfer ::
  "env \<Rightarrow> externals \<Rightarrow> string \<Rightarrow> RecordTransferInput \<Rightarrow> Transfer repo" where
  "CompleteExternalOutboundTransfer e x transferID input =
     WithTx e (completeExternalOutboundTransfer e x (TrimSpace transferID) input)"

definition CompleteExternalTransferRequery ::
  "env \<Rightarrow> externals \<Rightarrow> string \<Rightarrow> RecordTransferInput \<Rightarrow> Transfer repo" where
  "CompleteExternalTransferRequery e x transferID input =
     WithTx e (completeExternalTransferRequery e x transferID input)"

definition ReverseTransfer :: "env \<Rightarrow> externals \<Rightarrow> ReverseTransferInput \<Rightarrow> Transfer repo" where
  "ReverseTransfer e x input = WithTx e (reverseTransfer e x input)"

definition GetTransfer :: "string \<Rightarrow> string \<Rightarrow> Transfer repo" where
  "GetTransfer institutionID transferID =
     readDB (getRow (\<lambda>s. select_one (tr_key institutionID transferID) (transfers s)))"

definition GetTransferByIdempotency :: "string \<Rightarrow> string \<Rightarrow> Transfer repo" where
  "GetTransferByIdempotency institutionID idempotencyKey =
     readDB (getRow (idempotency_row institutionID (TrimSpace idempotencyKey)))"

definition GetTransferHold :: "string \<Rightarrow> string \<Rightarrow> AccountHold repo" where
  "GetTransferHold institutionID transferID = readDB (getForTransfer institutionID transferID)"

end
