(* ===== verification/Books.thy ===== *)
theory Books
  imports Transfers
begin

text \<open>
  The abstract specification of the books.  \<open>book_step i\<close> is the list of things that may happen to the
  tables on behalf of institution \<open>i\<close>: a transfer is recorded without touching money, posted, or
  recorded with a hold; a pending one is settled by a posting, by a posting that consumes its hold, or
  by releasing its hold; a lien comes and goes; an account is opened or changes status; everything else
  is bookkeeping.  The repositories are proved to take only such steps; the invariants of the books are
  proved once, over the steps.
\<close>

section \<open>Conditions on a transfer row\<close>

text \<open>How the ledger status, the journal and the provider status of a row go together.\<close>

definition status_ok :: "Transfer \<Rightarrow> bool" where
  "status_ok t \<longleftrightarrow>
     (tr_JournalEntryID t \<noteq> None \<longleftrightarrow>
        tr_LedgerStatus t \<in> {LedgerStatusPosted, LedgerStatusReversalDeficit}) \<and>
     (tr_JournalEntryID t \<noteq> None \<longrightarrow> tr_Status t = TransferStatusSucceeded) \<and>
     (tr_Status t = TransferStatusSucceeded \<and> tr_JournalEntryID t = None \<longrightarrow>
        tr_LedgerStatus t = LedgerStatusNoPosting \<and>
        tr_ReconciliationStatus t = ReconciliationStatusManualReview) \<and>
     (tr_Status t = TransferStatusFailed \<longrightarrow> tr_LedgerStatus t = LedgerStatusNoPosting) \<and>
     (tr_LedgerStatus t = LedgerStatusPending \<longrightarrow> tr_Status t = TransferStatusPending) \<and>
     (tr_ProviderStatus t = TransferProviderStatusUnknown \<longrightarrow>
        tr_JournalEntryID t = None \<and>
        tr_ReconciliationStatus t = ReconciliationStatusManualReview)"

definition same_identity :: "Transfer \<Rightarrow> Transfer \<Rightarrow> bool" where
  "same_identity t t' \<longleftrightarrow>
     tr_ID t' = tr_ID t \<and> tr_InstitutionID t' = tr_InstitutionID t \<and>
     tr_AccountID t' = tr_AccountID t \<and> tr_AmountMinor t' = tr_AmountMinor t \<and>
     tr_CurrencyID t' = tr_CurrencyID t \<and> tr_IdempotencyKey t' = tr_IdempotencyKey t \<and>
     tr_Provider t' = tr_Provider t \<and> tr_ReversalOfTransferID t' = tr_ReversalOfTransferID t \<and>
     tr_RequestFingerprint t' = tr_RequestFingerprint t \<and> tr_CreatedAt t' = tr_CreatedAt t"

text \<open>The insert of a row and the rewriting of the row of one transfer.\<close>

definition row_added :: "string \<Rightarrow> Transfer \<Rightarrow> store \<Rightarrow> bool" where
  "row_added i t s \<longleftrightarrow>
     tr_InstitutionID t = i \<and> transfer_check t \<and> status_ok t \<and> \<not> transfer_exists s (tr_ID t) \<and>
     idempotency_unique t s \<and> distinct (reversal_index (transfers s @ [t]))"

definition row_changed :: "string \<Rightarrow> string \<Rightarrow> (Transfer \<Rightarrow> Transfer) \<Rightarrow> store \<Rightarrow> bool" where
  "row_changed i k f s \<longleftrightarrow>
     (\<forall>t. same_identity t (f t)) \<and>
     (\<forall>t\<in>set (transfers s). tr_key i k t \<longrightarrow> transfer_check (f t) \<and> status_ok (f t)) \<and>
     distinct (reversal_index (update_rows (tr_key i k) f (transfers s)))"

definition change_row :: "string \<Rightarrow> string \<Rightarrow> (Transfer \<Rightarrow> Transfer) \<Rightarrow> store \<Rightarrow> store" where
  "change_row i k f s = s\<lparr>transfers := update_rows (tr_key i k) f (transfers s)\<rparr>"

definition add_row :: "Transfer \<Rightarrow> store \<Rightarrow> store" where
  "add_row t s = s\<lparr>transfers := transfers s @ [t]\<rparr>"

text \<open>Settling keeps the direction and sets status and journal.\<close>

definition settles ::
  "string \<Rightarrow> string \<Rightarrow> (Transfer \<Rightarrow> Transfer) \<Rightarrow> store \<Rightarrow> string \<Rightarrow> string option \<Rightarrow> bool" where
  "settles i k f s status journal \<longleftrightarrow>
     (\<forall>t\<in>set (transfers s). tr_key i k t \<longrightarrow> tr_Direction (f t) = tr_Direction t \<and>
        tr_Status (f t) = status \<and> tr_JournalEntryID (f t) = journal)"

text \<open>A pending outbound transfer that the ledger waits for must be backed by a hold.\<close>

definition needs_hold :: "Transfer \<Rightarrow> bool" where
  "needs_hold t \<longleftrightarrow>
     heldOutbound t \<and> tr_Status t = TransferStatusPending \<and> tr_LedgerStatus t = LedgerStatusPending"

section \<open>The steps\<close>

inductive book_step :: "string \<Rightarrow> store \<Rightarrow> store \<Rightarrow> bool" where
  take_locks: "book_step i s (s\<lparr>advisory_locks := l\<rparr>)"
| write_audit:
    "ev_InstitutionID ev = TrimSpace i \<Longrightarrow> clean_metadata (ev_Metadata ev) \<Longrightarrow>
     ev_ID ev \<notin> ev_ID ` set (audit_events s) \<Longrightarrow>
     book_step i s (s\<lparr>audit_events := audit_events s @ [ev]\<rparr>)"
| new_event:
    "pe_InstitutionID r = i \<Longrightarrow>
     \<not> (\<exists>r'\<in>set (provider_events s). event_key i (pe_Provider r) (pe_ProviderEventID r) r') \<Longrightarrow>
     book_step i s (s\<lparr>provider_events := provider_events s @ [r]\<rparr>)"
| link_event:
    "links_event f \<Longrightarrow> (\<forall>r. U r \<longrightarrow> pe_InstitutionID r = i) \<Longrightarrow>
     book_step i s (s\<lparr>provider_events := update_rows U f (provider_events s)\<rparr>)"
| open_customer:
    "cus_InstitutionID c = i \<Longrightarrow> book_step i s (s\<lparr>customers := customers s @ [c]\<rparr>)"
| open_account:
    "acc_InstitutionID a = i \<Longrightarrow> acc_NormalBalance a \<in> {NormalBalanceDebit, NormalBalanceCredit} \<Longrightarrow>
     acc_ID a \<noteq> [] \<Longrightarrow> \<not> account_exists s (acc_ID a) \<Longrightarrow>
     bal_InstitutionID b = i \<Longrightarrow> bal_AccountID b = acc_ID a \<Longrightarrow> bal_AvailableMinor b = 0 \<Longrightarrow>
     bal_LedgerMinor b = 0 \<Longrightarrow> bal_AccountID b \<notin> bal_AccountID ` set (account_balances s) \<Longrightarrow>
     book_step i s (s\<lparr>accounts := accounts s @ [a], account_balances := account_balances s @ [b]\<rparr>)"
| set_status:
    "(\<forall>a. \<exists>st now. f a = a\<lparr>acc_Status := st, acc_UpdatedAt := now\<rparr>) \<Longrightarrow>
     (\<forall>a. U a \<longrightarrow> acc_InstitutionID a = i) \<Longrightarrow>
     book_step i s (s\<lparr>accounts := update_rows U f (accounts s)\<rparr>)"
| place_lien:
    "ho_InstitutionID h = i \<Longrightarrow> ho_TransferID h = None \<Longrightarrow> hold_placed h s s' \<Longrightarrow> book_step i s s'"
| release_lien:
    "ho_InstitutionID h = i \<Longrightarrow> ho_TransferID h = None \<Longrightarrow> hold_released h s s' \<Longrightarrow> book_step i s s'"
| record_unposted:
    "row_added i t s \<Longrightarrow> tr_JournalEntryID t = None \<Longrightarrow> \<not> needs_hold t \<Longrightarrow> book_step i s (add_row t s)"
| record_posted:
    "journal_effect i (tr_ID t) (tr_AmountMinor t) db cr held j s s1 \<Longrightarrow> held \<notin> {db, cr} \<Longrightarrow>
     db \<noteq> cr \<Longrightarrow> tr_AccountID t \<in> {db, cr} \<Longrightarrow> row_added i t s \<Longrightarrow> tr_JournalEntryID t = Some (je_ID j) \<Longrightarrow> book_step i s (add_row t s1)"
| record_held:
    "row_added i t s \<Longrightarrow> tr_JournalEntryID t = None \<Longrightarrow> heldOutbound t \<Longrightarrow>
     tr_Status t = TransferStatusPending \<Longrightarrow> hold_placed h (add_row t s) s' \<Longrightarrow>
     ho_InstitutionID h = i \<Longrightarrow> ho_AccountID h = tr_AccountID t \<Longrightarrow> ho_TransferID h = Some (tr_ID t) \<Longrightarrow>
     ho_AmountMinor h = tr_AmountMinor t \<Longrightarrow> book_step i s s'"
| settle_posted:
    "t \<in> set (transfers s) \<Longrightarrow> tr_key i k t \<Longrightarrow> tr_Status t = TransferStatusPending \<Longrightarrow>
     \<not> heldOutbound t \<Longrightarrow> journal_effect i k (tr_AmountMinor t) db cr held j s s1 \<Longrightarrow>
     held \<notin> {db, cr} \<Longrightarrow> db \<noteq> cr \<Longrightarrow> tr_AccountID t \<in> {db, cr} \<Longrightarrow>
     settles i k f s TransferStatusSucceeded (Some (je_ID j)) \<Longrightarrow> row_changed i k f s \<Longrightarrow>
     book_step i s (change_row i k f s1)"
| settle_held:
    "t \<in> set (transfers s) \<Longrightarrow> tr_key i k t \<Longrightarrow> tr_Status t = TransferStatusPending \<Longrightarrow>
     journal_effect i k (tr_AmountMinor t) (tr_AccountID t) cr (tr_AccountID t) j s s1 \<Longrightarrow>
     cr \<noteq> tr_AccountID t \<Longrightarrow> select_one (active_for i k) (account_holds s) = Some h \<Longrightarrow>
     hold_consumed h s1 s2 \<Longrightarrow> settles i k f s TransferStatusSucceeded (Some (je_ID j)) \<Longrightarrow>
     row_changed i k f s \<Longrightarrow> book_step i s (change_row i k f s2)"
| fail_held:
    "t \<in> set (transfers s) \<Longrightarrow> tr_key i k t \<Longrightarrow> tr_Status t = TransferStatusPending \<Longrightarrow>
     select_one (active_for i k) (account_holds s) = Some h \<Longrightarrow> hold_released h s s1 \<Longrightarrow>
     settles i k f s TransferStatusFailed None \<Longrightarrow> row_changed i k f s \<Longrightarrow>
     book_step i s (change_row i k f s1)"
| fail_unheld:
    "t \<in> set (transfers s) \<Longrightarrow> tr_key i k t \<Longrightarrow> tr_Status t = TransferStatusPending \<Longrightarrow>
     (heldOutbound t \<longrightarrow> select_one (active_for i k) (account_holds s) = None) \<Longrightarrow>
     settles i k f s TransferStatusFailed None \<Longrightarrow> row_changed i k f s \<Longrightarrow>
     book_step i s (change_row i k f s)"
| still_pending:
    "t \<in> set (transfers s) \<Longrightarrow> tr_key i k t \<Longrightarrow> tr_Status t = TransferStatusPending \<Longrightarrow>
     (heldOutbound t \<longrightarrow> select_one (active_for i k) (account_holds s) \<noteq> None) \<Longrightarrow>
     settles i k f s TransferStatusPending None \<Longrightarrow> row_changed i k f s \<Longrightarrow>
     book_step i s (change_row i k f s)"
| mark_reversal:
    "t \<in> set (transfers s) \<Longrightarrow> tr_key i k t \<Longrightarrow> tr_ReversalOfTransferID t \<noteq> None \<Longrightarrow>
     (\<forall>t. \<exists>now. f t = t\<lparr>tr_Direction := TransferDirectionReversal, tr_UpdatedAt := now\<rparr>) \<Longrightarrow>
     row_changed i k f s \<Longrightarrow> book_step i s (change_row i k f s)"
| mark_reviewed:
    "(\<forall>t. \<exists>st note at who. f t = t\<lparr>tr_ReviewStatus := st, tr_ReviewNote := note, tr_ReviewedAt := at,
        tr_ReviewedBy := who, tr_UpdatedAt := now\<rparr>) \<Longrightarrow>
     row_changed i k f s \<Longrightarrow> book_step i s (change_row i k f s)"

inductive_cases book_stepE: "book_step i s s'"

abbreviation book_steps :: "string \<Rightarrow> store \<Rightarrow> store \<Rightarrow> bool" where
  "book_steps i \<equiv> (book_step i)\<^sup>*\<^sup>*"

text \<open>What a step leaves alone.\<close>

lemma journal_effect_frame:
  assumes "journal_effect i k amount db cr held j s s1"
  shows "transfers s1 = transfers s" "account_holds s1 = account_holds s" "accounts s1 = accounts s"
    "institutions s1 = institutions s" "branches s1 = branches s" "currencies s1 = currencies s"
    "customers s1 = customers s" "provider_events s1 = provider_events s"
    "audit_events s1 = audit_events s" "advisory_locks s1 = advisory_locks s"
    "journal_entries s1 = journal_entries s @ [j]"
  using assms by (auto simp: journal_effect_def)

lemma hold_placed_frame:
  assumes "hold_placed h s s1"
  shows "transfers s1 = transfers s" "account_holds s1 = account_holds s @ [h]" "accounts s1 = accounts s"
    "journal_entries s1 = journal_entries s" "postings s1 = postings s"
    "provider_events s1 = provider_events s" "audit_events s1 = audit_events s"
    "institutions s1 = institutions s" "customers s1 = customers s"
  using assms by (auto simp: hold_placed_def)

lemma hold_released_frame:
  assumes "hold_released h s s1"
  shows "transfers s1 = transfers s" "accounts s1 = accounts s"
    "journal_entries s1 = journal_entries s" "postings s1 = postings s"
    "provider_events s1 = provider_events s" "audit_events s1 = audit_events s"
    "institutions s1 = institutions s" "customers s1 = customers s"
  using assms by (auto simp: hold_released_def)

lemma hold_consumed_frame:
  assumes "hold_consumed h s s1"
  shows "transfers s1 = transfers s" "accounts s1 = accounts s"
    "journal_entries s1 = journal_entries s" "postings s1 = postings s"
    "account_balances s1 = account_balances s"
    "provider_events s1 = provider_events s" "audit_events s1 = audit_events s"
    "institutions s1 = institutions s" "customers s1 = customers s"
  using assms by (auto simp: hold_consumed_def)

lemmas effect_frames =
  journal_effect_frame hold_placed_frame hold_released_frame hold_consumed_frame

section \<open>Transfer rows\<close>

definition rows_ok :: "Transfer list \<Rightarrow> bool" where
  "rows_ok ts \<longleftrightarrow>
     distinct (map tr_ID ts) \<and>
     distinct (map (\<lambda>t. (tr_InstitutionID t, tr_IdempotencyKey t)) ts) \<and>
     distinct (reversal_index ts) \<and> (\<forall>t\<in>set ts. transfer_check t \<and> status_ok t)"

lemma rows_okD: "rows_ok ts \<Longrightarrow> t \<in> set ts \<Longrightarrow> transfer_check t \<and> status_ok t"
  by (simp add: rows_ok_def)

lemma rows_ok_add: "rows_ok (transfers s) \<Longrightarrow> row_added i t s \<Longrightarrow> rows_ok (transfers s @ [t])"
  by (auto simp: rows_ok_def row_added_def transfer_exists_def idempotency_unique_def)

lemma rows_ok_change:
  assumes "rows_ok (transfers s)" and "row_changed i k f s"
  shows "rows_ok (update_rows (tr_key i k) f (transfers s))"
proof -
  have same: "\<And>t. same_identity t (f t)" using assms(2) by (simp add: row_changed_def)
  have "map tr_ID (update_rows (tr_key i k) f (transfers s)) = map tr_ID (transfers s)"
    "map (\<lambda>t. (tr_InstitutionID t, tr_IdempotencyKey t)) (update_rows (tr_key i k) f (transfers s)) =
     map (\<lambda>t. (tr_InstitutionID t, tr_IdempotencyKey t)) (transfers s)"
    using same by (auto simp: same_identity_def intro!: map_update_rows_same)
  with assms show ?thesis
    by (auto simp: rows_ok_def row_changed_def set_update_rows)
qed

lemma rows_ok_step: "book_step i s s' \<Longrightarrow> rows_ok (transfers s) \<Longrightarrow> rows_ok (transfers s')"
  by (induction rule: book_step.induct)
    (auto simp: effect_frames add_row_def change_row_def intro: rows_ok_add rows_ok_change)

text \<open>The row of a transfer in a table with distinct identifiers.\<close>

lemma tr_key_unique:
  "rows_ok ts \<Longrightarrow> t \<in> set ts \<Longrightarrow> t' \<in> set ts \<Longrightarrow> tr_ID t = tr_ID t' \<Longrightarrow> t = t'"
  by (auto simp: rows_ok_def dest: distinct_keysD)

lemma changed_row:
  assumes "row_changed i k f s" and "t' \<in> set (update_rows (tr_key i k) f (transfers s))"
  shows "\<exists>t\<in>set (transfers s). same_identity t t' \<and> (if tr_key i k t then t' = f t else t' = t)"
  using assms by (auto simp: row_changed_def set_update_rows same_identity_def split: if_splits)

end
