(* ===== verification/BookHolds.thy ===== *)
theory BookHolds
  imports Books
begin

text \<open>
  The second invariant of the books: the life cycle of a hold follows the life cycle of its transfer.
  A hold is active while its outbound transfer is pending, consumed when it succeeded and released when
  it failed; a transfer has at most one hold; and a pending outbound transfer that the ledger waits for
  is backed by one.
\<close>

definition status_sync :: "string \<Rightarrow> string \<Rightarrow> bool" where
  "status_sync hold transfer \<longleftrightarrow>
     (hold = HoldStatusActive \<and> transfer = TransferStatusPending) \<or>
     (hold = HoldStatusConsumed \<and> transfer = TransferStatusSucceeded) \<or>
     (hold = HoldStatusReleased \<and> transfer = TransferStatusFailed)"

definition hold_linked :: "Transfer list \<Rightarrow> AccountHold \<Rightarrow> bool" where
  "hold_linked ts h \<longleftrightarrow>
     (\<forall>k. ho_TransferID h = Some k \<longrightarrow>
        (\<exists>t\<in>set ts. tr_key (ho_InstitutionID h) k t \<and> heldOutbound t \<and>
           tr_AccountID t = ho_AccountID h \<and> tr_AmountMinor t = ho_AmountMinor h \<and>
           status_sync (ho_Status h) (tr_Status t)))"

definition hold_index :: "AccountHold list \<Rightarrow> (string \<times> string option) list" where
  "hold_index hs = map (\<lambda>h. (ho_InstitutionID h, ho_TransferID h)) (filter (\<lambda>h. ho_TransferID h \<noteq> None) hs)"

definition hold_for :: "string \<Rightarrow> string \<Rightarrow> AccountHold \<Rightarrow> bool" where
  "hold_for i k h \<longleftrightarrow> ho_InstitutionID h = i \<and> ho_TransferID h = Some k"

definition backed :: "AccountHold list \<Rightarrow> Transfer \<Rightarrow> bool" where
  "backed hs t \<longleftrightarrow> (needs_hold t \<longrightarrow> (\<exists>h\<in>set hs. active_for (tr_InstitutionID t) (tr_ID t) h))"

definition holds_ok :: "store \<Rightarrow> bool" where
  "holds_ok s \<longleftrightarrow>
     distinct (map ho_ID (account_holds s)) \<and> distinct (hold_index (account_holds s)) \<and>
     (\<forall>h\<in>set (account_holds s). 0 < ho_AmountMinor h \<and> account_exists s (ho_AccountID h) \<and>
        hold_linked (transfers s) h) \<and>
     (\<forall>t\<in>set (transfers s). backed (account_holds s) t)"

lemma holds_okD:
  assumes "holds_ok s" and "h \<in> set (account_holds s)"
  shows "0 < ho_AmountMinor h" "account_exists s (ho_AccountID h)" "hold_linked (transfers s) h"
  using assms by (auto simp: holds_ok_def)

lemma hold_linkedD:
  "hold_linked ts h \<Longrightarrow> ho_TransferID h = Some k \<Longrightarrow>
     \<exists>t\<in>set ts. tr_key (ho_InstitutionID h) k t \<and> heldOutbound t \<and>
       tr_AccountID t = ho_AccountID h \<and> tr_AmountMinor t = ho_AmountMinor h \<and>
       status_sync (ho_Status h) (tr_Status t)"
  by (simp add: hold_linked_def)

text \<open>The transfer of a hold.\<close>

lemma hold_transfer:
  assumes "holds_ok s" "rows_ok (transfers s)" "h \<in> set (account_holds s)" "hold_for i k h"
    and "t \<in> set (transfers s)" "tr_ID t = k"
  shows "heldOutbound t \<and> tr_AccountID t = ho_AccountID h \<and> tr_AmountMinor t = ho_AmountMinor h \<and>
     tr_InstitutionID t = i \<and> status_sync (ho_Status h) (tr_Status t)"
proof -
  from holds_okD(3) [OF assms(1,3)] assms(4) obtain t' where t':
    "t' \<in> set (transfers s)" "tr_key i k t'" "heldOutbound t'" "tr_AccountID t' = ho_AccountID h"
    "tr_AmountMinor t' = ho_AmountMinor h" "status_sync (ho_Status h) (tr_Status t')"
    by (auto simp: hold_linked_def hold_for_def)
  then have "t' = t"
    using tr_key_unique [OF assms(2) t'(1) assms(5)] assms(6) by (simp add: tr_key_def)
  with t' show ?thesis by (simp add: tr_key_def)
qed

lemma hold_for_unique:
  assumes "holds_ok s" "h \<in> set (account_holds s)" "h' \<in> set (account_holds s)"
    "hold_for i k h" "hold_for i k h'"
  shows "h = h'"
proof -
  let ?hs = "filter (\<lambda>h. ho_TransferID h \<noteq> None) (account_holds s)"
  have "distinct (map (\<lambda>h. (ho_InstitutionID h, ho_TransferID h)) ?hs)"
    using assms(1) by (simp add: holds_ok_def hold_index_def)
  moreover have "h \<in> set ?hs" "h' \<in> set ?hs" using assms by (auto simp: hold_for_def)
  ultimately show ?thesis
    by (rule distinct_keysD) (use assms(4,5) in \<open>simp add: hold_for_def\<close>)
qed

lemma active_for_iff: "active_for i k h \<longleftrightarrow> hold_for i k h \<and> ho_Status h = HoldStatusActive"
  by (auto simp: active_for_def hold_for_def)

section \<open>Closing a hold\<close>

definition same_hold :: "AccountHold \<Rightarrow> AccountHold \<Rightarrow> bool" where
  "same_hold h h' \<longleftrightarrow>
     ho_ID h' = ho_ID h \<and> ho_InstitutionID h' = ho_InstitutionID h \<and> ho_AccountID h' = ho_AccountID h \<and>
     ho_TransferID h' = ho_TransferID h \<and> ho_AmountMinor h' = ho_AmountMinor h"

lemma hold_closed_back:
  "hold_closed h0 st hs hs' \<Longrightarrow> h' \<in> set hs' \<Longrightarrow>
     \<exists>h\<in>set hs. same_hold h h' \<and> ho_Status h' = (if h = h0 then st else ho_Status h)"
  by (drule (1) hold_closed_member) (auto simp: same_hold_def split: if_splits)

lemma hold_closed_forward:
  assumes "hold_closed h0 st hs hs'" and "h \<in> set hs" and "h \<noteq> h0"
  shows "h \<in> set hs'"
proof -
  from assms(1) obtain U f where "closes_hold f st" and one: "count_rows U hs = 1" "U h0"
    and hs': "hs' = update_rows U f hs" and h0: "h0 \<in> set hs"
    by (auto simp: hold_closed_def)
  have "\<not> U h" using count_rows_one_unique [OF one(1) h0 one(2) assms(2)] assms(3) by auto
  with assms(2) show ?thesis unfolding hs' by (auto simp: set_update_rows)
qed

lemma hold_closed_index:
  assumes "hold_closed h0 st hs hs'"
  shows "map ho_ID hs' = map ho_ID hs" and "hold_index hs' = hold_index hs"
proof -
  let ?f = "\<lambda>h. (ho_ID h, ho_InstitutionID h, ho_AccountID h, ho_TransferID h, ho_AmountMinor h, ho_Reference h)"
  have eq: "map ?f hs' = map ?f hs" by (rule hold_closed_keys [OF assms])
  from arg_cong [OF eq, of "map fst"] show "map ho_ID hs' = map ho_ID hs" by (simp add: o_def)
  have index: "hold_index xs =
      map (\<lambda>(_, i, _, k, _). (i, k)) (filter (\<lambda>(_, _, _, k, _). k \<noteq> None) (map ?f xs))" for xs
    by (simp add: hold_index_def filter_map o_def)
  show "hold_index hs' = hold_index hs" by (simp only: index eq)
qed

section \<open>Preservation\<close>

text \<open>The rows of holds of other transfers are left alone; those of this one follow its new status.\<close>

lemma holds_ok_change:
  assumes ok: "holds_ok s" and rows: "rows_ok (transfers s)"
    and t: "t \<in> set (transfers s)" "tr_key i k t" and f: "row_changed i k f s"
    and keys: "map ho_ID hs = map ho_ID (account_holds s)" "hold_index hs = hold_index (account_holds s)"
    and old: "\<And>h'. h' \<in> set hs \<Longrightarrow> \<exists>h\<in>set (account_holds s). same_hold h h' \<and>
        (if hold_for i k h then heldOutbound (f t) \<and> status_sync (ho_Status h') (tr_Status (f t))
         else ho_Status h' = ho_Status h)"
    and kept: "\<And>h. h \<in> set (account_holds s) \<Longrightarrow> \<not> hold_for i k h \<Longrightarrow> h \<in> set hs"
    and need: "needs_hold (f t) \<Longrightarrow> \<exists>h\<in>set hs. active_for i k h"
    and s': "transfers s' = update_rows (tr_key i k) f (transfers s)" "account_holds s' = hs"
      "accounts s' = accounts s"
  shows "holds_ok s'"
proof -
  have same: "same_identity t (f t)" using f by (simp add: row_changed_def)
  have only: "r = t" if "r \<in> set (transfers s)" "tr_key i k r" for r
    using tr_key_unique [OF rows that(1) t(1)] that(2) t(2) by (simp add: tr_key_def)
  have linked: "hold_linked (transfers s') h'" and pos: "0 < ho_AmountMinor h'"
    and acct: "account_exists s' (ho_AccountID h')" if h': "h' \<in> set hs" for h'
  proof -
    from old [OF h'] obtain h where h: "h \<in> set (account_holds s)" "same_hold h h'" and
      st: "if hold_for i k h then heldOutbound (f t) \<and> status_sync (ho_Status h') (tr_Status (f t))
           else ho_Status h' = ho_Status h" by blast
    show "0 < ho_AmountMinor h'" "account_exists s' (ho_AccountID h')"
      using holds_okD [OF ok h(1)] h(2) by (simp_all add: same_hold_def account_exists_def s')
    show "hold_linked (transfers s') h'"
      unfolding hold_linked_def
    proof (intro allI impI)
      fix k' assume k': "ho_TransferID h' = Some k'"
      show "\<exists>r\<in>set (transfers s'). tr_key (ho_InstitutionID h') k' r \<and> heldOutbound r \<and>
        tr_AccountID r = ho_AccountID h' \<and> tr_AmountMinor r = ho_AmountMinor h' \<and>
        status_sync (ho_Status h') (tr_Status r)"
      proof (cases "hold_for i k h")
        case True
        have "tr_AccountID t = ho_AccountID h" "tr_AmountMinor t = ho_AmountMinor h"
          using hold_transfer [OF ok rows h(1) True t(1)] t(2) by (auto simp: tr_key_def)
        moreover have "f t \<in> set (transfers s')" using t by (auto simp: s' set_update_rows)
        ultimately show ?thesis
          using True st same h(2) t(2) k'
          by (intro bexI [of _ "f t"]) (auto simp: same_hold_def hold_for_def same_identity_def tr_key_def)
      next
        case False
        have "ho_TransferID h = Some k'" using h(2) k' by (simp add: same_hold_def)
        from hold_linkedD [OF holds_okD(3) [OF ok h(1)] this] obtain r where r:
          "r \<in> set (transfers s)" "tr_key (ho_InstitutionID h) k' r" "heldOutbound r"
          "tr_AccountID r = ho_AccountID h" "tr_AmountMinor r = ho_AmountMinor h"
          "status_sync (ho_Status h) (tr_Status r)" by blast
        have "\<not> tr_key i k r" using False r(2) h(2) k' by (auto simp: tr_key_def hold_for_def same_hold_def)
        then have "r \<in> set (transfers s')" using r(1) by (auto simp: s' set_update_rows)
        with r False st h(2) show ?thesis by (intro bexI [of _ r]) (auto simp: same_hold_def)
      qed
    qed
  qed
  have "backed hs r'" if r': "r' \<in> set (transfers s')" for r'
  proof -
    from r' obtain r where r: "r \<in> set (transfers s)" "r' = (if tr_key i k r then f r else r)"
      by (auto simp: s' set_update_rows)
    show ?thesis
    proof (cases "tr_key i k r")
      case True
      then have "r' = f t" using r only by simp
      with need same t(2) show ?thesis by (auto simp: backed_def same_identity_def tr_key_def)
    next
      case False
      with r have "r' = r" by simp
      have "\<exists>h\<in>set hs. active_for (tr_InstitutionID r) (tr_ID r) h" if "needs_hold r"
      proof -
        from ok r(1) that obtain h where h: "h \<in> set (account_holds s)"
          "active_for (tr_InstitutionID r) (tr_ID r) h"
          by (auto simp: holds_ok_def backed_def)
        have "\<not> hold_for i k h" using h(2) False by (auto simp: active_for_def hold_for_def tr_key_def)
        from kept [OF h(1) this] h(2) show ?thesis by blast
      qed
      with \<open>r' = r\<close> show ?thesis by (simp add: backed_def)
    qed
  qed
  with linked pos acct ok keys show ?thesis
    unfolding holds_ok_def s' by simp
qed

text \<open>The active hold of a pending transfer is closed with the status that goes with the settlement.\<close>

lemma holds_ok_close:
  assumes ok: "holds_ok s" and rows: "rows_ok (transfers s)"
    and t: "t \<in> set (transfers s)" "tr_key i k t" and f: "row_changed i k f s"
    and h: "select_one (active_for i k) (account_holds s) = Some h"
    and closed: "hold_closed h hst (account_holds s) hs"
    and set: "settles i k f s st journal" "status_sync hst st" "st \<noteq> TransferStatusPending"
    and s': "transfers s' = update_rows (tr_key i k) f (transfers s)" "account_holds s' = hs"
      "accounts s' = accounts s"
  shows "holds_ok s'"
proof (rule holds_ok_change [OF ok rows t f hold_closed_index [OF closed] _ _ _ s'])
  from select_one_SomeD [OF h] have h1: "h \<in> set (account_holds s)" "hold_for i k h"
    by (auto simp: active_for_iff)
  have t': "tr_Status (f t) = st" "heldOutbound (f t)"
    using set(1) t f hold_transfer [OF ok rows h1 t(1)]
    by (auto simp: settles_def heldOutbound_def row_changed_def same_identity_def tr_key_def)
  show "\<exists>x\<in>set (account_holds s). same_hold x h' \<and>
        (if hold_for i k x then heldOutbound (f t) \<and> status_sync (ho_Status h') (tr_Status (f t))
         else ho_Status h' = ho_Status x)" if "h' \<in> set hs" for h'
  proof -
    from hold_closed_back [OF closed that] obtain x where x: "x \<in> set (account_holds s)" "same_hold x h'"
      "ho_Status h' = (if x = h then hst else ho_Status x)" by blast
    have "hold_for i k x \<longleftrightarrow> x = h" using hold_for_unique [OF ok x(1) h1(1) _ h1(2)] h1(2) by blast
    with x t' set(2) show ?thesis by (intro bexI [of _ x]) simp_all
  qed
  show "x \<in> set hs" if "x \<in> set (account_holds s)" "\<not> hold_for i k x" for x
    using hold_closed_forward [OF closed that(1)] that(2) h1(2) by auto
  show "\<exists>x\<in>set hs. active_for i k x" if "needs_hold (f t)"
    using that t' set(3) by (simp add: needs_hold_def)
qed

text \<open>The holds stay as they are.\<close>

lemma holds_ok_row:
  assumes ok: "holds_ok s" and rows: "rows_ok (transfers s)"
    and t: "t \<in> set (transfers s)" "tr_key i k t" and f: "row_changed i k f s"
    and st: "\<And>h. h \<in> set (account_holds s) \<Longrightarrow> hold_for i k h \<Longrightarrow>
        heldOutbound (f t) \<and> status_sync (ho_Status h) (tr_Status (f t))"
    and need: "needs_hold (f t) \<Longrightarrow> \<exists>h\<in>set (account_holds s). active_for i k h"
    and s': "transfers s' = update_rows (tr_key i k) f (transfers s)" "account_holds s' = account_holds s"
      "accounts s' = accounts s"
  shows "holds_ok s'"
proof (rule holds_ok_change [OF ok rows t f refl refl _ _ need s'])
  show "\<exists>h\<in>set (account_holds s). same_hold h h' \<and>
        (if hold_for i k h then heldOutbound (f t) \<and> status_sync (ho_Status h') (tr_Status (f t))
         else ho_Status h' = ho_Status h)" if "h' \<in> set (account_holds s)" for h'
    using that st by (intro bexI [of _ h']) (simp_all add: same_hold_def)
qed

lemma holds_ok_frame:
  assumes "holds_ok s" and "transfers s' = transfers s" "account_holds s' = account_holds s"
    and "\<And>a. account_exists s a \<Longrightarrow> account_exists s' a"
  shows "holds_ok s'"
  using assms by (auto simp: holds_ok_def)

lemma hold_linked_append: "hold_linked ts h \<Longrightarrow> hold_linked (ts @ [t]) h"
  unfolding hold_linked_def by fastforce

lemma holds_ok_add:
  assumes "holds_ok s" "\<not> needs_hold t" "transfers s' = transfers s @ [t]"
    "account_holds s' = account_holds s" "accounts s' = accounts s"
  shows "holds_ok s'"
  using assms by (auto simp: holds_ok_def backed_def account_exists_def hold_linked_append)

lemma needs_hold_record:
  assumes "tr_JournalEntryID t = Some j" "status_ok t"
  shows "\<not> needs_hold t"
  using assms by (auto simp: needs_hold_def status_ok_def)

lemma holds_ok_place:
  assumes ok: "holds_ok s" and t: "transfers s' = transfers s" and p: "hold_placed h s s'"
    and link: "hold_linked (transfers s) h"
  shows "holds_ok s'"
proof -
  have h: "hold_unique h s" "0 < ho_AmountMinor h" "account_exists s (ho_AccountID h)"
    using p by (auto simp: hold_placed_def)
  note frame = hold_placed_frame [OF p]
  have index: "distinct (hold_index (account_holds s @ [h]))"
    using ok h(1) by (auto simp: holds_ok_def hold_index_def hold_unique_def same_transfer_hold_def)
  have ids: "distinct (map ho_ID (account_holds s @ [h]))"
    using ok h(1) by (auto simp: holds_ok_def hold_unique_def)
  show ?thesis
    using ok h index ids link unfolding holds_ok_def frame t
    by (auto simp: account_exists_def frame backed_def)
qed

lemma holds_ok_record_held:
  assumes ok: "holds_ok s" and p: "hold_placed h (add_row t s) s'"
    and t: "tr_InstitutionID t = i" "heldOutbound t" "tr_Status t = TransferStatusPending"
    and h: "ho_InstitutionID h = i" "ho_AccountID h = tr_AccountID t" "ho_TransferID h = Some (tr_ID t)"
      "ho_AmountMinor h = tr_AmountMinor t"
  shows "holds_ok s'"
proof -
  have q: "hold_unique h s" "0 < ho_AmountMinor h" "account_exists s (ho_AccountID h)"
    "ho_Status h = HoldStatusActive"
    using p by (auto simp: hold_placed_def hold_unique_def add_row_def account_exists_def)
  have frame: "transfers s' = transfers s @ [t]" "account_holds s' = account_holds s @ [h]"
    "accounts s' = accounts s"
    using hold_placed_frame [OF p] by (simp_all add: add_row_def)
  have index: "distinct (hold_index (account_holds s @ [h]))"
    using ok q(1) by (auto simp: holds_ok_def hold_index_def hold_unique_def same_transfer_hold_def)
  have ids: "distinct (map ho_ID (account_holds s @ [h]))"
    using ok q(1) by (auto simp: holds_ok_def hold_unique_def)
  have "hold_linked (transfers s @ [t]) h"
    using t h q(4) by (auto simp: hold_linked_def tr_key_def status_sync_def)
  moreover have "active_for (tr_InstitutionID t) (tr_ID t) h"
    using t h q(4) by (auto simp: active_for_def)
  ultimately show ?thesis
    using ok q index ids unfolding holds_ok_def frame
    by (auto simp: account_exists_def frame backed_def hold_linked_append)
qed

lemma no_hold_unless_outbound:
  assumes "holds_ok s" "rows_ok (transfers s)" "t \<in> set (transfers s)" "tr_key i k t"
    "\<not> heldOutbound t" "h \<in> set (account_holds s)"
  shows "\<not> hold_for i k h"
  using hold_transfer [OF assms(1,2,6) _ assms(3)] assms(4,5) by (auto simp: tr_key_def)

lemma settled_outbound:
  assumes "settles i k f s st jid" "row_changed i k f s" "t \<in> set (transfers s)" "tr_key i k t"
  shows "heldOutbound (f t) \<longleftrightarrow> heldOutbound t" and "tr_Status (f t) = st"
  using assms by (auto simp: settles_def row_changed_def same_identity_def heldOutbound_def)

theorem holds_ok_step:
  "book_step i s s' \<Longrightarrow> rows_ok (transfers s) \<Longrightarrow> holds_ok s \<Longrightarrow> holds_ok s'"
proof (induction rule: book_step.induct)
  case (open_account a i s b)
  show ?case by (rule holds_ok_frame [OF open_account(11)]) (auto simp: account_exists_def)
next
  case (set_status f U i s)
  have id: "acc_ID (f a) = acc_ID a" for a
  proof -
    from set_status(1) obtain st now where "f a = a\<lparr>acc_Status := st, acc_UpdatedAt := now\<rparr>" by blast
    then show ?thesis by simp
  qed
  show ?case
    by (rule holds_ok_frame [OF set_status(4)])
      (simp_all add: account_exists_def image_update_rows_same id)
next
  case (place_lien h i s s')
  show ?case
    by (rule holds_ok_place [OF place_lien(5) hold_placed_frame(1) [OF place_lien(3)] place_lien(3)])
      (simp add: hold_linked_def place_lien(2))
next
  case (release_lien h i s s')
  then obtain hs bs where closed: "hold_closed h HoldStatusReleased (account_holds s) hs"
    and s': "s' = s\<lparr>account_holds := hs, account_balances := bs\<rparr>"
    by (auto simp: hold_released_def)
  have before: "\<exists>x\<in>set (account_holds s). same_hold x h' \<and>
      (ho_TransferID h' \<noteq> None \<longrightarrow> ho_Status h' = ho_Status x)" if "h' \<in> set hs" for h'
  proof -
    from hold_closed_back [OF closed that] obtain x where "x \<in> set (account_holds s)" "same_hold x h'"
      "ho_Status h' = (if x = h then HoldStatusReleased else ho_Status x)" by blast
    with release_lien(2) show ?thesis by (intro bexI [of _ x]) (auto simp: same_hold_def)
  qed
  have each: "0 < ho_AmountMinor h' \<and> account_exists s (ho_AccountID h') \<and> hold_linked (transfers s) h'"
    if h': "h' \<in> set hs" for h'
  proof -
    from before [OF h'] obtain x where x: "x \<in> set (account_holds s)" "same_hold x h'"
      "ho_TransferID h' \<noteq> None \<longrightarrow> ho_Status h' = ho_Status x" by blast
    from holds_okD [OF release_lien(5) x(1)] x(2,3) show ?thesis
      by (simp add: same_hold_def hold_linked_def)
  qed
  have "backed hs t" if "t \<in> set (transfers s)" for t
  proof -
    have "\<exists>x\<in>set hs. active_for (tr_InstitutionID t) (tr_ID t) x" if "needs_hold t"
    proof -
      from release_lien(5) that \<open>t \<in> set (transfers s)\<close> obtain x where
        x: "x \<in> set (account_holds s)" "active_for (tr_InstitutionID t) (tr_ID t) x"
        by (auto simp: holds_ok_def backed_def)
      then have "x \<noteq> h" using release_lien(2) by (auto simp: active_for_def)
      from hold_closed_forward [OF closed x(1) this] x(2) show ?thesis by blast
    qed
    then show ?thesis by (simp add: backed_def)
  qed
  with each release_lien(5) hold_closed_index [OF closed] show ?case
    by (simp add: holds_ok_def s' account_exists_def)
next
  case (record_unposted i t s)
  show ?case
    by (rule holds_ok_add [OF record_unposted(5,3)]) (simp_all add: add_row_def)
next
  case (record_posted i t db cr held j s s1)
  have "\<not> needs_hold t"
    using needs_hold_record [OF record_posted(6)] record_posted(5) by (simp add: row_added_def)
  then show ?case
    by (rule holds_ok_add [OF record_posted(8)])
      (simp_all add: add_row_def journal_effect_frame [OF record_posted(1)])
next
  case (record_held i t s h s')
  show ?case
    by (rule holds_ok_record_held [OF record_held(11,5) _ record_held(3,4,6-9)])
      (use record_held(1) in \<open>simp add: row_added_def\<close>)
next
  case (settle_posted t s i k db cr held j s1 f)
  note none = no_hold_unless_outbound [OF settle_posted(12,11,1,2,4)]
  note f = settled_outbound [OF settle_posted(9,10,1,2)]
  show ?case
    by (rule holds_ok_row [OF settle_posted(12,11,1,2,10)])
      (use none f in \<open>simp_all add: change_row_def journal_effect_frame [OF settle_posted(5)] needs_hold_def\<close>)
next
  case (settle_held t s i k cr j s1 h s2 f)
  from settle_held(7) obtain hs where closed: "hold_closed h HoldStatusConsumed (account_holds s) hs"
    and hs: "account_holds s2 = hs"
    by (auto simp: hold_consumed_def journal_effect_frame [OF settle_held(4)])
  show ?case
    by (rule holds_ok_close [OF settle_held(11,10,1,2,9,6) closed settle_held(8)])
      (simp_all add: status_sync_def change_row_def hs journal_effect_frame [OF settle_held(4)]
        hold_consumed_frame [OF settle_held(7)])
next
  case (fail_held t s i k h s1 f)
  from fail_held(5) obtain hs where closed: "hold_closed h HoldStatusReleased (account_holds s) hs"
    and hs: "account_holds s1 = hs"
    by (auto simp: hold_released_def)
  show ?case
    by (rule holds_ok_close [OF fail_held(9,8,1,2,7,4) closed fail_held(6)])
      (simp_all add: status_sync_def change_row_def hs hold_released_frame [OF fail_held(5)])
next
  case (fail_unheld t s i k f)
  have none: "\<not> hold_for i k h" if h: "h \<in> set (account_holds s)" for h
  proof
    assume "hold_for i k h"
    with hold_transfer [OF fail_unheld(8,7) h this fail_unheld(1)] fail_unheld(2,3)
    have "heldOutbound t" "active_for i k h" by (auto simp: tr_key_def active_for_iff status_sync_def)
    with fail_unheld(4) h show False by (auto simp: select_one_None_iff)
  qed
  show ?case
    by (rule holds_ok_row [OF fail_unheld(8,7,1,2,6)])
      (use none settled_outbound [OF fail_unheld(5,6,1,2)] in \<open>simp_all add: change_row_def needs_hold_def\<close>)
next
  case (still_pending t s i k f)
  note f = settled_outbound [OF still_pending(5,6,1,2)]
  have sync: "heldOutbound t \<and> status_sync (ho_Status h) TransferStatusPending"
    if "h \<in> set (account_holds s)" "hold_for i k h" for h
    using hold_transfer [OF still_pending(8,7) that still_pending(1)] still_pending(2,3)
    by (simp add: tr_key_def)
  have "\<exists>h\<in>set (account_holds s). active_for i k h" if "heldOutbound t"
    using still_pending(4) that by (auto simp: select_one_None_iff)
  with f sync show ?case
    by (intro holds_ok_row [OF still_pending(8,7,1,2,6)]) (simp_all add: change_row_def needs_hold_def)
next
  case (mark_reversal t s i k f)
  have f: "same_identity t (f t)" using mark_reversal(5) by (simp add: row_changed_def)
  have none: "\<not> hold_for i k h" if "h \<in> set (account_holds s)" for h
    by (rule no_hold_unless_outbound [OF mark_reversal(7,6,1,2) _ that])
      (simp add: heldOutbound_def mark_reversal(3))
  show ?case
    by (rule holds_ok_row [OF mark_reversal(7,6,1,2,5)])
      (use none f mark_reversal(3) in \<open>simp_all add: change_row_def needs_hold_def heldOutbound_def same_identity_def\<close>)
next
  case (mark_reviewed f now i k s)
  have same: "heldOutbound (f r) = heldOutbound r \<and> needs_hold (f r) = needs_hold r \<and>
      tr_Status (f r) = tr_Status r \<and> same_identity r (f r)" for r
  proof -
    from mark_reviewed(1) obtain st nt at who where
      "f r = r\<lparr>tr_ReviewStatus := st, tr_ReviewNote := nt, tr_ReviewedAt := at,
        tr_ReviewedBy := who, tr_UpdatedAt := now\<rparr>" by blast
    then show ?thesis by (simp add: heldOutbound_def needs_hold_def same_identity_def)
  qed
  show ?case
  proof (cases "\<exists>t\<in>set (transfers s). tr_key i k t")
    case True
    then obtain t where t: "t \<in> set (transfers s)" "tr_key i k t" by blast
    have sync: "heldOutbound t \<and> status_sync (ho_Status h) (tr_Status t)"
      if "h \<in> set (account_holds s)" "hold_for i k h" for h
      using hold_transfer [OF mark_reviewed(4,3) that t(1)] t(2) by (simp add: tr_key_def)
    have need: "\<exists>h\<in>set (account_holds s). active_for i k h" if "needs_hold t"
      using mark_reviewed(4) t that by (auto simp: holds_ok_def backed_def tr_key_def)
    show ?thesis
      by (rule holds_ok_row [OF mark_reviewed(4,3) t mark_reviewed(2)])
        (use same [of t] sync need in \<open>simp_all add: change_row_def\<close>)
  next
    case False
    then have "update_rows (tr_key i k) f (transfers s) = transfers s" by (intro update_rows_none) auto
    then have "change_row i k f s = s" by (simp add: change_row_def)
    with mark_reviewed(4) show ?thesis by simp
  qed
qed (erule holds_ok_frame; simp add: account_exists_def)+

end
