(* ===== verification/BookJournals.thy ===== *)
theory BookJournals
  imports Books
begin

text \<open>
  The first invariant of the books: every journal belongs to exactly the transfer that names it, and
  its postings are one debit and one credit of the transfer's amount on two different accounts.
\<close>

definition two_legs :: "Transfer \<Rightarrow> Posting \<Rightarrow> Posting \<Rightarrow> bool" where
  "two_legs t p q \<longleftrightarrow>
     po_Direction p = PostingDebit \<and> po_Direction q = PostingCredit \<and>
     po_AmountMinor p = tr_AmountMinor t \<and> po_AmountMinor q = tr_AmountMinor t \<and>
     po_InstitutionID p = tr_InstitutionID t \<and> po_InstitutionID q = tr_InstitutionID t \<and>
     po_AccountID p \<noteq> po_AccountID q \<and> tr_AccountID t \<in> {po_AccountID p, po_AccountID q}"

definition legs_of :: "string \<Rightarrow> store \<Rightarrow> Posting list" where
  "legs_of j s = filter (\<lambda>p. po_JournalEntryID p = j) (postings s)"

definition journal_ok :: "store \<Rightarrow> JournalEntry \<Rightarrow> bool" where
  "journal_ok s j \<longleftrightarrow>
     (\<exists>t\<in>set (transfers s).
        tr_JournalEntryID t = Some (je_ID j) \<and> je_TransferID j = Some (tr_ID t) \<and>
        je_InstitutionID j = tr_InstitutionID t \<and> je_TotalDebitMinor j = tr_AmountMinor t \<and>
        je_TotalCreditMinor j = tr_AmountMinor t \<and>
        (\<exists>p q. legs_of (je_ID j) s = [p, q] \<and> two_legs t p q))"

definition journals_ok :: "store \<Rightarrow> bool" where
  "journals_ok s \<longleftrightarrow>
     distinct (map je_ID (journal_entries s)) \<and> distinct (map po_ID (postings s)) \<and>
     (\<forall>j\<in>set (journal_entries s). journal_ok s j) \<and>
     (\<forall>p\<in>set (postings s). journal_exists s (po_JournalEntryID p)) \<and>
     (\<forall>t\<in>set (transfers s). \<forall>k. tr_JournalEntryID t = Some k \<longrightarrow>
        (\<exists>j\<in>set (journal_entries s). je_ID j = k \<and> je_TransferID j = Some (tr_ID t)))"

section \<open>What may happen to the transfers\<close>

definition keeps_journals :: "Transfer list \<Rightarrow> Transfer list \<Rightarrow> Transfer set \<Rightarrow> bool" where
  "keeps_journals ts ts' E \<longleftrightarrow>
     (\<forall>t\<in>set ts. tr_JournalEntryID t \<noteq> None \<longrightarrow>
        (\<exists>t'\<in>set ts'. same_identity t t' \<and> tr_JournalEntryID t' = tr_JournalEntryID t)) \<and>
     (\<forall>t'\<in>set ts'. tr_JournalEntryID t' \<noteq> None \<and> t' \<notin> E \<longrightarrow>
        (\<exists>t\<in>set ts. tr_ID t = tr_ID t' \<and> tr_JournalEntryID t = tr_JournalEntryID t'))"

lemma same_identity_refl [simp]: "same_identity t t"
  by (simp add: same_identity_def)

lemma same_row:
  "t \<in> A \<Longrightarrow> tr_JournalEntryID t = k \<Longrightarrow>
     \<exists>t'\<in>A. same_identity t t' \<and> tr_JournalEntryID t' = k"
  by (auto intro: bexI [of _ t])

lemma keeps_journals_append: "keeps_journals ts (ts @ [t]) {t}"
  by (auto simp: keeps_journals_def intro!: same_row)

lemma keeps_journals_append_None: "tr_JournalEntryID t = None \<Longrightarrow> keeps_journals ts (ts @ [t]) {}"
  by (auto simp: keeps_journals_def intro!: same_row)

lemma keeps_journals_refl: "keeps_journals ts ts {}"
  by (auto simp: keeps_journals_def intro!: same_row)

text \<open>Rewriting the row of a transfer that has no journal yet.\<close>

lemma keeps_journals_change:
  assumes ok: "rows_ok (transfers s)" and t: "t \<in> set (transfers s)" "tr_key i k t"
    and none: "tr_JournalEntryID t = None" and ch: "row_changed i k f s"
  shows "keeps_journals (transfers s) (update_rows (tr_key i k) f (transfers s)) {f t}"
proof -
  have only: "r = t" if "r \<in> set (transfers s)" "tr_key i k r" for r
    using tr_key_unique [OF ok that(1) t(1)] that(2) t(2) by (simp add: tr_key_def)
  show ?thesis
    unfolding keeps_journals_def set_update_rows
  proof (intro conjI ballI impI)
    fix r assume r: "r \<in> set (transfers s)" "tr_JournalEntryID r \<noteq> None"
    then have "\<not> tr_key i k r" using only none by auto
    with r show "\<exists>r'\<in>(\<lambda>r. if tr_key i k r then f r else r) ` set (transfers s).
      same_identity r r' \<and> tr_JournalEntryID r' = tr_JournalEntryID r"
      by (intro bexI [of _ r]) (auto simp: image_iff intro: bexI [of _ r])
  next
    fix r' assume "r' \<in> (\<lambda>r. if tr_key i k r then f r else r) ` set (transfers s)"
      "tr_JournalEntryID r' \<noteq> None \<and> r' \<notin> {f t}"
    then show "\<exists>r\<in>set (transfers s). tr_ID r = tr_ID r' \<and> tr_JournalEntryID r = tr_JournalEntryID r'"
      using only by auto
  qed
qed

lemma keeps_journals_change_None:
  assumes "rows_ok (transfers s)" "t \<in> set (transfers s)" "tr_key i k t"
    "tr_JournalEntryID t = None" "row_changed i k f s" "tr_JournalEntryID (f t) = None"
  shows "keeps_journals (transfers s) (update_rows (tr_key i k) f (transfers s)) {}"
  using keeps_journals_change [OF assms(1-5)] assms(6) unfolding keeps_journals_def by auto

text \<open>Rewriting that keeps the journal column.\<close>

lemma keeps_journals_same:
  assumes "row_changed i k f s" and "\<And>t. tr_JournalEntryID (f t) = tr_JournalEntryID t"
  shows "keeps_journals (transfers s) (update_rows (tr_key i k) f (transfers s)) {}"
proof -
  have same: "same_identity t (f t)" for t using assms(1) by (simp add: row_changed_def)
  have there: "\<exists>t'\<in>set (update_rows (tr_key i k) f (transfers s)).
      same_identity t t' \<and> tr_JournalEntryID t' = tr_JournalEntryID t"
    if "t \<in> set (transfers s)" for t
    using that same assms(2) by (intro bexI [of _ "if tr_key i k t then f t else t"])
      (auto simp: set_update_rows)
  have before: "\<exists>t\<in>set (transfers s). tr_ID t = tr_ID t' \<and> tr_JournalEntryID t = tr_JournalEntryID t'"
    if "t' \<in> set (update_rows (tr_key i k) f (transfers s))" for t'
  proof -
    from that obtain t where "t \<in> set (transfers s)" "t' = (if tr_key i k t then f t else t)"
      by (auto simp: set_update_rows)
    with same [of t] assms(2) show ?thesis
      by (intro bexI [of _ t]) (auto simp: same_identity_def)
  qed
  from there before show ?thesis unfolding keeps_journals_def by blast
qed

section \<open>Preservation\<close>

lemma journal_entry_of:
  "journals_ok s \<Longrightarrow> t \<in> set (transfers s) \<Longrightarrow> tr_JournalEntryID t = Some k \<Longrightarrow>
     \<exists>j\<in>set (journal_entries s). je_ID j = k \<and> je_TransferID j = Some (tr_ID t)"
  by (simp add: journals_ok_def)

lemma journals_okI:
  assumes "distinct (map je_ID (journal_entries s))" "distinct (map po_ID (postings s))"
    and "\<And>j. j \<in> set (journal_entries s) \<Longrightarrow> journal_ok s j"
    and "\<forall>p\<in>set (postings s). journal_exists s (po_JournalEntryID p)"
    and "\<And>t k. t \<in> set (transfers s) \<Longrightarrow> tr_JournalEntryID t = Some k \<Longrightarrow>
        \<exists>j\<in>set (journal_entries s). je_ID j = k \<and> je_TransferID j = Some (tr_ID t)"
  shows "journals_ok s"
  using assms unfolding journals_ok_def by blast

lemma journals_ok_keep:
  assumes ok: "journals_ok s"
    and same: "journal_entries s' = journal_entries s" "postings s' = postings s"
    and keep: "keeps_journals (transfers s) (transfers s') {}"
  shows "journals_ok s'"
proof -
  have "journal_ok s' j" if "j \<in> set (journal_entries s)" for j
  proof -
    from ok that have "journal_ok s j" by (simp add: journals_ok_def)
    then obtain t p q where t: "t \<in> set (transfers s)" "tr_JournalEntryID t = Some (je_ID j)"
      "je_TransferID j = Some (tr_ID t)" "je_InstitutionID j = tr_InstitutionID t"
      "je_TotalDebitMinor j = tr_AmountMinor t" "je_TotalCreditMinor j = tr_AmountMinor t"
      "legs_of (je_ID j) s = [p, q]" "two_legs t p q"
      by (auto simp: journal_ok_def)
    from keep t(1,2) obtain t' where "t' \<in> set (transfers s')" "same_identity t t'"
      "tr_JournalEntryID t' = tr_JournalEntryID t"
      by (auto simp: keeps_journals_def)
    with t same show ?thesis
      by (auto simp: journal_ok_def same_identity_def two_legs_def legs_of_def intro!: bexI [of _ t'])
  qed
  moreover have "\<exists>j\<in>set (journal_entries s). je_ID j = k \<and> je_TransferID j = Some (tr_ID t')"
    if t': "t' \<in> set (transfers s')" "tr_JournalEntryID t' = Some k" for t' k
  proof -
    from keep t' obtain t where "t \<in> set (transfers s)" "tr_ID t = tr_ID t'" "tr_JournalEntryID t = Some k"
      by (auto simp: keeps_journals_def)
    with journal_entry_of [OF ok, of t k] show ?thesis by simp
  qed
  ultimately show ?thesis
    using ok same by (intro journals_okI) (auto simp: journals_ok_def journal_exists_def)
qed

lemma legs_after:
  assumes "journal_effect i k amount db cr held j s s1" and "journals_ok s"
  shows "\<exists>p q. legs_of (je_ID j) s1 = [p, q] \<and> po_Direction p = PostingDebit \<and>
      po_Direction q = PostingCredit \<and> po_AmountMinor p = amount \<and> po_AmountMinor q = amount \<and>
      po_InstitutionID p = i \<and> po_InstitutionID q = i \<and> po_AccountID p = db \<and> po_AccountID q = cr"
    and "j' \<in> set (journal_entries s) \<Longrightarrow> legs_of (je_ID j') s1 = legs_of (je_ID j') s"
    and "distinct (map po_ID (postings s1))" "distinct (map je_ID (journal_entries s1))"
    and "\<forall>p\<in>set (postings s1). journal_exists s1 (po_JournalEntryID p)"
proof -
  from assms(1) obtain p q b1 b2 where
    l1: "leg_posted i amount held db PostingDebit s j p (account_balances s) b1" and
    l2: "leg_posted i amount held cr PostingCredit s j q b1 b2" and pq: "po_ID p \<noteq> po_ID q" and
    fresh: "\<not> journal_exists s (je_ID j)" and
    s1: "s1 = s\<lparr>journal_entries := journal_entries s @ [j], postings := postings s @ [p, q],
               account_balances := b2\<rparr>"
    by (auto simp: journal_effect_def)
  from assms(2) fresh have none: "filter (\<lambda>p. po_JournalEntryID p = je_ID j) (postings s) = []"
    by (auto simp: journals_ok_def filter_empty_conv)
  show "\<exists>p q. legs_of (je_ID j) s1 = [p, q] \<and> po_Direction p = PostingDebit \<and>
      po_Direction q = PostingCredit \<and> po_AmountMinor p = amount \<and> po_AmountMinor q = amount \<and>
      po_InstitutionID p = i \<and> po_InstitutionID q = i \<and> po_AccountID p = db \<and> po_AccountID q = cr"
    using l1 l2 none by (auto simp: legs_of_def s1 leg_posted_def)
  show "legs_of (je_ID j') s1 = legs_of (je_ID j') s" if "j' \<in> set (journal_entries s)"
    using l1 l2 fresh that by (auto simp: legs_of_def s1 leg_posted_def journal_exists_def)
  show "distinct (map po_ID (postings s1))"
    using assms(2) l1 l2 pq by (auto simp: s1 journals_ok_def leg_posted_def)
  show "distinct (map je_ID (journal_entries s1))"
    using assms(2) fresh by (auto simp: s1 journals_ok_def journal_exists_def)
  show "\<forall>p\<in>set (postings s1). journal_exists s1 (po_JournalEntryID p)"
    using assms(2) l1 l2 by (auto simp: s1 journals_ok_def leg_posted_def journal_exists_def)
qed

lemma journals_ok_post:
  assumes ok: "journals_ok s" and eff: "journal_effect i k amount db cr held j s s1"
    and same: "journal_entries s' = journal_entries s1" "postings s' = postings s1"
    and t0: "t0 \<in> set (transfers s')" "tr_ID t0 = k" "tr_InstitutionID t0 = i" "tr_AmountMinor t0 = amount"
      "tr_JournalEntryID t0 = Some (je_ID j)" "db \<noteq> cr" "tr_AccountID t0 \<in> {db, cr}"
    and keep: "keeps_journals (transfers s) (transfers s') {t0}"
  shows "journals_ok s'"
proof -
  note after = legs_after [OF eff ok]
  have j: "je_InstitutionID j = i" "je_TransferID j = Some k" "je_TotalDebitMinor j = amount"
    "je_TotalCreditMinor j = amount" "journal_entries s1 = journal_entries s @ [j]"
    using eff by (auto simp: journal_effect_def)
  have legs: "legs_of x s' = legs_of x s1" for x by (simp add: legs_of_def same)
  have "journal_ok s' j"
    unfolding journal_ok_def legs using after(1) t0 j
    by (intro bexI [of _ t0]) (auto simp: two_legs_def)
  moreover have "journal_ok s' j'" if j': "j' \<in> set (journal_entries s)" for j'
  proof -
    from ok j' have "journal_ok s j'" by (simp add: journals_ok_def)
    then obtain t p q where t: "t \<in> set (transfers s)" "tr_JournalEntryID t = Some (je_ID j')"
      "je_TransferID j' = Some (tr_ID t)" "je_InstitutionID j' = tr_InstitutionID t"
      "je_TotalDebitMinor j' = tr_AmountMinor t" "je_TotalCreditMinor j' = tr_AmountMinor t"
      "legs_of (je_ID j') s = [p, q]" "two_legs t p q"
      by (auto simp: journal_ok_def)
    from keep t(1,2) obtain t' where "t' \<in> set (transfers s')" "same_identity t t'"
      "tr_JournalEntryID t' = tr_JournalEntryID t"
      by (auto simp: keeps_journals_def)
    with t after(2) [OF j'] show ?thesis
      unfolding journal_ok_def legs
      by (intro bexI [of _ t']) (auto simp: same_identity_def two_legs_def)
  qed
  moreover have "\<exists>j\<in>set (journal_entries s'). je_ID j = x \<and> je_TransferID j = Some (tr_ID t')"
    if t': "t' \<in> set (transfers s')" "tr_JournalEntryID t' = Some x" for t' x
  proof (cases "t' = t0")
    case True
    with t' t0 j same show ?thesis by auto
  next
    case False
    with keep t' obtain t where "t \<in> set (transfers s)" "tr_ID t = tr_ID t'" "tr_JournalEntryID t = Some x"
      by (auto simp: keeps_journals_def)
    with journal_entry_of [OF ok, of t x] show ?thesis by (auto simp: j same)
  qed
  ultimately have each: "\<And>j'. j' \<in> set (journal_entries s') \<Longrightarrow> journal_ok s' j'"
    "\<And>t' x. t' \<in> set (transfers s') \<Longrightarrow> tr_JournalEntryID t' = Some x \<Longrightarrow>
       \<exists>j\<in>set (journal_entries s'). je_ID j = x \<and> je_TransferID j = Some (tr_ID t')"
    using same(1) j(5) by auto
  have posts: "\<forall>p\<in>set (postings s'). journal_exists s' (po_JournalEntryID p)"
    using after(5) same by (simp add: journal_exists_def)
  have ids: "distinct (map je_ID (journal_entries s'))" "distinct (map po_ID (postings s'))"
    using after(3,4) same by simp_all
  show ?thesis by (rule journals_okI [OF ids each(1) posts each(2)])
qed

lemma pending_no_journal:
  "rows_ok ts \<Longrightarrow> t \<in> set ts \<Longrightarrow> tr_Status t = TransferStatusPending \<Longrightarrow> tr_JournalEntryID t = None"
  by (drule (1) rows_okD) (auto simp: status_ok_def)

lemma changed_row_in:
  "t \<in> set (transfers s) \<Longrightarrow> tr_key i k t \<Longrightarrow> f t \<in> set (update_rows (tr_key i k) f (transfers s))"
  by (auto simp: set_update_rows)

lemma journals_ok_settle:
  assumes "journals_ok s" "rows_ok (transfers s)" and t: "t \<in> set (transfers s)" "tr_key i k t"
    and pending: "tr_Status t = TransferStatusPending"
    and eff: "journal_effect i k (tr_AmountMinor t) db cr held j s s1"
    and acc: "db \<noteq> cr" "tr_AccountID t \<in> {db, cr}"
    and f: "settles i k f s st (Some (je_ID j))" "row_changed i k f s"
    and same: "journal_entries s' = journal_entries s1" "postings s' = postings s1"
      "transfers s' = update_rows (tr_key i k) f (transfers s)"
  shows "journals_ok s'"
proof (rule journals_ok_post [OF assms(1) eff same(1,2), of "f t"])
  show "f t \<in> set (transfers s')" using t changed_row_in by (simp add: same)
  have "same_identity t (f t)" using f by (simp add: row_changed_def)
  then show "tr_ID (f t) = k" "tr_InstitutionID (f t) = i" "tr_AmountMinor (f t) = tr_AmountMinor t"
    "tr_AccountID (f t) \<in> {db, cr}"
    using t acc by (auto simp: same_identity_def tr_key_def)
  show "tr_JournalEntryID (f t) = Some (je_ID j)" using f t by (auto simp: settles_def)
  show "keeps_journals (transfers s) (transfers s') {f t}"
    unfolding same
    by (rule keeps_journals_change [OF assms(2) t pending_no_journal [OF assms(2) t(1) pending] f(2)])
qed (rule acc)

lemma journals_ok_record:
  assumes "journals_ok s" and eff: "journal_effect i (tr_ID t) (tr_AmountMinor t) db cr held j s s1"
    and acc: "db \<noteq> cr" "tr_AccountID t \<in> {db, cr}"
    and t: "tr_InstitutionID t = i" "tr_JournalEntryID t = Some (je_ID j)"
  shows "journals_ok (add_row t s1)"
proof (rule journals_ok_post [OF assms(1) eff, of _ t])
  have "transfers (add_row t s1) = transfers s @ [t]"
    by (simp add: add_row_def journal_effect_frame [OF eff])
  then show "keeps_journals (transfers s) (transfers (add_row t s1)) {t}"
    "t \<in> set (transfers (add_row t s1))"
    by (simp_all add: keeps_journals_append)
qed (simp_all add: add_row_def t acc [simplified])

lemma journals_ok_unposted:
  assumes "journals_ok s" "rows_ok (transfers s)" and t: "t \<in> set (transfers s)" "tr_key i k t"
    and pending: "tr_Status t = TransferStatusPending"
    and f: "settles i k f s st None" "row_changed i k f s"
    and same: "journal_entries s' = journal_entries s" "postings s' = postings s"
      "transfers s' = update_rows (tr_key i k) f (transfers s)"
  shows "journals_ok s'"
  by (rule journals_ok_keep [OF assms(1) same(1,2)], unfold same,
      rule keeps_journals_change_None [OF assms(2) t pending_no_journal [OF assms(2) t(1) pending] f(2)])
    (use f t in \<open>auto simp: settles_def\<close>)

theorem journals_ok_step:
  "book_step i s s' \<Longrightarrow> rows_ok (transfers s) \<Longrightarrow> journals_ok s \<Longrightarrow> journals_ok s'"
proof (induction rule: book_step.induct)
  case (record_posted i t db cr held j s s1)
  then show ?case
    by (intro journals_ok_record [of s i t db cr held j s1]) (simp_all add: row_added_def)
next
  case (record_held i t s s' h)
  note frame = hold_placed_frame [OF record_held(5)]
  show ?case
    by (rule journals_ok_keep [OF record_held(11)])
      (simp_all add: frame add_row_def keeps_journals_append_None record_held(2))
next
  case (settle_posted t s i k db cr held j s1 f)
  note frame = journal_effect_frame [OF settle_posted(5)]
  show ?case
    by (rule journals_ok_settle [OF settle_posted(12,11,1,2,3,5,7,8,9,10)])
      (simp_all add: change_row_def frame)
next
  case (settle_held t s i k cr j s1 h s2 f)
  note frame = journal_effect_frame [OF settle_held(4)] hold_consumed_frame [OF settle_held(7)]
  show ?case
    by (rule journals_ok_settle [OF settle_held(11,10,1,2,3,4) settle_held(5) [symmetric] _ settle_held(8,9)])
      (simp_all add: change_row_def frame)
next
  case (fail_held t s i k h s1 f)
  note frame = hold_released_frame [OF fail_held(5)]
  show ?case
    by (rule journals_ok_unposted [OF fail_held(9,8,1,2,3,6,7)]) (simp_all add: change_row_def frame)
next
  case (fail_unheld t s i k f)
  show ?case
    by (rule journals_ok_unposted [OF fail_unheld(8,7,1,2,3,5,6)]) (simp_all add: change_row_def)
next
  case (still_pending t s i k f)
  show ?case
    by (rule journals_ok_unposted [OF still_pending(8,7,1,2,3,5,6)]) (simp_all add: change_row_def)
next
  case (mark_reversal t s i k f)
  have "tr_JournalEntryID (f r) = tr_JournalEntryID r" for r
  proof -
    from mark_reversal(4) obtain now where
      "f r = r\<lparr>tr_Direction := TransferDirectionReversal, tr_UpdatedAt := now\<rparr>" by blast
    then show ?thesis by simp
  qed
  from keeps_journals_same [OF mark_reversal(5) this] show ?case
    by (intro journals_ok_keep [OF mark_reversal(7)]) (simp_all add: change_row_def)
next
  case (mark_reviewed f now i k s)
  have "tr_JournalEntryID (f r) = tr_JournalEntryID r" for r
  proof -
    from mark_reviewed(1) obtain st nt at who where
      "f r = r\<lparr>tr_ReviewStatus := st, tr_ReviewNote := nt, tr_ReviewedAt := at,
        tr_ReviewedBy := who, tr_UpdatedAt := now\<rparr>" by blast
    then show ?thesis by simp
  qed
  from keeps_journals_same [OF mark_reviewed(2) this] show ?case
    by (intro journals_ok_keep [OF mark_reviewed(4)]) (simp_all add: change_row_def)
next
  case (place_lien h i s s')
  note frame = hold_placed_frame [OF place_lien(3)]
  show ?case
    by (rule journals_ok_keep [OF place_lien(5)]) (simp_all add: frame keeps_journals_refl)
next
  case (release_lien h i s s')
  note frame = hold_released_frame [OF release_lien(3)]
  show ?case
    by (rule journals_ok_keep [OF release_lien(5)]) (simp_all add: frame keeps_journals_refl)
qed (erule journals_ok_keep; simp add: add_row_def keeps_journals_refl keeps_journals_append_None)+

end
