(* ===== verification/BookMoney.thy ===== *)
theory BookMoney
  imports BookHolds BookJournals
begin

text \<open>
  The third invariant of the books, about money: the ledger balance of every account is the sum of its
  signed postings, the available balance is the ledger balance less the active holds, the debits of an
  institution equal its credits, and every balance stays in the range of \<open>bigint\<close>.
\<close>

section \<open>Accounts\<close>

definition accounts_ok :: "store \<Rightarrow> bool" where
  "accounts_ok s \<longleftrightarrow>
     distinct (map acc_ID (accounts s)) \<and> [] \<notin> acc_ID ` set (accounts s) \<and>
     (\<forall>a\<in>set (accounts s). acc_NormalBalance a \<in> {NormalBalanceDebit, NormalBalanceCredit}) \<and>
     distinct (map bal_AccountID (account_balances s)) \<and>
     list_all balance_in_range (account_balances s) \<and>
     (\<forall>p\<in>set (postings s). account_exists s (po_AccountID p))"

lemma normal_of_open:
  assumes "\<not> account_exists s (acc_ID a)"
  shows "normal_of (s\<lparr>accounts := accounts s @ [a]\<rparr>) i k =
    (if i = acc_InstitutionID a \<and> k = acc_ID a then Some (acc_NormalBalance a) else normal_of s i k)"
  using assms by (auto simp: normal_of_def account_exists_def)

lemma normal_of_update:
  assumes "\<And>a. U a \<Longrightarrow> acc_ID (f a) = acc_ID a \<and> acc_InstitutionID (f a) = acc_InstitutionID a \<and>
      acc_NormalBalance (f a) = acc_NormalBalance a"
  shows "normal_of (s\<lparr>accounts := update_rows U f (accounts s)\<rparr>) = normal_of s"
proof
  fix i
  have "map (\<lambda>r. (acc_ID r, acc_NormalBalance r))
      (filter (\<lambda>r. acc_InstitutionID r = i) (update_rows U f rows)) =
    map (\<lambda>r. (acc_ID r, acc_NormalBalance r)) (filter (\<lambda>r. acc_InstitutionID r = i) rows)" for rows
    using assms by (induction rows) auto
  then show "normal_of (s\<lparr>accounts := update_rows U f (accounts s)\<rparr>) i = normal_of s i"
    by (simp add: normal_of_def)
qed

lemma normal_of_SomeD:
  "normal_of s i a = Some n \<Longrightarrow> \<exists>r\<in>set (accounts s). acc_InstitutionID r = i \<and> acc_ID r = a \<and> acc_NormalBalance r = n"
  by (auto simp: normal_of_def dest!: map_of_SomeD)

lemma accounts_ok_frame:
  assumes "accounts_ok s" "accounts s' = accounts s" "account_balances s' = account_balances s"
    "postings s' = postings s"
  shows "accounts_ok s'"
  using assms by (simp add: accounts_ok_def account_exists_def)

lemma accounts_ok_moved:
  assumes "accounts_ok s" "accounts s' = accounts s" "moved i a dA dL (account_balances s) (account_balances s')"
    "postings s' = postings s"
  shows "accounts_ok s'"
  using assms moved_keys(1,4) [OF assms(3)] by (simp add: accounts_ok_def account_exists_def)

lemma accounts_ok_journal:
  assumes "accounts_ok s" and "journal_effect i k amount db cr held j s s1"
  shows "accounts_ok s1"
proof -
  from assms(2) obtain p q b1 b2 where
    l1: "leg_posted i amount held db PostingDebit s j p (account_balances s) b1" and
    l2: "leg_posted i amount held cr PostingCredit s j q b1 b2" and
    s1: "s1 = s\<lparr>journal_entries := journal_entries s @ [j], postings := postings s @ [p, q],
               account_balances := b2\<rparr>"
    by (auto simp: journal_effect_def)
  from l1 l2 obtain dA dL dA' dL' where
    m: "moved i db dA dL (account_balances s) b1" "moved i cr dA' dL' b1 b2"
    and acct: "account_exists s (po_AccountID p)" "account_exists s (po_AccountID q)"
    by (auto simp: leg_posted_def)
  show ?thesis
    using assms(1) acct moved_keys(1,4) [OF m(1)] moved_keys(1,4) [OF m(2)]
    by (auto simp: accounts_ok_def s1 account_exists_def)
qed

lemma accounts_ok_step: "book_step i s s' \<Longrightarrow> accounts_ok s \<Longrightarrow> accounts_ok s'"
proof (induction rule: book_step.induct)
  case (open_account a i s b)
  then show ?case
    by (auto simp: accounts_ok_def account_exists_def balance_in_range_def in_int64_def)
next
  case (set_status f U i s)
  have f: "acc_ID (f a) = acc_ID a \<and> acc_NormalBalance (f a) = acc_NormalBalance a" for a
  proof -
    from set_status(1) obtain st now where "f a = a\<lparr>acc_Status := st, acc_UpdatedAt := now\<rparr>" by blast
    then show ?thesis by simp
  qed
  have "map acc_ID (update_rows U f (accounts s)) = map acc_ID (accounts s)"
    using f by (intro map_update_rows_same) simp
  moreover have "acc_ID ` set (update_rows U f (accounts s)) = acc_ID ` set (accounts s)"
    using f by (intro image_update_rows_same) simp
  ultimately have "map acc_ID (update_rows U f (accounts s)) = map acc_ID (accounts s)"
    "acc_ID ` set (update_rows U f (accounts s)) = acc_ID ` set (accounts s)" .
  moreover have "acc_NormalBalance a \<in> {NormalBalanceDebit, NormalBalanceCredit}"
    if "a \<in> set (update_rows U f (accounts s))" for a
    using that f set_status(3) by (auto simp: set_update_rows accounts_ok_def)
  ultimately show ?case
    using set_status(3) by (simp add: accounts_ok_def account_exists_def)
next
  case (place_lien h i s s')
  then show ?case by (auto simp: hold_placed_def intro: accounts_ok_moved)
next
  case (release_lien h i s s')
  then show ?case by (auto simp: hold_released_def intro: accounts_ok_moved)
next
  case (record_posted i t db cr held j s s1)
  show ?case
    by (rule accounts_ok_frame [OF accounts_ok_journal [OF record_posted(7,1)]]) (simp_all add: add_row_def)
next
  case (record_held i t s h s')
  have "accounts_ok (add_row t s)" by (rule accounts_ok_frame [OF record_held(10)]) (simp_all add: add_row_def)
  with record_held(5) show ?case by (auto simp: hold_placed_def intro: accounts_ok_moved)
next
  case (settle_posted t s i k db cr held j s1 f)
  show ?case
    by (rule accounts_ok_frame [OF accounts_ok_journal [OF settle_posted(11,5)]]) (simp_all add: change_row_def)
next
  case (settle_held t s i k cr j s1 h s2 f)
  show ?case
    by (rule accounts_ok_frame [OF accounts_ok_journal [OF settle_held(10,4)]])
      (simp_all add: change_row_def hold_consumed_frame [OF settle_held(7)])
next
  case (fail_held t s i k h s1 f)
  have "accounts_ok s1" using fail_held(5,8) by (auto simp: hold_released_def intro: accounts_ok_moved)
  then show ?case by (rule accounts_ok_frame) (simp_all add: change_row_def)
qed (erule accounts_ok_frame; simp add: add_row_def change_row_def)+

section \<open>The ledger is the sum of its postings\<close>

definition ledger_drift :: "store \<Rightarrow> string \<Rightarrow> string \<Rightarrow> int" where
  "ledger_drift s i a = ledger_of s i a - posted s i a"

definition debits_of :: "store \<Rightarrow> string \<Rightarrow> int" where
  "debits_of s i = debits (filter (\<lambda>p. po_InstitutionID p = i) (postings s))"

definition credits_of :: "store \<Rightarrow> string \<Rightarrow> int" where
  "credits_of s i = credits (filter (\<lambda>p. po_InstitutionID p = i) (postings s))"

definition trial_gap :: "store \<Rightarrow> string \<Rightarrow> int" where
  "trial_gap s i = debits_of s i - credits_of s i"

lemma rows_frame [simp]:
  "ledger_of (add_row t s) = ledger_of s" "ledger_of (change_row i k f s) = ledger_of s"
  "posted (add_row t s) = posted s" "posted (change_row i k f s) = posted s"
  "available_of (add_row t s) = available_of s" "available_of (change_row i k f s) = available_of s"
  "active_holds (add_row t s) = active_holds s" "active_holds (change_row i k f s) = active_holds s"
  "normal_of (add_row t s) = normal_of s" "normal_of (change_row i k f s) = normal_of s"
  "postings (add_row t s) = postings s" "postings (change_row i k f s) = postings s"
  "account_holds (add_row t s) = account_holds s" "account_holds (change_row i k f s) = account_holds s"
  "accounts (add_row t s) = accounts s" "accounts (change_row i k f s) = accounts s"
  by (auto simp: fun_eq_iff add_row_def change_row_def ledger_of_def posted_def available_of_def
      active_holds_def)

lemma rows_frame' [simp]:
  "ledger_drift (add_row t s) = ledger_drift s" "ledger_drift (change_row i k f s) = ledger_drift s"
  "hold_gap (add_row t s) = hold_gap s" "hold_gap (change_row i k f s) = hold_gap s"
  "trial_gap (add_row t s) = trial_gap s" "trial_gap (change_row i k f s) = trial_gap s"
  by (auto simp: fun_eq_iff ledger_drift_def hold_gap_def trial_gap_def debits_of_def credits_of_def)

lemma journal_drift: "journal_effect i k amount db cr held j s s1 \<Longrightarrow> ledger_drift s1 i' a = ledger_drift s i' a"
  using journal_effect_books(1) [of i k amount db cr held j s s1 i' a] by (simp add: ledger_drift_def)

lemma hold_moves_drift:
  "hold_placed h s s' \<Longrightarrow> ledger_drift s' i a = ledger_drift s i a"
  "hold_released h s s' \<Longrightarrow> ledger_drift s' i a = ledger_drift s i a"
  "hold_consumed h s s' \<Longrightarrow> ledger_drift s' i a = ledger_drift s i a"
  by (auto simp: hold_placed_def hold_released_def hold_consumed_def ledger_drift_def ledger_of_def
      posted_def moved_sum)

lemma journal_trial: "journal_effect i k amount db cr held j s s1 \<Longrightarrow> trial_gap s1 i' = trial_gap s i'"
  by (auto simp: journal_effect_def leg_posted_def trial_gap_def debits_of_def credits_of_def
      debits_def credits_def)

lemma hold_moves_trial:
  "hold_placed h s s' \<Longrightarrow> trial_gap s' i = trial_gap s i"
  "hold_released h s s' \<Longrightarrow> trial_gap s' i = trial_gap s i"
  "hold_consumed h s s' \<Longrightarrow> trial_gap s' i = trial_gap s i"
  by (auto simp: hold_placed_def hold_released_def hold_consumed_def trial_gap_def debits_of_def credits_of_def)

lemma posted_open:
  assumes "accounts_ok s" "\<not> account_exists s (acc_ID a)"
  shows "posted (s\<lparr>accounts := accounts s @ [a], account_balances := bs\<rparr>) i k = posted s i k"
proof -
  have "normal_of (s\<lparr>accounts := accounts s @ [a], account_balances := bs\<rparr>) i k = normal_of s i k"
    if "p \<in> set (postings s)" "post_key i k p" for p
    using assms that by (auto simp: normal_of_open post_key_def accounts_ok_def)
  then show ?thesis
    by (simp add: posted_def) (auto intro!: sum_rows_cong)
qed

lemma drift_step:
  "book_step i s s' \<Longrightarrow> accounts_ok s \<Longrightarrow> ledger_drift s' i' a' = ledger_drift s i' a'"
proof (induction rule: book_step.induct)
  case (open_account a i s b)
  then show ?case
    by (simp add: ledger_drift_def posted_open) (simp add: ledger_of_def)
next
  case (set_status f U i s)
  have "acc_ID (f a) = acc_ID a \<and> acc_InstitutionID (f a) = acc_InstitutionID a \<and>
      acc_NormalBalance (f a) = acc_NormalBalance a" for a
  proof -
    from set_status(1) obtain st now where "f a = a\<lparr>acc_Status := st, acc_UpdatedAt := now\<rparr>" by blast
    then show ?thesis by simp
  qed
  then show ?case
    by (simp add: ledger_drift_def posted_def normal_of_update) (simp add: ledger_of_def)
next
  case (record_held i t s h s')
  then show ?case using hold_moves_drift(1) [OF record_held(5), of i' a'] by simp
next
  case (settle_held t s i k cr j s1 h s2 f)
  then show ?case
    using journal_drift [OF settle_held(4), of i' a'] hold_moves_drift(3) [OF settle_held(7), of i' a'] by simp
qed (simp_all add: journal_drift hold_moves_drift, simp_all add: ledger_drift_def ledger_of_def posted_def)

lemma trial_step: "book_step i s s' \<Longrightarrow> trial_gap s' i' = trial_gap s i'"
proof (induction rule: book_step.induct)
  case (record_held i t s h s')
  then show ?case using hold_moves_trial(1) [OF record_held(5), of i'] by simp
next
  case (settle_held t s i k cr j s1 h s2 f)
  then show ?case
    using journal_trial [OF settle_held(4), of i'] hold_moves_trial(3) [OF settle_held(7), of i'] by simp
qed (simp_all add: journal_trial hold_moves_trial, simp_all add: trial_gap_def debits_of_def credits_of_def)

section \<open>Available is ledger less holds\<close>

text \<open>
  The accounts for which this is promised: the credit-normal ones, and those that never had a
  transfer hold.
\<close>

definition spendable :: "store \<Rightarrow> string \<Rightarrow> string \<Rightarrow> bool" where
  "spendable s i a \<longleftrightarrow>
     normal_of s i a = Some NormalBalanceCredit \<or>
     (\<forall>h\<in>set (account_holds s). ho_InstitutionID h = i \<and> ho_AccountID h = a \<longrightarrow> ho_TransferID h = None)"

lemma journal_gap:
  assumes "journal_effect i k amount db cr held j s s1"
  shows "hold_gap s1 i' a = hold_gap s i' a -
      (if i' = i \<and> a = held \<and> a = db then signed (normal_of s i a) PostingDebit amount else 0) -
      (if i' = i \<and> a = held \<and> a = cr then signed (normal_of s i a) PostingCredit amount else 0)"
proof -
  have "active_holds s1 i' a = active_holds s i' a"
    by (simp add: active_holds_def journal_effect_frame [OF assms])
  with journal_effect_books(2) [OF assms, of i' a] show ?thesis by (simp add: hold_gap_def)
qed

lemma journal_gap_unheld:
  "journal_effect i k amount db cr held j s s1 \<Longrightarrow> held \<notin> {db, cr} \<Longrightarrow> hold_gap s1 i' a = hold_gap s i' a"
  by (auto simp: journal_gap)

text \<open>
  Posting against the held account does not take the amount out of the available balance again, and
  consuming the hold does not give it back: on a credit-normal account the two cancel.
\<close>

lemma settle_held_gap:
  assumes eff: "journal_effect i k amount a cr a j s s1" and "cr \<noteq> a"
    and c: "hold_consumed h s1 s2" and h: "ho_InstitutionID h = i" "ho_AccountID h = a" "ho_AmountMinor h = amount"
    and n: "i' = i \<and> a' = a \<longrightarrow> normal_of s i a = Some NormalBalanceCredit"
  shows "hold_gap s2 i' a' = hold_gap s i' a'"
  using assms(2) h n
  by (auto simp: hold_consumed_gap [OF c] journal_gap [OF eff] signed_def)

lemma spendable_holds_append:
  "account_holds s' = account_holds s @ [h] \<Longrightarrow> normal_of s' i a = normal_of s i a \<Longrightarrow>
     spendable s' i a \<Longrightarrow> spendable s i a"
  by (auto simp: spendable_def)

definition hold_scope :: "store \<Rightarrow> (string \<times> string \<times> string option) set" where
  "hold_scope s = (\<lambda>h. (ho_InstitutionID h, ho_AccountID h, ho_TransferID h)) ` set (account_holds s)"

lemma spendable_mono:
  assumes "hold_scope s \<subseteq> hold_scope s'" "normal_of s' i a = normal_of s i a" "spendable s' i a"
  shows "spendable s i a"
proof -
  have "ho_TransferID h = None" if h: "h \<in> set (account_holds s)" "ho_InstitutionID h = i" "ho_AccountID h = a"
    and none: "\<forall>h\<in>set (account_holds s'). ho_InstitutionID h = i \<and> ho_AccountID h = a \<longrightarrow> ho_TransferID h = None"
    for h
  proof -
    have "(i, a, ho_TransferID h) \<in> hold_scope s'"
      using assms(1) h by (auto simp: hold_scope_def)
    then obtain h' where "h' \<in> set (account_holds s')" "ho_InstitutionID h' = i" "ho_AccountID h' = a"
      "ho_TransferID h' = ho_TransferID h" by (auto simp: hold_scope_def)
    with none show ?thesis by auto
  qed
  with assms(2,3) show ?thesis by (auto simp: spendable_def)
qed

lemma closed_scope:
  assumes "hold_closed h st (account_holds s) hs" "account_holds s' = hs"
  shows "hold_scope s' = hold_scope s"
proof -
  let ?g = "\<lambda>(_, i, a, k, _, _). (i, a, k)"
  let ?f = "\<lambda>h. (ho_ID h, ho_InstitutionID h, ho_AccountID h, ho_TransferID h, ho_AmountMinor h, ho_Reference h)"
  have scope: "hold_scope r = set (map ?g (map ?f (account_holds r)))" for r
    by (simp add: hold_scope_def image_image)
  show ?thesis unfolding scope assms(2) hold_closed_keys [OF assms(1)] ..
qed

text \<open>A step keeps the gap of every account that is spendable after it.\<close>

definition gap_kept :: "store \<Rightarrow> store \<Rightarrow> bool" where
  "gap_kept s s' \<longleftrightarrow> (\<forall>i a. spendable s' i a \<longrightarrow> spendable s i a \<and> hold_gap s' i a = hold_gap s i a)"

lemma gap_keptI:
  assumes "hold_scope s \<subseteq> hold_scope s'" "normal_of s' = normal_of s"
    and "\<And>i a. spendable s' i a \<Longrightarrow> hold_gap s' i a = hold_gap s i a"
  shows "gap_kept s s'"
  using assms spendable_mono unfolding gap_kept_def by metis

interpretation gap: tx_relation gap_kept
  by unfold_locales (auto simp: gap_kept_def)

lemma gap_frame:
  assumes "account_holds s' = account_holds s" "accounts s' = accounts s"
    "account_balances s' = account_balances s"
  shows "gap_kept s s'"
proof -
  have n: "normal_of s' = normal_of s" by (simp add: normal_of_def fun_eq_iff assms(2))
  show ?thesis
    by (rule gap_keptI)
      (simp_all add: hold_scope_def n assms hold_gap_def available_of_def ledger_of_def active_holds_def)
qed

lemma gap_placed:
  assumes "hold_placed h s s'"
  shows "gap_kept s s'"
proof (rule gap_keptI)
  note frame = hold_placed_frame [OF assms]
  show "hold_scope s \<subseteq> hold_scope s'" by (auto simp: hold_scope_def frame)
  show "normal_of s' = normal_of s" by (simp add: normal_of_def fun_eq_iff frame)
  show "hold_gap s' i a = hold_gap s i a" for i a by (rule hold_placed_gap [OF assms])
qed

lemma gap_released:
  assumes "hold_released h s s'"
  shows "gap_kept s s'"
proof (rule gap_keptI)
  from assms obtain hs where "hold_closed h HoldStatusReleased (account_holds s) hs" "account_holds s' = hs"
    by (auto simp: hold_released_def)
  from closed_scope [OF this] show "hold_scope s \<subseteq> hold_scope s'" by simp
  show "normal_of s' = normal_of s"
    by (simp add: normal_of_def fun_eq_iff hold_released_frame [OF assms])
  show "hold_gap s' i a = hold_gap s i a" for i a by (rule hold_released_gap [OF assms])
qed

lemma gap_journal:
  assumes "journal_effect i k amount db cr held j s s1" "held \<notin> {db, cr}"
  shows "gap_kept s s1"
  by (rule gap_keptI)
    (simp_all add: hold_scope_def normal_of_def fun_eq_iff journal_effect_frame [OF assms(1)]
      journal_gap_unheld [OF assms])

lemma gap_rows: "gap_kept s (add_row t s)" "gap_kept s (change_row i k f s)"
  by (auto intro!: gap_keptI simp: hold_scope_def)

lemma gap_open:
  assumes ok: "accounts_ok s" "holds_ok s" and a: "\<not> account_exists s (acc_ID a)"
    and b: "bal_InstitutionID b = acc_InstitutionID a" "bal_AccountID b = acc_ID a" "bal_AvailableMinor b = 0"
      "bal_LedgerMinor b = 0"
  shows "gap_kept s (s\<lparr>accounts := accounts s @ [a], account_balances := account_balances s @ [b]\<rparr>)"
    (is "gap_kept s ?s'")
  unfolding gap_kept_def
proof (intro allI impI)
  fix i k assume sp: "spendable ?s' i k"
  have "spendable s i k"
  proof (cases "i = acc_InstitutionID a \<and> k = acc_ID a")
    case True
    have "ho_AccountID h \<noteq> acc_ID a" if "h \<in> set (account_holds s)" for h
      using a holds_okD(2) [OF ok(2) that] by auto
    with True show ?thesis by (auto simp: spendable_def)
  next
    case False
    then have "normal_of ?s' i k = normal_of s i k" using normal_of_open [OF a] by auto
    with sp show ?thesis by (simp add: spendable_def)
  qed
  moreover have "hold_gap ?s' i k = hold_gap s i k"
    using b by (simp add: hold_gap_def available_of_def ledger_of_def active_holds_def)
  ultimately show "spendable s i k \<and> hold_gap ?s' i k = hold_gap s i k" by simp
qed

lemma gap_step:
  "book_step i s s' \<Longrightarrow> rows_ok (transfers s) \<Longrightarrow> holds_ok s \<Longrightarrow> accounts_ok s \<Longrightarrow> gap_kept s s'"
proof (induction rule: book_step.induct)
  case (open_account a i s b)
  show ?case
    by (rule gap_open [OF open_account(12,11,4)]) (simp_all add: open_account)
next
  case (set_status f U i s)
  have f: "acc_ID (f a) = acc_ID a \<and> acc_InstitutionID (f a) = acc_InstitutionID a \<and>
      acc_NormalBalance (f a) = acc_NormalBalance a" for a
  proof -
    from set_status(1) obtain st now where "f a = a\<lparr>acc_Status := st, acc_UpdatedAt := now\<rparr>" by blast
    then show ?thesis by simp
  qed
  show ?case
    by (rule gap_keptI)
      (simp_all add: hold_scope_def normal_of_update f hold_gap_def available_of_def ledger_of_def active_holds_def)
next
  case (record_posted i t db cr held j s s1)
  show ?case by (rule gap.R_trans [OF gap_journal [OF record_posted(1,2)] gap_rows(1)])
next
  case (record_held i t s h s')
  show ?case by (rule gap.R_trans [OF gap_rows(1) gap_placed [OF record_held(5)]])
next
  case (settle_posted t s i k db cr held j s1 f)
  show ?case by (rule gap.R_trans [OF gap_journal [OF settle_posted(5,6)] gap_rows(2)])
next
  case (settle_held t s i k cr j s1 h s2 f)
  from select_one_SomeD [OF settle_held(6)] have h: "h \<in> set (account_holds s)" "hold_for i k h"
    by (auto simp: active_for_iff)
  have t: "tr_AccountID t = ho_AccountID h" "tr_AmountMinor t = ho_AmountMinor h"
    using hold_transfer [OF settle_held(11,10) h settle_held(1)] settle_held(2) by (auto simp: tr_key_def)
  have hi: "ho_InstitutionID h = i" "ho_TransferID h = Some k" using h(2) by (auto simp: hold_for_def)
  have n: "normal_of s2 = normal_of s"
    by (simp add: normal_of_def fun_eq_iff hold_consumed_frame [OF settle_held(7)]
        journal_effect_frame [OF settle_held(4)])
  from settle_held(7) obtain hs where closed: "hold_closed h HoldStatusConsumed (account_holds s1) hs"
    "account_holds s2 = hs" by (auto simp: hold_consumed_def)
  have "hold_scope s1 = hold_scope s" by (simp add: hold_scope_def journal_effect_frame [OF settle_held(4)])
  with closed_scope [OF closed] have scope: "hold_scope s2 = hold_scope s" by simp
  have "gap_kept s s2"
  proof (rule gap_keptI)
    show "hold_scope s \<subseteq> hold_scope s2" "normal_of s2 = normal_of s" using scope n by simp_all
    fix i' a assume sp: "spendable s2 i' a"
    then have sp: "spendable s i' a" using spendable_mono [of s s2 i' a] scope n by simp
    have "normal_of s i (tr_AccountID t) = Some NormalBalanceCredit" if "i' = i \<and> a = tr_AccountID t"
      using sp that h(1) hi t(1) by (auto simp: spendable_def)
    then show "hold_gap s2 i' a = hold_gap s i' a"
      by (intro settle_held_gap [OF settle_held(4,5,7)]) (simp_all add: hi t)
  qed
  then show ?case by (rule gap.R_trans) (rule gap_rows(2))
next
  case (fail_held t s i k h s1 f)
  show ?case by (rule gap.R_trans [OF gap_released [OF fail_held(5)] gap_rows(2)])
qed (auto intro: gap_placed gap_released gap_rows gap_frame)

section \<open>The books\<close>

definition books_ok :: "store \<Rightarrow> bool" where
  "books_ok s \<longleftrightarrow>
     rows_ok (transfers s) \<and> journals_ok s \<and> holds_ok s \<and> accounts_ok s \<and>
     (\<forall>i a. ledger_drift s i a = 0) \<and> (\<forall>i. trial_gap s i = 0) \<and>
     (\<forall>i a. spendable s i a \<longrightarrow> hold_gap s i a = 0)"

lemma books_okD:
  assumes "books_ok s"
  shows "rows_ok (transfers s)" "journals_ok s" "holds_ok s" "accounts_ok s"
    "ledger_drift s i a = 0" "trial_gap s i = 0" "spendable s i a \<Longrightarrow> hold_gap s i a = 0"
  using assms by (simp_all add: books_ok_def)

lemma books_ok_step:
  assumes "book_step i s s'" and "books_ok s"
  shows "books_ok s'"
proof -
  note ok = books_okD(1-4) [OF assms(2)]
  have "ledger_drift s' i' a' = 0" "trial_gap s' i' = 0" for i' a'
    using drift_step [OF assms(1) ok(4)] trial_step [OF assms(1)] books_okD(5,6) [OF assms(2)] by simp_all
  moreover have "hold_gap s' i' a' = 0" if "spendable s' i' a'" for i' a'
    using gap_step [OF assms(1) ok(1,3,4)] that books_okD(7) [OF assms(2)] by (simp add: gap_kept_def)
  ultimately show ?thesis
    using rows_ok_step [OF assms(1) ok(1)] journals_ok_step [OF assms(1) ok(1,2)]
      holds_ok_step [OF assms(1) ok(1,3)] accounts_ok_step [OF assms(1) ok(4)]
    by (simp add: books_ok_def)
qed

lemma books_ok_steps: "book_steps i s s' \<Longrightarrow> books_ok s \<Longrightarrow> books_ok s'"
  by (induction rule: rtranclp_induct) (auto intro: books_ok_step)

end
