(* ===== verification/TransferRefine.thy ===== *)
theory TransferRefine
  imports TransferOps BookMoney
begin

text \<open>
  The transfer transactions take only steps of the book specification: whatever \<open>recordTransfer\<close>,
  \<open>settlePendingTransfer\<close>, \<open>completeExternalOutboundTransfer\<close> and the operations built on them commit is
  a sequence of \<open>book_step\<close>s of the institution of the request.
\<close>

interpretation book: tx_relation "book_steps i" for i
  by unfold_locales auto

lemma txThen_elim:
  "txThen m n s = Inr r \<Longrightarrow> (\<And>x s1. m s = Inr (x, s1) \<Longrightarrow> n s1 = Inr r \<Longrightarrow> P) \<Longrightarrow> P"
  by (cases r) (auto simp: txThen_Inr)

lemma txBind_elim:
  "txBind m f s = Inr r \<Longrightarrow> (\<And>x s1. m s = Inr (x, s1) \<Longrightarrow> f x s1 = Inr r \<Longrightarrow> P) \<Longrightarrow> P"
  by (cases r) (auto simp: txBind_Inr)

section \<open>Bookkeeping statements\<close>

lemma book_step_trans: "book_step i s t \<Longrightarrow> book_steps i t u \<Longrightarrow> book_steps i s u"
  by (rule converse_rtranclp_into_rtranclp)

lemma book_one: "book_step i s s' \<Longrightarrow> book_steps i s s'"
  by (rule r_into_rtranclp)

lemma book_locks: "book.obeys i (lockReplayKey scope parts)"
  by (rule book.obeysI) (auto simp: lockReplayKey_Inr intro: book_one take_locks)

lemma book_audit:
  assumes "\<And>a. input = Some a \<Longrightarrow> ai_InstitutionID a = i"
  shows "book.obeys i (auditWhen e k input)"
proof (rule book.obeysI)
  fix s u s' assume "auditWhen e k input s = Inr (u, s')"
  then obtain evs where evs: "s' = s\<lparr>audit_events := audit_events s @ evs\<rparr>" "length evs \<le> 1"
    "\<forall>ev\<in>set evs. ev_ID ev \<notin> ev_ID ` set (audit_events s) \<and> (\<exists>a. input = Some a \<and> newAuditEvent e k a = Inr ev)"
    by (auto dest!: auditWhen_Inr split: if_splits)
  show "book_steps i s s'"
  proof (cases evs)
    case Nil
    with evs(1) show ?thesis by simp
  next
    case (Cons ev rest)
    with evs(2) have "evs = [ev]" by simp
    with evs(1,3) obtain a where a: "s' = s\<lparr>audit_events := audit_events s @ [ev]\<rparr>"
      "ev_ID ev \<notin> ev_ID ` set (audit_events s)" "input = Some a" "newAuditEvent e k a = Inr ev" by auto
    have "book_step i s (s\<lparr>audit_events := audit_events s @ [ev]\<rparr>)"
      using a assms newAuditEvent_Inr [OF a(4)] by (intro write_audit) auto
    with a(1) show ?thesis by (simp add: book_one)
  qed
qed

lemma book_reserve: "book.obeys (in_InstitutionID input) (reserve e x input k now)"
proof (rule book.obeysI)
  fix s b s' assume "reserve e x input k now s = Inr (b, s')"
  from reserve_effect [OF this] obtain es where es:
    "s' = s\<lparr>provider_events := provider_events s @ es\<rparr>" "b \<longleftrightarrow> es \<noteq> []"
    "b \<longleftrightarrow> \<not> (\<exists>r\<in>set (provider_events s). input_event input r)" "\<forall>r\<in>set es. input_event input r"
    "length es \<le> 1" by blast
  show "book_steps (in_InstitutionID input) s s'"
  proof (cases es)
    case Nil
    with es(1) show ?thesis by simp
  next
    case (Cons r rest)
    with es(5) have "es = [r]" by simp
    with es have "book_step (in_InstitutionID input) s (s\<lparr>provider_events := provider_events s @ [r]\<rparr>)"
      by (intro new_event) (auto simp: input_event_def event_key_def)
    with es(1) \<open>es = [r]\<close> show ?thesis by (simp add: book_one)
  qed
qed

lemma book_link: "book.obeys i (linkTransfer k i p ev)"
proof (rule book.obeysI)
  fix s u s' assume "linkTransfer k i p ev s = Inr (u, s')"
  from linkTransfer_effect [OF this] show "book_steps i s s'" by (auto intro: book_one link_event)
qed

lemma reserve_frame:
  "reserve e x input k now s = Inr (b, s') \<Longrightarrow>
     transfers s' = transfers s \<and> account_holds s' = account_holds s \<and> accounts s' = accounts s \<and>
     account_balances s' = account_balances s \<and> journal_entries s' = journal_entries s \<and>
     postings s' = postings s"
  by (drule reserve_effect) auto

section \<open>The row of a settled transfer\<close>

lemma pendingUpdate_identity: "same_identity t (pendingUpdate st ps ls rs ref ev jid fl nar now t)"
  by (simp add: same_identity_def pendingUpdate_def)

lemma pendingUpdate_simps [simp]:
  "tr_Direction (pendingUpdate st ps ls rs ref ev jid fl nar now t) = tr_Direction t"
  "tr_Status (pendingUpdate st ps ls rs ref ev jid fl nar now t) = st"
  "tr_ProviderStatus (pendingUpdate st ps ls rs ref ev jid fl nar now t) = ps"
  "tr_LedgerStatus (pendingUpdate st ps ls rs ref ev jid fl nar now t) = ls"
  "tr_ReconciliationStatus (pendingUpdate st ps ls rs ref ev jid fl nar now t) = rs"
  "tr_JournalEntryID (pendingUpdate st ps ls rs ref ev jid fl nar now t) = jid"
  by (simp_all add: pendingUpdate_def)

text \<open>The four status columns and the journal of a row, as one condition on their values.\<close>

definition statuses_ok :: "string \<Rightarrow> string \<Rightarrow> string \<Rightarrow> string \<Rightarrow> string option \<Rightarrow> bool" where
  "statuses_ok st ps ls rs jid \<longleftrightarrow>
     (jid \<noteq> None \<longleftrightarrow> ls \<in> {LedgerStatusPosted, LedgerStatusReversalDeficit}) \<and>
     (jid \<noteq> None \<longrightarrow> st = TransferStatusSucceeded) \<and>
     (st = TransferStatusSucceeded \<and> jid = None \<longrightarrow>
        ls = LedgerStatusNoPosting \<and> rs = ReconciliationStatusManualReview) \<and>
     (st = TransferStatusFailed \<longrightarrow> ls = LedgerStatusNoPosting) \<and>
     (ls = LedgerStatusPending \<longrightarrow> st = TransferStatusPending) \<and>
     (ps = TransferProviderStatusUnknown \<longrightarrow> jid = None \<and> rs = ReconciliationStatusManualReview)"

lemma status_ok_iff:
  "status_ok t \<longleftrightarrow> statuses_ok (tr_Status t) (tr_ProviderStatus t) (tr_LedgerStatus t)
     (tr_ReconciliationStatus t) (tr_JournalEntryID t)"
  by (simp add: status_ok_def statuses_ok_def)

lemma statuses_pending:
  "statuses_ok TransferStatusPending ps (fst (settleStatuses TransferStatusPending ps))
     (snd (settleStatuses TransferStatusPending ps)) None"
  by (auto simp: statuses_ok_def settleStatuses_def)

lemma statuses_failed:
  "statuses_ok TransferStatusFailed ps (fst (settleStatuses TransferStatusFailed ps))
     (snd (settleStatuses TransferStatusFailed ps)) None"
  by (auto simp: statuses_ok_def settleStatuses_def)

lemma statuses_succeeded:
  assumes "ps \<noteq> TransferProviderStatusUnknown"
    and "ls = (if deficit then LedgerStatusReversalDeficit else fst (settleStatuses TransferStatusSucceeded ps))"
  shows "statuses_ok TransferStatusSucceeded ps ls rs (Some j)"
  using assms by (auto simp: statuses_ok_def settleStatuses_def)

lemma update_changes_row:
  assumes "update_transfers (tr_key i k) f s = Inr (n, s')"
    and "\<And>t. same_identity t (f t)"
    and "\<And>t. t \<in> set (transfers s) \<Longrightarrow> tr_key i k t \<Longrightarrow> status_ok (f t)"
  shows "row_changed i k f s \<and> s' = change_row i k f s"
  using assms by (simp add: update_transfers_Inr row_changed_def change_row_def)

section \<open>The effects of a settlement\<close>

lemma settleSucceeded_effect:
  assumes "settleSucceeded e input pending account clearing held consume sts now s = Inr ((ls, rs, jid), s')"
  shows "\<exists>s1. journal_effect (in_InstitutionID input) (tr_ID pending) (in_AmountMinor input)
       (debitAccount input) (creditAccount input) held (new_journal e input (tr_ID pending) now) s s1 \<and>
     jid = Some (je_ID (new_journal e input (tr_ID pending) now)) \<and>
     ls = (if wouldCreateReversalDeficit (lk_Account account) (lk_Balance account) input
           then LedgerStatusReversalDeficit else fst sts) \<and>
     (if consume
      then \<exists>h. select_one (active_for (tr_InstitutionID pending) (tr_ID pending)) (account_holds s) = Some h \<and>
             hold_consumed h s1 s'
      else s' = s1) \<and>
     enforceTransferControls input (lk_Account account) (lk_Account clearing) = Inr ()"
proof -
  let ?c = "if customerInitiatedOutbound input \<and> \<not> acc_AllowNegative (lk_Account account)
        then txThen (getActiveForTransfer (tr_InstitutionID pending) (tr_ID pending)) (txReturn ())
        else txReturn ()"
  from assms obtain s0 j s1 where ctl: "enforceTransferControls input (lk_Account account) (lk_Account clearing) = Inr ()"
    and c: "?c s = Inr ((), s0)"
    and post: "postJournal e input (tr_ID pending) now \<lparr>HeldAccountID = held\<rparr> s0 = Inr (j, s1)"
    and fin: "(if consume then consume_hold (tr_InstitutionID pending) (tr_ID pending) now else txReturn ()) s1
        = Inr ((), s')"
    and res: "jid = Some j" "ls = (if wouldCreateReversalDeficit (lk_Account account) (lk_Balance account) input
           then LedgerStatusReversalDeficit else fst sts)"
    unfolding settleSucceeded_def Let_def txThen_Inr txBind_Inr txLift_Inr by auto
  have "s0 = s" using c by (auto simp: txThen_Inr getActiveForTransfer_Inr split: if_splits)
  note eff = postJournal_effect [OF post [unfolded \<open>s0 = s\<close>]]
  have holds: "account_holds s1 = account_holds s"
    using eff journal_effect_frame(2) by blast
  have "if consume
      then \<exists>h. select_one (active_for (tr_InstitutionID pending) (tr_ID pending)) (account_holds s) = Some h \<and>
             hold_consumed h s1 s'
      else s' = s1"
    using fin consume_hold_effect [of "tr_InstitutionID pending" "tr_ID pending" now s1 "()" s'] holds
    by (auto split: if_splits)
  with eff ctl res show ?thesis by (auto simp: new_journal_def)
qed

lemma row_changed_cong: "transfers s = transfers s' \<Longrightarrow> row_changed i k f s = row_changed i k f s'"
  by (simp add: row_changed_def)

lemma journal_accounts:
  assumes "journal_effect i k amount db cr held j s s1" "accounts_ok s"
  shows "[] \<notin> {db, cr}"
  using assms by (auto simp: journal_effect_def leg_posted_def accounts_ok_def account_exists_def)

definition pending_match :: "store \<Rightarrow> Transfer \<Rightarrow> RecordTransferInput \<Rightarrow> bool" where
  "pending_match s pending input \<longleftrightarrow>
     pending \<in> set (transfers s) \<and> tr_Status pending = TransferStatusPending \<and>
     tr_InstitutionID pending = in_InstitutionID input \<and> tr_Direction pending = in_Direction input \<and>
     tr_AccountID pending = in_AccountID input \<and> tr_AmountMinor pending = in_AmountMinor input \<and>
     in_AccountID input \<noteq> in_ClearingAccountID input"

lemma settle_succeeded_step:
  assumes ok: "books_ok s" and m: "pending_match s pending input"
    and eff: "settleSucceeded e input pending account clearing held consume
        (settleStatuses TransferStatusSucceeded ps) now s = Inr ((ls, rs, jid), s1)"
    and held: "held = tr_AccountID pending \<and> consume \<and> tr_Direction pending = TransferDirectionOutbound \<or>
        held = heldAccount pending \<and> consume = (heldAccount pending \<noteq> [])"
    and ps: "ps \<noteq> TransferProviderStatusUnknown"
    and upd: "update_transfers (tr_key (tr_InstitutionID pending) (tr_ID pending))
        (\<lambda>t. pendingUpdate TransferStatusSucceeded ps ls rs (ref t) ev jid fl nar now t) s1 = Inr (n, s2)"
  shows "book_step (in_InstitutionID input) s s2"
proof -
  let ?i = "in_InstitutionID input" and ?k = "tr_ID pending"
  let ?f = "\<lambda>t. pendingUpdate TransferStatusSucceeded ps ls rs (ref t) ev jid fl nar now t"
  let ?j = "new_journal e input ?k now"
  have i: "tr_InstitutionID pending = ?i" using m by (simp add: pending_match_def)
  from settleSucceeded_effect [OF eff, unfolded i] obtain s0 where
    j: "journal_effect ?i ?k (in_AmountMinor input) (debitAccount input) (creditAccount input) held ?j s s0"
    and jid: "jid = Some (je_ID ?j)"
    and ls: "ls = (if wouldCreateReversalDeficit (lk_Account account) (lk_Balance account) input
           then LedgerStatusReversalDeficit else fst (settleStatuses TransferStatusSucceeded ps))"
    and c: "if consume
      then \<exists>h. select_one (active_for ?i ?k) (account_holds s) = Some h \<and> hold_consumed h s0 s1
      else s1 = s0" by blast
  have rows: "transfers s1 = transfers s"
    using c j by (auto simp: journal_effect_frame hold_consumed_frame split: if_splits)
  have "status_ok (?f t)" for t
    unfolding status_ok_iff pendingUpdate_simps jid by (rule statuses_succeeded [OF ps ls])
  from update_changes_row [OF upd pendingUpdate_identity this]
  have ch: "row_changed ?i ?k ?f s" and s2: "s2 = change_row ?i ?k ?f s1"
    using m row_changed_cong [OF rows] by (auto simp: pending_match_def)
  have set: "settles ?i ?k ?f s TransferStatusSucceeded (Some (je_ID ?j))"
    by (simp add: settles_def jid)
  have t: "pending \<in> set (transfers s)" "tr_key ?i ?k pending" "tr_Status pending = TransferStatusPending"
    using m by (auto simp: pending_match_def tr_key_def)
  have acc: "debitAccount input \<noteq> creditAccount input"
    "tr_AccountID pending \<in> {debitAccount input, creditAccount input}"
    using m by (auto simp: pending_match_def debitAccount_def creditAccount_def)
  have amount: "in_AmountMinor input = tr_AmountMinor pending" using m by (simp add: pending_match_def)
  note nonempty = journal_accounts [OF j books_okD(4) [OF ok]]
  show ?thesis
  proof (cases consume)
    case True
    then have out: "tr_Direction pending = TransferDirectionOutbound" and h: "held = tr_AccountID pending"
      using held by (auto simp: heldAccount_def heldOutbound_def split: if_splits)
    then have db: "debitAccount input = tr_AccountID pending" "creditAccount input \<noteq> tr_AccountID pending"
      using m by (auto simp: pending_match_def debitAccount_def creditAccount_def)
    from True c obtain h where "select_one (active_for ?i ?k) (account_holds s) = Some h" "hold_consumed h s0 s1"
      by auto
    from settle_held [OF t j [unfolded amount db h] db(2) this set ch] show ?thesis by (simp add: s2)
  next
    case False
    then have "held = []" "\<not> heldOutbound pending"
      using held nonempty acc(2) by (auto simp: heldAccount_def split: if_splits)
    moreover from False c have "s1 = s0" by simp
    ultimately show ?thesis
      using settle_posted [OF t _ j [unfolded amount] _ acc set ch] nonempty by (simp add: s2)
  qed
qed

text \<open>A failed settlement releases the hold when there is one.\<close>

lemma settle_failed_step:
  assumes m: "pending_match s pending input"
    and rel: "(if heldOutbound pending \<or> force
        then release_hold (tr_InstitutionID pending) (tr_ID pending) now else txReturn ()) s = Inr (u, s1)"
    and upd: "update_transfers (tr_key (tr_InstitutionID pending) (tr_ID pending))
        (\<lambda>t. pendingUpdate TransferStatusFailed ps (fst (settleStatuses TransferStatusFailed ps))
           (snd (settleStatuses TransferStatusFailed ps)) (ref t) ev None fl nar now' t) s1 = Inr (n, s2)"
  shows "book_step (in_InstitutionID input) s s2"
proof -
  let ?i = "in_InstitutionID input" and ?k = "tr_ID pending"
  let ?f = "\<lambda>t. pendingUpdate TransferStatusFailed ps (fst (settleStatuses TransferStatusFailed ps))
           (snd (settleStatuses TransferStatusFailed ps)) (ref t) ev None fl nar now' t"
  have i: "tr_InstitutionID pending = ?i" using m by (simp add: pending_match_def)
  have rel': "s1 = s \<and> (heldOutbound pending \<longrightarrow> select_one (active_for ?i ?k) (account_holds s) = None) \<or>
     (\<exists>h. select_one (active_for ?i ?k) (account_holds s) = Some h \<and> hold_released h s s1)"
    using rel release_hold_effect [of "tr_InstitutionID pending" "tr_ID pending" now s u s1] i
    by (auto split: if_splits)
  have rows: "transfers s1 = transfers s" using rel' by (auto simp: hold_released_frame)
  have "status_ok (?f t)" for t
    unfolding status_ok_iff pendingUpdate_simps by (rule statuses_failed)
  from update_changes_row [OF upd pendingUpdate_identity this]
  have ch: "row_changed ?i ?k ?f s" and s2: "s2 = change_row ?i ?k ?f s1"
    using i row_changed_cong [OF rows] by auto
  have set: "settles ?i ?k ?f s TransferStatusFailed None" by (simp add: settles_def)
  have t: "pending \<in> set (transfers s)" "tr_key ?i ?k pending" "tr_Status pending = TransferStatusPending"
    using m by (auto simp: pending_match_def tr_key_def)
  from rel' show ?thesis
  proof
    assume *: "s1 = s \<and> (heldOutbound pending \<longrightarrow> select_one (active_for ?i ?k) (account_holds s) = None)"
    from fail_unheld [OF t _ set ch] * show ?thesis by (simp add: s2)
  next
    assume "\<exists>h. select_one (active_for ?i ?k) (account_holds s) = Some h \<and> hold_released h s s1"
    then obtain h where "select_one (active_for ?i ?k) (account_holds s) = Some h" "hold_released h s s1" by blast
    from fail_held [OF t this set ch] show ?thesis by (simp add: s2)
  qed
qed

text \<open>A settlement that leaves the transfer pending.\<close>

lemma settle_pending_step:
  assumes rows: "rows_ok (transfers s)" and t: "pending \<in> set (transfers s)" "tr_InstitutionID pending = i"
      "tr_Status pending = TransferStatusPending"
    and hold: "heldOutbound pending \<longrightarrow> select_one (active_for i (tr_ID pending)) (account_holds s) \<noteq> None"
    and jid: "\<And>t. jid t = None \<or> jid t = tr_JournalEntryID t"
    and upd: "update_transfers (tr_key i (tr_ID pending))
        (\<lambda>t. pendingUpdate TransferStatusPending ps (fst (settleStatuses TransferStatusPending ps))
           (snd (settleStatuses TransferStatusPending ps)) ref (ev t) (jid t) fl nar now t) s = Inr (n, s2)"
  shows "book_step i s s2"
proof -
  let ?k = "tr_ID pending"
  let ?f = "\<lambda>t. pendingUpdate TransferStatusPending ps (fst (settleStatuses TransferStatusPending ps))
           (snd (settleStatuses TransferStatusPending ps)) ref (ev t) (jid t) fl nar now t"
  have none: "jid t = None" if "t \<in> set (transfers s)" "tr_key i ?k t" for t
  proof -
    have "t = pending" using tr_key_unique [OF rows that(1) t(1)] that(2) by (simp add: tr_key_def)
    with jid [of t] pending_no_journal [OF rows t(1,3)] show ?thesis by auto
  qed
  have ok: "status_ok (?f t)" if "t \<in> set (transfers s)" "tr_key i ?k t" for t
    unfolding status_ok_iff pendingUpdate_simps none [OF that] by (rule statuses_pending)
  from update_changes_row [OF upd pendingUpdate_identity ok]
  have ch: "row_changed i ?k ?f s" and s2: "s2 = change_row i ?k ?f s" by auto
  have set: "settles i ?k ?f s TransferStatusPending None" by (simp add: settles_def none)
  from still_pending [OF t(1) _ t(3) hold set ch] t(2) show ?thesis by (simp add: s2 tr_key_def)
qed

section \<open>Audits of transfers\<close>

lemma transfer_audit_institution:
  "postedInternalTransferAuditInput input transfer account clearing = Some a \<Longrightarrow>
     ai_InstitutionID a = tr_InstitutionID transfer"
  "externalInboundTransferAuditInput transfer account reason = Some a \<Longrightarrow>
     ai_InstitutionID a = tr_InstitutionID transfer"
  "externalOutboundTransferAuditInput input transfer account clearing = Some a \<Longrightarrow>
     ai_InstitutionID a = tr_InstitutionID transfer"
  by (auto simp: postedInternalTransferAuditInput_def externalInboundTransferAuditInput_def
      externalOutboundTransferAuditInput_def Let_def split: if_splits)

lemma book_transfer_audits:
  assumes "tr_InstitutionID transfer = i"
  shows "book.obeys i (auditPostedInternalTransfer e k input transfer account clearing)"
    and "book.obeys i (auditExternalOutboundTransfer e k input transfer account clearing)"
    and "book.obeys i (auditExternalInboundTransfer e k input transfer account)"
    and "book.obeys i (auditExternalInboundReview e k review transfer account)"
  using assms
  by (auto simp: transfer_audit_defs transfer_audit_institution intro!: book_audit
      split: option.splits dest!: transfer_audit_institution)

lemma getTransferForUpdate_Inr:
  "getTransferForUpdate i k s = Inr (t, s') \<longleftrightarrow> s' = s \<and> select_one (tr_key i k) (transfers s) = Some t"
  by (auto simp: getTransferForUpdate_def getRow_Inr)

lemma select_tr_keyD:
  "select_one (tr_key i k) ts = Some t \<Longrightarrow> t \<in> set ts \<and> tr_InstitutionID t = i \<and> tr_ID t = k"
  by (drule select_one_SomeD) (simp add: tr_key_def)

section \<open>Events\<close>

lemma reserveEventOr_Inr:
  assumes "reserveEventOr e x input k fp now rp cont s = Inr (r, s')"
  shows "(\<exists>t. r = rp t \<and> s' = s \<and>
        event_transfer (in_InstitutionID input) (in_Provider input) (in_ProviderEventID input) s = Some t) \<or>
     (\<exists>s0. book_steps (in_InstitutionID input) s s0 \<and> transfers s0 = transfers s \<and>
        account_holds s0 = account_holds s \<and> accounts s0 = accounts s \<and>
        account_balances s0 = account_balances s \<and> cont s0 = Inr (r, s'))"
proof (cases "in_ProviderEventID input = []")
  case True
  with assms show ?thesis by (auto simp: reserveEventOr_def)
next
  case False
  with assms obtain b s0 where r: "reserve e x input k now s = Inr (b, s0)"
    and c: "(if \<not> b then txBind (existingProviderEventTransfer input fp) (\<lambda>t. txReturn (rp t)) else cont) s0
       = Inr (r, s')"
    by (auto simp: reserveEventOr_def txBind_Inr)
  show ?thesis
  proof (cases b)
    case True
    with c reserve_frame [OF r] book.obeysD [OF book_reserve r] show ?thesis by auto
  next
    case False
    with reserve_effect [OF r] have "s0 = s" by auto
    with False c show ?thesis by (auto simp: txBind_Inr existingProviderEventTransfer_Inr)
  qed
qed

section \<open>Settling a pending transfer\<close>

lemma settleEffects_cases:
  assumes "settleEffects e input pending account clearing now s = Inr ((ls, rs, jid), s1)"
  obtains (succeeded) "settleStatus input = TransferStatusSucceeded"
      "resolvedProviderStatus input \<noteq> TransferProviderStatusUnknown"
      "settleSucceeded e input pending account clearing (heldAccount pending) (heldAccount pending \<noteq> [])
         (settleStatuses TransferStatusSucceeded (resolvedProviderStatus input)) now s = Inr ((ls, rs, jid), s1)"
  | (failed) "settleStatus input = TransferStatusFailed"
      "(if heldOutbound pending then release_hold (tr_InstitutionID pending) (tr_ID pending) now
        else txReturn ()) s = Inr ((), s1)"
      "ls = fst (settleStatuses TransferStatusFailed (resolvedProviderStatus input))"
      "rs = snd (settleStatuses TransferStatusFailed (resolvedProviderStatus input))" "jid = None"
proof (cases "settleStatus input = TransferStatusSucceeded")
  case True
  then have "resolvedProviderStatus input \<noteq> TransferProviderStatusUnknown"
    by (auto simp: settleStatus_def)
  with True assms succeeded show thesis by (simp add: settleEffects_def Let_def)
next
  case False
  with assms have "settleStatus input = TransferStatusFailed"
    by (auto simp: settleEffects_def Let_def split: if_splits)
  with False assms failed show thesis by (auto simp: settleEffects_def Let_def txThen_Inr)
qed

lemma settle_tail:
  assumes "txThen (auditPostedInternalTransfer e 0 input updated a c)
     (txThen (auditExternalInboundTransfer e 1 input updated a) (txReturn updated)) s = Inr (t, s')"
  shows "book_steps (tr_InstitutionID updated) s s' \<and> t = updated"
proof -
  have "book.obeys (tr_InstitutionID updated) (txThen (auditPostedInternalTransfer e 0 input updated a c)
     (txThen (auditExternalInboundTransfer e 1 input updated a) (txReturn updated)))"
    by (intro book.obeys_rules book_transfer_audits refl)
  from book.obeysD [OF this assms] assms show ?thesis by (auto simp: txThen_Inr)
qed

theorem settlePendingTransfer_books:
  assumes ok: "books_ok s" and p: "pending \<in> set (transfers s)" "tr_Status pending = TransferStatusPending"
      "tr_InstitutionID pending = in_InstitutionID input"
    and run: "settlePendingTransfer e x pending input s = Inr (t, s')"
  shows "book_steps (in_InstitutionID input) s s'"
proof -
  let ?i = "in_InstitutionID input" and ?k = "tr_ID pending"
  let ?ps = "resolvedProviderStatus input" and ?now = "env_clock e 0"
  define body where "body account clearing =
     txBind (settleEffects e input pending account clearing ?now)
         (\<lambda>(ledgerStatus, reconciliationStatus, journalEntryID).
     txThen (update_transfers (tr_key (tr_InstitutionID pending) (tr_ID pending))
         (\<lambda>t. pendingUpdate (settleStatus input) ?ps ledgerStatus
           reconciliationStatus (tr_ProviderReference t) (settledEventID input pending) journalEntryID
           (optional_text (in_FailureReason input)) (settledNarration input pending) ?now t))
     (txBind (getTransferForUpdate (tr_InstitutionID pending) (tr_ID pending)) (\<lambda>updated.
     txThen (auditPostedInternalTransfer e 0 input updated (lk_Account account) (lk_Account clearing))
     (txThen (auditExternalInboundTransfer e 1 input updated (lk_Account account))
     (txReturn updated)))))" for account clearing
  from run obtain account clearing where
    conflict: "tr_Direction pending = in_Direction input" "tr_AccountID pending = in_AccountID input"
      "tr_AmountMinor pending = in_AmountMinor input" and
    ne: "in_AccountID input \<noteq> in_ClearingAccountID input" and
    r: "reserveEventOr e x input ?k (transferRequestFingerprint x input) ?now id (body account clearing) s
        = Inr (t, s')"
    unfolding settlePendingTransfer_def Let_def body_def [symmetric]
    by (auto simp: txThen_Inr txBind_Inr txEnsure_Inr lockTransferAccountBalances_Inr)
  from reserveEventOr_Inr [OF r] show ?thesis
  proof (elim disjE exE conjE)
    fix s0 assume s0: "book_steps ?i s s0" "transfers s0 = transfers s"
      and b: "body account clearing s0 = Inr (t, s')"
    have ok0: "books_ok s0" by (rule books_ok_steps [OF s0(1) ok])
    have m: "pending_match s0 pending input" using p conflict ne s0(2) by (simp add: pending_match_def)
    from b obtain ls rs jid s1 n s2 updated where
      e1: "settleEffects e input pending account clearing ?now s0 = Inr ((ls, rs, jid), s1)" and
      e2: "update_transfers (tr_key (tr_InstitutionID pending) ?k)
         (\<lambda>t. pendingUpdate (settleStatus input) ?ps ls rs (tr_ProviderReference t)
           (settledEventID input pending) jid (optional_text (in_FailureReason input))
           (settledNarration input pending) ?now t) s1 = Inr (n, s2)" and
      e3: "select_one (tr_key (tr_InstitutionID pending) ?k) (transfers s2) = Some updated" and
      e4: "txThen (auditPostedInternalTransfer e 0 input updated (lk_Account account) (lk_Account clearing))
         (txThen (auditExternalInboundTransfer e 1 input updated (lk_Account account)) (txReturn updated)) s2
         = Inr (t, s')"
      unfolding body_def by (auto simp: txBind_Inr txThen_Inr getTransferForUpdate_Inr)
    have "book_step ?i s0 s2"
      using e1
    proof (cases rule: settleEffects_cases)
      case succeeded
      show ?thesis
        by (rule settle_succeeded_step [OF ok0 m succeeded(3) _ succeeded(2) e2 [unfolded succeeded(1)]]) simp
    next
      case failed
      show ?thesis
        by (rule settle_failed_step [where force = False and now = ?now, OF m _ e2 [unfolded failed(1,3-5)]])
          (use failed(2) in simp)
    qed
    moreover have "book_steps ?i s2 s'"
      using settle_tail [OF e4] select_tr_keyD [OF e3] p(3) by simp
    ultimately show ?thesis using s0(1) by (meson book_step_trans rtranclp_trans)
  qed simp
qed

section \<open>Completing an outbound transfer\<close>

lemma externalOutboundTransferStatuses_Inr:
  "externalOutboundTransferStatuses input = Inr (st, ps) \<Longrightarrow>
     ps = resolvedProviderStatus input \<and> validTransferStatus st \<and> validProviderStatus ps \<and>
     (ps = TransferProviderStatusUnknown \<longrightarrow> st = TransferStatusPending)"
  by (auto simp: externalOutboundTransferStatuses_def Let_def split: if_splits)

lemma completeEffects_cases:
  assumes "completeEffects e input pending account clearing st ps now s = Inr ((ls, rs, jid), s1)"
  obtains (succeeded) "st = TransferStatusSucceeded"
      "settleSucceeded e input pending account clearing (tr_AccountID pending) True
         (settleStatuses TransferStatusSucceeded ps) now s = Inr ((ls, rs, jid), s1)"
  | (failed) "st = TransferStatusFailed"
      "release_hold (tr_InstitutionID pending) (tr_ID pending) now s = Inr ((), s1)"
      "ls = fst (settleStatuses TransferStatusFailed ps)" "rs = snd (settleStatuses TransferStatusFailed ps)"
      "jid = None"
  | (pending) "st = TransferStatusPending" "s1 = s"
      "select_one (active_for (tr_InstitutionID pending) (tr_ID pending)) (account_holds s) \<noteq> None"
      "ls = fst (settleStatuses TransferStatusPending ps)" "rs = snd (settleStatuses TransferStatusPending ps)"
      "jid = None"
proof -
  from assms consider "st = TransferStatusSucceeded" | "st = TransferStatusFailed"
    | "st = TransferStatusPending"
    by (auto simp: completeEffects_def Let_def split: if_splits)
  then show thesis
    using assms succeeded failed pending
    by cases (auto simp: completeEffects_def Let_def txThen_Inr getActiveForTransfer_Inr)
qed

lemma complete_tail:
  assumes "txThen (if in_ProviderEventID input \<noteq> []
       then linkTransfer (tr_ID updated) (in_InstitutionID input) (in_Provider input)
         (in_ProviderEventID input)
       else txReturn ())
     (txThen (auditExternalOutboundTransfer e 0 input updated a c) (txReturn updated)) s = Inr (t, s')"
    and "tr_InstitutionID updated = in_InstitutionID input"
  shows "book_steps (in_InstitutionID input) s s' \<and> t = updated"
proof -
  have "book.obeys (in_InstitutionID input) (txThen (if in_ProviderEventID input \<noteq> []
       then linkTransfer (tr_ID updated) (in_InstitutionID input) (in_Provider input)
         (in_ProviderEventID input)
       else txReturn ())
     (txThen (auditExternalOutboundTransfer e 0 input updated a c) (txReturn updated)))"
    by (intro book.obeys_rules book_transfer_audits book_link assms(2))
  from book.obeysD [OF this assms(1)] assms(1) show ?thesis by (auto simp: txThen_Inr)
qed

lemma completePending_cases:
  assumes run: "completePending e x pending input s = Inr (t, s')"
  obtains (replayed) "event_transfer (in_InstitutionID input) (in_Provider input) (in_ProviderEventID input) s = Some t"
      "s' = s"
  | (completed) account clearing s0 st ps ls rs jid ref s1 n s2 updated
    where "tr_AccountID pending \<noteq> in_ClearingAccountID input"
      "book_steps (in_InstitutionID input) s s0" "transfers s0 = transfers s" "account_holds s0 = account_holds s"
      "account_balances s0 = account_balances s" "externalOutboundTransferStatuses input = Inr (st, ps)"
      "completeEffects e input pending account clearing st ps (env_clock e 0) s0 = Inr ((ls, rs, jid), s1)"
      "update_transfers (tr_key (tr_InstitutionID pending) (tr_ID pending))
         (\<lambda>t. pendingUpdate st ps ls rs ref (settledEventID input pending) jid
           (optional_text (TrimSpace (in_FailureReason input))) (settledNarration input pending) (env_clock e 0) t) s1
         = Inr (n, s2)"
      "select_one (tr_key (tr_InstitutionID pending) (tr_ID pending)) (transfers s2) = Some updated"
      "txThen (if in_ProviderEventID input \<noteq> []
       then linkTransfer (tr_ID updated) (in_InstitutionID input) (in_Provider input)
         (in_ProviderEventID input) else txReturn ())
         (txThen (auditExternalOutboundTransfer e 0 input updated (lk_Account account) (lk_Account clearing))
           (txReturn updated)) s2 = Inr (t, s')"
proof -
  let ?now = "env_clock e 0"
  define ref where "ref = (let r = TrimSpace (in_ProviderReference input) in
     if r = [] then tr_ProviderReference pending else r)"
  define body where "body account clearing =
     txBind (txLift (externalOutboundTransferStatuses input)) (\<lambda>(status, providerStatus).
     txBind (completeEffects e input pending account clearing status providerStatus ?now)
         (\<lambda>(ledgerStatus, reconciliationStatus, journalEntryID).
     txThen (update_transfers (tr_key (tr_InstitutionID pending) (tr_ID pending))
         (\<lambda>t. pendingUpdate status providerStatus ledgerStatus reconciliationStatus ref
           (settledEventID input pending) journalEntryID
           (optional_text (TrimSpace (in_FailureReason input))) (settledNarration input pending) ?now t))
     (txBind (getTransferForUpdate (tr_InstitutionID pending) (tr_ID pending)) (\<lambda>updated.
     txThen (if in_ProviderEventID input \<noteq> []
       then linkTransfer (tr_ID updated) (in_InstitutionID input) (in_Provider input)
         (in_ProviderEventID input)
       else txReturn ())
     (txThen (auditExternalOutboundTransfer e 0 input updated (lk_Account account) (lk_Account clearing))
     (txReturn updated))))))" for account clearing
  from run obtain account clearing where
    ne: "tr_AccountID pending \<noteq> in_ClearingAccountID input" and
    r: "reserveEventOr e x input (tr_ID pending) (transferRequestFingerprint x input) ?now id (body account clearing) s
        = Inr (t, s')"
    unfolding completePending_def Let_def body_def ref_def
    by (auto simp: txThen_Inr txBind_Inr txEnsure_Inr lockTransferAccountBalances_Inr)
  from reserveEventOr_Inr [OF r] show thesis
  proof (elim disjE exE conjE)
    fix s0 assume s0: "book_steps (in_InstitutionID input) s s0" "transfers s0 = transfers s"
      "account_holds s0 = account_holds s" "account_balances s0 = account_balances s"
      and b: "body account clearing s0 = Inr (t, s')"
    from b obtain st ps ls rs jid s1 n s2 updated where
      "externalOutboundTransferStatuses input = Inr (st, ps)"
      "completeEffects e input pending account clearing st ps ?now s0 = Inr ((ls, rs, jid), s1)"
      "update_transfers (tr_key (tr_InstitutionID pending) (tr_ID pending))
         (\<lambda>t. pendingUpdate st ps ls rs ref (settledEventID input pending) jid
           (optional_text (TrimSpace (in_FailureReason input))) (settledNarration input pending) ?now t) s1
         = Inr (n, s2)"
      "select_one (tr_key (tr_InstitutionID pending) (tr_ID pending)) (transfers s2) = Some updated"
      "txThen (if in_ProviderEventID input \<noteq> []
       then linkTransfer (tr_ID updated) (in_InstitutionID input) (in_Provider input)
         (in_ProviderEventID input) else txReturn ())
         (txThen (auditExternalOutboundTransfer e 0 input updated (lk_Account account) (lk_Account clearing))
           (txReturn updated)) s2 = Inr (t, s')"
      unfolding body_def by (auto simp: txBind_Inr txThen_Inr txLift_Inr getTransferForUpdate_Inr)
    from completed [OF ne s0 this] show thesis .
  qed (rule replayed; simp)
qed

lemma completePending_books:
  assumes ok: "books_ok s" and p: "pending \<in> set (transfers s)" "tr_Status pending = TransferStatusPending"
      "tr_InstitutionID pending = in_InstitutionID input"
    and conflict: "tr_Direction pending = TransferDirectionOutbound"
      "tr_AccountID pending = in_AccountID input" "tr_AmountMinor pending = in_AmountMinor input"
      "in_Direction input = TransferDirectionOutbound"
    and run: "completePending e x pending input s = Inr (t, s')"
  shows "book_steps (in_InstitutionID input) s s'"
  using run
proof (cases rule: completePending_cases)
  case (completed account clearing s0 st ps ls rs jid ref s1 n s2 updated)
  note ne = completed(1) and s0 = completed(2,3) and e0 = completed(6) and e1 = completed(7) and e2 = completed(8)
    and e3 = completed(9) and e4 = completed(10)
  let ?i = "in_InstitutionID input"
  have ok0: "books_ok s0" by (rule books_ok_steps [OF s0(1) ok])
  have m: "pending_match s0 pending input"
    using p conflict ne s0(2) by (simp add: pending_match_def)
  have "book_step ?i s0 s2"
    using e1
  proof (cases rule: completeEffects_cases)
    case succeeded
    then have "ps \<noteq> TransferProviderStatusUnknown"
      using externalOutboundTransferStatuses_Inr [OF e0] by auto
    from settle_succeeded_step [OF ok0 m succeeded(2) _ this e2 [unfolded succeeded(1)]] conflict(1)
    show ?thesis by simp
  next
    case failed
    show ?thesis
      by (rule settle_failed_step [where force = True and now = "env_clock e 0", OF m _ e2 [unfolded failed(1,3-5)]])
        (use failed(2) in simp)
  next
    case pending
    have t: "pending \<in> set (transfers s0)" using p s0(2) by simp
    from settle_pending_step [OF books_okD(1) [OF ok0] t p(3,2) _ _ e2 [unfolded pending(1,2,4-6) p(3)]] pending(3)
    show ?thesis by (simp add: p(3))
  qed
  moreover have "book_steps ?i s2 s'"
    using complete_tail [OF e4] select_tr_keyD [OF e3] p(3) by simp
  ultimately show ?thesis using s0(1) by (meson book_step_trans rtranclp_trans)
qed simp

theorem completeExternalOutboundTransfer_books:
  assumes ok: "books_ok s" and out: "in_Direction input = TransferDirectionOutbound"
    and run: "completeExternalOutboundTransfer e x k input s = Inr (t, s')"
  shows "book_steps (in_InstitutionID input) s s'"
proof -
  let ?i = "in_InstitutionID input"
  let ?lock = "if in_ProviderEventID input \<noteq> []
        then lockReplayKey ''provider_event''
          [in_InstitutionID input, in_Provider input, in_ProviderEventID input]
        else txReturn ()"
  from run obtain s0 pending where
    l: "?lock s = Inr ((), s0)" and
    p: "select_one (tr_key ?i k) (transfers s0) = Some pending" and
    c: "tr_Direction pending = TransferDirectionOutbound" "tr_AccountID pending = in_AccountID input"
      "tr_AmountMinor pending = in_AmountMinor input" and
    r: "(if tr_Status pending \<noteq> TransferStatusPending then txReturn pending
         else completePending e x pending input) s0 = Inr (t, s')"
    unfolding completeExternalOutboundTransfer_def txThen_Inr txBind_Inr txEnsure_Inr getTransferForUpdate_Inr
    by auto
  have "book.obeys ?i ?lock" by (intro book.obeys_rules book_locks)
  from book.obeysD [OF this l] have s0: "book_steps ?i s s0" .
  note ok0 = books_ok_steps [OF s0 ok]
  show ?thesis
  proof (cases "tr_Status pending = TransferStatusPending")
    case True
    with r have "completePending e x pending input s0 = Inr (t, s')" by simp
    from completePending_books [OF ok0 _ True _ c out this] select_tr_keyD [OF p] s0 show ?thesis by auto
  next
    case False
    with r s0 show ?thesis by simp
  qed
qed

theorem updatePendingInbound_books:
  assumes ok: "books_ok s" and p: "pending \<in> set (transfers s)" "tr_Status pending = TransferStatusPending"
      "tr_InstitutionID pending = i"
    and run: "updatePendingInboundTransferRequery e pending input ps s = Inr (t, s')"
  shows "book_steps i s s'"
proof -
  let ?fl = "let r = TrimSpace (in_FailureReason input) in
     if ps = TransferProviderStatusUnknown \<and> r = [] then providerUnknownFailureReason else r"
  from run obtain n s2 acct where
    dir: "tr_Direction pending = TransferDirectionInbound" and
    u: "update_transfers (tr_key (tr_InstitutionID pending) (tr_ID pending))
         (\<lambda>t. pendingUpdate TransferStatusPending ps (fst (settleStatuses TransferStatusPending ps))
           (snd (settleStatuses TransferStatusPending ps)) (in_ProviderReference input)
           (tr_ProviderEventID t) (tr_JournalEntryID t) (optional_text ?fl)
           (settledNarration input pending) (env_clock e 0) t) s = Inr (n, s2)" and
    g: "select_one (tr_key (tr_InstitutionID pending) (tr_ID pending)) (transfers s2) = Some t" and
    a: "auditExternalInboundTransfer e 0 (input\<lparr>in_FailureReason := ?fl\<rparr>) t acct s2
        = Inr ((), s')"
    unfolding updatePendingInboundTransferRequery_def Let_def
    by (elim txThen_elim txBind_elim) (auto simp: txThen_Inr txBind_Inr txEnsure_Inr getTransferForUpdate_Inr lockAccountBalance_Inr)
  have "\<not> heldOutbound pending" using dir by (auto simp: heldOutbound_def)
  with settle_pending_step [OF books_okD(1) [OF ok] p(1,3,2) _ _ u [unfolded p(3)]]
  have "book_step i s s2" by simp
  moreover have "book_steps i s2 s'"
    using book.obeysD [OF book_transfer_audits(3) a] select_tr_keyD [OF g] p(3) by blast
  ultimately show ?thesis by (rule book_step_trans)
qed

section \<open>Recording a transfer\<close>

lemma decideTransfer_statuses:
  assumes "decideTransfer input account = Inr d"
    and "dec_Status d \<in> {TransferStatusPending, TransferStatusSucceeded, TransferStatusFailed}"
  shows "statuses_ok (dec_Status d) (dec_ProviderStatus d) (dec_LedgerStatus d) (dec_ReconciliationStatus d)
     (if dec_Status d = TransferStatusSucceeded then Some j else None)"
  using assms
  by (auto simp: decideTransfer_def Let_def statuses_ok_def settleStatuses_def settleStatus_def split: if_splits)

lemma newTransfer_simps [simp]:
  "tr_ID (newTransfer e x input d jid now) = env_uuid e DrawTransfer"
  "tr_InstitutionID (newTransfer e x input d jid now) = in_InstitutionID input"
  "tr_AccountID (newTransfer e x input d jid now) = in_AccountID input"
  "tr_Direction (newTransfer e x input d jid now) = in_Direction input"
  "tr_Status (newTransfer e x input d jid now) = dec_Status d"
  "tr_ProviderStatus (newTransfer e x input d jid now) = dec_ProviderStatus d"
  "tr_LedgerStatus (newTransfer e x input d jid now) = dec_LedgerStatus d"
  "tr_ReconciliationStatus (newTransfer e x input d jid now) = dec_ReconciliationStatus d"
  "tr_AmountMinor (newTransfer e x input d jid now) = in_AmountMinor input"
  "tr_JournalEntryID (newTransfer e x input d jid now) = jid"
  "tr_ReversalOfTransferID (newTransfer e x input d jid now) = optional_text (in_ReversalOfTransferID input)"
  by (simp_all add: newTransfer_def)

lemma insert_adds_row:
  assumes "insert_transfer t s = Inr (u, s')" and "status_ok t"
  shows "row_added (tr_InstitutionID t) t s \<and> s' = add_row t s \<and> transfer_check t"
  using assms by (simp add: insert_transfer_Inr row_added_def add_row_def)

lemma row_added_cong: "transfers s = transfers s' \<Longrightarrow> row_added i t s = row_added i t s'"
  by (simp add: row_added_def transfer_exists_def idempotency_unique_def)

text \<open>The part of a new transfer that touches the books: journal, row and hold.\<close>

lemma write_core_step:
  assumes ok: "books_ok s" and d: "decideTransfer input account = Inr d"
    and ne: "in_AccountID input \<noteq> in_ClearingAccountID input"
    and j: "(if dec_Status d = TransferStatusSucceeded
       then txBind (postJournal e input (env_uuid e DrawTransfer) now \<lparr>HeldAccountID = []\<rparr>)
         (\<lambda>journalID. txReturn (Some journalID))
       else txReturn None) s = Inr (jid, s1)"
    and t: "t = newTransfer e x input d jid now" and ins: "insert_transfer t s1 = Inr (u, s2)"
    and h: "(if dec_Status d = TransferStatusPending \<and>
         in_Direction input = TransferDirectionOutbound \<and> in_ReversalOfTransferID input = []
       then create_hold e t now else txReturn ()) s2 = Inr (u', s3)"
  shows "book_step (in_InstitutionID input) s s3"
proof -
  let ?i = "in_InstitutionID input"
  have "transfer_check t" using ins by (simp add: insert_transfer_Inr)
  then have valid: "dec_Status d \<in> {TransferStatusPending, TransferStatusSucceeded, TransferStatusFailed}"
    by (simp add: transfer_check_def t)
  have jid: "jid = (if dec_Status d = TransferStatusSucceeded then Some (env_uuid e DrawJournal) else None)"
    using j postJournal_effect by (fastforce simp: txBind_Inr split: if_splits)
  have "status_ok t"
    unfolding status_ok_iff t newTransfer_simps jid by (rule decideTransfer_statuses [OF d valid])
  from insert_adds_row [OF ins this] have row: "row_added ?i t s1" "s2 = add_row t s1"
    by (simp_all add: t)
  show ?thesis
  proof (cases "dec_Status d = TransferStatusSucceeded")
    case True
    let ?j = "new_journal e input (env_uuid e DrawTransfer) now"
    from True j obtain jj where "postJournal e input (env_uuid e DrawTransfer) now \<lparr>HeldAccountID = []\<rparr> s = Inr (jj, s1)"
      by (auto simp: txBind_Inr)
    from postJournal_effect [OF this]
    have eff: "journal_effect ?i (tr_ID t) (tr_AmountMinor t) (debitAccount input) (creditAccount input) [] ?j s s1"
      by (simp add: t)
    have "row_added ?i t s" using row(1) row_added_cong [OF journal_effect_frame(1) [OF eff]] by simp
    moreover have "tr_JournalEntryID t = Some (je_ID ?j)" using True by (simp add: t jid new_journal_def)
    moreover have "debitAccount input \<noteq> creditAccount input"
      "tr_AccountID t \<in> {debitAccount input, creditAccount input}"
      using ne by (auto simp: t debitAccount_def creditAccount_def)
    ultimately have "book_step ?i s (add_row t s1)"
      using record_posted [OF eff journal_accounts [OF eff books_okD(4) [OF ok]]] by blast
    with h row(2) True show ?thesis by simp
  next
    case False
    then have s1: "s1 = s" and none: "tr_JournalEntryID t = None" using j jid by (auto simp: t)
    show ?thesis
    proof (cases "dec_Status d = TransferStatusPending \<and> in_Direction input = TransferDirectionOutbound \<and>
        in_ReversalOfTransferID input = []")
      case True
      with h have "create_hold e t now s2 = Inr ((), s3)" by simp
      from create_hold_effect [OF this] obtain hh where
        "hold_placed hh s2 s3" "ho_InstitutionID hh = ?i" "ho_AccountID hh = tr_AccountID t"
        "ho_TransferID hh = Some (tr_ID t)" "ho_AmountMinor hh = tr_AmountMinor t"
        by (auto simp: t)
      moreover have "heldOutbound t" "tr_Status t = TransferStatusPending"
        using True by (auto simp: t heldOutbound_def optional_text_def)
      ultimately show ?thesis
        using record_held [OF row(1) none] row(2) s1 by auto
    next
      case other: False
      have "\<not> needs_hold t"
        using other False valid by (auto simp: needs_hold_def heldOutbound_def t optional_text_def split: if_splits)
      moreover have "s3 = s2" using h unfolding if_not_P [OF other] by simp
      ultimately show ?thesis using record_unposted [OF row(1) none] row(2) s1 by simp
    qed
  qed
qed

lemma write_tail:
  assumes "txThen (if in_ProviderEventID input \<noteq> []
       then linkTransfer (tr_ID t) (in_InstitutionID input) (in_Provider input) (in_ProviderEventID input)
       else txReturn ())
     (txThen (auditPostedInternalTransfer e 0 input t account clearing)
     (txThen (auditExternalInboundTransfer e 1 input t account) (txReturn (t, True)))) s = Inr (r, s')"
    and "tr_InstitutionID t = in_InstitutionID input"
  shows "book_steps (in_InstitutionID input) s s'"
proof -
  have "book.obeys (in_InstitutionID input) (txThen (if in_ProviderEventID input \<noteq> []
       then linkTransfer (tr_ID t) (in_InstitutionID input) (in_Provider input) (in_ProviderEventID input)
       else txReturn ())
     (txThen (auditPostedInternalTransfer e 0 input t account clearing)
     (txThen (auditExternalInboundTransfer e 1 input t account) (txReturn (t, True)))))"
    by (intro book.obeys_rules book_transfer_audits book_link assms(2))
  from book.obeysD [OF this assms(1)] show ?thesis .
qed

lemma writeNewTransfer_books:
  assumes ok: "books_ok s" and d: "decideTransfer input account = Inr d"
    and ne: "in_AccountID input \<noteq> in_ClearingAccountID input"
    and run: "writeNewTransfer e x input a c d now s = Inr (r, s')"
  shows "book_steps (in_InstitutionID input) s s'"
proof -
  from run obtain jid s1 s2 s3 t where
    parts: "(if dec_Status d = TransferStatusSucceeded
       then txBind (postJournal e input (env_uuid e DrawTransfer) now \<lparr>HeldAccountID = []\<rparr>)
         (\<lambda>journalID. txReturn (Some journalID))
       else txReturn None) s = Inr (jid, s1)"
      "t = newTransfer e x input d jid now" "insert_transfer t s1 = Inr ((), s2)"
      "(if dec_Status d = TransferStatusPending \<and>
         in_Direction input = TransferDirectionOutbound \<and> in_ReversalOfTransferID input = []
       then create_hold e t now else txReturn ()) s2 = Inr ((), s3)" and
    tail: "txThen (if in_ProviderEventID input \<noteq> []
       then linkTransfer (tr_ID t) (in_InstitutionID input) (in_Provider input) (in_ProviderEventID input)
       else txReturn ())
     (txThen (auditPostedInternalTransfer e 0 input t a c)
     (txThen (auditExternalInboundTransfer e 1 input t a) (txReturn (t, True)))) s3 = Inr (r, s')"
    unfolding writeNewTransfer_def Let_def
    by (elim txBind_elim) (erule txThen_elim, erule txThen_elim, auto)
  have "book_step (in_InstitutionID input) s s3" by (rule write_core_step [OF ok d ne parts])
  moreover have "book_steps (in_InstitutionID input) s3 s'"
    by (rule write_tail [OF tail]) (simp add: parts(2))
  ultimately show ?thesis by (rule book_step_trans)
qed

lemma recordNewTransfer_books:
  assumes ok: "books_ok s" and run: "recordNewTransfer e x input s = Inr (r, s')"
  shows "book_steps (in_InstitutionID input) s s'"
proof -
  from run obtain account a c d where
    ne: "in_AccountID input \<noteq> in_ClearingAccountID input" and
    d: "decideTransfer input account = Inr d" and
    r: "reserveEventOr e x input [] (transferRequestFingerprint x input) (env_clock e 0) (\<lambda>t. (t, False))
       (writeNewTransfer e x input a c d (env_clock e 0)) s = Inr (r, s')"
    unfolding recordNewTransfer_def Let_def
    by (auto simp: txBind_Inr txThen_Inr txLift_Inr lockTransferAccountBalances_Inr)
  from reserveEventOr_Inr [OF r] show ?thesis
  proof (elim disjE exE conjE)
    fix s0 assume s0: "book_steps (in_InstitutionID input) s s0"
      and w: "writeNewTransfer e x input a c d (env_clock e 0) s0 = Inr (r, s')"
    from writeNewTransfer_books [OF books_ok_steps [OF s0 ok] d ne w] s0 show ?thesis by auto
  qed simp
qed

text \<open>The replay checks only read.\<close>

lemma originalCounterparty_state: "originalCounterpartyAccountID t s = Inr (a, s') \<Longrightarrow> s' = s"
  by (auto simp: originalCounterpartyAccountID_def txBind_Inr split: option.splits list.splits)

lemma sameTransferReplayByFields_state: "sameTransferReplayByFields t input s = Inr (b, s') \<Longrightarrow> s' = s"
  by (auto simp: sameTransferReplayByFields_def txBind_Inr split: if_splits dest: originalCounterparty_state)

lemma sameTransferReplay_state: "sameTransferReplay t input fp s = Inr (b, s') \<Longrightarrow> s' = s"
  by (auto simp: sameTransferReplay_def split: if_splits dest: sameTransferReplayByFields_state)

lemma recordTransferLocks_books: "book.obeys i (recordTransferLocks input)"
  unfolding recordTransferLocks_def by (intro book.obeys_rules book_locks)

lemma recordTransferLocks_frame:
  "recordTransferLocks input s = Inr (u, s') \<Longrightarrow> \<exists>l. s' = s\<lparr>advisory_locks := l\<rparr>"
  by (auto simp: recordTransferLocks_def txThen_Inr lockReplayKey_Inr split: if_splits
      intro: exI [of _ "advisory_locks s"])

lemma recordByReference_books:
  assumes ok: "books_ok s" and run: "recordByReference e x input s = Inr (r, s')"
  shows "book_steps (in_InstitutionID input) s s'"
proof (cases "in_ProviderReference input \<noteq> [] \<and> in_Status input \<noteq> TransferStatusPending")
  case False
  then have "recordNewTransfer e x input s = Inr (r, s')"
    using run unfolding recordByReference_def by (simp only: if_False)
  then show ?thesis by (rule recordNewTransfer_books [OF ok])
next
  case True
  let ?key = "\<lambda>q. q (in_InstitutionID input) (in_Provider input) (in_ProviderReference input) (in_Direction input) s"
  show ?thesis
  proof (cases "?key pending_reference_row")
    case (Some pending)
    with True run obtain t where "settlePendingTransfer e x pending input s = Inr (t, s')"
      by (auto simp: recordByReference_def getPendingTransferByProviderReference_def ifFound_getRow txBind_Inr)
    moreover have "pending \<in> set (transfers s) \<and> tr_Status pending = TransferStatusPending \<and>
        tr_InstitutionID pending = in_InstitutionID input"
      using Some by (auto simp: pending_reference_row_def provider_reference_key_def dest: select_first_SomeD)
    ultimately show ?thesis using settlePendingTransfer_books [OF ok] by blast
  next
    case None
    show ?thesis
    proof (cases "?key settled_reference_row")
      case (Some settled)
      with True None run have "s' = s"
        by (auto simp: recordByReference_def getPendingTransferByProviderReference_def
            getSettledTransferByProviderReference_def ifFound_getRow txBind_Inr txThen_Inr txEnsure_Inr
            dest: sameTransferReplayByFields_state)
      then show ?thesis by simp
    next
      case None': None
      with True None run have "recordNewTransfer e x input s = Inr (r, s')"
        by (simp add: recordByReference_def getPendingTransferByProviderReference_def
            getSettledTransferByProviderReference_def ifFound_getRow)
      then show ?thesis by (rule recordNewTransfer_books [OF ok])
    qed
  qed
qed

lemma recordByEvent_books:
  assumes ok: "books_ok s" and run: "recordByEvent e x input s = Inr (r, s')"
  shows "book_steps (in_InstitutionID input) s s'"
proof -
  have "s' = s \<or> recordByReference e x input s = Inr (r, s')"
    using run
    by (auto simp: recordByEvent_def getEventTransfer_def ifFound_getRow txBind_Inr txThen_Inr txEnsure_Inr
        payloadMatches_Inr split: if_splits option.splits)
  with recordByReference_books [OF ok, of e x input r s'] show ?thesis by auto
qed

theorem recordTransfer_books:
  assumes ok: "books_ok s" and run: "recordTransfer e x input s = Inr (r, s')"
  shows "book_steps (in_InstitutionID input) s s'"
proof -
  from run obtain s0 where l: "recordTransferLocks input s = Inr ((), s0)"
    and rest: "ifFound (getTransferByIdempotency (in_InstitutionID input) (in_IdempotencyKey input))
        (\<lambda>existing. txBind (sameTransferReplay existing input (transferRequestFingerprint x input)) (\<lambda>ok.
           txThen (txEnsure ok ErrConflict) (txReturn (existing, False))))
        (recordByEvent e x input) s0 = Inr (r, s')"
    by (auto simp: recordTransfer_def txThen_Inr)
  have s0: "book_steps (in_InstitutionID input) s s0"
    by (rule book.obeysD [OF recordTransferLocks_books l])
  have "s' = s0 \<or> recordByEvent e x input s0 = Inr (r, s')"
    using rest
    by (auto simp: getTransferByIdempotency_def ifFound_getRow txBind_Inr txThen_Inr txEnsure_Inr
        split: option.splits dest: sameTransferReplay_state)
  with recordByEvent_books [OF books_ok_steps [OF s0 ok], of e x input r s'] s0 show ?thesis by auto
qed

end
