(* ===== verification/AccountOps.thy ===== *)
theory AccountOps
  imports AuditTrail AccountLocks
begin

text \<open>
  \<open>sql_customer_repository.go\<close>, \<open>sql_account_repository.go\<close> and \<open>sql_account_controls.go\<close>: opening
  customers and accounts, reading balances, changing the status of an account, and placing and
  releasing liens.
\<close>

section \<open>Customers\<close>

text \<open>
  The \<open>meta\<close> column keeps the customer type, business name, tier and identity statuses as JSON; the
  columns \<open>RETURNING\<close> reads back are the stored texts, with the default of \<open>COALESCE\<close> for an
  empty one.
\<close>

definition coalesce_text :: "string \<Rightarrow> string \<Rightarrow> string" where
  "coalesce_text v d = (if v = [] then d else v)"

definition newCustomer :: "env \<Rightarrow> CreateCustomerInput \<Rightarrow> time \<Rightarrow> Customer" where
  "newCustomer e input now =
     \<lparr>cus_ID = env_uuid e DrawCustomer, cus_InstitutionID = cci_InstitutionID input,
      cus_BranchID = cci_BranchID input,
      cus_CustomerType = coalesce_text (cci_CustomerType input) CustomerTypeIndividual,
      cus_FirstName = cci_FirstName input, cus_LastName = cci_LastName input,
      cus_BusinessName = (if cci_BusinessName input = [] then None else Some (cci_BusinessName input)),
      cus_Email = cci_Email input, cus_Phone = cci_Phone input, cus_Status = ''active'',
      cus_KYCTier = coalesce_text (cci_kycTier input) CustomerKYCTier1,
      cus_BVNStatus = coalesce_text (cci_bvnStatus input) CustomerIdentityStatusNotCollected,
      cus_NINStatus = coalesce_text (cci_ninStatus input) CustomerIdentityStatusNotCollected,
      cus_CreatedAt = now, cus_UpdatedAt = now\<rparr>"

definition createCustomer :: "env \<Rightarrow> CreateCustomerInput \<Rightarrow> Customer tx" where
  "createCustomer e input =
     txThen (txCheck (\<lambda>s. \<exists>b\<in>set (branches s). br_InstitutionID b = cci_InstitutionID input \<and>
         br_ID b = cci_BranchID input) ErrNotFound)
     (let now = env_clock e 0; customer = newCustomer e input now in
      txThen (insert_customer customer)
      (txThen (insertAuditEvent e 0 (auditEventInput_zero
          \<lparr>ai_InstitutionID := cus_InstitutionID customer, ai_Action := AuditActionCustomerCreated,
           ai_EntityType := ''customer'', ai_EntityID := cus_ID customer,
           ai_CustomerID := cus_ID customer, ai_NewStatus := cus_Status customer,
           ai_Metadata := [(''customer_type'', cus_CustomerType customer),
                           (''branch_id'', cus_BranchID customer)],
           ai_CreatedAt := now\<rparr>))
      (txReturn customer)))"

definition CreateCustomer :: "env \<Rightarrow> CreateCustomerInput \<Rightarrow> Customer repo" where
  "CreateCustomer e input = WithTx e (createCustomer e input)"

definition GetCustomer :: "string \<Rightarrow> string \<Rightarrow> Customer repo" where
  "GetCustomer institutionID customerID =
     readDB (getRow (\<lambda>s. select_one (\<lambda>c. cus_InstitutionID c = institutionID \<and> cus_ID c = customerID)
       (customers s)))"

section \<open>Accounts\<close>

definition normalizeAccountSQLError :: "error \<Rightarrow> error" where
  "normalizeAccountSQLError err = (if err = SQLError ''23505'' then ErrConflict else normalizeSQLError err)"

definition newAccount :: "env \<Rightarrow> CreateAccountInput \<Rightarrow> time \<Rightarrow> Account" where
  "newAccount e input now =
     \<lparr>acc_ID = env_uuid e DrawAccount, acc_InstitutionID = cai_InstitutionID input,
      acc_CustomerID = Some (cai_CustomerID input), acc_AccountNumber = cai_AccountNumber input,
      acc_Name = cai_Name input, acc_Kind = AccountKindCustomer,
      acc_ProductType = cai_ProductType input, acc_AllowNegative = False,
      acc_CurrencyID = cai_CurrencyID input, acc_NormalBalance = NormalBalanceCredit,
      acc_Status = AccountStatusActive, acc_CreatedAt = now, acc_UpdatedAt = now\<rparr>"

definition createAccount :: "env \<Rightarrow> CreateAccountInput \<Rightarrow> Account tx" where
  "createAccount e input =
     txThen (txCheck (\<lambda>s. \<exists>c\<in>set (customers s). cus_InstitutionID c = cai_InstitutionID input \<and>
         cus_ID c = cai_CustomerID input) ErrNotFound)
     (let now = env_clock e 0; account = newAccount e input now in
      txThen (txMapError normalizeAccountSQLError (insert_account account))
      (txThen (txMapError normalizeAccountSQLError (insert_balance
          \<lparr>bal_AccountID = acc_ID account, bal_InstitutionID = acc_InstitutionID account,
           bal_AvailableMinor = 0, bal_LedgerMinor = 0, bal_CurrencyID = acc_CurrencyID account,
           bal_LastJournalEntryID = None, bal_UpdatedAt = now\<rparr>))
      (txThen (insertAuditEvent e 0 (auditEventInput_zero
          \<lparr>ai_InstitutionID := acc_InstitutionID account, ai_Action := AuditActionAccountCreated,
           ai_EntityType := ''account'', ai_EntityID := acc_ID account,
           ai_CustomerID := optionalAuditValue (acc_CustomerID account),
           ai_AccountID := acc_ID account, ai_NewStatus := acc_Status account,
           ai_Metadata := [(''product_type'', acc_ProductType account),
                           (''currency_id'', acc_CurrencyID account)],
           ai_CreatedAt := now\<rparr>))
      (txReturn account))))"

definition CreateAccount :: "env \<Rightarrow> CreateAccountInput \<Rightarrow> Account repo" where
  "CreateAccount e input = WithTx e (createAccount e input)"

definition ListAccountsByCustomer :: "string \<Rightarrow> string \<Rightarrow> Account list repo" where
  "ListAccountsByCustomer institutionID customerID =
     readDB (txGets (\<lambda>s. sort_key acc_CreatedAt
       (filter (\<lambda>a. acc_InstitutionID a = institutionID \<and> acc_CustomerID a = Some customerID) (accounts s))))"

definition GetAccount :: "string \<Rightarrow> string \<Rightarrow> Account repo" where
  "GetAccount institutionID accountID = readDB (getRow (account_row institutionID accountID))"

definition GetAccountByNumber :: "string \<Rightarrow> string \<Rightarrow> Account repo" where
  "GetAccountByNumber institutionID accountNumber =
     readDB (getRow (\<lambda>s. select_one (\<lambda>a. acc_InstitutionID a = institutionID \<and>
       acc_AccountNumber a = accountNumber) (accounts s)))"

definition settlement_candidate :: "string \<Rightarrow> string \<Rightarrow> Account \<Rightarrow> bool" where
  "settlement_candidate institutionID currencyID a \<longleftrightarrow>
     acc_InstitutionID a = institutionID \<and> acc_CurrencyID a = currencyID \<and>
     acc_Kind a = AccountKindInternal \<and> acc_ProductType a = AccountProductInternal \<and>
     acc_AllowNegative a \<and> acc_NormalBalance a = NormalBalanceDebit \<and> acc_Status a = AccountStatusActive"

definition GetDefaultInternalSettlementAccount :: "string \<Rightarrow> string \<Rightarrow> Account repo" where
  "GetDefaultInternalSettlementAccount institutionID currencyID =
     readDB (txBind (txGets (\<lambda>s. take 2 (sort_key (\<lambda>a. (acc_CreatedAt a, acc_ID a))
         (filter (settlement_candidate institutionID currencyID) (accounts s))))) (\<lambda>rows.
       case rows of [] \<Rightarrow> txFail ErrNotFound | [a] \<Rightarrow> txReturn a | _ \<Rightarrow> txFail ErrInvalidRequest))"

definition GetBalance :: "string \<Rightarrow> string \<Rightarrow> AccountBalance repo" where
  "GetBalance institutionID accountID =
     readDB (txThen (txCheck (\<lambda>s. \<exists>a\<in>set (accounts s). acc_InstitutionID a = institutionID \<and>
         acc_ID a = accountID) ErrNotFound)
       (txMapError (\<lambda>err. if errors_Is err ErrNotFound then ErrDataIntegrity else err)
         (getRow (balance_row institutionID accountID))))"

section \<open>Account status\<close>

definition allowedAccountStatusTransition :: "string \<Rightarrow> string list \<Rightarrow> bool" where
  "allowedAccountStatusTransition current allowed \<longleftrightarrow> allowed = [] \<or> current \<in> set allowed"

definition accountStatusAuditAction :: "string \<Rightarrow> string \<Rightarrow> string" where
  "accountStatusAuditAction oldStatus status =
     (if status = AccountStatusFrozen then AuditActionAccountFrozen
      else if status = AccountStatusPostNoDebit then AuditActionPNDActivated
      else if oldStatus = AccountStatusPostNoDebit then AuditActionPNDDeactivated
      else AuditActionAccountUnfrozen)"

definition acc_key :: "string \<Rightarrow> string \<Rightarrow> Account \<Rightarrow> bool" where
  "acc_key institutionID accountID a \<longleftrightarrow> acc_InstitutionID a = institutionID \<and> acc_ID a = accountID"

definition setAccountStatus ::
  "env \<Rightarrow> AccountControlInput \<Rightarrow> string \<Rightarrow> string list \<Rightarrow> Account tx" where
  "setAccountStatus e input status allowedCurrentStatuses =
     txBind (getRow (account_row (aci_InstitutionID input) (aci_AccountID input))) (\<lambda>account.
     txThen (txEnsure (allowedAccountStatusTransition (acc_Status account) allowedCurrentStatuses)
        ErrInvalidRequest)
     (if acc_Status account = status then txReturn account
      else
        let oldStatus = acc_Status account; now = env_clock e 0 in
        txThen (update_accounts (acc_key (aci_InstitutionID input) (aci_AccountID input))
          (\<lambda>a. a\<lparr>acc_Status := status, acc_UpdatedAt := now\<rparr>))
        (txBind (getRow (account_row (aci_InstitutionID input) (aci_AccountID input))) (\<lambda>account.
        txThen (insertAuditEvent e 0 (auditEventInput_zero
          \<lparr>ai_InstitutionID := aci_InstitutionID input,
           ai_Action := accountStatusAuditAction oldStatus status, ai_EntityType := ''account'',
           ai_EntityID := acc_ID account, ai_CustomerID := optionalAuditValue (acc_CustomerID account),
           ai_AccountID := acc_ID account, ai_Reference := aci_Reference input,
           ai_OldStatus := oldStatus, ai_NewStatus := status,
           ai_Metadata := [(''reason'', aci_Reason input)], ai_CreatedAt := now\<rparr>))
        (txReturn account)))))"

definition SetAccountStatus ::
  "env \<Rightarrow> AccountControlInput \<Rightarrow> string \<Rightarrow> string list \<Rightarrow> Account repo" where
  "SetAccountStatus e input status allowedCurrentStatuses =
     WithTx e (setAccountStatus e input status allowedCurrentStatuses)"

section \<open>Liens\<close>

definition lien_key :: "string \<Rightarrow> string \<Rightarrow> string \<Rightarrow> AccountHold \<Rightarrow> bool" where
  "lien_key institutionID accountID lienID h \<longleftrightarrow>
     ho_InstitutionID h = institutionID \<and> ho_AccountID h = accountID \<and> ho_ID h = lienID"

definition getActiveLienByReference :: "string \<Rightarrow> string \<Rightarrow> string \<Rightarrow> AccountHold tx" where
  "getActiveLienByReference institutionID accountID reference =
     getRow (\<lambda>s. select_one (\<lambda>h. ho_InstitutionID h = institutionID \<and> ho_AccountID h = accountID \<and>
         ho_Reference h = reference \<and> ho_TransferID h = None \<and> ho_Status h = HoldStatusActive)
       (account_holds s))"

definition ensureNoOtherActiveLienByReference :: "string \<Rightarrow> string \<Rightarrow> string \<Rightarrow> unit tx" where
  "ensureNoOtherActiveLienByReference institutionID accountID reference =
     ifFound (getRow (\<lambda>s. select_first (\<lambda>h. (ho_CreatedAt h, ho_ID h))
         (\<lambda>h. ho_InstitutionID h = institutionID \<and> ho_AccountID h \<noteq> accountID \<and>
           ho_Reference h = reference \<and> ho_TransferID h = None \<and> ho_Status h = HoldStatusActive)
         (account_holds s)))
       (\<lambda>h. txFail ErrConflict) (txReturn ())"

definition getLienForUpdate :: "string \<Rightarrow> string \<Rightarrow> string \<Rightarrow> AccountHold tx" where
  "getLienForUpdate institutionID accountID lienID =
     getRow (\<lambda>s. select_one (\<lambda>h. lien_key institutionID accountID lienID h \<and> ho_TransferID h = None)
       (account_holds s))"

definition accountLienReplayMatches :: "AccountLienInput \<Rightarrow> AccountHold \<Rightarrow> bool" where
  "accountLienReplayMatches input hold \<longleftrightarrow>
     ho_InstitutionID hold = ali_InstitutionID input \<and> ho_AccountID hold = ali_AccountID input \<and>
     ho_Reference hold = ali_Reference input \<and> ho_AmountMinor hold = ali_AmountMinor input \<and>
     ho_CurrencyID hold = ali_CurrencyID input"

definition newLien :: "env \<Rightarrow> AccountLienInput \<Rightarrow> time \<Rightarrow> AccountHold" where
  "newLien e input now =
     \<lparr>ho_ID = env_uuid e DrawHold, ho_InstitutionID = ali_InstitutionID input,
      ho_AccountID = ali_AccountID input, ho_TransferID = None,
      ho_AmountMinor = ali_AmountMinor input, ho_CurrencyID = ali_CurrencyID input,
      ho_Status = HoldStatusActive, ho_Reason = ali_Reason input, ho_Reference = ali_Reference input,
      ho_CreatedAt = now, ho_UpdatedAt = now, ho_ReleasedAt = None\<rparr>"

definition placeNewLien ::
  "env \<Rightarrow> AccountLienInput \<Rightarrow> lockedAccountBalance \<Rightarrow> AccountHold tx" where
  "placeNewLien e input account =
     txThen (ensureNoOtherActiveLienByReference (ali_InstitutionID input) (ali_AccountID input)
        (ali_Reference input))
     (txThen (txEnsure (acc_CurrencyID (lk_Account account) = ali_CurrencyID input) ErrInvalidRequest)
     (txThen (txEnsure (bal_AvailableMinor (lk_Balance account) \<ge> ali_AmountMinor input) ErrInsufficient)
     (let now = env_clock e 0; hold = newLien e input now in
      txThen (insert_hold hold)
      (txThen (execOneRow (update_balances (bal_key (ali_InstitutionID input) (ali_AccountID input))
          (\<lambda>b. b\<lparr>bal_AvailableMinor := bal_AvailableMinor b - ali_AmountMinor input,
                 bal_UpdatedAt := now\<rparr>)))
      (txThen (insertAuditEvent e 0 (auditEventInput_zero
          \<lparr>ai_InstitutionID := ali_InstitutionID input, ai_Action := AuditActionLienPlaced,
           ai_EntityType := ''account_hold'', ai_EntityID := ho_ID hold,
           ai_AccountID := ho_AccountID hold, ai_Reference := ali_Reference input,
           ai_NewStatus := HoldStatusActive,
           ai_Metadata := [(''amount_minor'', formatAuditInt (ali_AmountMinor input)),
                           (''currency_id'', ali_CurrencyID input), (''reason'', ali_Reason input)],
           ai_CreatedAt := now\<rparr>))
      (txReturn hold))))))"

definition placeAccountLien :: "env \<Rightarrow> AccountLienInput \<Rightarrow> AccountHold tx" where
  "placeAccountLien e input =
     txThen (lockReplayKey ''account_lien_reference'' [ali_InstitutionID input, ali_Reference input])
     (txBind (lockAccountBalance (ali_InstitutionID input) (ali_AccountID input)) (\<lambda>account.
     txThen (txEnsure (acc_Kind (lk_Account account) = AccountKindCustomer \<and>
         acc_Status (lk_Account account) \<noteq> AccountStatusClosed) ErrInvalidRequest)
     (ifFound (getActiveLienByReference (ali_InstitutionID input) (ali_AccountID input)
         (ali_Reference input))
       (\<lambda>existing. txThen (txEnsure (accountLienReplayMatches input existing) ErrConflict)
         (txReturn existing))
       (placeNewLien e input account))))"

definition PlaceAccountLien :: "env \<Rightarrow> AccountLienInput \<Rightarrow> AccountHold repo" where
  "PlaceAccountLien e input = WithTx e (placeAccountLien e input)"

definition releaseAccountLien :: "env \<Rightarrow> ReleaseLienInput \<Rightarrow> AccountHold tx" where
  "releaseAccountLien e input =
     txBind (getLienForUpdate (rli_InstitutionID input) (rli_AccountID input) (rli_LienID input))
       (\<lambda>current.
     if ho_Status current \<noteq> HoldStatusActive then txReturn current
     else
       let now = env_clock e 0 in
       txThen (execOneRow (update_holds
           (lien_key (rli_InstitutionID input) (rli_AccountID input) (rli_LienID input))
           (\<lambda>h. h\<lparr>ho_Status := HoldStatusReleased, ho_UpdatedAt := now, ho_ReleasedAt := Some now\<rparr>)))
       (txThen (execOneRow (update_balances (bal_key (rli_InstitutionID input) (rli_AccountID input))
           (\<lambda>b. b\<lparr>bal_AvailableMinor := bal_AvailableMinor b + ho_AmountMinor current,
                  bal_UpdatedAt := now\<rparr>)))
       (txBind (getLienForUpdate (rli_InstitutionID input) (rli_AccountID input) (rli_LienID input))
         (\<lambda>hold.
        txThen (insertAuditEvent e 0 (auditEventInput_zero
          \<lparr>ai_InstitutionID := rli_InstitutionID input, ai_Action := AuditActionLienReleased,
           ai_EntityType := ''account_hold'', ai_EntityID := ho_ID hold,
           ai_AccountID := ho_AccountID hold, ai_Reference := rli_Reference input,
           ai_OldStatus := HoldStatusActive, ai_NewStatus := HoldStatusReleased,
           ai_Metadata := [(''amount_minor'', formatAuditInt (ho_AmountMinor hold)),
                           (''currency_id'', ho_CurrencyID hold), (''reason'', rli_Reason input)],
           ai_CreatedAt := now\<rparr>))
        (txReturn hold)))))"

definition ReleaseAccountLien :: "env \<Rightarrow> ReleaseLienInput \<Rightarrow> AccountHold repo" where
  "ReleaseAccountLien e input = WithTx e (releaseAccountLien e input)"

end
