(* ===== verification/OpsRefine.thy ===== *)
theory OpsRefine
  imports TransferRefine AccountOps
begin

text \<open>
  The remaining transactions take only steps of the book specification: the manual-review record, the
  requery, the reversal, the account status changes, the liens, and opening customers and accounts.
\<close>

section \<open>Review records\<close>

lemma normalizeReview_Inr:
  assumes "normalizeProviderEventReviewInput input0 = Inr input"
  shows "rv_InstitutionID input = TrimSpace (rv_InstitutionID input0) \<and>
     validTransferStatus (rv_Status input) \<and> 0 < rv_AmountMinor input"
  using assms by (auto simp: normalizeProviderEventReviewInput_def Let_def split: if_splits)

lemma writeReview_books:
  assumes "writeReview e input account now s = Inr (t, s')" and "validTransferStatus (rv_Status input)"
  shows "book_steps (rv_InstitutionID input) s s'"
proof -
  let ?t = "reviewTransfer e input now" and ?i = "rv_InstitutionID input"
  let ?link = "if rv_ReserveProviderEvent input
        then linkTransfer (tr_ID ?t) ?i (rv_Provider input) (rv_ProviderEventID input) else txReturn ()"
  let ?tail = "txThen ?link (txThen (auditExternalInboundReview e 0 input ?t account) (txReturn ?t))"
  from assms(1) obtain s1 where ins: "insert_transfer ?t s = Inr ((), s1)" and tail: "?tail s1 = Inr (t, s')"
    unfolding writeReview_def Let_def by (auto elim: txThen_elim)
  have "status_ok ?t"
    using assms(2) by (auto simp: status_ok_iff statuses_ok_def reviewTransfer_def validTransferStatus_def)
  from insert_adds_row [OF ins this] have row: "row_added ?i ?t s" "s1 = add_row ?t s"
    by (simp_all add: reviewTransfer_def)
  have "book_step ?i s (add_row ?t s)"
    by (rule record_unposted [OF row(1)]) (simp_all add: reviewTransfer_def needs_hold_def)
  moreover have obeys: "book.obeys ?i ?tail"
    by (intro book.obeys_rules book_transfer_audits book_link) (simp add: reviewTransfer_def)
  have "book_steps ?i s1 s'" by (rule book.obeysD [OF obeys tail])
  ultimately show ?thesis using row(2) by (meson book_step_trans)
qed

lemma recordNewReview_books:
  assumes run: "recordNewReview e x input s = Inr (t, s')" and v: "validTransferStatus (rv_Status input)"
  shows "book_steps (rv_InstitutionID input) s s'"
proof -
  let ?ev = "providerReviewRecordTransferInput input" and ?i = "rv_InstitutionID input"
  have i: "in_InstitutionID ?ev = ?i" by (simp add: providerReviewRecordTransferInput_def)
  show ?thesis
  proof (cases "idempotency_row ?i (rv_IdempotencyKey input) s")
    case (Some existing)
    with run have "s' = s"
      by (auto simp: recordNewReview_def Let_def getTransferByIdempotency_def ifFound_getRow txThen_Inr
          txEnsure_Inr)
    then show ?thesis by simp
  next
    case None
    with run obtain acct where
      r: "(if rv_ReserveProviderEvent input
         then txBind (reserve e x ?ev [] (env_clock e 0)) (\<lambda>inserted.
           if \<not> inserted then existingProviderEventTransfer ?ev (rv_RequestFingerprint input)
           else writeReview e input acct (env_clock e 0))
         else writeReview e input acct (env_clock e 0)) s = Inr (t, s')"
      by (auto simp: recordNewReview_def Let_def getTransferByIdempotency_def ifFound_getRow txBind_Inr
          lockAccountBalance_Inr)
    show ?thesis
    proof (cases "rv_ReserveProviderEvent input")
      case False
      with r writeReview_books [OF _ v] show ?thesis by auto
    next
      case True
      with r obtain b s0 where rs: "reserve e x ?ev [] (env_clock e 0) s = Inr (b, s0)"
        and c: "(if \<not> b then existingProviderEventTransfer ?ev (rv_RequestFingerprint input)
           else writeReview e input acct (env_clock e 0)) s0 = Inr (t, s')"
        by (auto simp: txBind_Inr)
      have s0: "book_steps ?i s s0" using book.obeysD [OF book_reserve rs] by (simp add: i)
      show ?thesis
      proof (cases b)
        case True
        with c writeReview_books [OF _ v] have "book_steps ?i s0 s'" by auto
        with s0 show ?thesis by simp
      next
        case False
        with c have "s' = s0" by (auto simp: existingProviderEventTransfer_Inr)
        with s0 show ?thesis by simp
      qed
    qed
  qed
qed

theorem recordProviderEventReview_books:
  assumes run: "recordProviderEventReview e x input0 s = Inr (t, s')"
  shows "book_steps (TrimSpace (rv_InstitutionID input0)) s s'"
proof -
  from run obtain input s1 where n: "normalizeProviderEventReviewInput input0 = Inr input"
    and l: "txThen (lockReplayKey ''idempotency'' [rv_InstitutionID input, rv_IdempotencyKey input])
     (if rv_ReserveProviderEvent input
       then lockReplayKey ''provider_event''
         [rv_InstitutionID input, rv_Provider input, rv_ProviderEventID input]
       else txReturn ()) s = Inr ((), s1)"
    and r: "(if rv_ReserveProviderEvent input
      then ifFound (getEventTransfer (rv_InstitutionID input) (rv_Provider input)
             (rv_ProviderEventID input))
           (\<lambda>existing. txBind (payloadMatches (providerReviewRecordTransferInput input)
               (rv_RequestFingerprint input)) (\<lambda>ok.
              txThen (txEnsure ok ErrConflict) (txReturn existing)))
           (recordNewReview e x input)
      else recordNewReview e x input) s1 = Inr (t, s')"
    by (auto simp: recordProviderEventReview_def txBind_Inr txThen_Inr txLift_Inr)
  note ni = normalizeReview_Inr [OF n]
  have "book.obeys (rv_InstitutionID input) (txThen (lockReplayKey ''idempotency'' [rv_InstitutionID input, rv_IdempotencyKey input])
     (if rv_ReserveProviderEvent input
       then lockReplayKey ''provider_event''
         [rv_InstitutionID input, rv_Provider input, rv_ProviderEventID input]
       else txReturn ()))"
    by (intro book.obeys_rules book_locks)
  from book.obeysD [OF this l] have "book_steps (rv_InstitutionID input) s s1" .
  moreover have "s' = s1 \<or> recordNewReview e x input s1 = Inr (t, s')"
    using r by (auto simp: getEventTransfer_def ifFound_getRow txBind_Inr txThen_Inr txEnsure_Inr
        payloadMatches_Inr split: if_splits option.splits)
  ultimately show ?thesis
    using recordNewReview_books [of e x input s1 t s'] ni by auto
qed

section \<open>Requery\<close>

lemma requeryPending_books:
  assumes ok: "books_ok s" and p: "current \<in> set (transfers s)" "tr_Status current = TransferStatusPending"
      "tr_InstitutionID current = in_InstitutionID input" "tr_Direction current = in_Direction input"
    and run: "requeryPending e x k current input s = Inr (t, s')"
  shows "book_steps (in_InstitutionID input) s s'"
proof -
  from run obtain st ps where
    r: "(if tr_Direction current = TransferDirectionOutbound
     then completeExternalOutboundTransfer e x k input
     else if tr_Direction current = TransferDirectionInbound
     then (if st = TransferStatusPending
           then updatePendingInboundTransferRequery e current input ps
           else settlePendingTransfer e x current input)
     else txFail ErrInvalidRequest) s = Inr (t, s')"
    by (auto simp: requeryPending_def txThen_Inr txBind_Inr txLift_Inr txEnsure_Inr)
  show ?thesis
  proof (cases "tr_Direction current = TransferDirectionOutbound")
    case True
    with r p(4) completeExternalOutboundTransfer_books [OF ok] show ?thesis by auto
  next
    case False
    with r have "updatePendingInboundTransferRequery e current input ps s = Inr (t, s') \<or>
        settlePendingTransfer e x current input s = Inr (t, s')"
      by (auto split: if_splits)
    with settlePendingTransfer_books [OF ok p(1-3)] updatePendingInbound_books [OF ok p(1-3)]
    show ?thesis by blast
  qed
qed

theorem completeExternalTransferRequery_books:
  assumes ok: "books_ok s" and run: "completeExternalTransferRequery e x k input0 s = Inr (t, s')"
  shows "book_steps (TrimSpace (in_InstitutionID input0)) s s'"
proof -
  let ?input = "normalizeRequeryInput input0"
  let ?input2 = "\<lambda>current. if in_ProviderReference ?input = []
      then ?input\<lparr>in_ProviderReference := tr_ProviderReference current\<rparr> else ?input"
  from run obtain current where
    p: "select_one (tr_key (in_InstitutionID ?input) (TrimSpace k)) (transfers s) = Some current" and
    d: "tr_Direction current = in_Direction ?input" and
    r: "(if tr_Status current \<noteq> TransferStatusPending then txReturn current
        else requeryPending e x (TrimSpace k) current (?input2 current)) s = Inr (t, s')"
    unfolding completeExternalTransferRequery_def Let_def txBind_Inr txThen_Inr txEnsure_Inr
        getTransferForUpdate_Inr by blast
  have i: "in_InstitutionID (?input2 current) = in_InstitutionID ?input"
    "in_Direction (?input2 current) = in_Direction ?input"
    by simp_all
  have n: "in_InstitutionID ?input = TrimSpace (in_InstitutionID input0)"
    by (simp add: normalizeRequeryInput_def)
  show ?thesis
  proof (cases "tr_Status current = TransferStatusPending")
    case True
    with r have "requeryPending e x (TrimSpace k) current (?input2 current) s = Inr (t, s')" by simp
    from requeryPending_books [OF ok _ True _ _ this] select_tr_keyD [OF p] d i n show ?thesis by auto
  next
    case False
    with r show ?thesis by simp
  qed
qed

section \<open>Reversal\<close>

lemma mark_reversal_books:
  assumes rows: "rows_ok (transfers s)" and t: "t \<in> set (transfers s)" "tr_key i k t" "tr_ReversalOfTransferID t \<noteq> None"
    and upd: "update_transfers (tr_key i k)
        (\<lambda>t. t\<lparr>tr_Direction := TransferDirectionReversal, tr_UpdatedAt := now\<rparr>) s = Inr (n, s')"
  shows "book_step i s s'"
proof -
  let ?f = "\<lambda>t. t\<lparr>tr_Direction := TransferDirectionReversal, tr_UpdatedAt := now\<rparr>"
  have "same_identity r (?f r)" "status_ok (?f r) = status_ok r" for r
    by (simp_all add: same_identity_def status_ok_def)
  then have ch: "row_changed i k ?f s \<and> s' = change_row i k ?f s"
    by (intro update_changes_row [OF upd]) (simp_all add: rows_okD [OF rows])
  have f: "\<forall>r. \<exists>now'. ?f r = r\<lparr>tr_Direction := TransferDirectionReversal, tr_UpdatedAt := now'\<rparr>"
    by blast
  show ?thesis
    unfolding conjunct2 [OF ch] by (rule mark_reversal [OF t f conjunct1 [OF ch]])
qed

text \<open>The transfer that \<open>recordTransfer\<close> returns is a row of the table it leaves.\<close>

definition returns_row :: "string \<Rightarrow> Transfer \<Rightarrow> store \<Rightarrow> bool" where
  "returns_row i t s \<longleftrightarrow> t \<in> set (transfers s) \<and> tr_InstitutionID t = i"

lemma returns_row_frame: "transfers s' = transfers s \<Longrightarrow> returns_row i t s' = returns_row i t s"
  by (simp add: returns_row_def)

lemma audit_frame: "auditWhen e k a s = Inr (u, s') \<Longrightarrow> transfers s' = transfers s"
  by (auto dest!: auditWhen_Inr)

lemma link_frame: "linkTransfer k i p ev s = Inr (u, s') \<Longrightarrow> transfers s' = transfers s"
  by (auto dest!: linkTransfer_effect)



lemma settlePendingTransfer_returns:
  assumes "settlePendingTransfer e x pending input s = Inr (t, s')"
    and "tr_InstitutionID pending = in_InstitutionID input"
  shows "returns_row (in_InstitutionID input) t s' \<and> (tr_ID t = tr_ID pending \<or> t \<in> set (transfers s))"
proof -
  let ?i = "in_InstitutionID input"
  from assms(1) obtain cont where
    r: "reserveEventOr e x input (tr_ID pending) (transferRequestFingerprint x input) (env_clock e 0) id cont s
       = Inr (t, s')" and
    c: "\<And>s0 s'. cont s0 = Inr (t, s') \<Longrightarrow> returns_row ?i t s' \<and> tr_ID t = tr_ID pending"
    unfolding settlePendingTransfer_def Let_def
  proof (elim txThen_elim txBind_elim, goal_cases)
    case (1 u s1 p s2)
    obtain a c where p: "p = (a, c)" by (cases p)
    show ?case
    proof (rule 1(1))
      show "reserveEventOr e x input (tr_ID pending) (transferRequestFingerprint x input) (env_clock e 0) id
        (txBind (settleEffects e input pending a c (env_clock e 0))
         (\<lambda>(ledgerStatus, reconciliationStatus, journalEntryID).
     txThen (update_transfers (tr_key (tr_InstitutionID pending) (tr_ID pending))
         (\<lambda>t. pendingUpdate (settleStatus input) (resolvedProviderStatus input) ledgerStatus
           reconciliationStatus (tr_ProviderReference t) (settledEventID input pending) journalEntryID
           (optional_text (in_FailureReason input)) (settledNarration input pending) (env_clock e 0) t))
     (txBind (getTransferForUpdate (tr_InstitutionID pending) (tr_ID pending)) (\<lambda>updated.
     txThen (auditPostedInternalTransfer e 0 input updated (lk_Account a) (lk_Account c))
     (txThen (auditExternalInboundTransfer e 1 input updated (lk_Account a))
     (txReturn updated)))))) s = Inr (t, s')"
        using 1 by (auto simp: p txEnsure_Inr lockTransferAccountBalances_Inr)
    next
      fix s0 s' assume "txBind (settleEffects e input pending a c (env_clock e 0))
         (\<lambda>(ledgerStatus, reconciliationStatus, journalEntryID).
     txThen (update_transfers (tr_key (tr_InstitutionID pending) (tr_ID pending))
         (\<lambda>t. pendingUpdate (settleStatus input) (resolvedProviderStatus input) ledgerStatus
           reconciliationStatus (tr_ProviderReference t) (settledEventID input pending) journalEntryID
           (optional_text (in_FailureReason input)) (settledNarration input pending) (env_clock e 0) t))
     (txBind (getTransferForUpdate (tr_InstitutionID pending) (tr_ID pending)) (\<lambda>updated.
     txThen (auditPostedInternalTransfer e 0 input updated (lk_Account a) (lk_Account c))
     (txThen (auditExternalInboundTransfer e 1 input updated (lk_Account a))
     (txReturn updated))))) s0 = Inr (t, s')"
      then show "returns_row ?i t s' \<and> tr_ID t = tr_ID pending"
        by (auto simp: txBind_Inr txThen_Inr getTransferForUpdate_Inr transfer_audit_defs returns_row_def assms(2)
            dest!: audit_frame select_tr_keyD)
    qed
  qed
  from reserveEventOr_Inr [OF r] c show ?thesis
    by (auto simp: returns_row_def dest: event_transfer_SomeD)
qed

lemma create_hold_frame: "create_hold e t now s = Inr (u, s') \<Longrightarrow> transfers s' = transfers s"
  using create_hold_effect hold_placed_frame by blast

lemma writeNewTransfer_returns:
  assumes "writeNewTransfer e x input a c d now s = Inr (r, s')"
  shows "returns_row (in_InstitutionID input) (fst r) s'"
proof -
  from assms obtain jid s1 s2 s3 s4 s5 s6 t where
    t: "t = newTransfer e x input d jid now" "insert_transfer t s1 = Inr ((), s2)" and
    h: "(if dec_Status d = TransferStatusPending \<and>
         in_Direction input = TransferDirectionOutbound \<and> in_ReversalOfTransferID input = []
       then create_hold e t now else txReturn ()) s2 = Inr ((), s3)" and
    l: "(if in_ProviderEventID input \<noteq> []
       then linkTransfer (tr_ID t) (in_InstitutionID input) (in_Provider input) (in_ProviderEventID input)
       else txReturn ()) s3 = Inr ((), s4)" and
    a: "auditPostedInternalTransfer e 0 input t a c s4 = Inr ((), s5)"
      "auditExternalInboundTransfer e 1 input t a s5 = Inr ((), s6)" and
    r: "(t, True) = r" "s6 = s'"
    unfolding writeNewTransfer_def Let_def
    by (elim txBind_elim txThen_elim) (auto simp: txReturn_apply)
  have "t \<in> set (transfers s2)" using t(2) by (simp add: insert_transfer_Inr)
  moreover have "transfers s3 = transfers s2" using h create_hold_frame by (auto split: if_splits)
  moreover have "transfers s4 = transfers s3" using l link_frame by (auto split: if_splits)
  moreover have "transfers s6 = transfers s4"
    using a by (simp add: transfer_audit_defs audit_frame)
  ultimately show ?thesis using r t(1) by (auto simp: returns_row_def)
qed

lemma recordNewTransfer_returns:
  assumes "recordNewTransfer e x input s = Inr (r, s')"
  shows "returns_row (in_InstitutionID input) (fst r) s'"
proof -
  from assms obtain a c d where
    r: "reserveEventOr e x input [] (transferRequestFingerprint x input) (env_clock e 0) (\<lambda>t. (t, False))
       (writeNewTransfer e x input a c d (env_clock e 0)) s = Inr (r, s')"
    unfolding recordNewTransfer_def Let_def
    by (auto simp: txBind_Inr txThen_Inr txLift_Inr lockTransferAccountBalances_Inr)
  from reserveEventOr_Inr [OF r] show ?thesis
    by (auto simp: returns_row_def dest: event_transfer_SomeD writeNewTransfer_returns [unfolded returns_row_def])
qed

lemma recordByReference_returns:
  assumes run: "recordByReference e x input s = Inr (r, s')"
  shows "returns_row (in_InstitutionID input) (fst r) s'"
proof (cases "in_ProviderReference input \<noteq> [] \<and> in_Status input \<noteq> TransferStatusPending")
  case False
  then have "recordNewTransfer e x input s = Inr (r, s')"
    using run unfolding recordByReference_def by (simp only: if_False)
  then show ?thesis by (rule recordNewTransfer_returns)
next
  case True
  let ?key = "\<lambda>q. q (in_InstitutionID input) (in_Provider input) (in_ProviderReference input) (in_Direction input) s"
  show ?thesis
  proof (cases "?key pending_reference_row")
    case (Some pending)
    with True run obtain t where "settlePendingTransfer e x pending input s = Inr (t, s')" "r = (t, False)"
      by (auto simp: recordByReference_def getPendingTransferByProviderReference_def ifFound_getRow txBind_Inr)
    moreover have "tr_InstitutionID pending = in_InstitutionID input"
      using Some by (auto simp: pending_reference_row_def provider_reference_key_def dest: select_first_SomeD)
    ultimately show ?thesis using settlePendingTransfer_returns by auto
  next
    case None
    show ?thesis
    proof (cases "?key settled_reference_row")
      case (Some settled)
      with True None run have "s' = s" "fst r = settled"
        by (auto simp: recordByReference_def getPendingTransferByProviderReference_def
            getSettledTransferByProviderReference_def ifFound_getRow txBind_Inr txThen_Inr txEnsure_Inr
            dest: sameTransferReplayByFields_state)
      moreover have "settled \<in> set (transfers s) \<and> tr_InstitutionID settled = in_InstitutionID input"
        using Some by (auto simp: settled_reference_row_def provider_reference_key_def dest: select_first_SomeD)
      ultimately show ?thesis by (simp add: returns_row_def)
    next
      case None': None
      with True None run have "recordNewTransfer e x input s = Inr (r, s')"
        by (simp add: recordByReference_def getPendingTransferByProviderReference_def
            getSettledTransferByProviderReference_def ifFound_getRow)
      then show ?thesis by (rule recordNewTransfer_returns)
    qed
  qed
qed

lemma idempotency_row_SomeD:
  "idempotency_row i k s = Some t \<Longrightarrow> t \<in> set (transfers s) \<and> tr_InstitutionID t = i \<and> tr_IdempotencyKey t = k"
  by (auto simp: idempotency_row_def dest!: select_one_SomeD)

lemma recordTransfer_returns:
  assumes run: "recordTransfer e x input s = Inr (r, s')"
  shows "returns_row (in_InstitutionID input) (fst r) s'"
proof -
  from run obtain s0 where
    rest: "ifFound (getTransferByIdempotency (in_InstitutionID input) (in_IdempotencyKey input))
        (\<lambda>existing. txBind (sameTransferReplay existing input (transferRequestFingerprint x input)) (\<lambda>ok.
           txThen (txEnsure ok ErrConflict) (txReturn (existing, False))))
        (recordByEvent e x input) s0 = Inr (r, s')"
    by (auto simp: recordTransfer_def txThen_Inr)
  have event: "returns_row (in_InstitutionID input) (fst r) s'" if "recordByEvent e x input s0 = Inr (r, s')"
  proof -
    have "recordByReference e x input s0 = Inr (r, s') \<or>
        (s' = s0 \<and> event_transfer (in_InstitutionID input) (in_Provider input) (in_ProviderEventID input) s0 = Some (fst r))"
      using that
      by (auto simp: recordByEvent_def getEventTransfer_def ifFound_getRow txBind_Inr txThen_Inr txEnsure_Inr
          payloadMatches_Inr split: if_splits option.splits)
    then show ?thesis
      using recordByReference_returns [of e x input s0 r s']
      by (auto simp: returns_row_def dest: event_transfer_SomeD)
  qed
  show ?thesis
  proof (cases "idempotency_row (in_InstitutionID input) (in_IdempotencyKey input) s0")
    case None
    with rest event show ?thesis by (simp add: getTransferByIdempotency_def ifFound_getRow)
  next
    case (Some existing)
    with rest have "s' = s0" "fst r = existing"
      by (auto simp: getTransferByIdempotency_def ifFound_getRow txBind_Inr txThen_Inr txEnsure_Inr
          dest: sameTransferReplay_state)
    with idempotency_row_SomeD [OF Some] show ?thesis by (simp add: returns_row_def)
  qed
qed

theorem reverseTransfer_books:
  assumes ok: "books_ok s" and run: "reverseTransfer e x input0 s = Inr (t, s')"
  shows "book_steps (TrimSpace (rt_InstitutionID input0)) s s'"
proof -
  let ?i = "TrimSpace (rt_InstitutionID input0)"
  let ?input = "input0\<lparr>rt_InstitutionID := ?i, rt_TransferID := TrimSpace (rt_TransferID input0),
                       rt_IdempotencyKey := TrimSpace (rt_IdempotencyKey input0)\<rparr>"
  from run obtain original where
    p: "ifFound (getActiveReversalOf ?i (tr_ID original))
        (\<lambda>existing. txThen (txEnsure (tr_IdempotencyKey existing = rt_IdempotencyKey ?input) ErrConflict)
           (txReturn existing))
        (recordReversal e x ?input original) s = Inr (t, s')"
    unfolding reverseTransfer_def Let_def txBind_Inr txThen_Inr txEnsure_Inr getTransferForUpdate_Inr by auto
  then have "s' = s \<or> recordReversal e x ?input original s = Inr (t, s')"
    by (auto simp: getActiveReversalOf_def ifFound_getRow txThen_Inr txEnsure_Inr split: option.splits)
  moreover have ?thesis if rec: "recordReversal e x ?input original s = Inr (t, s')"
  proof -
    from rec obtain cp tr created s1 n where
      r: "recordTransfer e x (reversalInput ?input original cp) s = Inr ((tr, created), s1)" and
      rev: "tr_ReversalOfTransferID tr = Some (tr_ID original)" and
      u: "update_transfers (tr_key ?i (tr_ID tr))
         (\<lambda>t. t\<lparr>tr_Direction := TransferDirectionReversal, tr_UpdatedAt := env_clock e 1\<rparr>) s1 = Inr (n, s')"
      by (auto simp: recordReversal_def txBind_Inr txThen_Inr txEnsure_Inr dest!: originalCounterparty_state)
    have i: "in_InstitutionID (reversalInput ?input original cp) = ?i"
      by (simp add: reversalInput_def Let_def)
    have s1: "book_steps ?i s s1" using recordTransfer_books [OF ok r] by (simp add: i)
    have tr: "tr \<in> set (transfers s1)" "tr_key ?i (tr_ID tr) tr"
      using recordTransfer_returns [OF r] by (simp_all add: returns_row_def i tr_key_def)
    have "book_step ?i s1 s'"
      by (rule mark_reversal_books [OF books_okD(1) [OF books_ok_steps [OF s1 ok]] tr _ u]) (simp add: rev)
    with s1 show ?thesis by simp
  qed
  ultimately show ?thesis by auto
qed

section \<open>Customers, accounts, liens\<close>

lemma book_insert_audit:
  assumes "ai_InstitutionID a = i"
  shows "book.obeys i (insertAuditEvent e k a)"
proof (rule book.obeysI)
  fix s ev s' assume "insertAuditEvent e k a s = Inr (ev, s')"
  then have "auditWhen e k (Some a) s = Inr ((), s')" by (simp add: auditWhen_def txThen_Inr)
  with book.obeysD [OF book_audit] assms show "book_steps i s s'" by (metis option.inject)
qed

theorem createCustomer_books:
  assumes run: "createCustomer e input s = Inr (c, s')"
  shows "book_steps (cci_InstitutionID input) s s'"
proof -
  let ?c = "newCustomer e input (env_clock e 0)"
  have i: "cus_InstitutionID ?c = cci_InstitutionID input" by (simp add: newCustomer_def)
  from run obtain a s1 ev where ins: "insert_customer ?c s = Inr ((), s1)"
    and aud: "insertAuditEvent e 0 a s1 = Inr (ev, s')" and a: "ai_InstitutionID a = cus_InstitutionID ?c"
    unfolding createCustomer_def Let_def by (elim txThen_elim) (auto simp: txCheck_Inr)
  have "book_step (cci_InstitutionID input) s s1"
    using ins open_customer [of ?c "cci_InstitutionID input" s] by (simp add: insert_customer_Inr i)
  with book.obeysD [OF book_insert_audit aud] a i show ?thesis by (metis book_step_trans)
qed

theorem createAccount_books:
  assumes run: "createAccount e input s = Inr (acct, s')"
  shows "book_steps (cai_InstitutionID input) s s'"
proof -
  let ?i = "cai_InstitutionID input"
  let ?a = "newAccount e input (env_clock e 0)"
  let ?b = "\<lparr>bal_AccountID = acc_ID ?a, bal_InstitutionID = acc_InstitutionID ?a,
           bal_AvailableMinor = 0, bal_LedgerMinor = 0, bal_CurrencyID = acc_CurrencyID ?a,
           bal_LastJournalEntryID = None, bal_UpdatedAt = env_clock e 0\<rparr>"
  have i: "acc_InstitutionID ?a = ?i" "acc_NormalBalance ?a = NormalBalanceCredit"
    by (simp_all add: newAccount_def)
  from run obtain a s1 s2 ev where ins: "insert_account ?a s = Inr ((), s1)"
    and bal: "insert_balance ?b s1 = Inr ((), s2)"
    and aud: "insertAuditEvent e 0 a s2 = Inr (ev, s')" and a: "ai_InstitutionID a = acc_InstitutionID ?a"
    unfolding createAccount_def Let_def by (elim txThen_elim) (auto simp: txCheck_Inr)
  have "book_step ?i s s2"
    using ins bal open_account [of ?a ?i s ?b] i by (simp add: insert_account_Inr insert_balance_Inr)
  with book.obeysD [OF book_insert_audit aud] a i show ?thesis by (metis book_step_trans)
qed

theorem setAccountStatus_books:
  assumes run: "setAccountStatus e input status allowed s = Inr (acct, s')"
  shows "book_steps (aci_InstitutionID input) s s'"
proof -
  let ?i = "aci_InstitutionID input" and ?key = "acc_key (aci_InstitutionID input) (aci_AccountID input)"
  let ?f = "\<lambda>a. a\<lparr>acc_Status := status, acc_UpdatedAt := env_clock e 0\<rparr>"
  from run consider "s' = s"
    | a n s1 ev where "update_accounts ?key ?f s = Inr (n, s1)" "insertAuditEvent e 0 a s1 = Inr (ev, s')"
        "ai_InstitutionID a = ?i"
    unfolding setAccountStatus_def Let_def
    by (elim txThen_elim txBind_elim) (auto simp: getRow_Inr txEnsure_Inr txThen_Inr txBind_Inr split: if_splits)
  then show ?thesis
  proof cases
    case (2 a n s1 ev)
    note u = 2(1) and aud = 2(2) and a = 2(3)
    have f: "\<forall>a. \<exists>st now. ?f a = a\<lparr>acc_Status := st, acc_UpdatedAt := now\<rparr>" by blast
    have "book_step ?i s (s\<lparr>accounts := update_rows ?key ?f (accounts s)\<rparr>)"
      by (rule set_status [OF f]) (simp add: acc_key_def)
    then have "book_step ?i s s1" using u by (simp add: update_accounts_Inr)
    with book.obeysD [OF book_insert_audit aud] a show ?thesis by (metis book_step_trans)
  qed simp
qed

lemma ensureNoOther_state: "ensureNoOtherActiveLienByReference i a r s = Inr (u, s') \<Longrightarrow> s' = s"
  by (auto simp: ensureNoOtherActiveLienByReference_def ifFound_getRow split: option.splits)

lemma placeNewLien_effect:
  assumes new: "placeNewLien e input acct s = Inr (h, s')"
  obtains s2 a ev where "hold_placed (newLien e input (env_clock e 0)) s s2"
    and "insertAuditEvent e 0 a s2 = Inr (ev, s')" and "ai_InstitutionID a = ali_InstitutionID input"
    and "h = newLien e input (env_clock e 0)"
proof -
  let ?i = "ali_InstitutionID input" and ?h = "newLien e input (env_clock e 0)"
  from new obtain s1 s2 a ev where ins: "insert_hold ?h s = Inr ((), s1)"
    and bal: "execOneRow (update_balances (bal_key ?i (ali_AccountID input))
        (\<lambda>b. b\<lparr>bal_AvailableMinor := bal_AvailableMinor b - ali_AmountMinor input,
               bal_UpdatedAt := env_clock e 0\<rparr>)) s1 = Inr ((), s2)"
    and rest: "insertAuditEvent e 0 a s2 = Inr (ev, s')" "ai_InstitutionID a = ?i"
    unfolding placeNewLien_def Let_def
    by (elim txThen_elim) (auto simp: txEnsure_Inr dest!: ensureNoOther_state)
  from new have h: "h = ?h" unfolding placeNewLien_def Let_def by (elim txThen_elim) simp
  from movedI [OF bal, of "- ali_AmountMinor input" 0] obtain bs where
    bs: "s2 = s1\<lparr>account_balances := bs\<rparr>"
    "moved ?i (ali_AccountID input) (- ali_AmountMinor input) 0 (account_balances s1) bs" by auto
  have "hold_placed ?h s s2"
    using ins bs by (auto simp: hold_placed_def insert_hold_Inr newLien_def)
  from that [OF this rest h] show thesis .
qed

lemma placeAccountLien_cases:
  assumes run: "placeAccountLien e input s = Inr (h, s')"
  obtains s0 acct where "lockReplayKey ''account_lien_reference'' [ali_InstitutionID input, ali_Reference input] s = Inr ((), s0)"
    and "h \<in> set (account_holds s0) \<and> s' = s0 \<or> placeNewLien e input acct s0 = Inr (h, s')"
proof -
  from run obtain acct s0 where
    l: "lockReplayKey ''account_lien_reference'' [ali_InstitutionID input, ali_Reference input] s = Inr ((), s0)"
    and r: "ifFound (getActiveLienByReference (ali_InstitutionID input) (ali_AccountID input) (ali_Reference input))
       (\<lambda>existing. txThen (txEnsure (accountLienReplayMatches input existing) ErrConflict) (txReturn existing))
       (placeNewLien e input acct) s0 = Inr (h, s')"
    unfolding placeAccountLien_def txBind_Inr txThen_Inr txEnsure_Inr lockAccountBalance_Inr by auto
  from r have "h \<in> set (account_holds s0) \<and> s' = s0 \<or> placeNewLien e input acct s0 = Inr (h, s')"
    unfolding getActiveLienByReference_def ifFound_getRow
    by (cases "select_one (\<lambda>h. ho_InstitutionID h = ali_InstitutionID input \<and> ho_AccountID h = ali_AccountID input \<and>
         ho_Reference h = ali_Reference input \<and> ho_TransferID h = None \<and> ho_Status h = HoldStatusActive)
         (account_holds s0)") (auto simp: txThen_Inr txEnsure_Inr dest!: select_one_SomeD)
  with l show thesis by (rule that)
qed

theorem placeAccountLien_books:
  assumes run: "placeAccountLien e input s = Inr (h, s')"
  shows "book_steps (ali_InstitutionID input) s s'"
proof -
  let ?i = "ali_InstitutionID input" and ?h = "newLien e input (env_clock e 0)"
  obtain s0 acct where l: "lockReplayKey ''account_lien_reference'' [?i, ali_Reference input] s = Inr ((), s0)"
    and r: "h \<in> set (account_holds s0) \<and> s' = s0 \<or> placeNewLien e input acct s0 = Inr (h, s')"
    by (rule placeAccountLien_cases [OF run])
  have s0: "book_steps ?i s s0" by (rule book.obeysD [OF book_locks l])
  have "book_steps ?i s0 s'" if new: "placeNewLien e input acct s0 = Inr (h, s')"
  proof -
    obtain s2 a ev where "hold_placed ?h s0 s2" and aud: "insertAuditEvent e 0 a s2 = Inr (ev, s')"
      and a: "ai_InstitutionID a = ?i"
      by (rule placeNewLien_effect [OF new])
    then have "book_step ?i s0 s2" using place_lien [of ?h ?i s0 s2] by (simp add: newLien_def)
    with book.obeysD [OF book_insert_audit aud] a show ?thesis by (metis book_step_trans)
  qed
  with r s0 show ?thesis by auto
qed

lemma releaseAccountLien_effect:
  assumes run: "releaseAccountLien e input s = Inr (h, s')"
  obtains current where "ho_ID current = rli_LienID input" "current \<in> set (account_holds s)"
        "ho_Status current \<noteq> HoldStatusActive" "s' = s"
    | current s2 a ev where "ho_InstitutionID current = rli_InstitutionID input"
        "ho_AccountID current = rli_AccountID input" "ho_ID current = rli_LienID input" "ho_TransferID current = None"
        "current \<in> set (account_holds s)" "ho_Status current = HoldStatusActive" "hold_released current s s2"
        "insertAuditEvent e 0 a s2 = Inr (ev, s')" "ai_InstitutionID a = rli_InstitutionID input"
proof -
  let ?i = "rli_InstitutionID input" and ?a = "rli_AccountID input"
  let ?key = "lien_key ?i ?a (rli_LienID input)"
  let ?f = "\<lambda>h. h\<lparr>ho_Status := HoldStatusReleased, ho_UpdatedAt := env_clock e 0, ho_ReleasedAt := Some (env_clock e 0)\<rparr>"
  from run obtain current where
    cur: "select_one (\<lambda>h. ?key h \<and> ho_TransferID h = None) (account_holds s) = Some current"
    unfolding releaseAccountLien_def getLienForUpdate_def by (auto simp: txBind_Inr getRow_Inr)
  with run consider "ho_Status current \<noteq> HoldStatusActive" "s' = s"
    | s1 s2 a ev where "ho_Status current = HoldStatusActive"
        "execOneRow (update_holds ?key ?f) s = Inr ((), s1)"
        "execOneRow (update_balances (bal_key ?i ?a)
           (\<lambda>b. b\<lparr>bal_AvailableMinor := bal_AvailableMinor b + ho_AmountMinor current,
                  bal_UpdatedAt := env_clock e 0\<rparr>)) s1 = Inr ((), s2)"
        "insertAuditEvent e 0 a s2 = Inr (ev, s')" "ai_InstitutionID a = ?i"
    unfolding releaseAccountLien_def Let_def getLienForUpdate_def
    by (elim txBind_elim) (auto simp: getRow_Inr txThen_Inr txBind_Inr split: if_splits)
  then show thesis
  proof cases
    case 1
    with select_one_SomeD [OF cur] show thesis by (intro that(1) [of current]) (auto simp: lien_key_def)
  next
    case (2 s1 s2 a ev)
    note act = 2(1) and h = 2(2) and b = 2(3)
    from select_one_SomeD [OF cur] have c: "current \<in> set (account_holds s)" "?key current"
      "ho_TransferID current = None" by auto
    then have ci: "ho_InstitutionID current = ?i" "ho_AccountID current = ?a" "ho_ID current = rli_LienID input"
      by (auto simp: lien_key_def)
    from h have s1: "s1 = s\<lparr>account_holds := update_rows ?key ?f (account_holds s)\<rparr>"
      and one: "count_rows ?key (account_holds s) = 1"
      by (auto simp: execOneRow_Inr update_holds_Inr)
    have "hold_closed current HoldStatusReleased (account_holds s) (update_rows ?key ?f (account_holds s))"
      unfolding hold_closed_def using act c one closes_hold_intro
      by (intro conjI exI [of _ ?key] exI [of _ ?f]) (auto simp: lien_key_def)
    moreover from movedI [OF b, of "ho_AmountMinor current" 0] obtain bs where
      "s2 = s1\<lparr>account_balances := bs\<rparr>" "moved ?i ?a (ho_AmountMinor current) 0 (account_balances s1) bs" by auto
    ultimately have "hold_released current s s2"
      unfolding hold_released_def ci using s1 by auto
    from that(2) [OF ci c(3,1) act this 2(4,5)] show thesis .
  qed
qed

theorem releaseAccountLien_books:
  assumes run: "releaseAccountLien e input s = Inr (h, s')"
  shows "book_steps (rli_InstitutionID input) s s'"
  using releaseAccountLien_effect [OF run]
proof cases
  case (2 current s2 a ev)
  from release_lien [OF 2(1,4,7)] have "book_step (rli_InstitutionID input) s s2" .
  with book.obeysD [OF book_insert_audit 2(8)] 2(9) show ?thesis by (metis book_step_trans)
qed simp

end
