(* ===== verification/TransferEffects.thy ===== *)
theory TransferEffects
  imports OpsRefine
begin

text \<open>
  What \<open>recordTransfer\<close> does to the accounts when it creates a transfer: the decision it took on the locked
  rows, and the sums it moved.  The properties of recording a transfer rest on these facts.
\<close>

section \<open>What leaves the money alone\<close>

definition same_money :: "store \<Rightarrow> store \<Rightarrow> bool" where
  "same_money s s' \<longleftrightarrow>
     account_balances s' = account_balances s \<and> postings s' = postings s \<and>
     journal_entries s' = journal_entries s \<and> accounts s' = accounts s"

interpretation money: tx_relation same_money
  by unfold_locales (auto simp: same_money_def)

lemma money_audit: "money.obeys (auditWhen e k input)"
  by (rule money.obeysI) (auto simp: same_money_def dest!: auditWhen_Inr)

lemma money_link: "money.obeys (linkTransfer k i p ev)"
  by (rule money.obeysI) (auto simp: same_money_def dest!: linkTransfer_effect)

lemma money_insert: "money.obeys (insert_transfer t)"
  by (rule money.obeysI) (simp add: same_money_def insert_transfer_Inr)

lemma money_locks: "recordTransferLocks input s = Inr (u, s') \<Longrightarrow> same_money s s'"
  by (drule recordTransferLocks_frame) (auto simp: same_money_def)

lemma money_reserve: "reserve e x input k now s = Inr (b, s') \<Longrightarrow> same_money s s'"
  by (drule reserve_frame) (simp add: same_money_def)

lemma money_sums:
  assumes "same_money s s'"
  shows "ledger_of s' = ledger_of s" "available_of s' = available_of s" "normal_of s' = normal_of s"
    "locked_row i a s' = locked_row i a s"
  using assms
  by (simp_all add: same_money_def fun_eq_iff ledger_of_def available_of_def normal_of_def locked_row_def
      account_row_def balance_row_def)

section \<open>A created transfer\<close>

lemma recordTransfer_created:
  assumes "recordTransfer e x input s = Inr ((t, True), s')"
  obtains s0 where "recordTransferLocks input s = Inr ((), s0)"
    "idempotency_row (in_InstitutionID input) (in_IdempotencyKey input) s0 = None"
    "recordNewTransfer e x input s0 = Inr ((t, True), s')"
proof -
  from assms obtain s0 where l: "recordTransferLocks input s = Inr ((), s0)"
    and rest: "ifFound (getTransferByIdempotency (in_InstitutionID input) (in_IdempotencyKey input))
        (\<lambda>existing. txBind (sameTransferReplay existing input (transferRequestFingerprint x input)) (\<lambda>ok.
           txThen (txEnsure ok ErrConflict) (txReturn (existing, False))))
        (recordByEvent e x input) s0 = Inr ((t, True), s')"
    by (auto simp: recordTransfer_def txThen_Inr)
  from rest have "idempotency_row (in_InstitutionID input) (in_IdempotencyKey input) s0 = None"
    and ev: "recordByEvent e x input s0 = Inr ((t, True), s')"
    by (auto simp: getTransferByIdempotency_def ifFound_getRow txBind_Inr txThen_Inr split: option.splits)
  moreover from ev have "recordByReference e x input s0 = Inr ((t, True), s')"
    by (auto simp: recordByEvent_def getEventTransfer_def ifFound_getRow txBind_Inr txThen_Inr
        split: if_splits option.splits)
  then have "recordNewTransfer e x input s0 = Inr ((t, True), s')"
    by (auto simp: recordByReference_def getPendingTransferByProviderReference_def
        getSettledTransferByProviderReference_def ifFound_getRow txBind_Inr txThen_Inr
        split: if_splits option.splits)
  ultimately show thesis using that l by blast
qed

lemma recordNewTransfer_created:
  assumes "recordNewTransfer e x input s = Inr ((t, True), s')"
  obtains account clearing d s0 where "in_AccountID input \<noteq> in_ClearingAccountID input"
    "locked_row (in_InstitutionID input) (in_AccountID input) s = Some account"
    "locked_row (in_InstitutionID input) (in_ClearingAccountID input) s = Some clearing"
    "enforceTransferControls input (lk_Account account) (lk_Account clearing) = Inr ()"
    "decideTransfer input account = Inr d" "same_money s s0"
    "writeNewTransfer e x input (lk_Account account) (lk_Account clearing) d (env_clock e 0) s0 = Inr ((t, True), s')"
proof -
  from assms obtain account clearing d where
    a: "in_AccountID input \<noteq> in_ClearingAccountID input"
      "locked_row (in_InstitutionID input) (in_AccountID input) s = Some account"
      "locked_row (in_InstitutionID input) (in_ClearingAccountID input) s = Some clearing"
      "enforceTransferControls input (lk_Account account) (lk_Account clearing) = Inr ()"
      "decideTransfer input account = Inr d" and
    r: "reserveEventOr e x input [] (transferRequestFingerprint x input) (env_clock e 0) (\<lambda>t. (t, False))
      (writeNewTransfer e x input (lk_Account account) (lk_Account clearing) d (env_clock e 0)) s = Inr ((t, True), s')"
    unfolding recordNewTransfer_def Let_def
    by (auto simp: txBind_Inr txThen_Inr txLift_Inr lockTransferAccountBalances_Inr)
  have "\<exists>s0. same_money s s0 \<and>
      writeNewTransfer e x input (lk_Account account) (lk_Account clearing) d (env_clock e 0) s0 = Inr ((t, True), s')"
    using r
    by (auto simp: reserveEventOr_def txBind_Inr split: if_splits)
      (blast intro: money_reserve money.R_refl)+
  with a that show thesis by blast
qed

lemma writeNewTransfer_parts:
  assumes "writeNewTransfer e x input account clearing d now s = Inr ((t, True), s')"
  obtains jid s1 s2 s3 where
    "(if dec_Status d = TransferStatusSucceeded
       then txBind (postJournal e input (env_uuid e DrawTransfer) now \<lparr>HeldAccountID = []\<rparr>)
         (\<lambda>journalID. txReturn (Some journalID))
       else txReturn None) s = Inr (jid, s1)"
    "t = newTransfer e x input d jid now" "same_money s1 s2" "t \<in> set (transfers s2)"
    "(if dec_Status d = TransferStatusPending \<and>
         in_Direction input = TransferDirectionOutbound \<and> in_ReversalOfTransferID input = []
       then create_hold e t now else txReturn ()) s2 = Inr ((), s3)" "same_money s3 s'"
proof -
  from assms obtain jid s1 s2 s3 t0 where
    parts: "(if dec_Status d = TransferStatusSucceeded
       then txBind (postJournal e input (env_uuid e DrawTransfer) now \<lparr>HeldAccountID = []\<rparr>)
         (\<lambda>journalID. txReturn (Some journalID))
       else txReturn None) s = Inr (jid, s1)"
      "t0 = newTransfer e x input d jid now" and ins: "insert_transfer t0 s1 = Inr ((), s2)" and
    hold: "(if dec_Status d = TransferStatusPending \<and>
         in_Direction input = TransferDirectionOutbound \<and> in_ReversalOfTransferID input = []
       then create_hold e t0 now else txReturn ()) s2 = Inr ((), s3)" and
    tail: "txThen (if in_ProviderEventID input \<noteq> []
       then linkTransfer (tr_ID t0) (in_InstitutionID input) (in_Provider input) (in_ProviderEventID input)
       else txReturn ())
     (txThen (auditPostedInternalTransfer e 0 input t0 account clearing)
     (txThen (auditExternalInboundTransfer e 1 input t0 account) (txReturn (t0, True)))) s3 = Inr ((t, True), s')"
    unfolding writeNewTransfer_def Let_def
    by (elim txBind_elim) (erule txThen_elim, erule txThen_elim, auto)
  have "t0 = t" using tail by (auto simp: txThen_Inr)
  moreover have "money.obeys (txThen (if in_ProviderEventID input \<noteq> []
       then linkTransfer (tr_ID t0) (in_InstitutionID input) (in_Provider input) (in_ProviderEventID input)
       else txReturn ())
     (txThen (auditPostedInternalTransfer e 0 input t0 account clearing)
     (txThen (auditExternalInboundTransfer e 1 input t0 account) (txReturn (t0, True)))))"
    unfolding auditPostedInternalTransfer_def auditExternalInboundTransfer_def
    by (intro money.obeys_rules money_audit money_link)
  from money.obeysD [OF this tail] have "same_money s3 s'" .
  moreover have "same_money s1 s2" "t0 \<in> set (transfers s2)"
    using money.obeysD [OF money_insert ins] ins by (auto simp: insert_transfer_Inr)
  ultimately show thesis using that parts hold by blast
qed

text \<open>
  The decision was taken on rows that allowed it: the accounts are not blocked, and a debit a customer asked
  for is covered by the available balance, unless it was recorded as failed.
\<close>

lemma created_decision:
  assumes "recordTransfer e x input s = Inr ((t, True), s')"
    and "locked_row (in_InstitutionID input) (in_AccountID input) s = Some account"
  shows "(\<exists>clearing. locked_row (in_InstitutionID input) (in_ClearingAccountID input) s = Some clearing \<and>
      enforceTransferControls input (lk_Account account) (lk_Account clearing) = Inr ()) \<and>
    (\<exists>d. decideTransfer input account = Inr d \<and> tr_Status t = dec_Status d \<and>
      tr_FailureReason t = optional_text (dec_FailureReason d) \<and>
      (dec_Status d \<noteq> TransferStatusSucceeded \<longrightarrow> tr_JournalEntryID t = None))"
proof -
  obtain s0 where l: "recordTransferLocks input s = Inr ((), s0)"
    and r: "recordNewTransfer e x input s0 = Inr ((t, True), s')"
    by (rule recordTransfer_created [OF assms(1)]) (rule that)
  have rows: "locked_row i a s0 = locked_row i a s" for i a
    by (rule money_sums(4) [OF money_locks [OF l]])
  obtain acc clearing d s1 where
    a: "locked_row (in_InstitutionID input) (in_AccountID input) s0 = Some acc"
      "locked_row (in_InstitutionID input) (in_ClearingAccountID input) s0 = Some clearing"
      "enforceTransferControls input (lk_Account acc) (lk_Account clearing) = Inr ()"
      "decideTransfer input acc = Inr d"
      "writeNewTransfer e x input (lk_Account acc) (lk_Account clearing) d (env_clock e 0) s1 = Inr ((t, True), s')"
    by (rule recordNewTransfer_created [OF r]) (rule that)
  have "acc = account" using a(1) assms(2) by (simp add: rows)
  moreover have "tr_Status t = dec_Status d \<and> tr_FailureReason t = optional_text (dec_FailureReason d) \<and>
      (dec_Status d \<noteq> TransferStatusSucceeded \<longrightarrow> tr_JournalEntryID t = None)"
    by (rule writeNewTransfer_parts [OF a(5)]) (auto simp: newTransfer_def)
  ultimately show ?thesis using a by (auto simp: rows)
qed

lemma decision_covered:
  assumes "decideTransfer input account = Inr d" and "dec_Status d \<noteq> TransferStatusFailed"
  shows "\<not> insufficientFunds input account"
  using assms by (auto simp: decideTransfer_def Let_def split: if_splits)

lemma decision_uncovered:
  assumes "decideTransfer input account = Inr d" and "insufficientFunds input account"
  shows "\<not> in_RejectInsufficient input" "dec_Status d = TransferStatusFailed" "dec_FailureReason d = ''insufficient_funds''"
  using assms by (auto simp: decideTransfer_def Let_def split: if_splits)

text \<open>A debit asked for on a customer account that has less available and may not go negative.\<close>

lemma uncovered_insufficient:
  assumes "in_Direction input = TransferDirectionOutbound" "in_ReversalOfTransferID input = []"
    and "acc_Kind (lk_Account account) = AccountKindCustomer" "\<not> acc_AllowNegative (lk_Account account)"
    and "bal_AvailableMinor (lk_Balance account) < in_AmountMinor input"
  shows "insufficientFunds input account"
  using assms by (simp add: insufficientFunds_def customerInitiatedOutbound_def canUseAvailableBalance_def)

text \<open>The sums a posted transfer moves.\<close>

definition moved_sum_of :: "store \<Rightarrow> RecordTransferInput \<Rightarrow> string \<Rightarrow> string \<Rightarrow> int" where
  "moved_sum_of s input i a =
     (if i = in_InstitutionID input \<and> a = debitAccount input
      then signed (normal_of s i a) PostingDebit (in_AmountMinor input) else 0) +
     (if i = in_InstitutionID input \<and> a = creditAccount input
      then signed (normal_of s i a) PostingCredit (in_AmountMinor input) else 0)"

lemma journal_moves:
  assumes "journal_effect i k amount db cr [] j s s'" and "db \<noteq> []" "cr \<noteq> []"
  shows "ledger_of s' i' a = ledger_of s i' a +
      ((if i' = i \<and> a = db then signed (normal_of s i' a) PostingDebit amount else 0) +
       (if i' = i \<and> a = cr then signed (normal_of s i' a) PostingCredit amount else 0))"
    and "available_of s' i' a = available_of s i' a +
      ((if i' = i \<and> a = db then signed (normal_of s i' a) PostingDebit amount else 0) +
       (if i' = i \<and> a = cr then signed (normal_of s i' a) PostingCredit amount else 0))"
proof -
  from assms obtain p1 p2 b1 b2 where
    m: "moved i db (signed (normal_of s i db) PostingDebit amount) (signed (normal_of s i db) PostingDebit amount)
          (account_balances s) b1"
       "moved i cr (signed (normal_of s i cr) PostingCredit amount) (signed (normal_of s i cr) PostingCredit amount)
          b1 b2"
    and s': "s' = s\<lparr>journal_entries := journal_entries s @ [j], postings := postings s @ [p1, p2],
        account_balances := b2\<rparr>"
    unfolding journal_effect_def leg_posted_def by auto
  show "ledger_of s' i' a = ledger_of s i' a +
      ((if i' = i \<and> a = db then signed (normal_of s i' a) PostingDebit amount else 0) +
       (if i' = i \<and> a = cr then signed (normal_of s i' a) PostingCredit amount else 0))"
    by (simp add: ledger_of_def s' moved_sum(1) [OF m(2)] moved_sum(1) [OF m(1)])
  show "available_of s' i' a = available_of s i' a +
      ((if i' = i \<and> a = db then signed (normal_of s i' a) PostingDebit amount else 0) +
       (if i' = i \<and> a = cr then signed (normal_of s i' a) PostingCredit amount else 0))"
    by (simp add: available_of_def s' moved_sum(2) [OF m(2)] moved_sum(2) [OF m(1)])
qed

lemma created_moves:
  assumes ok: "accounts_ok s" and run: "recordTransfer e x input s = Inr ((t, True), s')"
  shows "ledger_of s' i a = ledger_of s i a +
      (if tr_Status t = TransferStatusSucceeded then moved_sum_of s input i a else 0)"
    and "tr_Status t = TransferStatusSucceeded \<Longrightarrow>
      available_of s' i a = available_of s i a + moved_sum_of s input i a"
    and "tr_Status t = TransferStatusFailed \<Longrightarrow> account_balances s' = account_balances s \<and> postings s' = postings s"
proof -
  obtain s0 where l: "recordTransferLocks input s = Inr ((), s0)"
    and r: "recordNewTransfer e x input s0 = Inr ((t, True), s')"
    by (rule recordTransfer_created [OF run]) (rule that)
  obtain account clearing d s1 where s1: "same_money s0 s1"
    and w: "writeNewTransfer e x input account clearing d (env_clock e 0) s1 = Inr ((t, True), s')"
    by (rule recordNewTransfer_created [OF r]) blast
  obtain jid s2 s3 s4 where
    j: "(if dec_Status d = TransferStatusSucceeded
       then txBind (postJournal e input (env_uuid e DrawTransfer) (env_clock e 0) \<lparr>HeldAccountID = []\<rparr>)
         (\<lambda>journalID. txReturn (Some journalID))
       else txReturn None) s1 = Inr (jid, s2)"
    and t: "t = newTransfer e x input d jid (env_clock e 0)" and m3: "same_money s2 s3"
    and h: "(if dec_Status d = TransferStatusPending \<and>
         in_Direction input = TransferDirectionOutbound \<and> in_ReversalOfTransferID input = []
       then create_hold e t (env_clock e 0) else txReturn ()) s3 = Inr ((), s4)" and m4: "same_money s4 s'"
    by (rule writeNewTransfer_parts [OF w]) (rule that)
  have m1: "same_money s s1" by (rule money.R_trans [OF money_locks [OF l] s1])
  note sums = money_sums(1-3) [OF m1] money_sums(1-3) [OF m3] money_sums(1-3) [OF m4]
  have status: "tr_Status t = dec_Status d" by (simp add: t)
  have posted: "ledger_of s2 i a = ledger_of s i a + moved_sum_of s input i a \<and>
      available_of s2 i a = available_of s i a + moved_sum_of s input i a \<and> s4 = s3"
    if "dec_Status d = TransferStatusSucceeded"
  proof -
    from that j obtain jj where "postJournal e input (env_uuid e DrawTransfer) (env_clock e 0) \<lparr>HeldAccountID = []\<rparr> s1 = Inr (jj, s2)"
      by (auto simp: txBind_Inr)
    from postJournal_effect [OF this]
    have eff: "journal_effect (in_InstitutionID input) (env_uuid e DrawTransfer) (in_AmountMinor input)
      (debitAccount input) (creditAccount input) [] (new_journal e input (env_uuid e DrawTransfer) (env_clock e 0)) s1 s2"
      by simp
    have "accounts_ok s1" using ok m1 by (simp add: accounts_ok_def same_money_def account_exists_def)
    from journal_accounts [OF eff this] have "debitAccount input \<noteq> []" "creditAccount input \<noteq> []" by auto
    from journal_moves [OF eff this, of i a] show ?thesis
      using h that by (simp add: sums moved_sum_of_def)
  qed
  have held: "ledger_of s4 i a = ledger_of s3 i a"
  proof (cases "dec_Status d = TransferStatusPending \<and>
         in_Direction input = TransferDirectionOutbound \<and> in_ReversalOfTransferID input = []")
    case True
    with h have "create_hold e t (env_clock e 0) s3 = Inr ((), s4)" by simp
    from create_hold_effect [OF this] obtain hh where "hold_placed hh s3 s4" by blast
    then show ?thesis by (auto simp: hold_placed_def ledger_of_def moved_sum(1))
  next
    case False
    then have "s4 = s3" using h unfolding if_not_P [OF False] by simp
    then show ?thesis by simp
  qed
  show "ledger_of s' i a = ledger_of s i a +
      (if tr_Status t = TransferStatusSucceeded then moved_sum_of s input i a else 0)"
  proof (cases "dec_Status d = TransferStatusSucceeded")
    case True
    with posted held show ?thesis by (simp add: sums status)
  next
    case False
    then have "s2 = s1" using j by simp
    with held False show ?thesis by (simp add: sums status)
  qed
  show "available_of s' i a = available_of s i a + moved_sum_of s input i a"
    if "tr_Status t = TransferStatusSucceeded"
    using posted that by (simp add: sums status)
  show "account_balances s' = account_balances s \<and> postings s' = postings s"
    if "tr_Status t = TransferStatusFailed"
    using that j h m1 m3 m4 by (simp add: status same_money_def)
qed

section \<open>A repeated request\<close>

lemma idempotency_row_unique:
  assumes "rows_ok (transfers s)" and "t \<in> set (transfers s)"
    and "tr_InstitutionID t = i" "tr_IdempotencyKey t = k"
  shows "idempotency_row i k s = Some t"
  unfolding idempotency_row_def
  by (rule select_one_unique [where key = "\<lambda>t. (tr_InstitutionID t, tr_IdempotencyKey t)"])
    (use assms in \<open>auto simp: rows_ok_def\<close>)

lemma recordTransferLocks_total: "\<exists>l. recordTransferLocks input s = Inr ((), s\<lparr>advisory_locks := l\<rparr>)"
  by (auto simp: recordTransferLocks_def txThen_def txBind_def lockReplayKey_def
      intro: exI [of _ "advisory_locks s"])

lemma recordTransfer_repeated:
  assumes "rows_ok (transfers s)" and "t \<in> set (transfers s)"
    and "tr_InstitutionID t = in_InstitutionID input" "tr_IdempotencyKey t = in_IdempotencyKey input"
    and "TrimSpace (tr_RequestFingerprint t) \<noteq> []"
  shows "\<exists>l. recordTransfer e x input s =
    (if transferRequestFingerprintMatches t (transferRequestFingerprint x input)
     then Inr ((t, False), s\<lparr>advisory_locks := l\<rparr>) else Inl ErrConflict)"
proof -
  obtain l where l: "recordTransferLocks input s = Inr ((), s\<lparr>advisory_locks := l\<rparr>)"
    using recordTransferLocks_total by blast
  have row: "idempotency_row (in_InstitutionID input) (in_IdempotencyKey input) (s\<lparr>advisory_locks := l\<rparr>) = Some t"
    using idempotency_row_unique [OF assms(1-4)] by (simp add: idempotency_row_def)
  show ?thesis
    unfolding recordTransfer_def txThen_run(1) [where m = "recordTransferLocks input", OF l]
    using assms(5)
    by (intro exI [of _ l])
      (simp add: getTransferByIdempotency_def ifFound_getRow row sameTransferReplay_def txThen_def txEnsure_def)
qed

lemma RecordTransfer_repeated:
  assumes "rows_ok (transfers s)" and "t \<in> set (transfers s)"
    and "tr_InstitutionID t = in_InstitutionID input" "tr_IdempotencyKey t = in_IdempotencyKey input"
    and "TrimSpace (tr_RequestFingerprint t) \<noteq> []" and "env_tx_outcome e = TxCommits"
  shows "RecordTransfer e x input s =
    (if transferRequestFingerprintMatches t (transferRequestFingerprint x input)
     then (Inr t, s\<lparr>advisory_locks := []\<rparr>) else (Inl ErrConflict, s))"
proof -
  have "rows_ok (transfers (s\<lparr>advisory_locks := []\<rparr>))" "t \<in> set (transfers (s\<lparr>advisory_locks := []\<rparr>))"
    using assms by simp_all
  from recordTransfer_repeated [OF this assms(3-5), of e x] assms(6)
  show ?thesis by (auto simp: RecordTransfer_def WithTx_def txBind_def)
qed

lemma created_fingerprint:
  assumes "recordTransfer e x input s = Inr ((t, True), s')"
  shows "tr_RequestFingerprint t = transferRequestFingerprint x input \<and>
    tr_IdempotencyKey t = in_IdempotencyKey input \<and> tr_InstitutionID t = in_InstitutionID input"
proof -
  obtain s0 where r: "recordNewTransfer e x input s0 = Inr ((t, True), s')"
    by (rule recordTransfer_created [OF assms]) (rule that)
  obtain a c d s1 where w: "writeNewTransfer e x input a c d (env_clock e 0) s1 = Inr ((t, True), s')"
    by (rule recordNewTransfer_created [OF r]) (rule that)
  show ?thesis by (rule writeNewTransfer_parts [OF w]) (simp add: newTransfer_def)
qed

text \<open>A new request for more than the account can pay, which asks for rejection, is refused.\<close>

lemma recordNewTransfer_refused:
  assumes "in_AccountID input \<noteq> in_ClearingAccountID input"
    and "locked_row (in_InstitutionID input) (in_AccountID input) s = Some account"
    and "locked_row (in_InstitutionID input) (in_ClearingAccountID input) s = Some clearing"
    and "enforceTransferControls input (lk_Account account) (lk_Account clearing) = Inr ()"
    and "insufficientFunds input account" and "in_RejectInsufficient input"
  shows "recordNewTransfer e x input s = Inl ErrInsufficient"
proof -
  have "lockTransferAccountBalances (in_InstitutionID input) (in_AccountID input) (in_ClearingAccountID input) s =
      Inr ((account, clearing), s)"
    using assms(1-3) by (simp add: lockTransferAccountBalances_Inr)
  moreover have "decideTransfer input account = Inl ErrInsufficient"
    using assms(5,6) by (simp add: decideTransfer_def Let_def)
  ultimately show ?thesis using assms(4)
    by (simp add: recordNewTransfer_def txBind_def txThen_def)
qed

lemma blockedTransfer_refused:
  assumes "in_AccountID input \<noteq> in_ClearingAccountID input"
    and "locked_row (in_InstitutionID input) (in_AccountID input) s = Some account"
    and "locked_row (in_InstitutionID input) (in_ClearingAccountID input) s = Some clearing"
    and "blocked (lk_Account account) \<or> blocked (lk_Account clearing) \<or>
      no_debit (lk_Account account) \<and> in_Direction input = TransferDirectionOutbound"
  shows "recordNewTransfer e x input s = Inl ErrInvalidRequest"
proof -
  have "lockTransferAccountBalances (in_InstitutionID input) (in_AccountID input) (in_ClearingAccountID input) s =
      Inr ((account, clearing), s)"
    using assms(1-3) by (simp add: lockTransferAccountBalances_Inr)
  moreover have "enforceTransferControls input (lk_Account account) (lk_Account clearing) = Inl ErrInvalidRequest"
    using assms(4) enforceTransferControls_iff [of input "lk_Account account" "lk_Account clearing"]
      enforceTransferControls_error [of input "lk_Account account" "lk_Account clearing"]
    by (cases "enforceTransferControls input (lk_Account account) (lk_Account clearing)") auto
  ultimately show ?thesis
    by (simp add: recordNewTransfer_def txBind_def txThen_def)
qed

lemma RecordTransfer_new:
  assumes "idempotency_row (in_InstitutionID input) (in_IdempotencyKey input) s = None"
    and "in_ProviderEventID input = []" and "in_ProviderReference input = []"
    and "\<And>l. recordNewTransfer e x input (s\<lparr>advisory_locks := l\<rparr>) = Inl err"
    and "env_tx_outcome e = TxCommits"
  shows "RecordTransfer e x input s = (Inl err, s)"
proof -
  obtain l where l: "recordTransferLocks input (s\<lparr>advisory_locks := []\<rparr>) = Inr ((), s\<lparr>advisory_locks := l\<rparr>)"
    using recordTransferLocks_total [of input "s\<lparr>advisory_locks := []\<rparr>"] by auto
  have "idempotency_row (in_InstitutionID input) (in_IdempotencyKey input) (s\<lparr>advisory_locks := l\<rparr>) = None"
    using assms(1) by (simp add: idempotency_row_def)
  then have "recordTransfer e x input (s\<lparr>advisory_locks := []\<rparr>) = Inl err"
    unfolding recordTransfer_def txThen_run(1) [where m = "recordTransferLocks input", OF l]
    using assms(2-4)
    by (simp add: getTransferByIdempotency_def ifFound_getRow recordByEvent_def recordByReference_def)
  with assms(5) show ?thesis by (simp add: RecordTransfer_def WithTx_def txBind_def)
qed

end
