(* ===== verification/Paging.thy ===== *)
theory Paging
  imports Model
begin

text \<open>
  The keyset pagination of the list operations: rows in descending order of creation time and
  identifier, at most \<open>limit\<close> of them, below a cursor.  \<open>page_key\<close> is the sort key
  \<open>(created_at, id)\<close>.  The lemmas show that following the cursor of the last row visits every row
  exactly once.
\<close>

datatype page_key = PageKey (pk_time: int) (pk_id: string)

instantiation page_key :: linorder
begin

definition less_eq_page_key :: "page_key \<Rightarrow> page_key \<Rightarrow> bool" where
  "less_eq_page_key a b \<longleftrightarrow> pk_time a < pk_time b \<or> (pk_time a = pk_time b \<and> pk_id a \<le> pk_id b)"

definition less_page_key :: "page_key \<Rightarrow> page_key \<Rightarrow> bool" where
  "less_page_key a b \<longleftrightarrow> pk_time a < pk_time b \<or> (pk_time a = pk_time b \<and> pk_id a < pk_id b)"

instance
  by standard
    (auto simp: less_eq_page_key_def less_page_key_def page_key.expand intro: page_key.expand)

end

section \<open>Options\<close>

record ListOptions =
  lo_Limit :: int
  lo_BeforeCreatedAt :: "time option"
  lo_BeforeID :: string

definition normalizeLimit :: "int \<Rightarrow> int \<Rightarrow> int \<Rightarrow> int" where
  "normalizeLimit dflt maximum limit =
     (let limit = (if limit \<le> 0 then dflt else limit) in if limit > maximum then maximum else limit)"

definition normalizeListTransactionsOptions :: "ListOptions \<Rightarrow> ListOptions" where
  "normalizeListTransactionsOptions options =
     options\<lparr>lo_Limit := normalizeLimit DefaultTransactionHistoryLimit MaxTransactionHistoryLimit (lo_Limit options)\<rparr>"

definition normalizeCursor :: "externals \<Rightarrow> ListOptions \<Rightarrow> error + ListOptions" where
  "normalizeCursor x options =
     (let options = options\<lparr>lo_BeforeID := TrimSpace (lo_BeforeID options)\<rparr> in
      if lo_BeforeID options \<noteq> [] \<and>
         (lo_BeforeCreatedAt options = None \<or> \<not> ext_uuid_valid x (lo_BeforeID options))
      then Inl ErrInvalidRequest else Inr options)"

definition normalizeListTransfersOptions :: "externals \<Rightarrow> ListOptions \<Rightarrow> error + ListOptions" where
  "normalizeListTransfersOptions x options =
     normalizeCursor x (options\<lparr>lo_Limit := normalizeLimit DefaultTransferListLimit MaxTransferListLimit (lo_Limit options)\<rparr>)"

definition normalizeListAuditEventsOptions :: "externals \<Rightarrow> ListOptions \<Rightarrow> error + ListOptions" where
  "normalizeListAuditEventsOptions x options =
     normalizeCursor x (options\<lparr>lo_Limit := normalizeLimit DefaultAuditEventListLimit MaxAuditEventListLimit (lo_Limit options)\<rparr>)"

section \<open>The query\<close>

text \<open>\<open>BeforeCreatedAt\<close> is ignored when it is the zero time.\<close>

definition cursor_time :: "ListOptions \<Rightarrow> time option" where
  "cursor_time options =
     (case lo_BeforeCreatedAt options of None \<Rightarrow> None | Some t \<Rightarrow> if t = 0 then None else Some t)"

definition below_cursor :: "ListOptions \<Rightarrow> page_key \<Rightarrow> bool" where
  "below_cursor options k \<longleftrightarrow>
     (case cursor_time options of
        None \<Rightarrow> True
      | Some t \<Rightarrow> pk_time k < t \<or> (lo_BeforeID options \<noteq> [] \<and> pk_time k = t \<and> pk_id k < lo_BeforeID options))"

definition page :: "('r \<Rightarrow> page_key) \<Rightarrow> ListOptions \<Rightarrow> 'r list \<Rightarrow> 'r list" where
  "page key options rows =
     take (nat (lo_Limit options)) (rev (sort_key key (filter (\<lambda>r. below_cursor options (key r)) rows)))"

text \<open>The cursor a client builds from the last row of a page.\<close>

definition next_cursor :: "('r \<Rightarrow> page_key) \<Rightarrow> ListOptions \<Rightarrow> 'r \<Rightarrow> ListOptions" where
  "next_cursor key options r =
     options\<lparr>lo_BeforeCreatedAt := Some (pk_time (key r)), lo_BeforeID := pk_id (key r)\<rparr>"

text \<open>Following the cursors, at most \<open>n\<close> pages.\<close>

fun walk :: "nat \<Rightarrow> ('r \<Rightarrow> page_key) \<Rightarrow> ListOptions \<Rightarrow> 'r list \<Rightarrow> 'r list" where
  "walk 0 key options rows = []"
| "walk (Suc n) key options rows =
     (case page key options rows of
        [] \<Rightarrow> []
      | r # rs \<Rightarrow> (r # rs) @ walk n key (next_cursor key options (last (r # rs))) rows)"

section \<open>Nothing is lost or repeated\<close>

lemma normalizeLimit_bounds:
  "0 < dflt \<Longrightarrow> dflt \<le> maximum \<Longrightarrow> 0 < normalizeLimit dflt maximum n \<and> normalizeLimit dflt maximum n \<le> maximum"
  by (auto simp: normalizeLimit_def Let_def)

lemma below_next:
  assumes "pk_time (key r) \<noteq> 0" "pk_id (key r) \<noteq> []"
  shows "below_cursor (next_cursor key options r) k \<longleftrightarrow> k < key r"
  using assms by (auto simp: below_cursor_def next_cursor_def cursor_time_def less_page_key_def)

lemma sort_key_filter: "sort_key key (filter P xs) = filter P (sort_key key xs)"
  by (rule filter_sort [symmetric])

text \<open>All rows in the order of the query.\<close>

definition ordered :: "('r \<Rightarrow> page_key) \<Rightarrow> 'r list \<Rightarrow> 'r list" where
  "ordered key rows = rev (sort_key key rows)"

lemma page_ordered:
  "page key options rows =
     take (nat (lo_Limit options)) (filter (\<lambda>r. below_cursor options (key r)) (ordered key rows))"
  by (simp add: page_def ordered_def sort_key_filter rev_filter)

lemma ordered_descending: "sorted_wrt (\<lambda>a b. key b \<le> key a) (ordered key rows)"
proof -
  have "sorted_wrt (\<lambda>a b. key a \<le> key b) (sort_key key rows)"
    using sorted_sort_key [of key rows] by (simp add: sorted_wrt_map)
  then show ?thesis unfolding ordered_def sorted_wrt_rev .
qed

lemma ordered_strict:
  assumes "distinct (map key rows)"
  shows "sorted_wrt (\<lambda>a b. key b < key a) (ordered key rows)"
proof -
  have "distinct (map key (ordered key rows))"
    using assms unfolding ordered_def by (simp add: rev_map [symmetric] distinct_map)
  then show ?thesis
    using ordered_descending [of key rows]
    by (simp add: sorted_wrt_iff_nth_less distinct_conv_nth order.strict_iff_order)
qed

lemma filter_below_split:
  fixes key :: "'r \<Rightarrow> page_key"
  assumes "sorted_wrt (\<lambda>a b. key b < key a) (as @ r # bs)"
  shows "filter (\<lambda>x. key x < key r) (as @ r # bs) = bs"
proof -
  have "\<forall>a\<in>set as. key r < key a" "\<forall>b\<in>set bs. key b < key r"
    using assms by (auto simp: sorted_wrt_append)
  then have "filter (\<lambda>x. key x < key r) as = []" "filter (\<lambda>x. key x < key r) bs = bs"
    by (simp_all add: filter_empty_conv filter_id_conv less_not_sym)
  then show ?thesis by simp
qed

lemma walk_below:
  assumes strict: "sorted_wrt (\<lambda>a b. key b < key a) (ordered key rows)"
    and keys: "\<forall>r\<in>set rows. pk_time (key r) \<noteq> 0 \<and> pk_id (key r) \<noteq> []"
    and limit: "0 < lo_Limit options"
    and rest: "ordered key rows = seen @ rest" "filter (\<lambda>r. below_cursor options (key r)) (ordered key rows) = rest"
    and n: "length rest \<le> n"
  shows "walk n key options rows = rest"
  using limit rest n
proof (induction n arbitrary: options seen rest)
  case 0
  then show ?case by simp
next
  case (Suc n)
  have p: "page key options rows = take (nat (lo_Limit options)) rest"
    using Suc.prems(3) by (simp add: page_ordered)
  show ?case
  proof (cases "page key options rows")
    case Nil
    with p Suc.prems(1) have "rest = []" by (cases rest) auto
    with Nil show ?thesis by simp
  next
    case (Cons r rs)
    let ?m = "nat (lo_Limit options)" and ?l = "last (r # rs)"
    have l: "take ?m rest = butlast (r # rs) @ [?l]"
      unfolding append_butlast_last_id [of "r # rs", OF list.distinct(2)] using p Cons by simp
    have split: "ordered key rows = (seen @ butlast (r # rs)) @ ?l # drop ?m rest"
      using Suc.prems(2) l append_take_drop_id [of ?m rest] by (metis append.assoc append_Cons append_Nil)
    then have "?l \<in> set (ordered key rows)" by simp
    then have "?l \<in> set rows" by (simp add: ordered_def)
    with keys have k: "pk_time (key ?l) \<noteq> 0" "pk_id (key ?l) \<noteq> []" by auto
    have "filter (\<lambda>x. key x < key ?l) (ordered key rows) = drop ?m rest"
      using strict unfolding split by (rule filter_below_split)
    then have below: "filter (\<lambda>x. below_cursor (next_cursor key options ?l) (key x)) (ordered key rows) = drop ?m rest"
      unfolding below_next [of key, OF k] .
    have "walk n key (next_cursor key options ?l) rows = drop ?m rest"
    proof (rule Suc.IH)
      show "0 < lo_Limit (next_cursor key options ?l)" using Suc.prems(1) by (simp add: next_cursor_def)
      show "ordered key rows = (seen @ butlast (r # rs) @ [?l]) @ drop ?m rest" using split by simp
      show "length (drop ?m rest) \<le> n" using Suc.prems(1,4) by simp
    qed (rule below)
    moreover have "walk (Suc n) key options rows = (r # rs) @ walk n key (next_cursor key options ?l) rows"
      unfolding walk.simps(2) Cons by (simp only: list.case)
    moreover have "r # rs = take ?m rest" using p Cons by (rule trans [OF sym, rotated])
    ultimately show ?thesis by (simp only: append_take_drop_id)
  qed
qed

theorem walk_visits_all:
  assumes "distinct (map key rows)" and "\<forall>r\<in>set rows. pk_time (key r) \<noteq> 0 \<and> pk_id (key r) \<noteq> []"
    and "0 < lo_Limit options" "lo_BeforeCreatedAt options = None" and "length rows \<le> n"
  shows "walk n key options rows = ordered key rows"
proof (rule walk_below [OF ordered_strict [OF assms(1)] assms(2,3)])
  show "ordered key rows = [] @ ordered key rows" by simp
  show "filter (\<lambda>r. below_cursor options (key r)) (ordered key rows) = ordered key rows"
    using assms(4) by (simp add: below_cursor_def cursor_time_def)
  show "length (ordered key rows) \<le> n" using assms(5) by (simp add: ordered_def)
qed

end
