(* ===== verification/Queries.thy ===== *)
theory Queries
  imports Paging Ledger
begin

text \<open>
  The list queries: \<open>ListTransfers\<close>, \<open>ListAuditEvents\<close> and \<open>ListTransactions\<close>, the account history
  that joins the transfers of an institution with the postings of one account.
\<close>

section \<open>sql_transfer_repository.go and sql_audit_repository.go\<close>

definition transfer_page_key :: "Transfer \<Rightarrow> page_key" where
  "transfer_page_key t = PageKey (tr_CreatedAt t) (tr_ID t)"

definition audit_page_key :: "AuditEvent \<Rightarrow> page_key" where
  "audit_page_key ev = PageKey (ev_CreatedAt ev) (ev_ID ev)"

definition ListTransfers :: "externals \<Rightarrow> string \<Rightarrow> ListOptions \<Rightarrow> Transfer list repo" where
  "ListTransfers x institutionID options =
     repoBind (repoLift (normalizeListTransfersOptions x options)) (\<lambda>options.
     readDB (txGets (\<lambda>s. page transfer_page_key options
       (filter (\<lambda>t. tr_InstitutionID t = institutionID) (transfers s)))))"

definition ListAuditEvents :: "externals \<Rightarrow> string \<Rightarrow> ListOptions \<Rightarrow> AuditEvent list repo" where
  "ListAuditEvents x institutionID options =
     repoBind (repoLift (normalizeListAuditEventsOptions x options)) (\<lambda>options.
     readDB (txGets (\<lambda>s. page audit_page_key options
       (filter (\<lambda>ev. ev_InstitutionID ev = institutionID) (audit_events s)))))"

section \<open>The history of an account\<close>

record Transaction =
  txn_ID :: string
  txn_TransferID :: string
  txn_JournalEntryID :: "string option"
  txn_AccountID :: string
  txn_InstitutionID :: string
  txn_Direction :: string
  txn_Status :: string
  txn_LedgerStatus :: string
  txn_ProviderStatus :: string
  txn_ReconciliationStatus :: string
  txn_AmountMinor :: int
  txn_SignedAmountMinor :: int
  txn_CurrencyID :: string
  txn_Narration :: string
  txn_CounterpartyAccountID :: "string option"
  txn_Provider :: string
  txn_ProviderReference :: string
  txn_CreatedAt :: time

text \<open>\<open>LEFT JOIN\<close>: the matching rows, or one row of nulls.\<close>

definition left_join :: "('r \<Rightarrow> bool) \<Rightarrow> 'r list \<Rightarrow> 'r option list" where
  "left_join P rows = (case filter P rows of [] \<Rightarrow> [None] | rs \<Rightarrow> map Some rs)"

definition in_normal_direction :: "Account \<Rightarrow> Posting \<Rightarrow> bool" where
  "in_normal_direction a p \<longleftrightarrow>
     (acc_NormalBalance a = NormalBalanceCredit \<and> po_Direction p = PostingCredit) \<or>
     (acc_NormalBalance a = NormalBalanceDebit \<and> po_Direction p = PostingDebit)"

definition transactionDirection :: "Transfer \<Rightarrow> Account \<Rightarrow> Posting option \<Rightarrow> string" where
  "transactionDirection t a p =
     (case (tr_Status t = TransferStatusSucceeded, p) of
        (True, Some p) \<Rightarrow> if in_normal_direction a p then TransactionDirectionCredit
                          else TransactionDirectionDebit
      | _ \<Rightarrow> if tr_Direction t = TransferDirectionInbound then TransactionDirectionCredit
             else TransactionDirectionDebit)"

text \<open>\<open>None\<close> is a null, which the struct field cannot hold: the scan of the row fails.\<close>

definition signedAmount :: "Transfer \<Rightarrow> Account \<Rightarrow> Posting option \<Rightarrow> int option" where
  "signedAmount t a p =
     (if tr_Status t \<noteq> TransferStatusSucceeded then Some 0
      else case p of None \<Rightarrow> None
        | Some p \<Rightarrow> Some (if in_normal_direction a p then po_AmountMinor p else - po_AmountMinor p))"

definition counterpartyOf :: "store \<Rightarrow> Posting option \<Rightarrow> string option" where
  "counterpartyOf s cp =
     (case cp of None \<Rightarrow> None
      | Some c \<Rightarrow>
          (case select_one (\<lambda>b. acc_InstitutionID b = po_InstitutionID c \<and> acc_ID b = po_AccountID c)
             (accounts s) of
             None \<Rightarrow> None
           | Some b \<Rightarrow> if acc_Kind b = AccountKindCustomer then Some (po_AccountID c) else None))"

definition transactionRow ::
  "store \<Rightarrow> string \<Rightarrow> Transfer \<Rightarrow> Account \<Rightarrow> Posting option \<Rightarrow> Posting option \<Rightarrow> Transaction" where
  "transactionRow s accountID t a p cp =
     \<lparr>txn_ID = tr_ID t @ '':'' @ (case p of None \<Rightarrow> ''pending'' | Some p \<Rightarrow> po_ID p),
      txn_TransferID = tr_ID t, txn_JournalEntryID = tr_JournalEntryID t, txn_AccountID = accountID,
      txn_InstitutionID = tr_InstitutionID t, txn_Direction = transactionDirection t a p,
      txn_Status = tr_Status t, txn_LedgerStatus = tr_LedgerStatus t,
      txn_ProviderStatus = tr_ProviderStatus t,
      txn_ReconciliationStatus = tr_ReconciliationStatus t, txn_AmountMinor = tr_AmountMinor t,
      txn_SignedAmountMinor = (case signedAmount t a p of None \<Rightarrow> 0 | Some v \<Rightarrow> v),
      txn_CurrencyID = tr_CurrencyID t, txn_Narration = tr_Narration t,
      txn_CounterpartyAccountID = counterpartyOf s cp, txn_Provider = tr_Provider t,
      txn_ProviderReference = tr_ProviderReference t, txn_CreatedAt = tr_CreatedAt t\<rparr>"

text \<open>The rows of the join for one transfer, each with whether it can be scanned.\<close>

definition own_legs :: "store \<Rightarrow> string \<Rightarrow> Transfer \<Rightarrow> Posting option list" where
  "own_legs s accountID t =
     left_join (\<lambda>p. po_InstitutionID p = tr_InstitutionID t \<and>
       Some (po_JournalEntryID p) = tr_JournalEntryID t \<and> po_AccountID p = accountID) (postings s)"

definition other_legs :: "store \<Rightarrow> string \<Rightarrow> Transfer \<Rightarrow> Posting option list" where
  "other_legs s accountID t =
     left_join (\<lambda>p. po_InstitutionID p = tr_InstitutionID t \<and>
       Some (po_JournalEntryID p) = tr_JournalEntryID t \<and> po_AccountID p \<noteq> accountID) (postings s)"

definition transactionRows :: "store \<Rightarrow> string \<Rightarrow> Transfer \<Rightarrow> (bool \<times> Transaction) list" where
  "transactionRows s accountID t =
     [(signedAmount t a p \<noteq> None, transactionRow s accountID t a p cp).
        a \<leftarrow> filter (\<lambda>a. acc_InstitutionID a = tr_InstitutionID t \<and> acc_ID a = accountID) (accounts s),
        p \<leftarrow> own_legs s accountID t, cp \<leftarrow> other_legs s accountID t,
        tr_AccountID t = accountID \<or> p \<noteq> None]"

definition accountTransactions :: "store \<Rightarrow> string \<Rightarrow> string \<Rightarrow> (bool \<times> Transaction) list" where
  "accountTransactions s institutionID accountID =
     concat (map (transactionRows s accountID)
       (filter (\<lambda>t. tr_InstitutionID t = institutionID) (transfers s)))"

definition transaction_page_key :: "bool \<times> Transaction \<Rightarrow> page_key" where
  "transaction_page_key r = PageKey (txn_CreatedAt (snd r)) (txn_TransferID (snd r))"

definition scan_error :: error where
  "scan_error = SQLError ''scan''"

definition ListTransactions :: "string \<Rightarrow> string \<Rightarrow> ListOptions \<Rightarrow> Transaction list repo" where
  "ListTransactions institutionID accountID options0 =
     (let options = normalizeListTransactionsOptions options0 in
      readDB (txBind (txGets (\<lambda>s. page transaction_page_key options
          (accountTransactions s institutionID accountID))) (\<lambda>rows.
        txThen (txEnsure (list_all fst rows) scan_error) (txReturn (map snd rows)))))"

end
