(* ===== verification/Reconciliation.thy ===== *)
theory Reconciliation
  imports Queries TransferOps
begin

text \<open>
  \<open>sql_reconciliation_repository.go\<close>: the operations view of transfers that need a person.  The SQL
  predicate of the list query and the Go function that names the reason of an item are modelled
  separately, as the code has them, and proved to select the same rows.
\<close>

record ReconciliationItem =
  ri_TransferID :: string
  ri_InstitutionID :: string
  ri_AccountID :: string
  ri_Direction :: string
  ri_Status :: string
  ri_Provider :: string
  ri_ProviderReference :: string
  ri_ProviderEventID :: "string option"
  ri_ProviderStatus :: string
  ri_LedgerStatus :: string
  ri_ReconciliationStatus :: string
  ri_AmountMinor :: int
  ri_CurrencyID :: string
  ri_FailureReason :: "string option"
  ri_JournalEntryID :: "string option"
  ri_CreatedAt :: time
  ri_UpdatedAt :: time
  ri_ReviewReason :: string
  ri_RecommendedNextAction :: string
  ri_ReviewStatus :: "string option"
  ri_ReviewNote :: "string option"
  ri_ReviewedAt :: "time option"
  ri_ReviewedBy :: "string option"

record ListReconciliationItemsOptions = ListOptions +
  lr_Status :: string
  lr_ProviderStatus :: string
  lr_LedgerStatus :: string
  lr_ReconciliationStatus :: string
  lr_StalePendingMinutes :: int

record MarkReconciliationItemReviewedInput =
  mr_InstitutionID :: string
  mr_TransferID :: string
  mr_ResolutionNote :: string
  mr_ResolutionStatus :: string

text \<open>The columns of \<open>reconciliationItemSelectSQL\<close>; the two computed fields are still empty.\<close>

definition reconciliationItem :: "Transfer \<Rightarrow> ReconciliationItem" where
  "reconciliationItem t =
     \<lparr>ri_TransferID = tr_ID t, ri_InstitutionID = tr_InstitutionID t, ri_AccountID = tr_AccountID t,
      ri_Direction = tr_Direction t, ri_Status = tr_Status t, ri_Provider = tr_Provider t,
      ri_ProviderReference = tr_ProviderReference t, ri_ProviderEventID = tr_ProviderEventID t,
      ri_ProviderStatus = tr_ProviderStatus t, ri_LedgerStatus = tr_LedgerStatus t,
      ri_ReconciliationStatus = tr_ReconciliationStatus t, ri_AmountMinor = tr_AmountMinor t,
      ri_CurrencyID = tr_CurrencyID t, ri_FailureReason = tr_FailureReason t,
      ri_JournalEntryID = tr_JournalEntryID t, ri_CreatedAt = tr_CreatedAt t,
      ri_UpdatedAt = tr_UpdatedAt t, ri_ReviewReason = [], ri_RecommendedNextAction = [],
      ri_ReviewStatus = tr_ReviewStatus t, ri_ReviewNote = tr_ReviewNote t,
      ri_ReviewedAt = tr_ReviewedAt t, ri_ReviewedBy = tr_ReviewedBy t\<rparr>"

section \<open>Which items need review\<close>

definition reconciliationIssueSQL :: "time \<Rightarrow> Transfer \<Rightarrow> bool" where
  "reconciliationIssueSQL cutoff t \<longleftrightarrow>
     tr_ReconciliationStatus t = ReconciliationStatusManualReview \<or>
     tr_ProviderStatus t = TransferProviderStatusUnknown \<or>
     tr_LedgerStatus t = LedgerStatusReversalDeficit \<or>
     (tr_ProviderStatus t = TransferStatusSucceeded \<and> tr_LedgerStatus t \<noteq> LedgerStatusPosted) \<or>
     (tr_LedgerStatus t = LedgerStatusPosted \<and> tr_ProviderStatus t = TransferStatusFailed) \<or>
     (tr_Status t = TransferStatusPending \<and> tr_CreatedAt t < cutoff)"

definition reconciliationReviewState :: "ReconciliationItem \<Rightarrow> time \<Rightarrow> string \<times> string \<times> bool" where
  "reconciliationReviewState item stalePendingCutoff =
     (if ri_LedgerStatus item = LedgerStatusReversalDeficit
      then (''reversal_deficit'', ReconciliationActionManualCustomerReceivableReview, True)
      else if ri_ProviderStatus item = TransferProviderStatusUnknown
      then (''provider_unknown'', ReconciliationActionRequeryProvider, True)
      else if ri_ProviderStatus item = TransferStatusSucceeded \<and> ri_LedgerStatus item \<noteq> LedgerStatusPosted
      then (''provider_succeeded_ledger_not_posted'', ReconciliationActionInspectJournal, True)
      else if ri_ProviderStatus item = TransferStatusFailed \<and> ri_LedgerStatus item = LedgerStatusPosted
      then (''provider_failed_ledger_posted'', ReconciliationActionContactProvider, True)
      else if ri_ReconciliationStatus item = ReconciliationStatusManualReview
      then (''manual_review'', ReconciliationActionInspectJournal, True)
      else if ri_Status item = TransferStatusPending \<and> ri_CreatedAt item < stalePendingCutoff
      then (''stale_pending'', ReconciliationActionRequeryProvider, True)
      else (''none'', ReconciliationActionNoAction, False))"

definition needsReview :: "ReconciliationItem \<Rightarrow> time \<Rightarrow> bool" where
  "needsReview item cutoff \<longleftrightarrow> snd (snd (reconciliationReviewState item cutoff))"

definition decorateReconciliationItem :: "ReconciliationItem \<Rightarrow> time \<Rightarrow> ReconciliationItem" where
  "decorateReconciliationItem item cutoff =
     (case reconciliationReviewState item cutoff of (reason, action, _) \<Rightarrow>
        item\<lparr>ri_ReviewReason := reason, ri_RecommendedNextAction := action\<rparr>)"

definition isInspectableReconciliationItem :: "ReconciliationItem \<Rightarrow> time \<Rightarrow> bool" where
  "isInspectableReconciliationItem item cutoff \<longleftrightarrow>
     ri_ReviewStatus item \<noteq> None \<or> needsReview item cutoff"

text \<open>\<open>time.Minute\<close> in nanoseconds; the product of two durations wraps at 64 bits.\<close>

definition minute :: int where
  "minute = 60 * 1000000000"

definition reconciliationStalePendingCutoff :: "int \<Rightarrow> time \<Rightarrow> time" where
  "reconciliationStalePendingCutoff stalePendingMinutes now =
     (let minutes = (if stalePendingMinutes \<le> 0 then DefaultReconciliationStalePendingMinutes
                     else stalePendingMinutes)
      in now + int64_wrap (- minutes * minute))"

section \<open>The operations\<close>

definition keepsFilter :: "string \<Rightarrow> string \<Rightarrow> bool" where
  "keepsFilter v column \<longleftrightarrow> TrimSpace v = [] \<or> column = TrimSpace v"

definition listedItem ::
  "string \<Rightarrow> ListReconciliationItemsOptions \<Rightarrow> time \<Rightarrow> Transfer \<Rightarrow> bool" where
  "listedItem institutionID options cutoff t \<longleftrightarrow>
     tr_InstitutionID t = institutionID \<and> reconciliationIssueSQL cutoff t \<and>
     (tr_ReviewStatus t = None \<or>
      tr_ReviewStatus t = Some ReconciliationReviewStatusManualFollowupRequired) \<and>
     keepsFilter (lr_Status options) (tr_Status t) \<and>
     keepsFilter (lr_ProviderStatus options) (tr_ProviderStatus t) \<and>
     keepsFilter (lr_LedgerStatus options) (tr_LedgerStatus t) \<and>
     keepsFilter (lr_ReconciliationStatus options) (tr_ReconciliationStatus t)"

definition ListReconciliationItems ::
  "env \<Rightarrow> string \<Rightarrow> ListReconciliationItemsOptions \<Rightarrow> ReconciliationItem list repo" where
  "ListReconciliationItems e institutionID options =
     (let cutoff = reconciliationStalePendingCutoff (lr_StalePendingMinutes options) (env_clock e 0) in
      readDB (txGets (\<lambda>s. map (\<lambda>t. decorateReconciliationItem (reconciliationItem t) cutoff)
        (page transfer_page_key
          \<lparr>lo_Limit = lo_Limit options, lo_BeforeCreatedAt = lo_BeforeCreatedAt options,
           lo_BeforeID = TrimSpace (lo_BeforeID options)\<rparr>
          (filter (listedItem institutionID options cutoff) (transfers s))))))"

definition getReconciliationItem :: "string \<Rightarrow> string \<Rightarrow> ReconciliationItem tx" where
  "getReconciliationItem institutionID transferID =
     getRow (\<lambda>s. map_option reconciliationItem (select_one (tr_key institutionID transferID) (transfers s)))"

definition GetReconciliationItem :: "env \<Rightarrow> string \<Rightarrow> string \<Rightarrow> ReconciliationItem repo" where
  "GetReconciliationItem e institutionID transferID =
     (let cutoff = reconciliationStalePendingCutoff 0 (env_clock e 0) in
      readDB (txBind (getReconciliationItem institutionID transferID) (\<lambda>item0.
        let item = decorateReconciliationItem item0 cutoff in
        txThen (txEnsure (isInspectableReconciliationItem item cutoff) ErrNotFound) (txReturn item))))"

definition reviewUpdate :: "string \<Rightarrow> string \<Rightarrow> time \<Rightarrow> string \<Rightarrow> Transfer \<Rightarrow> Transfer" where
  "reviewUpdate status note_text now reviewedBy t =
     t\<lparr>tr_ReviewStatus := Some status, tr_ReviewNote := Some note_text, tr_ReviewedAt := Some now,
       tr_ReviewedBy := Some reviewedBy, tr_UpdatedAt := now\<rparr>"

definition reviewAuditInput ::
  "ReconciliationItem \<Rightarrow> MarkReconciliationItemReviewedInput \<Rightarrow> time \<Rightarrow> auditEventInput" where
  "reviewAuditInput current input now =
     auditEventInput_zero
       \<lparr>ai_InstitutionID := ri_InstitutionID current, ai_Action := AuditActionReconciliationReviewed,
        ai_EntityType := ''transfer'', ai_EntityID := ri_TransferID current,
        ai_AccountID := ri_AccountID current, ai_TransferID := ri_TransferID current,
        ai_JournalEntryID := optionalAuditValue (ri_JournalEntryID current),
        ai_Reference := ri_ProviderReference current,
        ai_OldStatus := optionalAuditValue (ri_ReviewStatus current),
        ai_NewStatus := mr_ResolutionStatus input,
        ai_Metadata :=
          [(''resolution_note'', mr_ResolutionNote input),
           (''review_reason'', ri_ReviewReason current),
           (''recommended_action'', ri_RecommendedNextAction current),
           (''provider_status'', ri_ProviderStatus current),
           (''ledger_status'', ri_LedgerStatus current),
           (''reconciliation_status'', ri_ReconciliationStatus current)],
        ai_CreatedAt := now\<rparr>"

definition markReconciliationItemReviewed ::
  "env \<Rightarrow> MarkReconciliationItemReviewedInput \<Rightarrow> ReconciliationItem tx" where
  "markReconciliationItemReviewed e input =
     (let cutoff = reconciliationStalePendingCutoff 0 (env_clock e 0) in
      txBind (getReconciliationItem (mr_InstitutionID input) (mr_TransferID input)) (\<lambda>current0.
      let current = decorateReconciliationItem current0 cutoff in
      txThen (txEnsure (isInspectableReconciliationItem current cutoff) ErrNotFound)
      (case auditContext e of (_, reviewedBy, _, _) \<Rightarrow>
       let now = env_clock e 1 in
       txThen (update_transfers (tr_key (mr_InstitutionID input) (mr_TransferID input))
         (reviewUpdate (mr_ResolutionStatus input) (mr_ResolutionNote input) now reviewedBy))
       (txThen (insertAuditEvent e 0 (reviewAuditInput current input now))
       (txBind (getReconciliationItem (mr_InstitutionID input) (mr_TransferID input)) (\<lambda>item.
        txReturn (decorateReconciliationItem item cutoff)))))))"

definition MarkReconciliationItemReviewed ::
  "env \<Rightarrow> MarkReconciliationItemReviewedInput \<Rightarrow> ReconciliationItem repo" where
  "MarkReconciliationItemReviewed e input = WithTx e (markReconciliationItemReviewed e input)"

section \<open>The query and the function agree\<close>

lemma needsReview_decorate [simp]: "needsReview (decorateReconciliationItem item c) c' = needsReview item c'"
  by (simp add: needsReview_def decorateReconciliationItem_def reconciliationReviewState_def
      split: prod.splits)

lemma issue_iff_needsReview: "reconciliationIssueSQL cutoff t \<longleftrightarrow> needsReview (reconciliationItem t) cutoff"
  by (auto simp: reconciliationIssueSQL_def needsReview_def reconciliationReviewState_def
      reconciliationItem_def)

lemma getReconciliationItem_Inr:
  "getReconciliationItem i k s = Inr (item, s') \<longleftrightarrow>
     s' = s \<and> (\<exists>t. select_one (tr_key i k) (transfers s) = Some t \<and> item = reconciliationItem t)"
  by (auto simp: getReconciliationItem_def getRow_Inr)

end
