(* ===== verification/Runs.thy ===== *)
theory Runs
  imports OpsRefine Reconciliation
begin

text \<open>
  From transactions to calls.  A call of a repository method or of a service operation is a sequence
  of committed transactions; a reflexive and transitive relation that each of them obeys is obeyed by
  the call, whatever error it ends in.  The relation of interest is \<open>evolves i\<close>: from books in order, a
  call of institution \<open>i\<close> is a sequence of book steps of \<open>i\<close>.
\<close>

locale call_relation =
  fixes R :: "'s \<Rightarrow> 's \<Rightarrow> bool"
  assumes R_refl: "R s s"
    and R_trans: "R s t \<Longrightarrow> R t u \<Longrightarrow> R s u"
begin

definition keeps :: "('s, 'a) call \<Rightarrow> bool" where
  "keeps m \<longleftrightarrow> (\<forall>s. R s (snd (m s)))"

lemma keepsI: "(\<And>s. R s (snd (m s))) \<Longrightarrow> keeps m"
  by (simp add: keeps_def)

lemma keepsD: "keeps m \<Longrightarrow> R s (snd (m s))"
  by (simp add: keeps_def)

lemma keeps_still: "(\<And>s. snd (m s) = s) \<Longrightarrow> keeps m"
  by (simp add: keeps_def R_refl)

lemma keeps_return: "keeps (repoReturn x)"
  by (rule keeps_still) simp

lemma keeps_fail: "keeps (repoFail err)"
  by (rule keeps_still) simp

lemma keeps_ensure: "keeps (repoEnsure c err)"
  by (rule keeps_still) simp

lemma keeps_lift: "keeps (repoLift r)"
  by (rule keeps_still) simp

lemma keeps_attempt: "keeps m \<Longrightarrow> keeps (repoAttempt m)"
  by (simp add: keeps_def)

lemma keeps_bind:
  assumes "keeps m" and "\<And>x. keeps (f x)"
  shows "keeps (repoBind m f)"
proof (rule keepsI)
  fix s
  show "R s (snd (repoBind m f s))"
  proof (cases "fst (m s)")
    case (Inl err)
    then show ?thesis using keepsD [OF assms(1)] by (simp add: snd_repoBind)
  next
    case (Inr x)
    then show ?thesis
      using R_trans [OF keepsD [OF assms(1), of s] keepsD [OF assms(2) [of x], of "snd (m s)"]]
      by (simp add: snd_repoBind)
  qed
qed

text \<open>A bind whose continuation is only run on some results of the call.\<close>

lemma keeps_bind_on:
  assumes "keeps m" and "\<And>x s. fst (m s) = Inr x \<Longrightarrow> keeps (f x)"
  shows "keeps (repoBind m f)"
proof (rule keepsI)
  fix s
  show "R s (snd (repoBind m f s))"
  proof (cases "fst (m s)")
    case (Inl err)
    then show ?thesis using keepsD [OF assms(1)] by (simp add: snd_repoBind)
  next
    case (Inr x)
    then show ?thesis
      using R_trans [OF keepsD [OF assms(1), of s] keepsD [OF assms(2) [OF Inr], of "snd (m s)"]]
      by (simp add: snd_repoBind)
  qed
qed

lemma keeps_if: "(c \<Longrightarrow> keeps m) \<Longrightarrow> (\<not> c \<Longrightarrow> keeps n) \<Longrightarrow> keeps (if c then m else n)"
  by simp

lemma keeps_option:
  "(v = None \<Longrightarrow> keeps m) \<Longrightarrow> (\<And>x. v = Some x \<Longrightarrow> keeps (f x)) \<Longrightarrow>
     keeps (case v of None \<Rightarrow> m | Some x \<Rightarrow> f x)"
  by (cases v) auto

lemma keeps_sum:
  "(\<And>e. v = Inl e \<Longrightarrow> keeps (g e)) \<Longrightarrow> (\<And>x. v = Inr x \<Longrightarrow> keeps (f x)) \<Longrightarrow>
     keeps (case v of Inl e \<Rightarrow> g e | Inr x \<Rightarrow> f x)"
  by (cases v) auto

lemma keeps_prod: "(\<And>x y. v = (x, y) \<Longrightarrow> keeps (f x y)) \<Longrightarrow> keeps (case v of (x, y) \<Rightarrow> f x y)"
  by (cases v) auto

lemmas keeps_rules =
  keeps_return keeps_fail keeps_ensure keeps_lift keeps_attempt keeps_bind keeps_if keeps_option
  keeps_sum keeps_prod

end

section \<open>The repository\<close>

definition evolves :: "string \<Rightarrow> store \<Rightarrow> store \<Rightarrow> bool" where
  "evolves i s s' \<longleftrightarrow> (books_ok s \<longrightarrow> book_steps i s s')"

interpretation repo: call_relation "evolves i" for i
  by unfold_locales (auto simp: evolves_def intro: rtranclp_trans books_ok_steps)

lemma evolves_books: "evolves i s s' \<Longrightarrow> books_ok s \<Longrightarrow> books_ok s'"
  by (auto simp: evolves_def intro: books_ok_steps)

lemma repo_read: "repo.keeps i (readDB m)"
  by (rule repo.keeps_still) simp

lemma books_ok_locks: "books_ok s \<Longrightarrow> books_ok (s\<lparr>advisory_locks := l\<rparr>)"
  by (rule books_ok_step [OF take_locks])

lemma repo_tx:
  assumes "\<And>s x s'. books_ok s \<Longrightarrow> fn s = Inr (x, s') \<Longrightarrow> book_steps i s s'"
  shows "repo.keeps i (WithTx e fn)"
proof (rule repo.keepsI)
  fix s
  show "evolves i s (snd (WithTx e fn s))"
  proof (cases rule: WithTx_cases [of fn s e])
    case (committed x s')
    show ?thesis unfolding evolves_def
    proof
      assume "books_ok s"
      then have "book_steps i (s\<lparr>advisory_locks := []\<rparr>) s'"
        by (rule assms [OF books_ok_locks committed(1)])
      with take_locks [of i s "[]"] have "book_steps i s s'" by (rule book_step_trans)
      moreover have "book_step i s' (s'\<lparr>advisory_locks := []\<rparr>)" by (rule take_locks)
      ultimately show "book_steps i s (snd (WithTx e fn s))" unfolding committed(2) by simp
    qed
  next
    case (rolled_back err)
    then show ?thesis by (simp add: repo.R_refl)
  qed
qed

lemma repo_RecordTransfer: "repo.keeps (in_InstitutionID input) (RecordTransfer e x input)"
  unfolding RecordTransfer_def
  by (rule repo_tx) (auto simp: txBind_Inr intro: recordTransfer_books)

lemma repo_BeginExternalOutboundTransfer:
  "repo.keeps (in_InstitutionID input) (BeginExternalOutboundTransfer e x input)"
  unfolding BeginExternalOutboundTransfer_def by (rule repo_tx) (rule recordTransfer_books)

lemma repo_CompleteExternalOutboundTransfer:
  "in_Direction input = TransferDirectionOutbound \<Longrightarrow>
     repo.keeps (in_InstitutionID input) (CompleteExternalOutboundTransfer e x k input)"
  unfolding CompleteExternalOutboundTransfer_def
  by (rule repo_tx) (rule completeExternalOutboundTransfer_books)

lemma repo_CompleteExternalTransferRequery:
  "repo.keeps (TrimSpace (in_InstitutionID input)) (CompleteExternalTransferRequery e x k input)"
  unfolding CompleteExternalTransferRequery_def
  by (rule repo_tx) (rule completeExternalTransferRequery_books)

lemma repo_RecordProviderEventReview:
  "repo.keeps (TrimSpace (rv_InstitutionID input)) (RecordProviderEventReview e x input)"
  unfolding RecordProviderEventReview_def by (rule repo_tx) (rule recordProviderEventReview_books)

lemma repo_ReverseTransfer: "repo.keeps (TrimSpace (rt_InstitutionID input)) (ReverseTransfer e x input)"
  unfolding ReverseTransfer_def by (rule repo_tx) (rule reverseTransfer_books)

lemma repo_CreateCustomer: "repo.keeps (cci_InstitutionID input) (CreateCustomer e input)"
  unfolding CreateCustomer_def by (rule repo_tx) (rule createCustomer_books)

lemma repo_CreateAccount: "repo.keeps (cai_InstitutionID input) (CreateAccount e input)"
  unfolding CreateAccount_def by (rule repo_tx) (rule createAccount_books)

lemma repo_SetAccountStatus: "repo.keeps (aci_InstitutionID input) (SetAccountStatus e input status allowed)"
  unfolding SetAccountStatus_def by (rule repo_tx) (rule setAccountStatus_books)

lemma repo_PlaceAccountLien: "repo.keeps (ali_InstitutionID input) (PlaceAccountLien e input)"
  unfolding PlaceAccountLien_def by (rule repo_tx) (rule placeAccountLien_books)

lemma repo_ReleaseAccountLien: "repo.keeps (rli_InstitutionID input) (ReleaseAccountLien e input)"
  unfolding ReleaseAccountLien_def by (rule repo_tx) (rule releaseAccountLien_books)

section \<open>Marking an item reviewed\<close>

lemma status_ok_review: "status_ok (reviewUpdate st nt now who t) = status_ok t"
  by (simp add: status_ok_def reviewUpdate_def)

theorem markReviewed_books:
  assumes ok: "books_ok s" and run: "markReconciliationItemReviewed e input s = Inr (item, s')"
  shows "book_steps (mr_InstitutionID input) s s'"
proof -
  let ?i = "mr_InstitutionID input" and ?k = "mr_TransferID input"
  obtain a1 who a3 a4 where who: "auditContext e = (a1, who, a3, a4)" by (cases "auditContext e") auto
  let ?f = "reviewUpdate (mr_ResolutionStatus input) (mr_ResolutionNote input) (env_clock e 1) who"
  let ?item = "\<lambda>t. decorateReconciliationItem (reconciliationItem t)
    (reconciliationStalePendingCutoff 0 (env_clock e 0))"
  from run obtain t n s1 ev where t: "select_one (tr_key ?i ?k) (transfers s) = Some t"
    and u: "update_transfers (tr_key ?i ?k) ?f s = Inr (n, s1)"
    and aud: "insertAuditEvent e 0 (reviewAuditInput (?item t) input (env_clock e 1)) s1 = Inr (ev, s')"
    unfolding markReconciliationItemReviewed_def Let_def who prod.case txBind_Inr txThen_Inr txEnsure_Inr
      getReconciliationItem_Inr
    by (force simp: getReconciliationItem_Inr)
  have c: "ri_InstitutionID (?item t) = ?i"
    using select_one_SomeD [OF t]
    by (simp add: decorateReconciliationItem_def reconciliationItem_def tr_key_def split: prod.splits)
  have s1: "row_changed ?i ?k ?f s \<and> s1 = change_row ?i ?k ?f s"
    by (rule update_changes_row [OF u])
      (simp_all add: status_ok_review rows_okD [OF books_okD(1) [OF ok]], simp add: same_identity_def reviewUpdate_def)
  have f: "\<forall>t. \<exists>st nt at who. ?f t = t\<lparr>tr_ReviewStatus := st, tr_ReviewNote := nt, tr_ReviewedAt := at,
      tr_ReviewedBy := who, tr_UpdatedAt := env_clock e 1\<rparr>"
    unfolding reviewUpdate_def by blast
  have "book_step ?i s s1" using mark_reviewed [OF f conjunct1 [OF s1]] s1 by simp
  moreover have "book_steps ?i s1 s'"
    using book.obeysD [OF book_insert_audit aud] c by (simp add: reviewAuditInput_def)
  ultimately show ?thesis by (rule book_step_trans)
qed

lemma repo_MarkReviewed: "repo.keeps (mr_InstitutionID input) (MarkReconciliationItemReviewed e input)"
  unfolding MarkReconciliationItemReviewed_def by (rule repo_tx) (rule markReviewed_books)

end
