(* ===== verification/Provider.thy ===== *)
theory Provider
  imports Store
begin

text \<open>
  \<open>provider.go\<close>: the interface \<open>TransferProvider\<close> between the service and a payment network.  A provider
  is a record of operations on a state of its own (the mock keeps the transfers it has seen); an
  operation returns an error, or a result that may be nil.  \<open>firstNonBlank\<close> and the helpers of the
  provider boundary are here too.
\<close>

record NameEnquiryRequest =
  nq_InstitutionID :: string
  nq_BankCode :: string
  nq_AccountNumber :: string

record NameEnquiryResult =
  nr_Provider :: string
  nr_ProviderReference :: string
  nr_AccountName :: string
  nr_BankCode :: string
  nr_AccountNumber :: string

record ProviderTransferRequest =
  pq_InstitutionID :: string
  pq_AccountID :: string
  pq_DestinationInstitutionCode :: string
  pq_DestinationAccountNumber :: string
  pq_DestinationAccountName :: string
  pq_AmountMinor :: int
  pq_CurrencyID :: string
  pq_IdempotencyKey :: string
  pq_ProviderReference :: string
  pq_ProviderEventID :: string
  pq_Status :: string
  pq_FailureReason :: string
  pq_Narration :: string
  pq_Scenario :: string
  pq_DelaySeconds :: int

record ProviderTransferResult =
  res_Provider :: string
  res_ProviderReference :: string
  res_ProviderEventID :: string
  res_Status :: string
  res_ProviderStatus :: string
  res_FailureReason :: string
  res_Narration :: string
  res_Delayed :: bool
  res_DelayedUntil :: "time option"

record ProviderWebhookEvent =
  we_Provider :: string
  we_InstitutionID :: string
  we_AccountID :: string
  we_DestinationAccountNumber :: string
  we_Direction :: string
  we_Status :: string
  we_AmountMinor :: int
  we_CurrencyID :: string
  we_IdempotencyKey :: string
  we_ProviderReference :: string
  we_ProviderEventID :: string
  we_ReversalOfTransferID :: string
  we_SenderName :: string
  we_SenderAccountNumber :: string
  we_SenderInstitutionCode :: string
  we_FailureReason :: string
  we_Narration :: string
  we_Scenario :: string
  we_RequestFingerprint :: string
  we_Delayed :: bool
  we_DelayedUntil :: "time option"

text \<open>
  The webhook body the provider receives, as \<open>json.Unmarshal\<close> reads it into \<open>mockWebhookPayload\<close>; a
  body it rejects is \<open>None\<close>.
\<close>

record mockWebhookPayload =
  wp_InstitutionID :: string
  wp_Provider :: string
  wp_AccountID :: string
  wp_DestinationAccountNumber :: string
  wp_Direction :: string
  wp_Status :: string
  wp_AmountMinor :: int
  wp_CurrencyID :: string
  wp_IdempotencyKey :: string
  wp_ProviderReference :: string
  wp_ProviderEventID :: string
  wp_ReversalOfTransferID :: string
  wp_SenderName :: string
  wp_SenderAccountNumber :: string
  wp_SenderInstitutionCode :: string
  wp_FailureReason :: string
  wp_Narration :: string
  wp_Scenario :: string
  wp_DelaySeconds :: int

type_synonym payload = "mockWebhookPayload option"

text \<open>Request headers, in the order in which the code ranges over them.\<close>

type_synonym headers = "(string \<times> string) list"

text \<open>What one provider call reads: \<open>ctx.Err()\<close>, its clock and its random identifier.\<close>

record provider_env =
  pn_ctx_err :: "error option"
  pn_clock :: time
  pn_uuid :: string

record 'p provider =
  pv_Name :: string
  pv_NameEnquiry :: "provider_env \<Rightarrow> NameEnquiryRequest \<Rightarrow> ('p, NameEnquiryResult option) call"
  pv_InitiateTransfer ::
    "provider_env \<Rightarrow> ProviderTransferRequest \<Rightarrow> ('p, ProviderTransferResult option) call"
  pv_RequeryTransfer :: "provider_env \<Rightarrow> string \<Rightarrow> ('p, ProviderTransferResult option) call"
  pv_ParseWebhook :: "provider_env \<Rightarrow> payload \<Rightarrow> headers \<Rightarrow> ('p, ProviderWebhookEvent option) call"
  pv_SetRequeryScenario :: "(provider_env \<Rightarrow> string \<Rightarrow> string \<Rightarrow> ('p, unit) call) option"

section \<open>Helpers\<close>

fun firstNonBlank :: "string list \<Rightarrow> string" where
  "firstNonBlank [] = []"
| "firstNonBlank (v # vs) = (let trimmed = TrimSpace v in if trimmed \<noteq> [] then trimmed else firstNonBlank vs)"

definition providerTransferReference :: "ProviderTransferRequest \<Rightarrow> string" where
  "providerTransferReference request =
     (let providerReference = TrimSpace (pq_ProviderReference request) in
      if providerReference \<noteq> [] then providerReference else TrimSpace (pq_IdempotencyKey request))"

definition providerTransferStatusUnknown :: "error \<Rightarrow> bool" where
  "providerTransferStatusUnknown err \<longleftrightarrow>
     errors_Is err ErrProviderStatusUnknown \<or> errors_Is err ContextCanceled \<or>
     errors_Is err ContextDeadlineExceeded"

definition providerUnknownTransferResult ::
  "'p provider \<Rightarrow> ProviderTransferRequest \<Rightarrow> ProviderTransferResult" where
  "providerUnknownTransferResult provider request =
     \<lparr>res_Provider = pv_Name provider, res_ProviderReference = providerTransferReference request,
      res_ProviderEventID = [], res_Status = TransferStatusPending,
      res_ProviderStatus = TransferProviderStatusUnknown,
      res_FailureReason = providerUnknownFailureReason,
      res_Narration = TrimSpace (pq_Narration request), res_Delayed = False, res_DelayedUntil = None\<rparr>"

definition failedProviderTransferResult ::
  "'p provider \<Rightarrow> ProviderTransferRequest \<Rightarrow> ProviderTransferResult" where
  "failedProviderTransferResult provider request =
     \<lparr>res_Provider = pv_Name provider, res_ProviderReference = providerTransferReference request,
      res_ProviderEventID = [], res_Status = TransferStatusFailed,
      res_ProviderStatus = TransferStatusFailed, res_FailureReason = ''provider_failed'',
      res_Narration = TrimSpace (pq_Narration request), res_Delayed = False, res_DelayedUntil = None\<rparr>"

text \<open>How the service reads the outcome of \<open>InitiateTransfer\<close> (both outbound operations do).\<close>

definition providerOutcome ::
  "'p provider \<Rightarrow> ProviderTransferRequest \<Rightarrow> error + ProviderTransferResult option \<Rightarrow>
     ProviderTransferResult" where
  "providerOutcome provider request r =
     (case r of
        Inl err \<Rightarrow> if providerTransferStatusUnknown err
          then providerUnknownTransferResult provider request
          else failedProviderTransferResult provider request
      | Inr None \<Rightarrow> failedProviderTransferResult provider request
      | Inr (Some result) \<Rightarrow> result)"

lemma firstNonBlank_trimmed [simp]: "TrimSpace (firstNonBlank vs) = firstNonBlank vs"
  by (induction vs) (simp_all add: Let_def)

lemma firstNonBlank_Nil_iff: "firstNonBlank vs = [] \<longleftrightarrow> (\<forall>v\<in>set vs. TrimSpace v = [])"
  by (induction vs) (simp_all add: Let_def)

section \<open>The contract of a provider\<close>

text \<open>A status pair a provider may report.\<close>

definition valid_result :: "string \<Rightarrow> ProviderTransferResult \<Rightarrow> bool" where
  "valid_result name result \<longleftrightarrow>
     res_Provider result = name \<and>
     TrimSpace (res_ProviderReference result) \<noteq> [] \<and>
     res_Status result \<in> {TransferStatusSucceeded, TransferStatusPending, TransferStatusFailed} \<and>
     res_ProviderStatus result \<in> {TransferStatusSucceeded, TransferStatusPending, TransferStatusFailed,
       TransferProviderStatusUnknown} \<and>
     (res_ProviderStatus result = TransferProviderStatusUnknown \<longrightarrow>
        res_Status result = TransferStatusPending)"

text \<open>
  What the service may rely on: a name that survives trimming, an invariant of the state that every
  call keeps, and under it results of its own name, with usable statuses and the reference that was
  asked for.
\<close>

locale transfer_provider =
  fixes P :: "'p provider" and inv :: "'p \<Rightarrow> bool"
  assumes name: "TrimSpace (pv_Name P) = pv_Name P" "pv_Name P \<noteq> []"
    and inv_enquiry: "inv p \<Longrightarrow> inv (snd (pv_NameEnquiry P e q p))"
    and inv_initiate: "inv p \<Longrightarrow> inv (snd (pv_InitiateTransfer P e request p))"
    and inv_requery: "inv p \<Longrightarrow> inv (snd (pv_RequeryTransfer P e reference p))"
    and inv_webhook: "inv p \<Longrightarrow> inv (snd (pv_ParseWebhook P e body hs p))"
    and inv_scenario: "inv p \<Longrightarrow> pv_SetRequeryScenario P = Some setter \<Longrightarrow>
        inv (snd (setter e reference scenario p))"
    and initiate: "inv p \<Longrightarrow> fst (pv_InitiateTransfer P e request p) = Inr (Some result) \<Longrightarrow>
        valid_result (pv_Name P) result \<and>
        (TrimSpace (pq_ProviderReference request) \<noteq> [] \<longrightarrow>
           res_ProviderReference result = TrimSpace (pq_ProviderReference request))"
    and requery: "inv p \<Longrightarrow> fst (pv_RequeryTransfer P e reference p) = Inr (Some result) \<Longrightarrow>
        valid_result (pv_Name P) result \<and> res_ProviderReference result = TrimSpace reference"
begin

text \<open>The outcome the service acts on is usable whatever the call returned.\<close>

lemma outcome_valid:
  assumes "inv p" and "providerTransferReference request \<noteq> []"
  shows "valid_result (pv_Name P)
    (providerOutcome P request (fst (pv_InitiateTransfer P e request p)))"
proof -
  have ref: "TrimSpace (providerTransferReference request) = providerTransferReference request"
    by (simp add: providerTransferReference_def Let_def)
  show ?thesis
  proof (cases "fst (pv_InitiateTransfer P e request p)")
    case (Inl err)
    with assms(2) ref show ?thesis
      by (simp add: providerOutcome_def valid_result_def providerUnknownTransferResult_def
          failedProviderTransferResult_def)
  next
    case (Inr r)
    with assms ref initiate [of p e request] show ?thesis
      by (cases r) (auto simp: providerOutcome_def valid_result_def failedProviderTransferResult_def)
  qed
qed

end

end
