(* ===== verification/MockNIP.thy ===== *)
theory MockNIP
  imports Provider Fingerprint Policy
begin

text \<open>
  \<open>mock_nip_provider.go\<close>: the provider the service ships with.  Its state is the map of the transfers it
  has seen, by provider reference, and the map of the errors a requery must answer; the mutex makes
  every operation atomic.  The interpretation at the end proves that it keeps the contract of a
  provider.
\<close>

definition MockProviderScenarioSuccess :: string where
  "MockProviderScenarioSuccess = ''success''"

definition MockProviderScenarioPending :: string where
  "MockProviderScenarioPending = ''pending''"

definition MockProviderScenarioFailed :: string where
  "MockProviderScenarioFailed = ''failed''"

definition MockProviderScenarioTimeout :: string where
  "MockProviderScenarioTimeout = ''timeout''"

definition MockProviderScenarioProviderUnknown :: string where
  "MockProviderScenarioProviderUnknown = ''provider_unknown''"

definition MockProviderScenarioDuplicate :: string where
  "MockProviderScenarioDuplicate = ''duplicate''"

definition MockProviderScenarioDelayed :: string where
  "MockProviderScenarioDelayed = ''delayed''"

definition MockProviderScenarioReversal :: string where
  "MockProviderScenarioReversal = ''reversal''"

lemmas scenario_defs =
  MockProviderScenarioSuccess_def MockProviderScenarioPending_def MockProviderScenarioFailed_def
  MockProviderScenarioTimeout_def MockProviderScenarioProviderUnknown_def
  MockProviderScenarioDuplicate_def MockProviderScenarioDelayed_def MockProviderScenarioReversal_def

definition mockNIPDemoBankCode :: string where
  "mockNIPDemoBankCode = ''999001''"

definition mockNIPUnavailableBankCode :: string where
  "mockNIPUnavailableBankCode = ''999998''"

definition mockNIPDemoAccountNumber :: string where
  "mockNIPDemoAccountNumber = ''9990000001''"

definition mockNIPDemoAccountName :: string where
  "mockNIPDemoAccountName = ''Ada Demo Wallet''"

record MockNIPProvider =
  mk_transfers :: "string \<rightharpoonup> ProviderTransferResult"
  mk_requeryErrors :: "string \<rightharpoonup> error"

definition NewMockNIPProvider :: MockNIPProvider where
  "NewMockNIPProvider = \<lparr>mk_transfers = Map.empty, mk_requeryErrors = Map.empty\<rparr>"

section \<open>Helpers\<close>

definition mockScenario :: "string \<Rightarrow> string" where
  "mockScenario scenario = ToLower (TrimSpace scenario)"

definition providerReference :: "provider_env \<Rightarrow> string \<Rightarrow> string \<Rightarrow> string" where
  "providerReference e pre existing =
     (let existing = TrimSpace existing in
      if existing \<noteq> [] then existing else pre @ ''-'' @ pn_uuid e)"

text \<open>\<open>time.Duration(seconds) * time.Second\<close>, which wraps at 64 bits.\<close>

definition delayDuration :: "int \<Rightarrow> int" where
  "delayDuration seconds = int64_wrap ((if seconds \<le> 0 then 5 else seconds) * 1000000000)"

fun headerValue :: "headers \<Rightarrow> string \<Rightarrow> string" where
  "headerValue [] name = []"
| "headerValue ((k, v) # hs) name = (if EqualFold k name then TrimSpace v else headerValue hs name)"

definition isTenDigitAccountNumber :: "string \<Rightarrow> bool" where
  "isTenDigitAccountNumber accountNumber \<longleftrightarrow>
     length accountNumber = 10 \<and> (\<forall>c\<in>set accountNumber. CHR ''0'' \<le> c \<and> c \<le> CHR ''9'')"

definition scenarioStatus :: "string \<Rightarrow> string \<Rightarrow> error + string \<times> bool" where
  "scenarioStatus status scenario =
     (if scenario \<in> {MockProviderScenarioSuccess, MockProviderScenarioDuplicate, MockProviderScenarioReversal}
      then Inr (if status = [] then TransferStatusSucceeded else status, False)
      else if scenario \<in> {MockProviderScenarioPending, MockProviderScenarioProviderUnknown}
      then Inr (TransferStatusPending, False)
      else if scenario = MockProviderScenarioFailed then Inr (TransferStatusFailed, False)
      else if scenario = MockProviderScenarioDelayed
      then Inr (if status = [] then TransferStatusPending else status, True)
      else Inl ErrInvalidRequest)"

definition resolveScenario :: "string \<Rightarrow> string \<Rightarrow> string \<Rightarrow> error + string \<times> string \<times> bool" where
  "resolveScenario requestedStatus requestedFailureReason scenario0 =
     (let status = ToLower (TrimSpace requestedStatus);
          failureReason = TrimSpace requestedFailureReason;
          scenario = mockScenario scenario0;
          scenario = (if scenario = [] then MockProviderScenarioSuccess else scenario)
      in case scenarioStatus status scenario of
           Inl err \<Rightarrow> Inl err
         | Inr (status, delayed) \<Rightarrow>
             if status = TransferStatusSucceeded then Inr (status, [], delayed)
             else if status = TransferStatusPending then Inr (status, failureReason, delayed)
             else if status = TransferStatusFailed
             then Inr (status, if failureReason = [] then ''mock_provider_failed'' else failureReason, delayed)
             else Inl ErrInvalidRequest)"

text \<open>A call whose context is already done answers with the context's error.\<close>

definition ctxGuard :: "provider_env \<Rightarrow> ('p, 'a) call \<Rightarrow> ('p, 'a) call" where
  "ctxGuard e m = (case pn_ctx_err e of Some err \<Rightarrow> repoFail err | None \<Rightarrow> m)"

definition rememberTransfer :: "string \<Rightarrow> ProviderTransferResult \<Rightarrow> MockNIPProvider \<Rightarrow> MockNIPProvider" where
  "rememberTransfer reference result p = p\<lparr>mk_transfers := (mk_transfers p)(reference \<mapsto> result)\<rparr>"

definition forgetError :: "string \<Rightarrow> MockNIPProvider \<Rightarrow> MockNIPProvider" where
  "forgetError reference p = p\<lparr>mk_requeryErrors := (mk_requeryErrors p)(reference := None)\<rparr>"

section \<open>The operations\<close>

definition mockNameEnquiry ::
  "provider_env \<Rightarrow> NameEnquiryRequest \<Rightarrow> (MockNIPProvider, NameEnquiryResult option) call" where
  "mockNameEnquiry e request = ctxGuard e
     (let bankCode = TrimSpace (nq_BankCode request); accountNumber = TrimSpace (nq_AccountNumber request) in
      if bankCode = [] \<or> accountNumber = [] then repoFail ErrInvalidRequest
      else if bankCode = mockNIPUnavailableBankCode then repoFail ErrProviderUnavailable
      else if bankCode \<noteq> mockNIPDemoBankCode \<or> accountNumber \<noteq> mockNIPDemoAccountNumber
      then repoFail ErrNotFound
      else repoReturn (Some
        \<lparr>nr_Provider = ProviderMockNIP, nr_ProviderReference = providerReference e ''mock-nip-ne'' [],
         nr_AccountName = mockNIPDemoAccountName, nr_BankCode = bankCode,
         nr_AccountNumber = accountNumber\<rparr>))"

definition initiateResult ::
  "provider_env \<Rightarrow> ProviderTransferRequest \<Rightarrow> string \<Rightarrow> string \<times> string \<times> bool \<Rightarrow>
     ProviderTransferResult" where
  "initiateResult e request scenario resolved =
     (case resolved of (status, failureReason, delayed) \<Rightarrow>
      let result =
        \<lparr>res_Provider = ProviderMockNIP,
         res_ProviderReference = providerReference e ''mock-nip-out'' (pq_ProviderReference request),
         res_ProviderEventID = TrimSpace (pq_ProviderEventID request), res_Status = status,
         res_ProviderStatus = status, res_FailureReason = failureReason,
         res_Narration = TrimSpace (pq_Narration request), res_Delayed = delayed,
         res_DelayedUntil = None\<rparr>;
          result = (if scenario = MockProviderScenarioProviderUnknown
            then result\<lparr>res_ProviderStatus := TransferProviderStatusUnknown,
                        res_FailureReason := providerUnknownFailureReason\<rparr> else result)
      in if delayed
         then result\<lparr>res_DelayedUntil := Some (pn_clock e + delayDuration (pq_DelaySeconds request))\<rparr>
         else result)"

definition mockInitiateTransfer ::
  "provider_env \<Rightarrow> ProviderTransferRequest \<Rightarrow> (MockNIPProvider, ProviderTransferResult option) call" where
  "mockInitiateTransfer e request = ctxGuard e
     (if TrimSpace (pq_AccountID request) = [] \<or> pq_AmountMinor request \<le> 0 \<or>
         TrimSpace (pq_IdempotencyKey request) = [] then repoFail ErrInvalidRequest
      else let scenario = mockScenario (pq_Scenario request) in
        if scenario = MockProviderScenarioTimeout then repoFail ErrProviderStatusUnknown
        else case resolveScenario (pq_Status request) (pq_FailureReason request) scenario of
          Inl err \<Rightarrow> repoFail err
        | Inr resolved \<Rightarrow>
            let result = initiateResult e request scenario resolved in
            (\<lambda>p. (Inr (Some result), rememberTransfer (res_ProviderReference result) result p)))"

definition afterDelay :: "provider_env \<Rightarrow> ProviderTransferResult \<Rightarrow> ProviderTransferResult" where
  "afterDelay e result =
     (case res_DelayedUntil result of
        Some until \<Rightarrow>
          if res_Delayed result \<and> \<not> pn_clock e < until
          then let result = result\<lparr>res_Delayed := False, res_DelayedUntil := None\<rparr> in
               if res_Status result = TransferStatusPending
               then result\<lparr>res_Status := TransferStatusSucceeded\<rparr> else result
          else result
      | None \<Rightarrow> result)"

definition mockRequeryTransfer ::
  "provider_env \<Rightarrow> string \<Rightarrow> (MockNIPProvider, ProviderTransferResult option) call" where
  "mockRequeryTransfer e reference0 = ctxGuard e
     (let reference = TrimSpace reference0 in
      if reference = [] then repoFail ErrInvalidRequest
      else (\<lambda>p. case mk_requeryErrors p reference of
          Some err \<Rightarrow> (Inl err, p)
        | None \<Rightarrow> (case mk_transfers p reference of
            None \<Rightarrow> (Inl ErrNotFound, p)
          | Some result \<Rightarrow> (Inr (Some (afterDelay e result)), p))))"

definition scenarioResult ::
  "provider_env \<Rightarrow> string \<Rightarrow> string \<times> string \<times> bool \<Rightarrow> ProviderTransferResult \<Rightarrow>
     ProviderTransferResult" where
  "scenarioResult e scenario resolved result0 =
     (case resolved of (status, failureReason, delayed) \<Rightarrow>
      let result = result0\<lparr>res_Status := status, res_ProviderStatus := status,
            res_FailureReason := failureReason, res_Delayed := delayed, res_DelayedUntil := None\<rparr>;
          result = (if scenario = MockProviderScenarioProviderUnknown
            then result\<lparr>res_ProviderStatus := TransferProviderStatusUnknown,
                        res_FailureReason := providerUnknownFailureReason\<rparr> else result)
      in if delayed then result\<lparr>res_DelayedUntil := Some (pn_clock e + delayDuration 0)\<rparr> else result)"

definition mockSetRequeryScenario ::
  "provider_env \<Rightarrow> string \<Rightarrow> string \<Rightarrow> (MockNIPProvider, unit) call" where
  "mockSetRequeryScenario e reference0 scenario0 =
     (let reference = TrimSpace reference0; scenario = mockScenario scenario0 in
      if reference = [] \<or> scenario = [] then repoFail ErrInvalidRequest
      else if scenario = MockProviderScenarioTimeout
      then (\<lambda>p. if mk_transfers p reference = None then (Inl ErrNotFound, p)
        else (Inr (), p\<lparr>mk_requeryErrors := (mk_requeryErrors p)(reference \<mapsto> ErrProviderStatusUnknown)\<rparr>))
      else case resolveScenario [] [] scenario of
        Inl err \<Rightarrow> repoFail err
      | Inr resolved \<Rightarrow>
          (\<lambda>p. case mk_transfers p reference of
              None \<Rightarrow> (Inl ErrNotFound, p)
            | Some result \<Rightarrow> (Inr (), forgetError reference
                (rememberTransfer reference (scenarioResult e scenario resolved result) p))))"

definition rememberWebhookEvent :: "ProviderWebhookEvent \<Rightarrow> MockNIPProvider \<Rightarrow> MockNIPProvider" where
  "rememberWebhookEvent event p =
     (let reference = TrimSpace (we_ProviderReference event) in
      if reference = [] then p
      else forgetError reference (rememberTransfer reference
        \<lparr>res_Provider = ProviderMockNIP, res_ProviderReference = reference,
         res_ProviderEventID = TrimSpace (we_ProviderEventID event), res_Status = we_Status event,
         res_ProviderStatus = we_Status event, res_FailureReason = TrimSpace (we_FailureReason event),
         res_Narration = TrimSpace (we_Narration event), res_Delayed = we_Delayed event,
         res_DelayedUntil = we_DelayedUntil event\<rparr> p))"

text \<open>The event before the scenario is resolved.\<close>

definition webhookEvent ::
  "provider_env \<Rightarrow> mockWebhookPayload \<Rightarrow> headers \<Rightarrow> ProviderWebhookEvent" where
  "webhookEvent e request hs =
     (let scenario = ToLower (TrimSpace (wp_Scenario request));
          direction = ToLower (TrimSpace (wp_Direction request));
          direction = (if direction = [] then TransferDirectionInbound else direction);
          direction = (if scenario = MockProviderScenarioReversal then TransferDirectionReversal
                       else direction);
          currency = ToUpper (TrimSpace (wp_CurrencyID request))
      in \<lparr>we_Provider = firstNonBlank [wp_Provider request, ProviderMockNIP],
          we_InstitutionID = firstNonBlank
            [wp_InstitutionID request, headerValue hs ''X-Institution-ID'', DemoInstitutionID],
          we_AccountID = TrimSpace (wp_AccountID request),
          we_DestinationAccountNumber = TrimSpace (wp_DestinationAccountNumber request),
          we_Direction = direction, we_Status = [], we_AmountMinor = wp_AmountMinor request,
          we_CurrencyID = (if currency = [] then ''NGN'' else currency),
          we_IdempotencyKey = firstNonBlank
            [wp_IdempotencyKey request, headerValue hs ''Idempotency-Key''],
          we_ProviderReference = providerReference e ''mock-nip-in'' (wp_ProviderReference request),
          we_ProviderEventID = TrimSpace (wp_ProviderEventID request),
          we_ReversalOfTransferID = TrimSpace (wp_ReversalOfTransferID request),
          we_SenderName = TrimSpace (wp_SenderName request),
          we_SenderAccountNumber = TrimSpace (wp_SenderAccountNumber request),
          we_SenderInstitutionCode = TrimSpace (wp_SenderInstitutionCode request),
          we_FailureReason = TrimSpace (wp_FailureReason request),
          we_Narration = TrimSpace (wp_Narration request), we_Scenario = scenario,
          we_RequestFingerprint = [], we_Delayed = False, we_DelayedUntil = None\<rparr>)"

definition webhookEventAccepted :: "ProviderWebhookEvent \<Rightarrow> bool" where
  "webhookEventAccepted event \<longleftrightarrow>
     we_ProviderEventID event \<noteq> [] \<and>
     (if we_Direction event = TransferDirectionReversal then we_ReversalOfTransferID event \<noteq> []
      else (we_AccountID event \<noteq> [] \<or> we_DestinationAccountNumber event \<noteq> []) \<and>
           (we_DestinationAccountNumber event \<noteq> [] \<longrightarrow>
              isTenDigitAccountNumber (we_DestinationAccountNumber event)) \<and>
           0 < we_AmountMinor event)"

definition providerWebhookRequestFingerprint ::
  "externals \<Rightarrow> ProviderWebhookEvent \<Rightarrow> string \<Rightarrow> int \<Rightarrow> string" where
  "providerWebhookRequestFingerprint x event originalProviderReference delaySeconds =
     fingerprintValues x
       [''provider_webhook'', we_Provider event, we_InstitutionID event, we_AccountID event,
        we_Direction event, we_Status event, FormatInt (we_AmountMinor event), we_CurrencyID event,
        originalProviderReference, we_ProviderEventID event, we_ReversalOfTransferID event,
        we_FailureReason event, we_Scenario event, FormatInt delaySeconds]"

definition mockParseWebhook ::
  "externals \<Rightarrow> provider_env \<Rightarrow> payload \<Rightarrow> headers \<Rightarrow>
     (MockNIPProvider, ProviderWebhookEvent option) call" where
  "mockParseWebhook x e body hs = ctxGuard e
     (case body of
        None \<Rightarrow> repoFail ErrInvalidRequest
      | Some request \<Rightarrow>
          let event = webhookEvent e request hs in
          if \<not> webhookEventAccepted event then repoFail ErrInvalidRequest
          else case resolveScenario (wp_Status request) (we_FailureReason event) (we_Scenario event) of
            Inl err \<Rightarrow> repoFail err
          | Inr (status, failureReason, delayed) \<Rightarrow>
              let event = event\<lparr>we_Status := status, we_FailureReason := failureReason,
                    we_Delayed := delayed,
                    we_Narration := (if we_Narration event = [] then ''Mock NIP webhook''
                                     else we_Narration event)\<rparr>;
                  event = event\<lparr>we_RequestFingerprint := providerWebhookRequestFingerprint x event
                    (TrimSpace (wp_ProviderReference request)) (wp_DelaySeconds request)\<rparr>;
                  event = (if delayed then event\<lparr>we_DelayedUntil :=
                    Some (pn_clock e + delayDuration (wp_DelaySeconds request))\<rparr> else event)
              in (\<lambda>p. (Inr (Some event), rememberWebhookEvent event p)))"

definition mockNIP :: "externals \<Rightarrow> MockNIPProvider provider" where
  "mockNIP x =
     \<lparr>pv_Name = ProviderMockNIP, pv_NameEnquiry = mockNameEnquiry,
      pv_InitiateTransfer = mockInitiateTransfer, pv_RequeryTransfer = mockRequeryTransfer,
      pv_ParseWebhook = mockParseWebhook x, pv_SetRequeryScenario = Some mockSetRequeryScenario\<rparr>"

section \<open>The contract\<close>

lemma ctxGuard_run: "ctxGuard e m p = (case pn_ctx_err e of Some err \<Rightarrow> (Inl err, p) | None \<Rightarrow> m p)"
  by (simp add: ctxGuard_def split: option.splits)

lemma resolveScenario_status:
  "resolveScenario st fr sc = Inr (status, failureReason, delayed) \<Longrightarrow>
     status \<in> {TransferStatusSucceeded, TransferStatusPending, TransferStatusFailed}"
  by (auto simp: resolveScenario_def Let_def split: sum.splits prod.splits if_splits)

lemma resolveScenario_unknown:
  "resolveScenario st fr MockProviderScenarioProviderUnknown = Inr (status, failureReason, delayed) \<Longrightarrow>
     status = TransferStatusPending \<and> \<not> delayed"
proof -
  have "mockScenario MockProviderScenarioProviderUnknown = MockProviderScenarioProviderUnknown" by code_simp
  then show "resolveScenario st fr MockProviderScenarioProviderUnknown = Inr (status, failureReason, delayed) \<Longrightarrow>
     status = TransferStatusPending \<and> \<not> delayed"
    by (auto simp: resolveScenario_def Let_def scenarioStatus_def scenario_defs
        split: sum.splits prod.splits if_splits)
qed

text \<open>What the mock remembers of a transfer is a result the service can use.\<close>

definition mock_inv :: "MockNIPProvider \<Rightarrow> bool" where
  "mock_inv p \<longleftrightarrow>
     (\<forall>k r. mk_transfers p k = Some r \<longrightarrow>
        valid_result ProviderMockNIP r \<and> res_ProviderReference r = k \<and>
        (res_Delayed r \<longrightarrow> res_ProviderStatus r \<noteq> TransferProviderStatusUnknown))"

lemma mock_inv_new: "mock_inv NewMockNIPProvider"
  by (simp add: mock_inv_def NewMockNIPProvider_def)

lemma mock_inv_remember:
  "mock_inv p \<Longrightarrow> valid_result ProviderMockNIP r \<Longrightarrow> res_ProviderReference r = k \<Longrightarrow>
     (res_Delayed r \<longrightarrow> res_ProviderStatus r \<noteq> TransferProviderStatusUnknown) \<Longrightarrow>
     mock_inv (rememberTransfer k r p)"
  by (simp add: mock_inv_def rememberTransfer_def)

lemma mock_inv_forget [simp]: "mock_inv (forgetError k p) = mock_inv p"
  by (simp add: mock_inv_def forgetError_def)

lemma providerReference_nonblank: "TrimSpace (providerReference e ''mock-nip-out'' existing) \<noteq> []"
proof -
  have "TrimSpace (CHR ''m'' # ''ock-nip-out-'' @ pn_uuid e) \<noteq> []"
    by (rule TrimSpace_keeps_head) (auto simp: space_runes_def)
  then show ?thesis by (simp add: providerReference_def Let_def)
qed

text \<open>The result of an initiated transfer.\<close>

lemma initiateResult_ok:
  fixes e :: provider_env and request :: ProviderTransferRequest
  assumes "resolveScenario st fr scenario = Inr (status, failureReason, delayed)"
  defines "r \<equiv> initiateResult e request scenario (status, failureReason, delayed)"
  shows "valid_result ProviderMockNIP r"
    and "res_Delayed r \<longrightarrow> res_ProviderStatus r \<noteq> TransferProviderStatusUnknown"
    and "TrimSpace (pq_ProviderReference request) \<noteq> [] \<longrightarrow>
      res_ProviderReference r = TrimSpace (pq_ProviderReference request)"
proof -
  have st: "status \<in> {TransferStatusSucceeded, TransferStatusPending, TransferStatusFailed}"
    using resolveScenario_status [OF assms(1)] .
  have u: "scenario = MockProviderScenarioProviderUnknown \<longrightarrow> status = TransferStatusPending \<and> \<not> delayed"
    using assms(1) resolveScenario_unknown by blast
  show "valid_result ProviderMockNIP r"
    using st u by (auto simp: r_def initiateResult_def valid_result_def providerReference_nonblank Let_def)
  show "res_Delayed r \<longrightarrow> res_ProviderStatus r \<noteq> TransferProviderStatusUnknown"
    using st u by (auto simp: r_def initiateResult_def Let_def)
  show "TrimSpace (pq_ProviderReference request) \<noteq> [] \<longrightarrow>
      res_ProviderReference r = TrimSpace (pq_ProviderReference request)"
    by (simp add: r_def initiateResult_def Let_def providerReference_def)
qed

lemma mockInitiate_cases:
  assumes "mockInitiateTransfer e request p = (r, p')"
  shows "p' = p \<and> (\<forall>v. r \<noteq> Inr v) \<or>
    (\<exists>st fr sc status failureReason delayed. resolveScenario st fr sc = Inr (status, failureReason, delayed) \<and>
       r = Inr (Some (initiateResult e request sc (status, failureReason, delayed))) \<and>
       p' = rememberTransfer (res_ProviderReference (initiateResult e request sc (status, failureReason, delayed)))
         (initiateResult e request sc (status, failureReason, delayed)) p)"
proof (cases "pn_ctx_err e")
  case (Some err)
  with assms show ?thesis by (auto simp: mockInitiateTransfer_def ctxGuard_run)
next
  case None
  define sc where "sc = mockScenario (pq_Scenario request)"
  show ?thesis
  proof (cases "resolveScenario (pq_Status request) (pq_FailureReason request) sc")
    case (Inl err)
    with None assms show ?thesis
      by (auto simp: mockInitiateTransfer_def ctxGuard_run Let_def sc_def split: if_splits)
  next
    case (Inr resolved)
    obtain a b c where abc: "resolved = (a, b, c)" by (cases resolved) auto
    with Inr have run: "resolveScenario (pq_Status request) (pq_FailureReason request) sc = Inr (a, b, c)" by simp
    from None assms Inr abc have "p' = p \<and> (\<forall>v. r \<noteq> Inr v) \<or>
       (r = Inr (Some (initiateResult e request sc (a, b, c))) \<and>
        p' = rememberTransfer (res_ProviderReference (initiateResult e request sc (a, b, c)))
          (initiateResult e request sc (a, b, c)) p)"
      by (auto simp: mockInitiateTransfer_def ctxGuard_run Let_def sc_def split: if_splits)
    with run show ?thesis by blast
  qed
qed

lemma afterDelay_reference [simp]: "res_ProviderReference (afterDelay e r) = res_ProviderReference r"
  by (auto simp: afterDelay_def Let_def split: option.splits)

lemma afterDelay_ok:
  assumes "valid_result name r" and "res_Delayed r \<longrightarrow> res_ProviderStatus r \<noteq> TransferProviderStatusUnknown"
  shows "valid_result name (afterDelay e r)"
  using assms by (auto simp: afterDelay_def valid_result_def Let_def split: option.splits)

lemma scenarioResult_ok:
  fixes e :: provider_env
  assumes "resolveScenario st fr sc = Inr (status, failureReason, delayed)" "valid_result name r"
  defines "r' \<equiv> scenarioResult e sc (status, failureReason, delayed) r"
  shows "valid_result name r' \<and> res_ProviderReference r' = res_ProviderReference r \<and>
    (res_Delayed r' \<longrightarrow> res_ProviderStatus r' \<noteq> TransferProviderStatusUnknown)"
proof -
  have st: "status \<in> {TransferStatusSucceeded, TransferStatusPending, TransferStatusFailed}"
    using resolveScenario_status [OF assms(1)] .
  have u: "sc = MockProviderScenarioProviderUnknown \<longrightarrow> status = TransferStatusPending \<and> \<not> delayed"
    using assms(1) resolveScenario_unknown by blast
  show ?thesis
    using assms(2) st u by (auto simp: r'_def scenarioResult_def valid_result_def Let_def)
qed

lemma mock_inv_scenario:
  assumes "mock_inv p"
  shows "mock_inv (snd (mockSetRequeryScenario e reference scenario p))"
proof -
  define ref where "ref = TrimSpace reference"
  define sc where "sc = mockScenario scenario"
  have setp: "mock_inv (p\<lparr>mk_requeryErrors := m\<rparr>)" for m
    using assms by (simp add: mock_inv_def)
  have "mock_inv (forgetError ref (rememberTransfer ref (scenarioResult e sc v r) p))"
    if "resolveScenario [] [] sc = Inr v" "mk_transfers p ref = Some r" for v r
  proof -
    obtain a b c where v: "v = (a, b, c)" by (cases v) auto
    from assms that(2) have r: "valid_result ProviderMockNIP r" "res_ProviderReference r = ref"
      by (simp_all add: mock_inv_def)
    show ?thesis
      using scenarioResult_ok [OF that(1) [unfolded v] r(1), of e] r(2) v
      by (auto intro: mock_inv_remember [OF assms])
  qed
  then show ?thesis
    using assms setp
    by (auto simp: mockSetRequeryScenario_def Let_def ref_def [symmetric] sc_def [symmetric]
        split: sum.splits option.splits)
qed

lemma mock_inv_webhook:
  assumes "mock_inv p"
  shows "mock_inv (snd (mockParseWebhook x e body hs p))"
proof -
  have keep: "mock_inv (rememberWebhookEvent event p)"
    if "we_Status event \<in> {TransferStatusSucceeded, TransferStatusPending, TransferStatusFailed}" for event
  proof (cases "TrimSpace (we_ProviderReference event) = []")
    case False
    with that show ?thesis
      by (simp add: rememberWebhookEvent_def Let_def)
        (rule mock_inv_remember [OF assms]; auto simp: valid_result_def)
  qed (simp add: rememberWebhookEvent_def assms)
  show ?thesis
    using assms
    by (auto simp: mockParseWebhook_def ctxGuard_run Let_def split: option.splits sum.splits prod.splits
        intro!: keep dest: resolveScenario_status)
qed

interpretation mock: transfer_provider "mockNIP x" mock_inv for x
proof (unfold_locales, goal_cases)
  case (1)
  have "TrimSpace ProviderMockNIP = ProviderMockNIP" by code_simp
  then show ?case by (simp add: mockNIP_def)
next
  case (2)
  show ?case by (simp add: mockNIP_def)
next
  case (3 p e q)
  then show ?case
    by (auto simp: mockNIP_def mockNameEnquiry_def ctxGuard_run Let_def split: option.splits)
next
  case (4 p e request)
  obtain r p' where run: "mockInitiateTransfer e request p = (r, p')" by fastforce
  from mockInitiate_cases [OF run] show ?case
    using 4 run initiateResult_ok by (auto simp: mockNIP_def intro!: mock_inv_remember)
next
  case (5 p e reference)
  then show ?case
    by (auto simp: mockNIP_def mockRequeryTransfer_def ctxGuard_run Let_def split: option.splits)
next
  case (6 p e body hs)
  then show ?case by (simp add: mockNIP_def mock_inv_webhook)
next
  case (7 p setter e reference scenario)
  then show ?case by (auto simp: mockNIP_def mock_inv_scenario)
next
  case (8 p e request result)
  obtain r p' where run: "mockInitiateTransfer e request p = (r, p')" by fastforce
  from mockInitiate_cases [OF run] show ?case
    using 8 run initiateResult_ok by (auto simp: mockNIP_def)
next
  case (9 p e reference result)
  then show ?case
    by (auto simp: mockNIP_def mockRequeryTransfer_def ctxGuard_run Let_def mock_inv_def
        afterDelay_ok split: option.splits if_splits)
qed

end
