(* ===== verification/Service.thy ===== *)
theory Service
  imports Runs MockNIP
begin

text \<open>
  \<open>service.go\<close>: the operations behind the HTTP handlers.  A service call runs on the world, the store
  together with the state of the providers; each database transaction and each provider call it makes
  is one step, and what was committed stays when a later step fails.
\<close>

section \<open>Calls on the world\<close>

type_synonym 'p world = "store \<times> 'p"

type_synonym 'p service = "string \<rightharpoonup> 'p provider"

text \<open>What a service call reads: the environment of its k-th transaction and of its k-th provider call.\<close>

record svc_env =
  se_tx :: "nat \<Rightarrow> env"
  se_provider :: "nat \<Rightarrow> provider_env"

definition onStore :: "'a repo \<Rightarrow> ('p world, 'a) call" where
  "onStore m = (\<lambda>(s, p). case m s of (r, s') \<Rightarrow> (r, (s', p)))"

definition onProvider :: "('p, 'a) call \<Rightarrow> ('p world, 'a) call" where
  "onProvider m = (\<lambda>(s, p). case m p of (r, p') \<Rightarrow> (r, (s, p')))"

lemma onStore_run [simp]: "onStore m (s, p) = (fst (m s), (snd (m s), p))"
  by (simp add: onStore_def split: prod.splits)

lemma onProvider_run [simp]: "onProvider m (s, p) = (fst (m p), (s, snd (m p)))"
  by (simp add: onProvider_def split: prod.splits)

definition NewService :: "'p provider option list \<Rightarrow> 'p service" where
  "NewService providers =
     foldl (\<lambda>m provider. case provider of None \<Rightarrow> m | Some p \<Rightarrow> m(pv_Name p \<mapsto> p)) Map.empty providers"

definition serviceProvider :: "'p service \<Rightarrow> string \<Rightarrow> error + 'p provider" where
  "serviceProvider sv name0 =
     (let name = TrimSpace name0 in
      if name = [] then Inl ErrInvalidRequest
      else case sv name of None \<Rightarrow> Inl ErrUnsupportedProvider | Some provider \<Rightarrow> Inr provider)"

section \<open>Validation\<close>

definition requireInstitutionID :: "string \<Rightarrow> error + string" where
  "requireInstitutionID institutionID =
     (let institutionID = TrimSpace institutionID in
      if institutionID = [] then Inl ErrInvalidRequest else Inr institutionID)"

definition institutionIDOrDemo :: "string \<Rightarrow> string" where
  "institutionIDOrDemo institutionID =
     (let institutionID = TrimSpace institutionID in
      if institutionID = [] then DemoInstitutionID else institutionID)"

definition validLedgerStatus :: "string \<Rightarrow> bool" where
  "validLedgerStatus status \<longleftrightarrow>
     status \<in> {LedgerStatusPending, LedgerStatusPosted, LedgerStatusNoPosting, LedgerStatusReversalDeficit}"

definition validReconciliationStatus :: "string \<Rightarrow> bool" where
  "validReconciliationStatus status \<longleftrightarrow>
     status \<in> {ReconciliationStatusPending, ReconciliationStatusMatched, ReconciliationStatusNoAction,
       ReconciliationStatusManualReview}"

definition validReconciliationReviewStatus :: "string \<Rightarrow> bool" where
  "validReconciliationReviewStatus status \<longleftrightarrow>
     status \<in> {ReconciliationReviewStatusReviewed, ReconciliationReviewStatusResolvedNoAction,
       ReconciliationReviewStatusManualFollowupRequired}"

definition validCustomerAccountProduct :: "string \<Rightarrow> bool" where
  "validCustomerAccountProduct productType \<longleftrightarrow>
     productType \<in> {AccountProductStandardWallet, AccountProductStandardSavings,
       AccountProductStandardCurrent}"

definition validInternalSettlementAccount :: "Account \<Rightarrow> string \<Rightarrow> string \<Rightarrow> bool" where
  "validInternalSettlementAccount account institutionID currencyID \<longleftrightarrow>
     acc_InstitutionID account = institutionID \<and> acc_Kind account = AccountKindInternal \<and>
     acc_ProductType account = AccountProductInternal \<and> acc_AllowNegative account \<and>
     acc_CurrencyID account = currencyID \<and> acc_NormalBalance account = NormalBalanceDebit \<and>
     acc_Status account = AccountStatusActive"

definition validDebitCustomerAccount :: "Account \<Rightarrow> string \<Rightarrow> string \<Rightarrow> bool" where
  "validDebitCustomerAccount account institutionID currencyID \<longleftrightarrow>
     acc_InstitutionID account = institutionID \<and> acc_Kind account = AccountKindCustomer \<and>
     acc_CurrencyID account = currencyID \<and> acc_NormalBalance account = NormalBalanceCredit \<and>
     acc_Status account = AccountStatusActive"

definition validCreditCustomerAccount :: "Account \<Rightarrow> string \<Rightarrow> string \<Rightarrow> bool" where
  "validCreditCustomerAccount account institutionID currencyID \<longleftrightarrow>
     acc_InstitutionID account = institutionID \<and> acc_Kind account = AccountKindCustomer \<and>
     acc_CurrencyID account = currencyID \<and> acc_NormalBalance account = NormalBalanceCredit \<and>
     (acc_Status account = AccountStatusActive \<or> acc_Status account = AccountStatusPostNoDebit)"

text \<open>\<open>strings.TrimSpace\<close>, then \<open>uuid.Parse\<close>.\<close>

definition parsedID :: "externals \<Rightarrow> string \<Rightarrow> error + string" where
  "parsedID x v = (let v = TrimSpace v in if ext_uuid_valid x v then Inr v else Inl ErrInvalidRequest)"

definition requiredID :: "string \<Rightarrow> error + string" where
  "requiredID v = (let v = TrimSpace v in if v = [] then Inl ErrInvalidRequest else Inr v)"

section \<open>Customers and accounts\<close>

definition normalizeCustomerInput :: "string \<Rightarrow> CreateCustomerInput \<Rightarrow> CreateCustomerInput" where
  "normalizeCustomerInput institutionID input =
     input\<lparr>cci_InstitutionID := institutionID, cci_BranchID := TrimSpace (cci_BranchID input),
       cci_CustomerType := ToLower (TrimSpace (cci_CustomerType input)),
       cci_FirstName := TrimSpace (cci_FirstName input), cci_LastName := TrimSpace (cci_LastName input),
       cci_BusinessName := TrimSpace (cci_BusinessName input),
       cci_Email := ToLower (TrimSpace (cci_Email input)), cci_Phone := TrimSpace (cci_Phone input)\<rparr>"

definition customerNames :: "CreateCustomerInput \<Rightarrow> error + CreateCustomerInput" where
  "customerNames input =
     (if cci_CustomerType input = CustomerTypeIndividual
      then if cci_FirstName input = [] \<or> cci_LastName input = [] then Inl ErrInvalidRequest
           else Inr (input\<lparr>cci_BusinessName := []\<rparr>)
      else if cci_CustomerType input = CustomerTypeBusiness
      then if cci_BusinessName input = [] then Inl ErrInvalidRequest else Inr input
      else Inl ErrInvalidRequest)"

definition validateCustomer :: "externals \<Rightarrow> CreateCustomerInput \<Rightarrow> error + CreateCustomerInput" where
  "validateCustomer x input0 =
     (case requireInstitutionID (cci_InstitutionID input0) of Inl err \<Rightarrow> Inl err
      | Inr institutionID \<Rightarrow>
        (let input = normalizeCustomerInput institutionID input0 in
         if cci_BranchID input = [] then Inl ErrInvalidRequest
         else case customerNames input of Inl err \<Rightarrow> Inl err
         | Inr input \<Rightarrow>
             if cci_Email input \<noteq> [] \<and> ext_mail_address x (cci_Email input) \<noteq> Some (cci_Email input)
             then Inl ErrInvalidRequest
             else Inr (input\<lparr>cci_kycTier := CustomerKYCTier1,
               cci_bvnStatus := CustomerIdentityStatusNotCollected,
               cci_ninStatus := CustomerIdentityStatusNotCollected\<rparr>)))"

definition svcCreateCustomer :: "svc_env \<Rightarrow> externals \<Rightarrow> CreateCustomerInput \<Rightarrow> ('p world, Customer) call" where
  "svcCreateCustomer e x input =
     repoBind (repoLift (validateCustomer x input)) (\<lambda>input. onStore (CreateCustomer (se_tx e 0) input))"

definition svcGetCustomer :: "string \<Rightarrow> string \<Rightarrow> ('p world, Customer) call" where
  "svcGetCustomer institutionID customerID =
     repoBind (repoLift (requireInstitutionID institutionID)) (\<lambda>institutionID.
     repoBind (repoLift (requiredID customerID)) (\<lambda>customerID.
     onStore (GetCustomer institutionID customerID)))"

definition validateAccount :: "externals \<Rightarrow> CreateAccountInput \<Rightarrow> error + CreateAccountInput" where
  "validateAccount x input0 =
     (case requireInstitutionID (cai_InstitutionID input0) of Inl err \<Rightarrow> Inl err
      | Inr institutionID \<Rightarrow>
        (let product = ToLower (TrimSpace (cai_ProductType input0));
             currency = ToUpper (TrimSpace (cai_CurrencyID input0));
             input = input0\<lparr>cai_InstitutionID := institutionID,
               cai_CustomerID := TrimSpace (cai_CustomerID input0),
               cai_AccountNumber := TrimSpace (cai_AccountNumber input0),
               cai_Name := TrimSpace (cai_Name input0),
               cai_ProductType := (if product = [] then AccountProductStandardWallet else product),
               cai_CurrencyID := (if currency = [] then ''NGN'' else currency)\<rparr>
         in if \<not> ext_uuid_valid x (cai_CustomerID input) \<or> cai_Name input = [] \<or>
               \<not> isTenDigitAccountNumber (cai_AccountNumber input) \<or>
               \<not> validCustomerAccountProduct (cai_ProductType input) \<or>
               cai_CurrencyID input \<noteq> ''NGN'' \<or> cai_AllowNegativeBalance input
            then Inl ErrInvalidRequest else Inr input))"

definition svcCreateAccount :: "svc_env \<Rightarrow> externals \<Rightarrow> CreateAccountInput \<Rightarrow> ('p world, Account) call" where
  "svcCreateAccount e x input =
     repoBind (repoLift (validateAccount x input)) (\<lambda>input. onStore (CreateAccount (se_tx e 0) input))"

definition svcGetAccount :: "string \<Rightarrow> string \<Rightarrow> ('p world, Account) call" where
  "svcGetAccount institutionID accountID =
     repoBind (repoLift (requireInstitutionID institutionID)) (\<lambda>institutionID.
     repoBind (repoLift (requiredID accountID)) (\<lambda>accountID.
     onStore (GetAccount institutionID accountID)))"

definition svcListCustomerAccounts :: "string \<Rightarrow> string \<Rightarrow> ('p world, Account list) call" where
  "svcListCustomerAccounts institutionID customerID =
     repoBind (repoLift (requireInstitutionID institutionID)) (\<lambda>institutionID.
     repoBind (repoLift (requiredID customerID)) (\<lambda>customerID.
     onStore (ListAccountsByCustomer institutionID customerID)))"

definition svcGetBalance :: "externals \<Rightarrow> string \<Rightarrow> string \<Rightarrow> ('p world, AccountBalance) call" where
  "svcGetBalance x institutionID accountID =
     repoBind (repoLift (requireInstitutionID institutionID)) (\<lambda>institutionID.
     repoBind (repoLift (parsedID x accountID)) (\<lambda>accountID.
     onStore (GetBalance institutionID accountID)))"

section \<open>Internal money\<close>

definition narrationOr :: "string \<Rightarrow> string \<Rightarrow> string" where
  "narrationOr narration dflt = (let narration = TrimSpace narration in if narration = [] then dflt else narration)"

text \<open>The identifiers and amounts the three operations check in the same way.\<close>

definition moneyChecks :: "externals \<Rightarrow> int \<Rightarrow> string \<Rightarrow> string \<Rightarrow> string list \<Rightarrow> bool" where
  "moneyChecks x amountMinor idempotencyKey currencyID ids \<longleftrightarrow>
     0 < amountMinor \<and> idempotencyKey \<noteq> [] \<and> currencyID = ''NGN'' \<and> list_all (ext_uuid_valid x) ids"

definition settlementAccount :: "string \<Rightarrow> string \<Rightarrow> string \<Rightarrow> Account repo" where
  "settlementAccount institutionID accountID currencyID =
     (if accountID = [] then GetDefaultInternalSettlementAccount institutionID currencyID
      else GetAccount institutionID accountID)"

definition internalInput ::
  "string \<Rightarrow> Account \<Rightarrow> Account \<Rightarrow> string \<Rightarrow> int \<Rightarrow> string \<Rightarrow> string \<Rightarrow> string \<Rightarrow> string \<Rightarrow> bool \<Rightarrow> bool \<Rightarrow>
     RecordTransferInput" where
  "internalInput institutionID account clearing direction amountMinor currencyID idempotencyKey reference
     narration rejectInsufficient requireAvailable =
     \<lparr>in_InstitutionID = institutionID, in_AccountID = acc_ID account,
      in_ClearingAccountID = acc_ID clearing, in_Direction = direction,
      in_Status = TransferStatusSucceeded, in_AmountMinor = amountMinor, in_CurrencyID = currencyID,
      in_IdempotencyKey = idempotencyKey, in_Provider = ProviderLedgerInternal,
      in_ProviderReference = reference, in_ProviderEventID = [],
      in_ProviderStatus = TransferStatusSucceeded, in_ReversalOfTransferID = [],
      in_RequestFingerprint = [], in_FailureReason = [], in_Narration = narration,
      in_RejectInsufficient = rejectInsufficient, in_RequireAvailable = requireAvailable\<rparr>"

definition svcInternalCredit :: "svc_env \<Rightarrow> externals \<Rightarrow> InternalCreditInput \<Rightarrow> ('p world, Transfer) call" where
  "svcInternalCredit e x input =
     repoBind (repoLift (requireInstitutionID (ici_InstitutionID input))) (\<lambda>institutionID.
     let accountID = TrimSpace (ici_AccountID input); sourceID = TrimSpace (ici_SourceAccountID input);
         currencyID = ToUpper (TrimSpace (ici_CurrencyID input));
         idempotencyKey = TrimSpace (ici_IdempotencyKey input)
     in
     repoBind (repoEnsure (moneyChecks x (ici_AmountMinor input) idempotencyKey currencyID
         (accountID # (if sourceID \<noteq> [] then [sourceID] else []))) ErrInvalidRequest) (\<lambda>_.
     repoBind (onStore (GetAccount institutionID accountID)) (\<lambda>account.
     repoBind (repoEnsure (validCreditCustomerAccount account institutionID currencyID) ErrInvalidRequest) (\<lambda>_.
     repoBind (onStore (settlementAccount institutionID sourceID currencyID)) (\<lambda>source.
     repoBind (repoEnsure (validInternalSettlementAccount source institutionID currencyID) ErrInvalidRequest) (\<lambda>_.
     onStore (RecordTransfer (se_tx e 0) x
       (internalInput institutionID account source TransferDirectionInbound (ici_AmountMinor input)
         currencyID idempotencyKey (TrimSpace (ici_Reference input))
         (narrationOr (ici_Narration input) ''Internal credit'') False False))))))))"

definition svcInternalDebit :: "svc_env \<Rightarrow> externals \<Rightarrow> InternalDebitInput \<Rightarrow> ('p world, Transfer) call" where
  "svcInternalDebit e x input =
     repoBind (repoLift (requireInstitutionID (idi_InstitutionID input))) (\<lambda>institutionID.
     let accountID = TrimSpace (idi_AccountID input);
         destinationID = TrimSpace (idi_DestinationAccountID input);
         currencyID = ToUpper (TrimSpace (idi_CurrencyID input));
         idempotencyKey = TrimSpace (idi_IdempotencyKey input)
     in
     repoBind (repoEnsure (moneyChecks x (idi_AmountMinor input) idempotencyKey currencyID
         (accountID # (if destinationID \<noteq> [] then [destinationID] else []))) ErrInvalidRequest) (\<lambda>_.
     repoBind (onStore (GetAccount institutionID accountID)) (\<lambda>account.
     repoBind (repoEnsure (validDebitCustomerAccount account institutionID currencyID) ErrInvalidRequest) (\<lambda>_.
     repoBind (onStore (settlementAccount institutionID destinationID currencyID)) (\<lambda>destination.
     repoBind (repoEnsure (validInternalSettlementAccount destination institutionID currencyID)
         ErrInvalidRequest) (\<lambda>_.
     onStore (RecordTransfer (se_tx e 0) x
       (internalInput institutionID account destination TransferDirectionOutbound (idi_AmountMinor input)
         currencyID idempotencyKey (TrimSpace (idi_Reference input))
         (narrationOr (idi_Narration input) ''Internal debit'') True False))))))))"

definition svcInternalTransfer ::
  "svc_env \<Rightarrow> externals \<Rightarrow> InternalTransferInput \<Rightarrow> ('p world, Transfer) call" where
  "svcInternalTransfer e x input =
     repoBind (repoLift (requireInstitutionID (iti_InstitutionID input))) (\<lambda>institutionID.
     let sourceID = TrimSpace (iti_SourceAccountID input);
         destinationID = TrimSpace (iti_DestinationAccountID input);
         currencyID = ToUpper (TrimSpace (iti_CurrencyID input));
         idempotencyKey = TrimSpace (iti_IdempotencyKey input)
     in
     repoBind (repoEnsure (moneyChecks x (iti_AmountMinor input) idempotencyKey currencyID
         [sourceID, destinationID] \<and> sourceID \<noteq> destinationID) ErrInvalidRequest) (\<lambda>_.
     repoBind (onStore (GetAccount institutionID sourceID)) (\<lambda>source.
     repoBind (onStore (GetAccount institutionID destinationID)) (\<lambda>destination.
     repoBind (repoEnsure (validDebitCustomerAccount source institutionID currencyID \<and>
         validCreditCustomerAccount destination institutionID currencyID) ErrInvalidRequest) (\<lambda>_.
     onStore (RecordTransfer (se_tx e 0) x
       (internalInput institutionID source destination TransferDirectionOutbound (iti_AmountMinor input)
         currencyID idempotencyKey (TrimSpace (iti_Reference input))
         (narrationOr (iti_Narration input) ''Internal transfer'') True True)))))))"

section \<open>Queries and reviews\<close>

definition svcGetTransactions ::
  "externals \<Rightarrow> string \<Rightarrow> string \<Rightarrow> ListOptions \<Rightarrow> ('p world, Transaction list) call" where
  "svcGetTransactions x institutionID accountID options =
     repoBind (repoLift (requireInstitutionID institutionID)) (\<lambda>institutionID.
     repoBind (repoLift (parsedID x accountID)) (\<lambda>accountID.
     let before = TrimSpace (lo_BeforeID options);
         options = (if before \<noteq> [] then options\<lparr>lo_BeforeID := before\<rparr> else options)
     in
     repoBind (repoEnsure (before = [] \<or>
         (lo_BeforeCreatedAt options \<noteq> None \<and> ext_uuid_valid x before)) ErrInvalidRequest) (\<lambda>_.
     repoBind (onStore (GetAccount institutionID accountID)) (\<lambda>_.
     onStore (ListTransactions institutionID accountID (normalizeListTransactionsOptions options))))))"

definition svcGetTransfer :: "externals \<Rightarrow> string \<Rightarrow> string \<Rightarrow> ('p world, Transfer) call" where
  "svcGetTransfer x institutionID transferID =
     repoBind (repoLift (requireInstitutionID institutionID)) (\<lambda>institutionID.
     repoBind (repoLift (parsedID x transferID)) (\<lambda>transferID.
     onStore (GetTransfer institutionID transferID)))"

definition svcListTransfers :: "externals \<Rightarrow> string \<Rightarrow> ListOptions \<Rightarrow> ('p world, Transfer list) call" where
  "svcListTransfers x institutionID options =
     repoBind (repoLift (requireInstitutionID institutionID)) (\<lambda>institutionID.
     repoBind (repoLift (normalizeListTransfersOptions x options)) (\<lambda>normalized.
     onStore (ListTransfers x institutionID normalized)))"

definition filterOk :: "(string \<Rightarrow> bool) \<Rightarrow> string \<Rightarrow> bool" where
  "filterOk valid v \<longleftrightarrow> v = [] \<or> valid v"

definition normalizeListReconciliationItemsOptions ::
  "externals \<Rightarrow> ListReconciliationItemsOptions \<Rightarrow> error + ListReconciliationItemsOptions" where
  "normalizeListReconciliationItemsOptions x options0 =
     (let options = options0
        \<lparr>lo_Limit := normalizeLimit DefaultReconciliationItemLimit MaxReconciliationItemLimit (lo_Limit options0),
         lo_BeforeID := TrimSpace (lo_BeforeID options0),
         lr_Status := TrimSpace (lr_Status options0),
         lr_ProviderStatus := TrimSpace (lr_ProviderStatus options0),
         lr_LedgerStatus := TrimSpace (lr_LedgerStatus options0),
         lr_ReconciliationStatus := TrimSpace (lr_ReconciliationStatus options0),
         lr_StalePendingMinutes := (if lr_StalePendingMinutes options0 \<le> 0
           then DefaultReconciliationStalePendingMinutes else lr_StalePendingMinutes options0)\<rparr>
      in if (lo_BeforeID options \<noteq> [] \<and>
             (lo_BeforeCreatedAt options = None \<or> \<not> ext_uuid_valid x (lo_BeforeID options))) \<or>
            \<not> filterOk validTransferStatus (lr_Status options) \<or>
            \<not> filterOk validProviderStatus (lr_ProviderStatus options) \<or>
            \<not> filterOk validLedgerStatus (lr_LedgerStatus options) \<or>
            \<not> filterOk validReconciliationStatus (lr_ReconciliationStatus options)
         then Inl ErrInvalidRequest else Inr options)"

definition svcListReconciliationItems ::
  "svc_env \<Rightarrow> externals \<Rightarrow> string \<Rightarrow> ListReconciliationItemsOptions \<Rightarrow>
     ('p world, ReconciliationItem list) call" where
  "svcListReconciliationItems e x institutionID options =
     repoBind (repoLift (requireInstitutionID institutionID)) (\<lambda>institutionID.
     repoBind (repoLift (normalizeListReconciliationItemsOptions x options)) (\<lambda>normalized.
     onStore (ListReconciliationItems (se_tx e 0) institutionID normalized)))"

definition svcGetReconciliationItem ::
  "svc_env \<Rightarrow> externals \<Rightarrow> string \<Rightarrow> string \<Rightarrow> ('p world, ReconciliationItem) call" where
  "svcGetReconciliationItem e x institutionID transferID =
     repoBind (repoLift (requireInstitutionID institutionID)) (\<lambda>institutionID.
     repoBind (repoLift (parsedID x transferID)) (\<lambda>transferID.
     onStore (GetReconciliationItem (se_tx e 0) institutionID transferID)))"

definition svcMarkReconciliationItemReviewed ::
  "svc_env \<Rightarrow> externals \<Rightarrow> MarkReconciliationItemReviewedInput \<Rightarrow> ('p world, ReconciliationItem) call" where
  "svcMarkReconciliationItemReviewed e x input =
     repoBind (repoLift (requireInstitutionID (mr_InstitutionID input))) (\<lambda>institutionID.
     let resolutionNote = TrimSpace (mr_ResolutionNote input);
         resolutionStatus = TrimSpace (mr_ResolutionStatus input)
     in
     repoBind (repoLift (parsedID x (mr_TransferID input))) (\<lambda>transferID.
     repoBind (repoEnsure (resolutionNote \<noteq> [] \<and> validReconciliationReviewStatus resolutionStatus)
         ErrInvalidRequest) (\<lambda>_.
     onStore (MarkReconciliationItemReviewed (se_tx e 0)
       \<lparr>mr_InstitutionID = institutionID, mr_TransferID = transferID,
        mr_ResolutionNote = resolutionNote, mr_ResolutionStatus = resolutionStatus\<rparr>))))"

definition svcGetJournal :: "externals \<Rightarrow> string \<Rightarrow> string \<Rightarrow> ('p world, JournalWithPostings) call" where
  "svcGetJournal x institutionID journalEntryID =
     repoBind (repoLift (requireInstitutionID institutionID)) (\<lambda>institutionID.
     repoBind (repoLift (parsedID x journalEntryID)) (\<lambda>journalEntryID.
     onStore (readDB (GetJournal institutionID journalEntryID))))"

end
