(* ===== verification/ServiceProvider.thy ===== *)
theory ServiceProvider
  imports Service
begin

text \<open>
  The operations of \<open>service.go\<close> that involve a provider: the mock inbound and outbound transfers, the
  provider webhook, and reversals.
\<close>

section \<open>Reversals and webhooks\<close>

definition svcReverseTransfer ::
  "svc_env \<Rightarrow> externals \<Rightarrow> string \<Rightarrow> string \<Rightarrow> string \<Rightarrow> ('p world, Transfer) call" where
  "svcReverseTransfer e x institutionID transferID idempotencyKey =
     repoBind (repoLift (requiredID idempotencyKey)) (\<lambda>idempotencyKey.
     repoBind (repoLift (requireInstitutionID institutionID)) (\<lambda>institutionID.
     repoBind (repoLift (parsedID x transferID)) (\<lambda>transferID.
     onStore (ReverseTransfer (se_tx e 0) x
       \<lparr>rt_InstitutionID = institutionID, rt_TransferID = transferID, rt_IdempotencyKey = idempotencyKey,
        rt_Provider = [], rt_ProviderReference = [], rt_ProviderEventID = [], rt_FailureReason = [],
        rt_Narration = []\<rparr>))))"

definition normalizeWebhookEvent :: "ProviderWebhookEvent \<Rightarrow> error + ProviderWebhookEvent" where
  "normalizeWebhookEvent event0 =
     (if TrimSpace (we_Provider event0) = [] then Inl ErrInvalidRequest
      else case requireInstitutionID (we_InstitutionID event0) of Inl err \<Rightarrow> Inl err
      | Inr institutionID \<Rightarrow>
        (let status = ToLower (TrimSpace (we_Status event0));
             currency = ToUpper (TrimSpace (we_CurrencyID event0));
             event = event0\<lparr>we_Provider := TrimSpace (we_Provider event0),
               we_InstitutionID := institutionID,
               we_Direction := ToLower (TrimSpace (we_Direction event0)),
               we_Status := (if status = [] then TransferStatusSucceeded else status),
               we_CurrencyID := (if currency = [] then ''NGN'' else currency),
               we_IdempotencyKey := TrimSpace (we_IdempotencyKey event0),
               we_ProviderEventID := TrimSpace (we_ProviderEventID event0),
               we_ProviderReference := TrimSpace (we_ProviderReference event0),
               we_FailureReason := TrimSpace (we_FailureReason event0),
               we_Narration := narrationOr (we_Narration event0) ''Provider webhook''\<rparr>
         in if we_IdempotencyKey event = [] \<or> we_ProviderEventID event = [] \<or>
               \<not> validTransferStatus (we_Status event)
            then Inl ErrInvalidRequest else Inr event))"

definition webhookReversalInput :: "ProviderWebhookEvent \<Rightarrow> string \<Rightarrow> ReverseTransferInput" where
  "webhookReversalInput event originalID =
     \<lparr>rt_InstitutionID = we_InstitutionID event, rt_TransferID = originalID,
      rt_IdempotencyKey = we_IdempotencyKey event, rt_Provider = we_Provider event,
      rt_ProviderReference = we_ProviderReference event, rt_ProviderEventID = we_ProviderEventID event,
      rt_FailureReason = we_FailureReason event, rt_Narration = we_Narration event\<rparr>"

definition webhookTransferInput :: "ProviderWebhookEvent \<Rightarrow> Account \<Rightarrow> RecordTransferInput" where
  "webhookTransferInput event clearing =
     \<lparr>in_InstitutionID = we_InstitutionID event, in_AccountID = we_AccountID event,
      in_ClearingAccountID = acc_ID clearing, in_Direction = we_Direction event,
      in_Status = we_Status event, in_AmountMinor = we_AmountMinor event,
      in_CurrencyID = we_CurrencyID event, in_IdempotencyKey = we_IdempotencyKey event,
      in_Provider = we_Provider event, in_ProviderReference = we_ProviderReference event,
      in_ProviderEventID = we_ProviderEventID event, in_ProviderStatus = [],
      in_ReversalOfTransferID = [], in_RequestFingerprint = we_RequestFingerprint event,
      in_FailureReason = we_FailureReason event, in_Narration = we_Narration event,
      in_RejectInsufficient = False, in_RequireAvailable = False\<rparr>"

definition recordProviderWebhookEvent ::
  "svc_env \<Rightarrow> externals \<Rightarrow> ProviderWebhookEvent \<Rightarrow> ('p world, Transfer) call" where
  "recordProviderWebhookEvent e x event0 =
     repoBind (repoLift (normalizeWebhookEvent event0)) (\<lambda>event.
     if we_Direction event = TransferDirectionReversal
     then repoBind (repoLift (parsedID x (we_ReversalOfTransferID event))) (\<lambda>originalID.
       onStore (ReverseTransfer (se_tx e 0) x (webhookReversalInput event originalID)))
     else
       repoBind (repoEnsure ((we_Direction event = TransferDirectionInbound \<or>
           we_Direction event = TransferDirectionOutbound) \<and>
           we_AccountID event \<noteq> [] \<and> 0 < we_AmountMinor event) ErrInvalidRequest) (\<lambda>_.
       repoBind (onStore (GetDefaultInternalSettlementAccount (we_InstitutionID event)
           (we_CurrencyID event))) (\<lambda>clearing.
       onStore (RecordTransfer (se_tx e 0) x (webhookTransferInput event clearing)))))"

text \<open>A nil event would be dereferenced: the service panics, which is the error of the last branch.\<close>

definition panic :: error where
  "panic = SQLError ''nil pointer dereference''"

definition svcMockProviderWebhook ::
  "'p service \<Rightarrow> svc_env \<Rightarrow> externals \<Rightarrow> string \<Rightarrow> payload \<Rightarrow> headers \<Rightarrow> ('p world, Transfer) call" where
  "svcMockProviderWebhook sv e x providerName body hs =
     repoBind (repoLift (serviceProvider sv providerName)) (\<lambda>provider.
     repoBind (onProvider (pv_ParseWebhook provider (se_provider e 0) body hs)) (\<lambda>event.
     case event of None \<Rightarrow> repoFail panic
     | Some event \<Rightarrow> recordProviderWebhookEvent e x event))"

text \<open>
  \<open>MockInbound\<close> marshals the request and the provider unmarshals it again; the two structs share these
  JSON fields.
\<close>

definition payloadOfRequest :: "TransferRequest \<Rightarrow> mockWebhookPayload" where
  "payloadOfRequest req =
     \<lparr>wp_InstitutionID = req_InstitutionID req, wp_Provider = [], wp_AccountID = req_AccountID req,
      wp_DestinationAccountNumber = [], wp_Direction = [], wp_Status = req_Status req,
      wp_AmountMinor = req_AmountMinor req, wp_CurrencyID = req_CurrencyID req,
      wp_IdempotencyKey = req_IdempotencyKey req, wp_ProviderReference = req_ProviderReference req,
      wp_ProviderEventID = req_ProviderEventID req, wp_ReversalOfTransferID = [], wp_SenderName = [],
      wp_SenderAccountNumber = [], wp_SenderInstitutionCode = [], wp_FailureReason = [],
      wp_Narration = req_Narration req, wp_Scenario = req_Scenario req,
      wp_DelaySeconds = req_DelaySeconds req\<rparr>"

definition svcMockInbound ::
  "'p service \<Rightarrow> svc_env \<Rightarrow> externals \<Rightarrow> TransferRequest \<Rightarrow> ('p world, Transfer) call" where
  "svcMockInbound sv e x req =
     svcMockProviderWebhook sv e x ProviderMockNIP (Some (payloadOfRequest req))
       ((if req_InstitutionID req \<noteq> [] then [(''X-Institution-ID'', req_InstitutionID req)] else []) @
        (if req_IdempotencyKey req \<noteq> [] then [(''Idempotency-Key'', req_IdempotencyKey req)] else []))"

section \<open>Outbound transfers through the mock\<close>

definition normalizeTransferRequest :: "TransferRequest \<Rightarrow> error + TransferRequest" where
  "normalizeTransferRequest req0 =
     (let status = ToLower (TrimSpace (req_Status req0));
          currency = ToUpper (TrimSpace (req_CurrencyID req0));
          req = req0\<lparr>req_InstitutionID := institutionIDOrDemo (req_InstitutionID req0),
            req_AccountID := TrimSpace (req_AccountID req0),
            req_CurrencyID := (if currency = [] then ''NGN'' else currency),
            req_IdempotencyKey := TrimSpace (req_IdempotencyKey req0),
            req_ProviderEventID := TrimSpace (req_ProviderEventID req0),
            req_ProviderReference := TrimSpace (req_ProviderReference req0),
            req_Status := (if status = [] then TransferStatusSucceeded else status),
            req_Narration := narrationOr (req_Narration req0) ''Mock transfer''\<rparr>
      in if req_AccountID req = [] \<or> req_AmountMinor req \<le> 0 \<or> req_IdempotencyKey req = [] \<or>
            \<not> validTransferStatus (req_Status req)
         then Inl ErrInvalidRequest else Inr req)"

text \<open>The statuses \<open>recordProviderTransfer\<close> reads from a result, with those of the request as default.\<close>

definition resultStatuses :: "string \<Rightarrow> ProviderTransferResult \<Rightarrow> error + string \<times> string" where
  "resultStatuses requestStatus result =
     (let status = ToLower (TrimSpace (res_Status result));
          providerStatus = ToLower (TrimSpace (res_ProviderStatus result));
          providerStatus = (if status = TransferProviderStatusUnknown
            then TransferProviderStatusUnknown else providerStatus);
          status = (if status = TransferProviderStatusUnknown \<or>
              providerStatus = TransferProviderStatusUnknown then TransferStatusPending else status);
          status = (if status = [] then requestStatus else status);
          providerStatus = (if providerStatus = [] then status else providerStatus)
      in if \<not> validTransferStatus status \<or> \<not> validProviderStatus providerStatus
         then Inl ErrInvalidRequest else Inr (status, providerStatus))"

definition blankOr :: "string \<Rightarrow> string \<Rightarrow> string" where
  "blankOr v dflt = (let v = TrimSpace v in if v = [] then dflt else v)"

definition recordProviderTransfer ::
  "svc_env \<Rightarrow> externals \<Rightarrow> string \<Rightarrow> TransferRequest \<Rightarrow> ProviderTransferResult \<Rightarrow> string \<Rightarrow>
     ('p world, Transfer) call" where
  "recordProviderTransfer e x direction req result requestFingerprint =
     repoBind (repoLift (resultStatuses (req_Status req) result)) (\<lambda>(status, providerStatus).
     repoBind (onStore (GetDefaultInternalSettlementAccount (req_InstitutionID req) (req_CurrencyID req)))
       (\<lambda>clearing.
     onStore (RecordTransfer (se_tx e 0) x
       \<lparr>in_InstitutionID = req_InstitutionID req, in_AccountID = req_AccountID req,
        in_ClearingAccountID = acc_ID clearing, in_Direction = direction, in_Status = status,
        in_AmountMinor = req_AmountMinor req, in_CurrencyID = req_CurrencyID req,
        in_IdempotencyKey = req_IdempotencyKey req,
        in_Provider = blankOr (res_Provider result) ProviderMockNIP,
        in_ProviderReference = blankOr (res_ProviderReference result) (req_ProviderReference req),
        in_ProviderEventID = blankOr (res_ProviderEventID result) (req_ProviderEventID req),
        in_ProviderStatus = providerStatus, in_ReversalOfTransferID = [],
        in_RequestFingerprint = requestFingerprint,
        in_FailureReason = TrimSpace (res_FailureReason result),
        in_Narration = blankOr (res_Narration result) (req_Narration req),
        in_RejectInsufficient = False, in_RequireAvailable = False\<rparr>)))"

definition mockOutboundIntent :: "TransferRequest \<Rightarrow> Account \<Rightarrow> string \<Rightarrow> RecordTransferInput" where
  "mockOutboundIntent req clearing requestFingerprint =
     \<lparr>in_InstitutionID = req_InstitutionID req, in_AccountID = req_AccountID req,
      in_ClearingAccountID = acc_ID clearing, in_Direction = TransferDirectionOutbound,
      in_Status = TransferStatusPending, in_AmountMinor = req_AmountMinor req,
      in_CurrencyID = req_CurrencyID req, in_IdempotencyKey = req_IdempotencyKey req,
      in_Provider = ProviderMockNIP, in_ProviderReference = req_ProviderReference req,
      in_ProviderEventID = [], in_ProviderStatus = TransferStatusPending,
      in_ReversalOfTransferID = [], in_RequestFingerprint = requestFingerprint,
      in_FailureReason = [], in_Narration = req_Narration req, in_RejectInsufficient = False,
      in_RequireAvailable = False\<rparr>"

definition mockOutboundRequest :: "TransferRequest \<Rightarrow> ProviderTransferRequest" where
  "mockOutboundRequest req =
     \<lparr>pq_InstitutionID = req_InstitutionID req, pq_AccountID = req_AccountID req,
      pq_DestinationInstitutionCode = [], pq_DestinationAccountNumber = [],
      pq_DestinationAccountName = [], pq_AmountMinor = req_AmountMinor req,
      pq_CurrencyID = req_CurrencyID req, pq_IdempotencyKey = req_IdempotencyKey req,
      pq_ProviderReference = req_ProviderReference req, pq_ProviderEventID = req_ProviderEventID req,
      pq_Status = req_Status req, pq_FailureReason = [], pq_Narration = req_Narration req,
      pq_Scenario = req_Scenario req, pq_DelaySeconds = req_DelaySeconds req\<rparr>"

definition externalOutboundCompletionInput ::
  "RecordTransferInput \<Rightarrow> ProviderTransferResult \<Rightarrow> RecordTransferInput" where
  "externalOutboundCompletionInput intent result =
     (let status = ToLower (TrimSpace (res_Status result));
          providerStatus = ToLower (TrimSpace (res_ProviderStatus result));
          providerStatus = (if providerStatus = [] then status else providerStatus);
          status = (if providerStatus = TransferProviderStatusUnknown then TransferStatusPending else status);
          status = (if status = [] then TransferStatusFailed else status);
          providerStatus = (if providerStatus = [] then status else providerStatus)
      in intent\<lparr>in_Status := status, in_ProviderStatus := providerStatus,
           in_ProviderReference := firstNonBlank [res_ProviderReference result, in_ProviderReference intent],
           in_Narration := firstNonBlank [res_Narration result, in_Narration intent],
           in_ProviderEventID := TrimSpace (res_ProviderEventID result),
           in_FailureReason := TrimSpace (res_FailureReason result)\<rparr>)"

text \<open>
  The provider is asked between two transactions: the intent is committed before the call, the
  completion after it, whatever the call answers.
\<close>

definition initiateAndComplete ::
  "svc_env \<Rightarrow> externals \<Rightarrow> 'p provider \<Rightarrow> ProviderTransferRequest \<Rightarrow> RecordTransferInput \<Rightarrow> Transfer \<Rightarrow>
     ('p world, Transfer) call" where
  "initiateAndComplete e x provider request intentInput intent =
     repoBind (repoAttempt (onProvider (pv_InitiateTransfer provider (se_provider e 0) request))) (\<lambda>r.
     onStore (CompleteExternalOutboundTransfer (se_tx e 1) x (tr_ID intent)
       (externalOutboundCompletionInput intentInput (providerOutcome provider request r))))"

definition explicitResult :: "'p provider \<Rightarrow> TransferRequest \<Rightarrow> ProviderTransferResult" where
  "explicitResult provider req =
     \<lparr>res_Provider = pv_Name provider, res_ProviderReference = req_ProviderReference req,
      res_ProviderEventID = req_ProviderEventID req, res_Status = req_Status req,
      res_ProviderStatus = req_Status req, res_FailureReason = [], res_Narration = req_Narration req,
      res_Delayed = False, res_DelayedUntil = None\<rparr>"

definition svcMockOutbound ::
  "'p service \<Rightarrow> svc_env \<Rightarrow> externals \<Rightarrow> TransferRequest \<Rightarrow> ('p world, Transfer) call" where
  "svcMockOutbound sv e x req0 =
     (let explicitStatus = (TrimSpace (req_Status req0) \<noteq> []) in
      repoBind (repoLift (normalizeTransferRequest req0)) (\<lambda>req.
      let requestFingerprint = mockTransferRequestFingerprint x TransferDirectionOutbound req in
      repoBind (repoLift (serviceProvider sv ProviderMockNIP)) (\<lambda>provider.
      if explicitStatus \<and> req_Status req \<noteq> TransferStatusPending \<and> req_ProviderReference req \<noteq> []
      then recordProviderTransfer e x TransferDirectionOutbound req (explicitResult provider req)
        requestFingerprint
      else
        repoBind (onStore (GetDefaultInternalSettlementAccount (req_InstitutionID req)
            (req_CurrencyID req))) (\<lambda>clearing.
        let intentInput = mockOutboundIntent req clearing requestFingerprint in
        repoBind (onStore (BeginExternalOutboundTransfer (se_tx e 0) x intentInput)) (\<lambda>(intent, created).
        if \<not> created \<or> tr_Status intent \<noteq> TransferStatusPending then repoReturn intent
        else initiateAndComplete e x provider (mockOutboundRequest req) intentInput intent)))))"

end
