(* ===== verification/ServiceExternal.thy ===== *)
theory ServiceExternal
  imports ServiceProvider
begin

text \<open>
  \<open>service_external.go\<close>: name enquiry, external outbound transfers, inbound provider events and the
  requery of pending transfers.
\<close>

definition NameEnquiryStatusFound :: string where
  "NameEnquiryStatusFound = ''found''"

definition NameEnquiryStatusNotFound :: string where
  "NameEnquiryStatusNotFound = ''not_found''"

definition NameEnquiryStatusProviderUnavailable :: string where
  "NameEnquiryStatusProviderUnavailable = ''provider_unavailable''"

record ExternalNameEnquiryInput =
  eni_InstitutionID :: string
  eni_Provider :: string
  eni_DestinationInstitutionCode :: string
  eni_AccountNumber :: string
  eni_CurrencyID :: string

record ExternalOutboundTransferInput =
  eo_InstitutionID :: string
  eo_SourceAccountID :: string
  eo_DestinationInstitutionCode :: string
  eo_BankCode :: string
  eo_DestinationAccountNumber :: string
  eo_DestinationAccountName :: string
  eo_AmountMinor :: int
  eo_CurrencyID :: string
  eo_IdempotencyKey :: string
  eo_Provider :: string
  eo_Narration :: string
  eo_Reference :: string
  eo_Scenario :: string

record ExternalInboundEventInput =
  ei_InstitutionID :: string
  ei_Provider :: string
  ei_Payload :: payload
  ei_Headers :: headers

record ExternalTransferRequeryInput =
  er_InstitutionID :: string
  er_TransferID :: string
  er_ProviderReference :: string
  er_Scenario :: string
  er_Note :: string

record ExternalNameEnquiryResult =
  enr_Provider :: string
  enr_DestinationInstitutionCode :: string
  enr_AccountNumber :: string
  enr_AccountName :: string
  enr_ProviderReference :: "string option"
  enr_Status :: string
  enr_Message :: string
  enr_CreatedAt :: time

record ExternalOutboundTransferResult =
  eor_TransferID :: string
  eor_SourceAccountID :: string
  eor_Provider :: string
  eor_ProviderReference :: string
  eor_ProviderStatus :: string
  eor_LedgerStatus :: string
  eor_ReconciliationStatus :: string
  eor_Status :: string
  eor_AmountMinor :: int
  eor_CurrencyID :: string
  eor_JournalEntryID :: "string option"
  eor_HoldID :: "string option"
  eor_CreatedAt :: time

record ExternalInboundEventResult =
  eir_TransferID :: "string option"
  eir_ProviderEventID :: string
  eir_ProviderReference :: string
  eir_ProviderStatus :: string
  eir_LedgerStatus :: string
  eir_ReconciliationStatus :: string
  eir_Status :: string
  eir_JournalEntryID :: "string option"
  eir_Message :: string
  eir_HTTPStatus :: int

record ExternalTransferRequeryResult =
  err_TransferID :: string
  err_AccountID :: string
  err_Direction :: string
  err_Provider :: string
  err_ProviderReference :: string
  err_ProviderStatus :: string
  err_LedgerStatus :: string
  err_ReconciliationStatus :: string
  err_Status :: string
  err_AmountMinor :: int
  err_CurrencyID :: string
  err_JournalEntryID :: "string option"
  err_HoldID :: "string option"
  err_Message :: string
  err_CreatedAt :: time

section \<open>Name enquiry\<close>

definition optionalResultString :: "string \<Rightarrow> string option" where
  "optionalResultString value = (let value = TrimSpace value in if value = [] then None else Some value)"

definition externalNameEnquiryResult ::
  "time \<Rightarrow> string \<Rightarrow> string \<Rightarrow> string \<Rightarrow> string \<Rightarrow> string option \<Rightarrow> string \<Rightarrow> string \<Rightarrow>
     ExternalNameEnquiryResult" where
  "externalNameEnquiryResult now providerName destinationInstitutionCode accountNumber accountName
     reference status message =
     \<lparr>enr_Provider = providerName, enr_DestinationInstitutionCode = destinationInstitutionCode,
      enr_AccountNumber = accountNumber, enr_AccountName = accountName,
      enr_ProviderReference = reference, enr_Status = status, enr_Message = message,
      enr_CreatedAt = now\<rparr>"

definition externalNameEnquiryErrorResult ::
  "time \<Rightarrow> string \<Rightarrow> string \<Rightarrow> string \<Rightarrow> error \<Rightarrow> ExternalNameEnquiryResult" where
  "externalNameEnquiryErrorResult now providerName destinationInstitutionCode accountNumber err =
     (if errors_Is err ErrNotFound
      then externalNameEnquiryResult now providerName destinationInstitutionCode accountNumber [] None
        NameEnquiryStatusNotFound ''account_not_found''
      else externalNameEnquiryResult now providerName destinationInstitutionCode accountNumber [] None
        NameEnquiryStatusProviderUnavailable ''provider_unavailable'')"

definition nameEnquiryAnswer ::
  "time \<Rightarrow> string \<Rightarrow> string \<Rightarrow> string \<Rightarrow> error + NameEnquiryResult option \<Rightarrow>
     error + ExternalNameEnquiryResult" where
  "nameEnquiryAnswer now providerName code accountNumber r =
     (case r of
        Inl err \<Rightarrow> if errors_Is err ErrInvalidRequest then Inl ErrInvalidRequest
          else Inr (externalNameEnquiryErrorResult now providerName code accountNumber err)
      | Inr None \<Rightarrow> Inr (externalNameEnquiryResult now providerName code accountNumber [] None
          NameEnquiryStatusNotFound ''account_not_found'')
      | Inr (Some result) \<Rightarrow>
          if TrimSpace (nr_AccountName result) = []
          then Inr (externalNameEnquiryResult now providerName code accountNumber [] None
            NameEnquiryStatusNotFound ''account_not_found'')
          else Inr (externalNameEnquiryResult now
            (firstNonBlank [nr_Provider result, providerName])
            (firstNonBlank [nr_BankCode result, code])
            (firstNonBlank [nr_AccountNumber result, accountNumber])
            (TrimSpace (nr_AccountName result)) (optionalResultString (nr_ProviderReference result))
            NameEnquiryStatusFound ''account_found''))"

definition svcExternalNameEnquiry ::
  "'p service \<Rightarrow> svc_env \<Rightarrow> ExternalNameEnquiryInput \<Rightarrow> ('p world, ExternalNameEnquiryResult) call" where
  "svcExternalNameEnquiry sv e input =
     repoBind (repoLift (requireInstitutionID (eni_InstitutionID input))) (\<lambda>institutionID.
     let providerName = blankOr (eni_Provider input) ProviderMockNIP;
         code = TrimSpace (eni_DestinationInstitutionCode input);
         accountNumber = TrimSpace (eni_AccountNumber input);
         currency = ToUpper (TrimSpace (eni_CurrencyID input))
     in
     repoBind (repoEnsure (code \<noteq> [] \<and> isTenDigitAccountNumber accountNumber \<and>
         (currency = [] \<or> currency = ''NGN'')) ErrInvalidRequest) (\<lambda>_.
     repoBind (repoLift (serviceProvider sv providerName)) (\<lambda>provider.
     repoBind (repoAttempt (onProvider (pv_NameEnquiry provider (se_provider e 0)
         \<lparr>nq_InstitutionID = institutionID, nq_BankCode = code, nq_AccountNumber = accountNumber\<rparr>))) (\<lambda>r.
     repoLift (nameEnquiryAnswer (env_clock (se_tx e 0) 0) providerName code accountNumber r)))))"

section \<open>External outbound transfers\<close>

definition validExternalScenario :: "string \<Rightarrow> bool" where
  "validExternalScenario scenario \<longleftrightarrow>
     scenario \<in> {[], MockProviderScenarioSuccess, MockProviderScenarioFailed, MockProviderScenarioPending,
       MockProviderScenarioTimeout, MockProviderScenarioProviderUnknown}"

definition normalizeExternalOutboundTransferInput ::
  "externals \<Rightarrow> ExternalOutboundTransferInput \<Rightarrow> error + ExternalOutboundTransferInput" where
  "normalizeExternalOutboundTransferInput x input0 =
     (case requireInstitutionID (eo_InstitutionID input0) of Inl err \<Rightarrow> Inl err
      | Inr institutionID \<Rightarrow>
        (let currency = ToUpper (TrimSpace (eo_CurrencyID input0));
             input = input0\<lparr>eo_InstitutionID := institutionID,
               eo_SourceAccountID := TrimSpace (eo_SourceAccountID input0),
               eo_DestinationInstitutionCode :=
                 firstNonBlank [eo_DestinationInstitutionCode input0, eo_BankCode input0],
               eo_DestinationAccountNumber := TrimSpace (eo_DestinationAccountNumber input0),
               eo_DestinationAccountName := TrimSpace (eo_DestinationAccountName input0),
               eo_CurrencyID := (if currency = [] then ''NGN'' else currency),
               eo_IdempotencyKey := TrimSpace (eo_IdempotencyKey input0),
               eo_Provider := blankOr (eo_Provider input0) ProviderMockNIP,
               eo_Narration := narrationOr (eo_Narration input0) ''External outbound transfer'',
               eo_Reference := TrimSpace (eo_Reference input0),
               eo_Scenario := ToLower (TrimSpace (eo_Scenario input0))\<rparr>
         in if \<not> ext_uuid_valid x (eo_SourceAccountID input) \<or> eo_AmountMinor input \<le> 0 \<or>
               eo_CurrencyID input \<noteq> ''NGN'' \<or> eo_IdempotencyKey input = [] \<or>
               eo_DestinationInstitutionCode input = [] \<or>
               \<not> isTenDigitAccountNumber (eo_DestinationAccountNumber input) \<or>
               \<not> validExternalScenario (eo_Scenario input)
            then Inl ErrInvalidRequest else Inr input))"

definition externalOutboundTransferRequestFingerprint ::
  "externals \<Rightarrow> ExternalOutboundTransferInput \<Rightarrow> string" where
  "externalOutboundTransferRequestFingerprint x input =
     fingerprintValues x
       [''external_outbound_transfer'', eo_InstitutionID input, eo_SourceAccountID input,
        eo_DestinationInstitutionCode input, eo_DestinationAccountNumber input,
        eo_DestinationAccountName input, FormatInt (eo_AmountMinor input), eo_CurrencyID input,
        eo_IdempotencyKey input, eo_Provider input, eo_Reference input, eo_Narration input,
        eo_Scenario input]"

definition outboundReference :: "ExternalOutboundTransferInput \<Rightarrow> string" where
  "outboundReference input = firstNonBlank [eo_Reference input, eo_IdempotencyKey input]"

definition externalOutboundIntent ::
  "externals \<Rightarrow> ExternalOutboundTransferInput \<Rightarrow> Account \<Rightarrow> RecordTransferInput" where
  "externalOutboundIntent x input clearing =
     \<lparr>in_InstitutionID = eo_InstitutionID input, in_AccountID = eo_SourceAccountID input,
      in_ClearingAccountID = acc_ID clearing, in_Direction = TransferDirectionOutbound,
      in_Status = TransferStatusPending, in_AmountMinor = eo_AmountMinor input,
      in_CurrencyID = eo_CurrencyID input, in_IdempotencyKey = eo_IdempotencyKey input,
      in_Provider = eo_Provider input, in_ProviderReference = outboundReference input,
      in_ProviderEventID = [], in_ProviderStatus = TransferStatusPending,
      in_ReversalOfTransferID = [],
      in_RequestFingerprint = externalOutboundTransferRequestFingerprint x input,
      in_FailureReason = [], in_Narration = eo_Narration input, in_RejectInsufficient = True,
      in_RequireAvailable = True\<rparr>"

definition externalOutboundRequest :: "ExternalOutboundTransferInput \<Rightarrow> ProviderTransferRequest" where
  "externalOutboundRequest input =
     \<lparr>pq_InstitutionID = eo_InstitutionID input, pq_AccountID = eo_SourceAccountID input,
      pq_DestinationInstitutionCode = eo_DestinationInstitutionCode input,
      pq_DestinationAccountNumber = eo_DestinationAccountNumber input,
      pq_DestinationAccountName = eo_DestinationAccountName input,
      pq_AmountMinor = eo_AmountMinor input, pq_CurrencyID = eo_CurrencyID input,
      pq_IdempotencyKey = eo_IdempotencyKey input, pq_ProviderReference = outboundReference input,
      pq_ProviderEventID = [], pq_Status = [], pq_FailureReason = [],
      pq_Narration = eo_Narration input, pq_Scenario = eo_Scenario input, pq_DelaySeconds = 0\<rparr>"

text \<open>The hold of a transfer, if it has one.\<close>

definition transferHoldID :: "Transfer \<Rightarrow> ('p world, string option) call" where
  "transferHoldID transfer =
     repoBind (repoAttempt (onStore (GetTransferHold (tr_InstitutionID transfer) (tr_ID transfer)))) (\<lambda>r.
     case r of
       Inr hold \<Rightarrow> repoReturn (Some (ho_ID hold))
     | Inl err \<Rightarrow> if errors_Is err ErrNotFound then repoReturn None else repoFail err)"

definition externalOutboundTransferResult ::
  "Transfer \<Rightarrow> ('p world, ExternalOutboundTransferResult) call" where
  "externalOutboundTransferResult transfer =
     repoBind (transferHoldID transfer) (\<lambda>holdID.
     repoReturn
       \<lparr>eor_TransferID = tr_ID transfer, eor_SourceAccountID = tr_AccountID transfer,
        eor_Provider = tr_Provider transfer, eor_ProviderReference = tr_ProviderReference transfer,
        eor_ProviderStatus = tr_ProviderStatus transfer, eor_LedgerStatus = tr_LedgerStatus transfer,
        eor_ReconciliationStatus = tr_ReconciliationStatus transfer, eor_Status = tr_Status transfer,
        eor_AmountMinor = tr_AmountMinor transfer, eor_CurrencyID = tr_CurrencyID transfer,
        eor_JournalEntryID = tr_JournalEntryID transfer, eor_HoldID = holdID,
        eor_CreatedAt = tr_CreatedAt transfer\<rparr>)"

definition svcExternalOutboundTransfer ::
  "'p service \<Rightarrow> svc_env \<Rightarrow> externals \<Rightarrow> ExternalOutboundTransferInput \<Rightarrow>
     ('p world, ExternalOutboundTransferResult) call" where
  "svcExternalOutboundTransfer sv e x input0 =
     repoBind (repoLift (normalizeExternalOutboundTransferInput x input0)) (\<lambda>input.
     repoBind (repoLift (serviceProvider sv (eo_Provider input))) (\<lambda>provider.
     repoBind (onStore (GetDefaultInternalSettlementAccount (eo_InstitutionID input)
         (eo_CurrencyID input))) (\<lambda>clearing.
     let intentInput = externalOutboundIntent x input clearing in
     repoBind (onStore (BeginExternalOutboundTransfer (se_tx e 0) x intentInput)) (\<lambda>(intent, created).
     if \<not> created then externalOutboundTransferResult intent
     else
       repoBind (initiateAndComplete e x provider (externalOutboundRequest input) intentInput intent)
         externalOutboundTransferResult))))"

section \<open>Inbound provider events\<close>

text \<open>\<open>out["X-Institution-ID"] = institutionID\<close>\<close>

definition inboundEventHeaders :: "headers \<Rightarrow> string \<Rightarrow> headers" where
  "inboundEventHeaders hs institutionID =
     (''X-Institution-ID'', institutionID) # filter (\<lambda>(k, v). k \<noteq> ''X-Institution-ID'') hs"

definition normalizeExternalInboundWebhookEvent ::
  "externals \<Rightarrow> ProviderWebhookEvent \<Rightarrow> string \<Rightarrow> string \<Rightarrow> error + ProviderWebhookEvent" where
  "normalizeExternalInboundWebhookEvent x event0 institutionID providerName =
     (let provider = blankOr (we_Provider event0) providerName;
          inst = TrimSpace (we_InstitutionID event0);
          direction = ToLower (TrimSpace (we_Direction event0));
          direction = (if direction = [] then TransferDirectionInbound else direction);
          currency = ToUpper (TrimSpace (we_CurrencyID event0));
          event = event0\<lparr>we_Provider := provider, we_InstitutionID := institutionID,
            we_Direction := direction, we_Status := ToLower (TrimSpace (we_Status event0)),
            we_CurrencyID := (if currency = [] then ''NGN'' else currency),
            we_ProviderEventID := TrimSpace (we_ProviderEventID event0),
            we_ProviderReference := TrimSpace (we_ProviderReference event0),
            we_AccountID := TrimSpace (we_AccountID event0),
            we_DestinationAccountNumber := TrimSpace (we_DestinationAccountNumber event0),
            we_FailureReason := TrimSpace (we_FailureReason event0),
            we_Narration := narrationOr (we_Narration event0) ''External inbound transfer''\<rparr>
      in if provider \<noteq> providerName then Inl ErrUnsupportedProvider
         else if inst \<noteq> [] \<and> inst \<noteq> institutionID then Inl ErrForbidden
         else if direction \<noteq> TransferDirectionInbound then Inl ErrInvalidRequest
         else if we_ProviderEventID event = [] \<or> we_ProviderReference event = [] \<or>
                 we_AmountMinor event \<le> 0 \<or> we_CurrencyID event \<noteq> ''NGN'' \<or>
                 \<not> validTransferStatus (we_Status event) \<or>
                 (we_AccountID event = [] \<and> we_DestinationAccountNumber event = []) \<or>
                 (we_AccountID event \<noteq> [] \<and> \<not> ext_uuid_valid x (we_AccountID event)) \<or>
                 (we_DestinationAccountNumber event \<noteq> [] \<and>
                    \<not> isTenDigitAccountNumber (we_DestinationAccountNumber event))
         then Inl ErrInvalidRequest else Inr event)"

definition externalInboundEventFingerprint :: "externals \<Rightarrow> ProviderWebhookEvent \<Rightarrow> string \<Rightarrow> string" where
  "externalInboundEventFingerprint x event accountID =
     fingerprintValues x
       [''external_inbound_event'', we_Provider event, we_ProviderEventID event,
        we_ProviderReference event, accountID, we_DestinationAccountNumber event,
        FormatInt (we_AmountMinor event), we_CurrencyID event, we_Status event,
        TransferDirectionInbound]"

definition externalInboundDestinationAccount :: "ProviderWebhookEvent \<Rightarrow> Account repo" where
  "externalInboundDestinationAccount event =
     (if we_AccountID event \<noteq> [] then GetAccount (we_InstitutionID event) (we_AccountID event)
      else GetAccountByNumber (we_InstitutionID event) (we_DestinationAccountNumber event))"

definition externalInboundDestinationNeedsReview :: "Account \<Rightarrow> bool" where
  "externalInboundDestinationNeedsReview account \<longleftrightarrow>
     acc_Kind account = AccountKindCustomer \<and>
     (acc_Status account = AccountStatusFrozen \<or> acc_Status account = AccountStatusClosed)"

definition externalInboundEventIdempotencyKey :: "ProviderWebhookEvent \<Rightarrow> string" where
  "externalInboundEventIdempotencyKey event =
     ''external-inbound:'' @ we_Provider event @ '':'' @ we_ProviderEventID event"

definition externalInboundReviewIdempotencyKey :: "ProviderWebhookEvent \<Rightarrow> string" where
  "externalInboundReviewIdempotencyKey event =
     ''external-inbound-review:'' @ we_Provider event @ '':'' @ we_ProviderEventID event @ '':'' @
     we_RequestFingerprint event"

definition inboundTransferInput :: "ProviderWebhookEvent \<Rightarrow> string \<Rightarrow> Account \<Rightarrow> RecordTransferInput" where
  "inboundTransferInput event accountID clearing =
     \<lparr>in_InstitutionID = we_InstitutionID event, in_AccountID = accountID,
      in_ClearingAccountID = acc_ID clearing, in_Direction = TransferDirectionInbound,
      in_Status = we_Status event, in_AmountMinor = we_AmountMinor event,
      in_CurrencyID = we_CurrencyID event,
      in_IdempotencyKey = externalInboundEventIdempotencyKey event, in_Provider = we_Provider event,
      in_ProviderReference = we_ProviderReference event,
      in_ProviderEventID = we_ProviderEventID event, in_ProviderStatus = we_Status event,
      in_ReversalOfTransferID = [], in_RequestFingerprint = we_RequestFingerprint event,
      in_FailureReason = we_FailureReason event, in_Narration = we_Narration event,
      in_RejectInsufficient = False, in_RequireAvailable = False\<rparr>"

definition recordExternalInboundTransfer ::
  "env \<Rightarrow> externals \<Rightarrow> ProviderWebhookEvent \<Rightarrow> string \<Rightarrow> Transfer repo" where
  "recordExternalInboundTransfer e x event accountID =
     repoBind (GetDefaultInternalSettlementAccount (we_InstitutionID event) (we_CurrencyID event)) (\<lambda>clearing.
     RecordTransfer e x (inboundTransferInput event accountID clearing))"

definition inboundReviewInput ::
  "ProviderWebhookEvent \<Rightarrow> string \<Rightarrow> string \<Rightarrow> bool \<Rightarrow> RecordProviderEventReviewInput" where
  "inboundReviewInput event accountID reason reserveProviderEvent =
     \<lparr>rv_InstitutionID = we_InstitutionID event, rv_AccountID = accountID,
      rv_Direction = TransferDirectionInbound,
      rv_Status = (if we_Status event = TransferStatusPending then TransferStatusPending
                   else TransferStatusFailed),
      rv_ProviderStatus = we_Status event, rv_AmountMinor = we_AmountMinor event,
      rv_CurrencyID = we_CurrencyID event,
      rv_IdempotencyKey = externalInboundReviewIdempotencyKey event, rv_Provider = we_Provider event,
      rv_ProviderReference = we_ProviderReference event,
      rv_ProviderEventID = we_ProviderEventID event,
      rv_RequestFingerprint = we_RequestFingerprint event, rv_FailureReason = reason,
      rv_Narration = firstNonBlank [we_Narration event, ''External inbound event manual review''],
      rv_ReserveProviderEvent = reserveProviderEvent\<rparr>"

definition externalInboundEventResultFromTransfer ::
  "Transfer \<Rightarrow> string \<Rightarrow> int \<Rightarrow> ExternalInboundEventResult" where
  "externalInboundEventResultFromTransfer transfer message statusCode =
     \<lparr>eir_TransferID = Some (tr_ID transfer),
      eir_ProviderEventID = (case tr_ProviderEventID transfer of None \<Rightarrow> [] | Some v \<Rightarrow> v),
      eir_ProviderReference = tr_ProviderReference transfer,
      eir_ProviderStatus = tr_ProviderStatus transfer, eir_LedgerStatus = tr_LedgerStatus transfer,
      eir_ReconciliationStatus = tr_ReconciliationStatus transfer, eir_Status = tr_Status transfer,
      eir_JournalEntryID = tr_JournalEntryID transfer, eir_Message = message,
      eir_HTTPStatus = statusCode\<rparr>"

definition recordExternalInboundReview ::
  "env \<Rightarrow> externals \<Rightarrow> ProviderWebhookEvent \<Rightarrow> string \<Rightarrow> string \<Rightarrow> bool \<Rightarrow>
     ExternalInboundEventResult repo" where
  "recordExternalInboundReview e x event accountID reason reserveProviderEvent =
     repoBind (if TrimSpace accountID = []
       then repoBind (GetDefaultInternalSettlementAccount (we_InstitutionID event) (we_CurrencyID event))
         (\<lambda>clearing. repoReturn (acc_ID clearing))
       else repoReturn (TrimSpace accountID)) (\<lambda>reviewAccountID.
     repoBind (RecordProviderEventReview e x
         (inboundReviewInput event reviewAccountID reason reserveProviderEvent)) (\<lambda>transfer.
     repoReturn (externalInboundEventResultFromTransfer transfer reason
       (if reason = ''provider_event_payload_conflict'' then 409 else 0))))"

text \<open>
  The event of a known account: recorded as a transfer; a conflicting payload goes to review without
  reserving the event again, and so does a rejection caused by an account that was blocked meanwhile.
\<close>

definition afterInboundTransfer ::
  "svc_env \<Rightarrow> externals \<Rightarrow> string \<Rightarrow> ProviderWebhookEvent \<Rightarrow> string \<Rightarrow> error + Transfer \<Rightarrow>
     ExternalInboundEventResult repo" where
  "afterInboundTransfer e x institutionID event accountID r =
     (case r of
        Inr transfer \<Rightarrow> repoReturn (externalInboundEventResultFromTransfer transfer ''event_recorded'' 0)
      | Inl err \<Rightarrow>
          if errors_Is err ErrConflict
          then recordExternalInboundReview (se_tx e 1) x event accountID
            ''provider_event_payload_conflict'' False
          else if errors_Is err ErrInvalidRequest
          then repoBind (repoAttempt (GetAccount institutionID accountID)) (\<lambda>current.
            case current of
              Inr account \<Rightarrow> if externalInboundDestinationNeedsReview account
                then recordExternalInboundReview (se_tx e 1) x event accountID
                  ''blocked_destination_account'' True
                else repoFail err
            | Inl _ \<Rightarrow> repoFail err)
          else repoFail err)"

definition inboundToAccount ::
  "svc_env \<Rightarrow> externals \<Rightarrow> string \<Rightarrow> ProviderWebhookEvent \<Rightarrow> Account \<Rightarrow>
     ExternalInboundEventResult repo" where
  "inboundToAccount e x institutionID event0 account =
     (let event = event0\<lparr>we_AccountID := acc_ID account\<rparr>;
          event = event\<lparr>we_RequestFingerprint := externalInboundEventFingerprint x event (acc_ID account)\<rparr>
      in if externalInboundDestinationNeedsReview account
         then recordExternalInboundReview (se_tx e 0) x event (acc_ID account)
           ''blocked_destination_account'' True
         else repoBind (repoAttempt (recordExternalInboundTransfer (se_tx e 0) x event (acc_ID account)))
           (afterInboundTransfer e x institutionID event (acc_ID account)))"

definition inboundEvent ::
  "svc_env \<Rightarrow> externals \<Rightarrow> string \<Rightarrow> ProviderWebhookEvent \<Rightarrow> ExternalInboundEventResult repo" where
  "inboundEvent e x institutionID event =
     repoBind (repoAttempt (externalInboundDestinationAccount event)) (\<lambda>r.
     case r of
       Inl err \<Rightarrow>
         if errors_Is err ErrNotFound
         then recordExternalInboundReview (se_tx e 0) x
           (event\<lparr>we_RequestFingerprint := externalInboundEventFingerprint x event []\<rparr>) []
           ''unknown_destination'' True
         else repoFail err
     | Inr account \<Rightarrow> inboundToAccount e x institutionID event account)"

definition svcExternalInboundEvent ::
  "'p service \<Rightarrow> svc_env \<Rightarrow> externals \<Rightarrow> ExternalInboundEventInput \<Rightarrow>
     ('p world, ExternalInboundEventResult) call" where
  "svcExternalInboundEvent sv e x input =
     repoBind (repoLift (requireInstitutionID (ei_InstitutionID input))) (\<lambda>institutionID.
     let providerName = blankOr (ei_Provider input) ProviderMockNIP in
     repoBind (repoLift (serviceProvider sv providerName)) (\<lambda>provider.
     repoBind (onProvider (pv_ParseWebhook provider (se_provider e 0) (ei_Payload input)
         (inboundEventHeaders (ei_Headers input) institutionID))) (\<lambda>event.
     case event of None \<Rightarrow> repoFail ErrInvalidRequest
     | Some event \<Rightarrow>
         repoBind (repoLift (normalizeExternalInboundWebhookEvent x event institutionID providerName))
           (\<lambda>event. onStore (inboundEvent e x institutionID event)))))"

section \<open>Requery\<close>

definition normalizeExternalTransferRequeryInput ::
  "externals \<Rightarrow> ExternalTransferRequeryInput \<Rightarrow> error + ExternalTransferRequeryInput" where
  "normalizeExternalTransferRequeryInput x input0 =
     (case requireInstitutionID (er_InstitutionID input0) of Inl err \<Rightarrow> Inl err
      | Inr institutionID \<Rightarrow>
        (let input = input0\<lparr>er_InstitutionID := institutionID,
               er_TransferID := TrimSpace (er_TransferID input0),
               er_ProviderReference := TrimSpace (er_ProviderReference input0),
               er_Scenario := ToLower (TrimSpace (er_Scenario input0)),
               er_Note := TrimSpace (er_Note input0)\<rparr>
         in if \<not> ext_uuid_valid x (er_TransferID input) \<or> \<not> validExternalScenario (er_Scenario input)
            then Inl ErrInvalidRequest else Inr input))"

definition requeryProviderReference :: "Transfer \<Rightarrow> string \<Rightarrow> error + string" where
  "requeryProviderReference transfer requested0 =
     (let requested = TrimSpace requested0; current = TrimSpace (tr_ProviderReference transfer);
          reference = firstNonBlank [requested, current]
      in if requested \<noteq> [] \<and> current \<noteq> [] \<and> requested \<noteq> current then Inl ErrConflict
         else if reference = [] then Inl ErrInvalidRequest else Inr reference)"

definition applyMockRequeryScenario ::
  "svc_env \<Rightarrow> 'p provider \<Rightarrow> string \<Rightarrow> string \<Rightarrow> ('p world, unit) call" where
  "applyMockRequeryScenario e provider reference scenario =
     (if scenario = [] then repoReturn ()
      else case pv_SetRequeryScenario provider of
        None \<Rightarrow> repoFail ErrInvalidRequest
      | Some setter \<Rightarrow> onProvider (setter (se_provider e 0) reference scenario))"

definition providerRequeryStatusUnknown :: "error \<Rightarrow> bool" where
  "providerRequeryStatusUnknown err \<longleftrightarrow>
     providerTransferStatusUnknown err \<or> errors_Is err ErrProviderUnavailable"

definition providerUnknownRequeryResult ::
  "'p provider \<Rightarrow> Transfer \<Rightarrow> string \<Rightarrow> string \<Rightarrow> ProviderTransferResult" where
  "providerUnknownRequeryResult provider transfer reference narration =
     providerUnknownTransferResult provider
       \<lparr>pq_InstitutionID = tr_InstitutionID transfer, pq_AccountID = tr_AccountID transfer,
        pq_DestinationInstitutionCode = [], pq_DestinationAccountNumber = [],
        pq_DestinationAccountName = [], pq_AmountMinor = tr_AmountMinor transfer,
        pq_CurrencyID = tr_CurrencyID transfer, pq_IdempotencyKey = tr_IdempotencyKey transfer,
        pq_ProviderReference = reference, pq_ProviderEventID = [], pq_Status = [],
        pq_FailureReason = [], pq_Narration = narration, pq_Scenario = [], pq_DelaySeconds = 0\<rparr>"

definition requeryOutcome ::
  "'p provider \<Rightarrow> Transfer \<Rightarrow> string \<Rightarrow> string \<Rightarrow> error + ProviderTransferResult option \<Rightarrow>
     error + ProviderTransferResult" where
  "requeryOutcome provider transfer reference narration r =
     (case r of
        Inl err \<Rightarrow> if providerRequeryStatusUnknown err
          then Inr (providerUnknownRequeryResult provider transfer reference narration) else Inl err
      | Inr None \<Rightarrow> Inr (providerUnknownRequeryResult provider transfer reference narration)
      | Inr (Some result) \<Rightarrow> Inr result)"

definition requeryMessage :: "string \<Rightarrow> string \<Rightarrow> string" where
  "requeryMessage status providerStatus =
     (if providerStatus = TransferProviderStatusUnknown then ''requery_provider_unknown''
      else if status = TransferStatusSucceeded then ''requery_succeeded''
      else if status = TransferStatusFailed then ''requery_failed'' else ''requery_pending'')"

definition requeryFailureReason :: "string \<Rightarrow> string \<Rightarrow> string \<Rightarrow> string" where
  "requeryFailureReason status providerStatus reason =
     (let reason = TrimSpace reason;
          reason = (if providerStatus = TransferProviderStatusUnknown \<and> reason = []
                    then providerUnknownFailureReason else reason)
      in if status = TransferStatusFailed \<and> reason = [] then ''provider_failed'' else reason)"

definition externalTransferRequeryCompletionInput ::
  "Transfer \<Rightarrow> string \<Rightarrow> string \<Rightarrow> string \<Rightarrow> ProviderTransferResult \<Rightarrow>
     error + RecordTransferInput \<times> string" where
  "externalTransferRequeryCompletionInput transfer clearingAccountID reference note_text result =
     (let resultReference = TrimSpace (res_ProviderReference result);
          status = ToLower (TrimSpace (res_Status result));
          providerStatus0 = ToLower (TrimSpace (res_ProviderStatus result));
          providerStatus = (if providerStatus0 = [] then status else providerStatus0);
          status' = (if providerStatus = TransferProviderStatusUnknown then TransferStatusPending else status);
          status' = (if status' = [] then providerStatus else status');
          providerStatus = (if providerStatus = [] then status' else providerStatus)
      in if (TrimSpace (res_Provider result) \<noteq> [] \<and> TrimSpace (res_Provider result) \<noteq> tr_Provider transfer) \<or>
            (resultReference \<noteq> [] \<and> resultReference \<noteq> reference) \<or>
            (status \<noteq> [] \<and> providerStatus0 \<noteq> [] \<and> providerStatus0 \<noteq> status \<and>
             providerStatus0 \<noteq> TransferProviderStatusUnknown)
         then Inl ErrConflict
         else if \<not> validTransferStatus status' \<or> \<not> validProviderStatus providerStatus
         then Inl ErrInvalidRequest
         else Inr
           (\<lparr>in_InstitutionID = tr_InstitutionID transfer, in_AccountID = tr_AccountID transfer,
             in_ClearingAccountID = clearingAccountID, in_Direction = tr_Direction transfer,
             in_Status = status', in_AmountMinor = tr_AmountMinor transfer,
             in_CurrencyID = tr_CurrencyID transfer, in_IdempotencyKey = tr_IdempotencyKey transfer,
             in_Provider = tr_Provider transfer, in_ProviderReference = reference,
             in_ProviderEventID = [], in_ProviderStatus = providerStatus,
             in_ReversalOfTransferID = [], in_RequestFingerprint = tr_RequestFingerprint transfer,
             in_FailureReason = requeryFailureReason status' providerStatus (res_FailureReason result),
             in_Narration = firstNonBlank [note_text, res_Narration result, tr_Narration transfer],
             in_RejectInsufficient = False, in_RequireAvailable = False\<rparr>,
            requeryMessage status' providerStatus))"

definition externalTransferRequeryResult ::
  "Transfer \<Rightarrow> string \<Rightarrow> ('p world, ExternalTransferRequeryResult) call" where
  "externalTransferRequeryResult transfer message =
     repoBind (transferHoldID transfer) (\<lambda>holdID.
     repoReturn
       \<lparr>err_TransferID = tr_ID transfer, err_AccountID = tr_AccountID transfer,
        err_Direction = tr_Direction transfer, err_Provider = tr_Provider transfer,
        err_ProviderReference = tr_ProviderReference transfer,
        err_ProviderStatus = tr_ProviderStatus transfer, err_LedgerStatus = tr_LedgerStatus transfer,
        err_ReconciliationStatus = tr_ReconciliationStatus transfer, err_Status = tr_Status transfer,
        err_AmountMinor = tr_AmountMinor transfer, err_CurrencyID = tr_CurrencyID transfer,
        err_JournalEntryID = tr_JournalEntryID transfer, err_HoldID = holdID, err_Message = message,
        err_CreatedAt = tr_CreatedAt transfer\<rparr>)"

definition finalMessage :: "Transfer \<Rightarrow> string \<Rightarrow> string" where
  "finalMessage completed message =
     (if tr_Status completed \<noteq> TransferStatusPending
      then if tr_Status completed = TransferStatusSucceeded then ''requery_succeeded''
           else if tr_Status completed = TransferStatusFailed then ''requery_failed''
           else ''already_final''
      else message)"

definition requeryTransfer ::
  "svc_env \<Rightarrow> externals \<Rightarrow> 'p provider \<Rightarrow> Transfer \<Rightarrow> string \<Rightarrow> ExternalTransferRequeryInput \<Rightarrow>
     ('p world, ExternalTransferRequeryResult) call" where
  "requeryTransfer e x provider transfer reference input =
     repoBind (applyMockRequeryScenario e provider reference (er_Scenario input)) (\<lambda>_.
     repoBind (repoAttempt (onProvider (pv_RequeryTransfer provider (se_provider e 1) reference))) (\<lambda>r.
     repoBind (repoLift (requeryOutcome provider transfer reference (er_Note input) r)) (\<lambda>result.
     repoBind (onStore (GetDefaultInternalSettlementAccount (tr_InstitutionID transfer)
         (tr_CurrencyID transfer))) (\<lambda>clearing.
     repoBind (repoLift (externalTransferRequeryCompletionInput transfer (acc_ID clearing) reference
         (er_Note input) result)) (\<lambda>(completion, message).
     repoBind (onStore (CompleteExternalTransferRequery (se_tx e 0) x (tr_ID transfer) completion))
       (\<lambda>completed.
     externalTransferRequeryResult completed (finalMessage completed message)))))))"

definition requeryKnown ::
  "'p service \<Rightarrow> svc_env \<Rightarrow> externals \<Rightarrow> ExternalTransferRequeryInput \<Rightarrow> Transfer \<Rightarrow>
     ('p world, ExternalTransferRequeryResult) call" where
  "requeryKnown sv e x input transfer =
     repoBind (repoEnsure (tr_Provider transfer \<noteq> ProviderLedgerInternal) ErrInvalidRequest) (\<lambda>_.
     if tr_Status transfer \<noteq> TransferStatusPending
     then externalTransferRequeryResult transfer ''already_final''
     else
       repoBind (repoEnsure (tr_LedgerStatus transfer = LedgerStatusPending \<and>
           requeryableProviderStatus (tr_ProviderStatus transfer)) ErrInvalidRequest) (\<lambda>_.
       repoBind (repoLift (requeryProviderReference transfer (er_ProviderReference input))) (\<lambda>reference.
       repoBind (repoLift (serviceProvider sv (tr_Provider transfer))) (\<lambda>provider.
       requeryTransfer e x provider transfer reference input))))"

definition svcExternalTransferRequery ::
  "'p service \<Rightarrow> svc_env \<Rightarrow> externals \<Rightarrow> ExternalTransferRequeryInput \<Rightarrow>
     ('p world, ExternalTransferRequeryResult) call" where
  "svcExternalTransferRequery sv e x input0 =
     repoBind (repoLift (normalizeExternalTransferRequeryInput x input0)) (\<lambda>input.
     repoBind (onStore (GetTransfer (er_InstitutionID input) (er_TransferID input))) (requeryKnown sv e x input))"

end
