(* ===== verification/ServiceControls.thy ===== *)
theory ServiceControls
  imports Service
begin

text \<open>
  \<open>service_account_controls.go\<close>: freezing and unfreezing an account, the post-no-debit control, and
  liens.
\<close>

definition controllableAccount :: "Account \<Rightarrow> bool" where
  "controllableAccount account \<longleftrightarrow>
     acc_Kind account = AccountKindCustomer \<and> acc_Status account \<noteq> AccountStatusClosed"

definition validateAccountControlInput ::
  "externals \<Rightarrow> AccountControlInput \<Rightarrow> bool \<Rightarrow> error + AccountControlInput" where
  "validateAccountControlInput x input0 requireReason =
     (case requireInstitutionID (aci_InstitutionID input0) of Inl err \<Rightarrow> Inl err
      | Inr institutionID \<Rightarrow>
        (let input = \<lparr>aci_InstitutionID = institutionID, aci_AccountID = TrimSpace (aci_AccountID input0),
               aci_Reference = TrimSpace (aci_Reference input0),
               aci_Reason = TrimSpace (aci_Reason input0)\<rparr>
         in if \<not> ext_uuid_valid x (aci_AccountID input) \<or> aci_Reference input = [] \<or>
               (requireReason \<and> aci_Reason input = [])
            then Inl ErrInvalidRequest else Inr input))"

text \<open>The four status operations differ in the status they set and the one they start from.\<close>

definition controlAccount ::
  "svc_env \<Rightarrow> externals \<Rightarrow> string \<Rightarrow> string \<Rightarrow> AccountControlInput \<Rightarrow> ('p world, Account) call" where
  "controlAccount e x status allowed input0 =
     repoBind (repoLift (validateAccountControlInput x input0 True)) (\<lambda>input.
     repoBind (onStore (GetAccount (aci_InstitutionID input) (aci_AccountID input))) (\<lambda>account.
     repoBind (repoEnsure (controllableAccount account) ErrInvalidRequest) (\<lambda>_.
     onStore (SetAccountStatus (se_tx e 0) input status [allowed]))))"

definition svcFreezeAccount :: "svc_env \<Rightarrow> externals \<Rightarrow> AccountControlInput \<Rightarrow> ('p world, Account) call" where
  "svcFreezeAccount e x = controlAccount e x AccountStatusFrozen AccountStatusActive"

definition svcUnfreezeAccount :: "svc_env \<Rightarrow> externals \<Rightarrow> AccountControlInput \<Rightarrow> ('p world, Account) call" where
  "svcUnfreezeAccount e x = controlAccount e x AccountStatusActive AccountStatusFrozen"

definition svcActivatePostNoDebit ::
  "svc_env \<Rightarrow> externals \<Rightarrow> AccountControlInput \<Rightarrow> ('p world, Account) call" where
  "svcActivatePostNoDebit e x = controlAccount e x AccountStatusPostNoDebit AccountStatusActive"

definition svcDeactivatePostNoDebit ::
  "svc_env \<Rightarrow> externals \<Rightarrow> AccountControlInput \<Rightarrow> ('p world, Account) call" where
  "svcDeactivatePostNoDebit e x = controlAccount e x AccountStatusActive AccountStatusPostNoDebit"

definition svcPlaceAccountLien :: "svc_env \<Rightarrow> externals \<Rightarrow> AccountLienInput \<Rightarrow> ('p world, AccountHold) call" where
  "svcPlaceAccountLien e x input0 =
     repoBind (repoLift (requireInstitutionID (ali_InstitutionID input0))) (\<lambda>institutionID.
     let input = input0\<lparr>ali_InstitutionID := institutionID, ali_AccountID := TrimSpace (ali_AccountID input0),
           ali_CurrencyID := ToUpper (TrimSpace (ali_CurrencyID input0)),
           ali_Reference := TrimSpace (ali_Reference input0), ali_Reason := TrimSpace (ali_Reason input0)\<rparr>
     in
     repoBind (repoEnsure (ext_uuid_valid x (ali_AccountID input) \<and> 0 < ali_AmountMinor input \<and>
         ali_CurrencyID input \<noteq> [] \<and> ali_Reference input \<noteq> [] \<and> ali_Reason input \<noteq> [])
         ErrInvalidRequest) (\<lambda>_.
     onStore (PlaceAccountLien (se_tx e 0) input)))"

definition svcReleaseAccountLien :: "svc_env \<Rightarrow> externals \<Rightarrow> ReleaseLienInput \<Rightarrow> ('p world, AccountHold) call" where
  "svcReleaseAccountLien e x input0 =
     repoBind (repoLift (requireInstitutionID (rli_InstitutionID input0))) (\<lambda>institutionID.
     let input = input0\<lparr>rli_InstitutionID := institutionID, rli_AccountID := TrimSpace (rli_AccountID input0),
           rli_LienID := TrimSpace (rli_LienID input0), rli_Reference := TrimSpace (rli_Reference input0),
           rli_Reason := TrimSpace (rli_Reason input0)\<rparr>
     in
     repoBind (repoEnsure (ext_uuid_valid x (rli_AccountID input) \<and> ext_uuid_valid x (rli_LienID input) \<and>
         rli_Reference input \<noteq> []) ErrInvalidRequest) (\<lambda>_.
     onStore (ReleaseAccountLien (se_tx e 0) input)))"

end
