(* ===== verification/ServiceRuns.thy ===== *)
theory ServiceRuns
  imports ServiceExternal ServiceControls
begin

text \<open>
  Every service call, whatever the providers answer and wherever it fails, is a sequence of book steps.
  The calls that name an institution take steps of that institution only; the mock webhook takes its
  institution from the payload, so its steps are of some institution.
\<close>

definition world_evolves :: "string \<Rightarrow> 'p world \<Rightarrow> 'p world \<Rightarrow> bool" where
  "world_evolves i w w' \<longleftrightarrow> evolves i (fst w) (fst w')"

interpretation svc: call_relation "world_evolves i" for i
  by unfold_locales (auto simp: world_evolves_def intro: repo.R_refl repo.R_trans)

lemma svc_onStore: "repo.keeps i m \<Longrightarrow> svc.keeps i (onStore m)"
  by (rule svc.keepsI) (auto simp: world_evolves_def repo.keepsD)

lemma svc_onProvider: "svc.keeps i (onProvider m)"
  by (rule svc.keepsI) (auto simp: world_evolves_def repo.R_refl)

lemma svc_read: "(\<And>s. snd (m s) = s) \<Longrightarrow> svc.keeps i (onStore m)"
  by (intro svc_onStore repo.keeps_still)

text \<open>The value of a pure step is known in what follows it.\<close>

lemma svc_lift:
  assumes "\<And>v. r = Inr v \<Longrightarrow> svc.keeps i (f v)"
  shows "svc.keeps i (repoBind (repoLift r) f)"
  using assms by (intro svc.keeps_bind_on svc.keeps_lift) auto

lemma repo_lift:
  assumes "\<And>v. r = Inr v \<Longrightarrow> repo.keeps i (f v)"
  shows "repo.keeps i (repoBind (repoLift r) f)"
  using assms by (intro repo.keeps_bind_on repo.keeps_lift) auto

lemma requireInstitutionID_Inr: "requireInstitutionID i = Inr j \<longleftrightarrow> j = TrimSpace i \<and> j \<noteq> []"
  by (auto simp: requireInstitutionID_def Let_def)

lemma parsedID_Inr: "parsedID x v = Inr w \<longleftrightarrow> w = TrimSpace v \<and> ext_uuid_valid x w"
  by (auto simp: parsedID_def Let_def)

lemma reads_still [simp]:
  "snd (GetAccount i a s) = s" "snd (GetAccountByNumber i n s) = s"
  "snd (GetDefaultInternalSettlementAccount i c s) = s" "snd (GetTransfer i k s) = s"
  "snd (GetTransferHold i k s) = s" "snd (GetCustomer i k s) = s" "snd (GetBalance i a s) = s"
  "snd (ListAccountsByCustomer i k s) = s" "snd (settlementAccount i a c s) = s"
  "snd (ListTransactions i a options s) = s" "snd (GetReconciliationItem e i k s) = s"
  "snd (ListReconciliationItems e i options' s) = s"
  by (simp_all add: GetAccount_def GetAccountByNumber_def GetDefaultInternalSettlementAccount_def
      GetTransfer_def GetTransferHold_def GetCustomer_def GetBalance_def ListAccountsByCustomer_def
      settlementAccount_def ListTransactions_def GetReconciliationItem_def ListReconciliationItems_def
      Let_def)

lemma list_reads_still [simp]:
  "snd (ListTransfers x i options s) = s" "snd (ListAuditEvents x i options s) = s"
  by (simp_all add: ListTransfers_def ListAuditEvents_def snd_repoBind split: sum.splits)

lemma svc_then_read:
  assumes "\<And>s. snd (m s) = s" and "\<And>v. svc.keeps i (f v)"
  shows "svc.keeps i (repoBind (onStore m) f)"
  by (intro svc.keeps_bind svc_read assms)

lemma svc_then_ensure: "(c \<Longrightarrow> svc.keeps i (f ())) \<Longrightarrow> svc.keeps i (repoBind (repoEnsure c err) f)"
  by (rule svc.keeps_bind_on [OF svc.keeps_ensure]) (auto split: if_splits)

lemmas svc_steps = svc_lift svc_then_ensure svc_then_read

lemma record_in: "in_InstitutionID input = i \<Longrightarrow> svc.keeps i (onStore (RecordTransfer e x input))"
  using svc_onStore [OF repo_RecordTransfer] by blast

lemma reverse_in: "TrimSpace (rt_InstitutionID input) = i \<Longrightarrow> svc.keeps i (onStore (ReverseTransfer e x input))"
  using svc_onStore [OF repo_ReverseTransfer] by blast

section \<open>service.go\<close>

lemma validateCustomer_institution:
  "validateCustomer x input = Inr v \<Longrightarrow> cci_InstitutionID v = TrimSpace (cci_InstitutionID input)"
  by (auto simp: validateCustomer_def normalizeCustomerInput_def customerNames_def Let_def
      requireInstitutionID_def split: sum.splits if_splits)

lemma validateAccount_institution:
  "validateAccount x input = Inr v \<Longrightarrow> cai_InstitutionID v = TrimSpace (cai_InstitutionID input)"
  by (auto simp: validateAccount_def Let_def requireInstitutionID_def split: sum.splits if_splits)

lemma svc_CreateCustomer: "svc.keeps (TrimSpace (cci_InstitutionID input)) (svcCreateCustomer e x input)"
  unfolding svcCreateCustomer_def
  by (rule svc_lift) (metis svc_onStore repo_CreateCustomer validateCustomer_institution)

lemma svc_CreateAccount: "svc.keeps (TrimSpace (cai_InstitutionID input)) (svcCreateAccount e x input)"
  unfolding svcCreateAccount_def
  by (rule svc_lift) (metis svc_onStore repo_CreateAccount validateAccount_institution)

lemma svc_InternalCredit: "svc.keeps (TrimSpace (ici_InstitutionID input)) (svcInternalCredit e x input)"
  unfolding svcInternalCredit_def Let_def
  by (intro svc_steps record_in) (simp_all add: internalInput_def requireInstitutionID_Inr)

lemma svc_InternalDebit: "svc.keeps (TrimSpace (idi_InstitutionID input)) (svcInternalDebit e x input)"
  unfolding svcInternalDebit_def Let_def
  by (intro svc_steps record_in) (simp_all add: internalInput_def requireInstitutionID_Inr)

lemma svc_InternalTransfer: "svc.keeps (TrimSpace (iti_InstitutionID input)) (svcInternalTransfer e x input)"
  unfolding svcInternalTransfer_def Let_def
  by (intro svc_steps record_in) (simp_all add: internalInput_def requireInstitutionID_Inr)

lemma svc_MarkReviewed:
  "svc.keeps (TrimSpace (mr_InstitutionID input)) (svcMarkReconciliationItemReviewed e x input)"
proof -
  have mark: "svc.keeps i (onStore (MarkReconciliationItemReviewed e v))" if "mr_InstitutionID v = i" for i v e
    using svc_onStore [OF repo_MarkReviewed] that by blast
  show ?thesis unfolding svcMarkReconciliationItemReviewed_def Let_def
    by (intro svc_steps mark) (simp_all add: requireInstitutionID_Inr)
qed

lemma svc_ReverseTransfer: "svc.keeps (TrimSpace institutionID) (svcReverseTransfer e x institutionID k key)"
  unfolding svcReverseTransfer_def by (intro svc_steps reverse_in) (simp add: requireInstitutionID_Inr)

section \<open>Provider calls\<close>

lemma completion_simps [simp]:
  "in_InstitutionID (externalOutboundCompletionInput intent result) = in_InstitutionID intent"
  "in_Direction (externalOutboundCompletionInput intent result) = in_Direction intent"
  by (simp_all add: externalOutboundCompletionInput_def Let_def)

lemma svc_initiateAndComplete:
  assumes "in_InstitutionID intentInput = i" "in_Direction intentInput = TransferDirectionOutbound"
  shows "svc.keeps i (initiateAndComplete e x provider request intentInput intent)"
proof -
  have "svc.keeps i (onStore (CompleteExternalOutboundTransfer e' x k
      (externalOutboundCompletionInput intentInput result)))" for e' k result
    using svc_onStore [OF repo_CompleteExternalOutboundTransfer
      [of "externalOutboundCompletionInput intentInput result"]] assms by simp
  then show ?thesis unfolding initiateAndComplete_def
    by (intro svc.keeps_bind svc.keeps_attempt svc_onProvider)
qed

lemma begin_in:
  "in_InstitutionID input = i \<Longrightarrow> svc.keeps i (onStore (BeginExternalOutboundTransfer e x input))"
  using svc_onStore [OF repo_BeginExternalOutboundTransfer] by blast

lemma svc_recordProviderTransfer:
  "req_InstitutionID req = i \<Longrightarrow> svc.keeps i (recordProviderTransfer e x direction req result fp)"
  unfolding recordProviderTransfer_def
  by (intro svc_lift svc.keeps_prod svc_then_read record_in) simp_all

lemma normalizeTransferRequest_institution:
  "normalizeTransferRequest req = Inr v \<Longrightarrow>
     req_InstitutionID v = institutionIDOrDemo (req_InstitutionID req)"
  by (auto simp: normalizeTransferRequest_def Let_def split: if_splits)

lemma svc_MockOutbound:
  "svc.keeps (institutionIDOrDemo (req_InstitutionID req)) (svcMockOutbound (sv :: 'p service) e x req)"
proof -
  have body: "svc.keeps i
    (repoBind (onStore (GetDefaultInternalSettlementAccount (req_InstitutionID v) (req_CurrencyID v))) (\<lambda>clearing.
        repoBind (onStore (BeginExternalOutboundTransfer e0 x (mockOutboundIntent v clearing fp))) (\<lambda>(intent, created).
        if \<not> created \<or> tr_Status intent \<noteq> TransferStatusPending then repoReturn intent
        else initiateAndComplete e x provider (mockOutboundRequest v) (mockOutboundIntent v clearing fp) intent)))"
    if "req_InstitutionID v = i" for i v fp e0 and provider :: "'p provider"
    using that
    by (intro svc_then_read svc.keeps_bind svc.keeps_prod svc.keeps_if svc.keeps_return begin_in
        svc_initiateAndComplete) (simp_all add: mockOutboundIntent_def)
  show ?thesis unfolding svcMockOutbound_def Let_def
    by (intro svc_lift svc.keeps_if body svc_recordProviderTransfer)
      (simp_all add: normalizeTransferRequest_institution)
qed

text \<open>The webhook's institution is the one its event names.\<close>

lemma normalizeWebhookEvent_institution:
  "normalizeWebhookEvent event = Inr v \<Longrightarrow> we_InstitutionID v = TrimSpace (we_InstitutionID event)"
  by (auto simp: normalizeWebhookEvent_def Let_def requireInstitutionID_def split: sum.splits if_splits)

lemma svc_recordProviderWebhookEvent:
  "svc.keeps (TrimSpace (we_InstitutionID event)) (recordProviderWebhookEvent e x event)"
  unfolding recordProviderWebhookEvent_def
  by (intro svc_steps svc.keeps_if reverse_in record_in)
    (simp_all add: webhookReversalInput_def webhookTransferInput_def normalizeWebhookEvent_institution)

section \<open>service_external.go\<close>

lemma svc_holdID: "svc.keeps i (transferHoldID t)"
  unfolding transferHoldID_def
  by (intro svc.keeps_bind svc.keeps_attempt svc_read svc.keeps_sum svc.keeps_if svc.keeps_return
      svc.keeps_fail) simp

lemma svc_outboundResult: "svc.keeps i (externalOutboundTransferResult t)"
  unfolding externalOutboundTransferResult_def by (intro svc.keeps_bind svc_holdID svc.keeps_return)

lemma svc_requeryResult: "svc.keeps i (externalTransferRequeryResult t m)"
  unfolding externalTransferRequeryResult_def by (intro svc.keeps_bind svc_holdID svc.keeps_return)

lemma outboundInput_institution:
  "normalizeExternalOutboundTransferInput x input = Inr v \<Longrightarrow>
     eo_InstitutionID v = TrimSpace (eo_InstitutionID input)"
  by (auto simp: normalizeExternalOutboundTransferInput_def Let_def requireInstitutionID_def
      split: sum.splits if_splits)

lemma svc_ExternalOutboundTransfer:
  "svc.keeps (TrimSpace (eo_InstitutionID input)) (svcExternalOutboundTransfer (sv :: 'p service) e x input)"
proof -
  have body: "svc.keeps i
    (repoBind (onStore (GetDefaultInternalSettlementAccount (eo_InstitutionID v) (eo_CurrencyID v))) (\<lambda>clearing.
       repoBind (onStore (BeginExternalOutboundTransfer e0 x (externalOutboundIntent x v clearing))) (\<lambda>(intent, created).
       if \<not> created then externalOutboundTransferResult intent
       else repoBind (initiateAndComplete e x provider (externalOutboundRequest v)
              (externalOutboundIntent x v clearing) intent) externalOutboundTransferResult)))"
    if "eo_InstitutionID v = i" for i v e0 and provider :: "'p provider"
    using that
    by (intro svc_then_read svc.keeps_bind svc.keeps_prod svc.keeps_if svc_outboundResult begin_in
        svc_initiateAndComplete) (simp_all add: externalOutboundIntent_def)
  show ?thesis unfolding svcExternalOutboundTransfer_def Let_def
    by (intro svc_lift body) (simp add: outboundInput_institution)
qed

text \<open>Inbound events: every branch of the decision stays within the institution of the event.\<close>

lemma repo_then_read:
  assumes "\<And>s. snd (m s) = s" and "\<And>v. repo.keeps i (f v)"
  shows "repo.keeps i (repoBind m f)"
  by (intro repo.keeps_bind repo.keeps_still assms)

lemma repo_review:
  assumes "we_InstitutionID event = i" "TrimSpace i = i"
  shows "repo.keeps i (recordExternalInboundReview e x event accountID reason rsv)"
proof -
  have rec_in: "repo.keeps i (RecordProviderEventReview e x (inboundReviewInput event a reason rsv))" for a
    using repo_RecordProviderEventReview [of "inboundReviewInput event a reason rsv"] assms
    by (simp add: inboundReviewInput_def)
  show ?thesis unfolding recordExternalInboundReview_def
    by (intro repo.keeps_bind repo.keeps_if repo_then_read repo.keeps_return rec_in) simp
qed

lemma repo_inboundTransfer:
  "we_InstitutionID event = i \<Longrightarrow> repo.keeps i (recordExternalInboundTransfer e x event accountID)"
  unfolding recordExternalInboundTransfer_def
proof (intro repo_then_read)
  fix clearing assume "we_InstitutionID event = i"
  then show "repo.keeps i (RecordTransfer e x (inboundTransferInput event accountID clearing))"
    using repo_RecordTransfer [of "inboundTransferInput event accountID clearing"]
    by (simp add: inboundTransferInput_def)
qed simp

lemma repo_afterInbound:
  assumes "we_InstitutionID event = i" "TrimSpace i = i"
  shows "repo.keeps i (afterInboundTransfer e x institutionID event accountID r)"
  unfolding afterInboundTransfer_def
  by (intro repo.keeps_sum repo.keeps_return repo.keeps_if repo_review repo.keeps_fail repo.keeps_bind
      repo.keeps_attempt repo.keeps_still) (simp_all add: assms)

lemma repo_inboundToAccount:
  assumes "we_InstitutionID event = i" "TrimSpace i = i"
  shows "repo.keeps i (inboundToAccount e x institutionID event account)"
  unfolding inboundToAccount_def Let_def
  by (intro repo.keeps_if repo_review repo.keeps_bind repo.keeps_attempt repo_inboundTransfer
      repo_afterInbound) (simp_all add: assms)

lemma repo_inboundEvent:
  assumes "we_InstitutionID event = i" "TrimSpace i = i"
  shows "repo.keeps i (inboundEvent e x institutionID event)"
  unfolding inboundEvent_def externalInboundDestinationAccount_def
  by (intro repo.keeps_bind repo.keeps_attempt repo.keeps_if repo.keeps_sum repo_review repo.keeps_fail
      repo_inboundToAccount repo.keeps_still) (simp_all add: assms)

lemma inboundWebhook_institution:
  "normalizeExternalInboundWebhookEvent x event institutionID providerName = Inr v \<Longrightarrow>
     we_InstitutionID v = institutionID"
  by (auto simp: normalizeExternalInboundWebhookEvent_def Let_def split: if_splits)

lemma svc_ExternalInboundEvent:
  "svc.keeps (TrimSpace (ei_InstitutionID input)) (svcExternalInboundEvent sv e x input)"
  unfolding svcExternalInboundEvent_def Let_def
  by (intro svc_lift svc.keeps_bind [OF svc_onProvider] svc.keeps_option svc.keeps_fail svc_onStore
      repo_inboundEvent)
    (simp_all add: inboundWebhook_institution requireInstitutionID_Inr)

text \<open>Requery.\<close>

lemma requeryInput_institution:
  "normalizeExternalTransferRequeryInput x input = Inr v \<Longrightarrow>
     er_InstitutionID v = TrimSpace (er_InstitutionID input)"
  by (auto simp: normalizeExternalTransferRequeryInput_def Let_def requireInstitutionID_def
      split: sum.splits if_splits)

lemma completionInput_institution:
  "externalTransferRequeryCompletionInput t c ref nt result = Inr (v, m) \<Longrightarrow>
     in_InstitutionID v = tr_InstitutionID t"
  by (auto simp: externalTransferRequeryCompletionInput_def Let_def split: if_splits)

lemma GetTransfer_Inr: "fst (GetTransfer i k s) = Inr t \<longleftrightarrow> select_one (tr_key i k) (transfers s) = Some t"
  by (auto simp: GetTransfer_def readDB_def getRow_Inr getRow_Inl split: sum.splits)

lemma svc_applyScenario: "svc.keeps i (applyMockRequeryScenario e provider ref sc)"
  unfolding applyMockRequeryScenario_def
  by (intro svc.keeps_if svc.keeps_return svc.keeps_option svc.keeps_fail svc_onProvider)

lemma svc_requeryTransfer:
  assumes "tr_InstitutionID transfer = i" "TrimSpace i = i"
  shows "svc.keeps i (requeryTransfer e x provider transfer reference input)"
proof -
  have done_in: "svc.keeps i (onStore (CompleteExternalTransferRequery e0 x k v))"
    if "in_InstitutionID v = i" for e0 k v
    using svc_onStore [OF repo_CompleteExternalTransferRequery [of v e0 x k]] that assms by simp
  show ?thesis unfolding requeryTransfer_def
    by (intro svc.keeps_bind [OF svc_applyScenario] svc.keeps_bind [OF svc.keeps_attempt [OF svc_onProvider]]
        svc_lift svc_then_read svc.keeps_prod svc.keeps_bind [OF done_in] svc_requeryResult)
      (auto simp: assms completionInput_institution)
qed

lemma svc_requeryKnown:
  assumes "tr_InstitutionID t = i" "TrimSpace i = i"
  shows "svc.keeps i (requeryKnown sv e x input t)"
  unfolding requeryKnown_def
  by (intro svc_then_ensure svc.keeps_if svc_requeryResult svc_lift svc_requeryTransfer assms)

lemma svc_ExternalTransferRequery:
  "svc.keeps (TrimSpace (er_InstitutionID input)) (svcExternalTransferRequery (sv :: 'p service) e x input)"
  unfolding svcExternalTransferRequery_def
proof (rule svc_lift)
  fix v assume "normalizeExternalTransferRequeryInput x input = Inr v"
  then have v: "er_InstitutionID v = TrimSpace (er_InstitutionID input)" by (rule requeryInput_institution)
  show "svc.keeps (TrimSpace (er_InstitutionID input))
    (repoBind (onStore (GetTransfer (er_InstitutionID v) (er_TransferID v))) (requeryKnown sv e x v))"
  proof (rule svc.keeps_bind_on [OF svc_read])
    fix t :: Transfer and w :: "'p world"
    assume "fst (onStore (GetTransfer (er_InstitutionID v) (er_TransferID v)) w) = Inr t"
    then have "tr_InstitutionID t = er_InstitutionID v"
      by (cases w) (auto simp: GetTransfer_Inr tr_key_def dest: select_one_SomeD)
    then show "svc.keeps (TrimSpace (er_InstitutionID input)) (requeryKnown sv e x v t)"
      by (intro svc_requeryKnown) (simp_all add: v)
  qed simp
qed

section \<open>service_account_controls.go\<close>

lemma controlInput_institution:
  "validateAccountControlInput x input b = Inr v \<Longrightarrow> aci_InstitutionID v = TrimSpace (aci_InstitutionID input)"
  by (auto simp: validateAccountControlInput_def Let_def requireInstitutionID_def
      split: sum.splits if_splits)

lemma svc_controlAccount:
  "svc.keeps (TrimSpace (aci_InstitutionID input)) (controlAccount e x status allowed input)"
proof -
  have set_in: "svc.keeps i (onStore (SetAccountStatus e v st al))" if "aci_InstitutionID v = i" for e i v st al
    using svc_onStore [OF repo_SetAccountStatus] that by blast
  show ?thesis unfolding controlAccount_def
    by (intro svc_steps set_in) (simp_all add: controlInput_institution)
qed

lemma svc_PlaceAccountLien: "svc.keeps (TrimSpace (ali_InstitutionID input)) (svcPlaceAccountLien e x input)"
proof -
  have lien_in: "svc.keeps i (onStore (PlaceAccountLien e v))" if "ali_InstitutionID v = i" for e i v
    using svc_onStore [OF repo_PlaceAccountLien] that by blast
  show ?thesis unfolding svcPlaceAccountLien_def Let_def
    by (intro svc_steps lien_in) (simp add: requireInstitutionID_Inr)
qed

lemma svc_ReleaseAccountLien: "svc.keeps (TrimSpace (rli_InstitutionID input)) (svcReleaseAccountLien e x input)"
proof -
  have lien_in: "svc.keeps i (onStore (ReleaseAccountLien e v))" if "rli_InstitutionID v = i" for e i v
    using svc_onStore [OF repo_ReleaseAccountLien] that by blast
  show ?thesis unfolding svcReleaseAccountLien_def Let_def
    by (intro svc_steps lien_in) (simp add: requireInstitutionID_Inr)
qed

end
