(* ===== verification/BookHistory.thy ===== *)
theory BookHistory
  imports BookMoney
begin

text \<open>
  What no step of the books ever undoes or reaches: journals, postings and audit events are only
  appended, a transfer keeps its identity and, once settled, its outcome; and the rows of one
  institution are out of reach of the steps of another.
\<close>

section \<open>Nothing is rewritten\<close>

definition kept_row :: "Transfer \<Rightarrow> Transfer \<Rightarrow> bool" where
  "kept_row t t' \<longleftrightarrow>
     same_identity t t' \<and>
     (tr_Status t \<noteq> TransferStatusPending \<longrightarrow>
        tr_Status t' = tr_Status t \<and> tr_JournalEntryID t' = tr_JournalEntryID t)"

definition history_kept :: "store \<Rightarrow> store \<Rightarrow> bool" where
  "history_kept s s' \<longleftrightarrow>
     prefix (journal_entries s) (journal_entries s') \<and> prefix (postings s) (postings s') \<and>
     prefix (audit_events s) (audit_events s') \<and>
     (\<forall>t\<in>set (transfers s). \<exists>t'\<in>set (transfers s'). kept_row t t')"

lemma kept_row_refl [simp]: "kept_row t t"
  by (simp add: kept_row_def)

lemma kept_in: "t \<in> A \<Longrightarrow> \<exists>t'\<in>A. kept_row t t'"
  by (rule bexI [where P = "kept_row t", OF kept_row_refl])

lemma kept_row_trans: "kept_row t u \<Longrightarrow> kept_row u v \<Longrightarrow> kept_row t v"
  by (auto simp: kept_row_def same_identity_def)

lemma history_keptI:
  assumes "prefix (journal_entries s) (journal_entries s')" "prefix (postings s) (postings s')"
    and "prefix (audit_events s) (audit_events s')"
    and "\<And>t. t \<in> set (transfers s) \<Longrightarrow> \<exists>t'\<in>set (transfers s'). kept_row t t'"
  shows "history_kept s s'"
  using assms by (simp add: history_kept_def)

lemma history_refl: "history_kept s s"
  by (rule history_keptI) (auto intro: kept_in)

lemma history_trans: "history_kept s t \<Longrightarrow> history_kept t u \<Longrightarrow> history_kept s u"
  unfolding history_kept_def by (meson kept_row_trans prefix_order.trans)

lemma history_frame:
  "journal_entries s' = journal_entries s \<Longrightarrow> postings s' = postings s \<Longrightarrow>
     prefix (audit_events s) (audit_events s') \<Longrightarrow> set (transfers s) \<subseteq> set (transfers s') \<Longrightarrow>
     history_kept s s'"
  by (rule history_keptI) (auto intro: kept_in)

lemma journal_prefix:
  assumes "journal_effect i k amount db cr held j s s1"
  shows "prefix (journal_entries s) (journal_entries s1)" "prefix (postings s) (postings s1)"
  using assms by (auto simp: journal_effect_def)

text \<open>The rewriting of one row keeps all rows if it keeps that row.\<close>

lemma change_keeps:
  assumes "\<And>u. u \<in> set ts \<Longrightarrow> tr_key i k u \<Longrightarrow> kept_row u (f u)" and "t \<in> set ts"
  shows "\<exists>t'\<in>set (update_rows (tr_key i k) f ts). kept_row t t'"
proof (rule bexI)
  show "kept_row t (if tr_key i k t then f t else t)" using assms by simp
  show "(if tr_key i k t then f t else t) \<in> set (update_rows (tr_key i k) f ts)"
    using assms(2) by (auto simp: set_update_rows)
qed

lemma history_change:
  assumes "\<And>u. u \<in> set (transfers s) \<Longrightarrow> tr_key i k u \<Longrightarrow> kept_row u (f u)"
    and "prefix (journal_entries s) (journal_entries s1)" "prefix (postings s) (postings s1)"
    and "audit_events s1 = audit_events s" "transfers s1 = transfers s"
  shows "history_kept s (change_row i k f s1)"
  using assms(2-5) change_keeps [OF assms(1)]
  by (intro history_keptI) (simp_all add: change_row_def)

lemma pending_kept:
  assumes "rows_ok (transfers s)" "t \<in> set (transfers s)" "tr_key i k t" "tr_Status t = TransferStatusPending"
    and "row_changed i k f s" "u \<in> set (transfers s)" "tr_key i k u"
  shows "kept_row u (f u)"
proof -
  have "u = t" using tr_key_unique [OF assms(1,6,2)] assms(3,7) by (simp add: tr_key_def)
  with assms(4,5) show ?thesis by (simp add: kept_row_def row_changed_def)
qed

lemma still_kept:
  assumes "row_changed i k f s" and "tr_Status (f u) = tr_Status u" "tr_JournalEntryID (f u) = tr_JournalEntryID u"
  shows "kept_row u (f u)"
  using assms by (simp add: kept_row_def row_changed_def)

lemma history_step: "book_step i s s' \<Longrightarrow> rows_ok (transfers s) \<Longrightarrow> history_kept s s'"
proof (induction rule: book_step.induct)
  case (record_posted i t db cr held j s s1)
  then show ?case
    by (intro history_keptI) (auto simp: add_row_def effect_frames dest: journal_prefix intro: kept_in)
next
  case (record_held i t s h s')
  then show ?case by (intro history_frame) (auto simp: add_row_def effect_frames)
next
  case (settle_posted t s i k db cr held j s1 f)
  then show ?case
    by (intro history_change pending_kept) (auto simp: effect_frames dest: journal_prefix)
next
  case (settle_held t s i k cr j s1 h s2 f)
  then show ?case
    by (intro history_change pending_kept) (auto simp: effect_frames dest: journal_prefix)
next
  case (fail_held t s i k h s1 f)
  then show ?case by (intro history_change pending_kept) (auto simp: effect_frames)
next
  case (mark_reversal t s i k f)
  have "\<And>u. tr_Status (f u) = tr_Status u \<and> tr_JournalEntryID (f u) = tr_JournalEntryID u"
  proof -
    fix u obtain now where "f u = u\<lparr>tr_Direction := TransferDirectionReversal, tr_UpdatedAt := now\<rparr>"
      using mark_reversal(4) by blast
    then show "tr_Status (f u) = tr_Status u \<and> tr_JournalEntryID (f u) = tr_JournalEntryID u" by simp
  qed
  with mark_reversal show ?case by (intro history_change still_kept) auto
next
  case (mark_reviewed f i k s)
  have "\<And>u. tr_Status (f u) = tr_Status u \<and> tr_JournalEntryID (f u) = tr_JournalEntryID u"
  proof -
    fix u obtain st n a w now where "f u = u\<lparr>tr_ReviewStatus := st, tr_ReviewNote := n, tr_ReviewedAt := a,
        tr_ReviewedBy := w, tr_UpdatedAt := now\<rparr>"
      using mark_reviewed(1) by blast
    then show "tr_Status (f u) = tr_Status u \<and> tr_JournalEntryID (f u) = tr_JournalEntryID u" by simp
  qed
  with mark_reviewed show ?case by (intro history_change still_kept) auto
next
  case (fail_unheld t s i k f)
  then show ?case by (intro history_change pending_kept) simp_all
next
  case (still_pending t s i k f)
  then show ?case by (intro history_change pending_kept) simp_all
qed (rule history_frame; auto simp: add_row_def effect_frames)+

section \<open>Institutions apart\<close>

text \<open>The rows of an institution, table by table, are those its operations can see.\<close>

definition tenant_rows ::
  "string \<Rightarrow> store \<Rightarrow> Account list \<times> AccountBalance list \<times> JournalEntry list \<times> Posting list \<times>
     Transfer list \<times> AccountHold list \<times> ProviderEvent list \<times> AuditEvent list \<times> Customer list" where
  "tenant_rows j s =
     (filter (\<lambda>r. acc_InstitutionID r = j) (accounts s),
      filter (\<lambda>r. bal_InstitutionID r = j) (account_balances s),
      filter (\<lambda>r. je_InstitutionID r = j) (journal_entries s),
      filter (\<lambda>r. po_InstitutionID r = j) (postings s),
      filter (\<lambda>r. tr_InstitutionID r = j) (transfers s),
      filter (\<lambda>r. ho_InstitutionID r = j) (account_holds s),
      filter (\<lambda>r. pe_InstitutionID r = j) (provider_events s),
      filter (\<lambda>r. ev_InstitutionID r = j) (audit_events s),
      filter (\<lambda>r. cus_InstitutionID r = j) (customers s))"

lemma filter_update_rows_other:
  "(\<And>r. P r \<Longrightarrow> \<not> Q r \<and> \<not> Q (f r)) \<Longrightarrow> filter Q (update_rows P f rows) = filter Q rows"
  by (induction rows) auto

lemma moved_other:
  assumes "moved i a dA dL bs bs'" and "j \<noteq> i"
  shows "filter (\<lambda>r. bal_InstitutionID r = j) bs' = filter (\<lambda>r. bal_InstitutionID r = j) bs"
proof -
  obtain f where "bs' = update_rows (bal_key i a) f bs" and f: "\<forall>b. bal_InstitutionID (f b) = bal_InstitutionID b"
    using assms(1) by (auto simp: moved_def)
  then show ?thesis using assms(2) by (auto simp: bal_key_def intro!: filter_update_rows_other)
qed

lemma tenant_change_row:
  assumes "row_changed i k f s" and "j \<noteq> i" and "transfers s1 = transfers s"
    and "tenant_rows j s1 = tenant_rows j s"
  shows "tenant_rows j (change_row i k f s1) = tenant_rows j s"
proof -
  have "\<And>r. tr_InstitutionID (f r) = tr_InstitutionID r"
    using assms(1) by (auto simp: row_changed_def same_identity_def)
  then have "filter (\<lambda>r. tr_InstitutionID r = j) (update_rows (tr_key i k) f (transfers s)) =
      filter (\<lambda>r. tr_InstitutionID r = j) (transfers s)"
    using assms(2) by (auto simp: tr_key_def intro!: filter_update_rows_other)
  with assms(3,4) show ?thesis by (simp add: tenant_rows_def change_row_def)
qed

lemma tenant_journal:
  assumes "journal_effect i k amount db cr held e s s1" and "j \<noteq> i"
  shows "tenant_rows j s1 = tenant_rows j s"
proof -
  obtain p1 p2 b1 b2 where legs: "leg_posted i amount held db PostingDebit s e p1 (account_balances s) b1"
      "leg_posted i amount held cr PostingCredit s e p2 b1 b2"
    and e: "je_InstitutionID e = i"
    and s1: "s1 = s\<lparr>journal_entries := journal_entries s @ [e], postings := postings s @ [p1, p2],
        account_balances := b2\<rparr>"
    using assms(1) by (auto simp: journal_effect_def)
  have leg: "po_InstitutionID p = i \<and>
      filter (\<lambda>r. bal_InstitutionID r = j) bs' = filter (\<lambda>r. bal_InstitutionID r = j) bs"
    if "leg_posted i amount held a d s e p bs bs'" for a d p bs bs'
    using that assms(2) by (auto simp: leg_posted_def moved_other)
  from leg [OF legs(1)] leg [OF legs(2)] show ?thesis
    using s1 e assms(2) by (simp add: tenant_rows_def)
qed

lemma hold_closed_other:
  assumes "hold_closed h status hs hs'" and "j \<noteq> ho_InstitutionID h"
  shows "filter (\<lambda>r. ho_InstitutionID r = j) hs' = filter (\<lambda>r. ho_InstitutionID r = j) hs"
proof -
  obtain U f where hs': "hs' = update_rows U f hs" and f: "closes_hold f status"
    and U: "\<forall>x. U x \<longrightarrow> ho_InstitutionID x = ho_InstitutionID h"
    using assms(1) by (auto simp: hold_closed_def)
  have "ho_InstitutionID (f x) = ho_InstitutionID x" for x
  proof -
    obtain now where "f x = x\<lparr>ho_Status := status, ho_UpdatedAt := now, ho_ReleasedAt := Some now\<rparr>"
      using f by (auto simp: closes_hold_def)
    then show ?thesis by simp
  qed
  with U assms(2) show ?thesis unfolding hs' by (auto intro!: filter_update_rows_other)
qed

lemma tenant_placed:
  assumes "hold_placed h s s'" and "j \<noteq> ho_InstitutionID h"
  shows "tenant_rows j s' = tenant_rows j s"
  using assms by (auto simp: hold_placed_def tenant_rows_def moved_other)

lemma tenant_released:
  assumes "hold_released h s s'" and "j \<noteq> ho_InstitutionID h"
  shows "tenant_rows j s' = tenant_rows j s"
  using assms by (auto simp: hold_released_def tenant_rows_def moved_other hold_closed_other)

lemma tenant_consumed:
  assumes "hold_consumed h s s'" and "j \<noteq> ho_InstitutionID h"
  shows "tenant_rows j s' = tenant_rows j s"
  using assms by (auto simp: hold_consumed_def tenant_rows_def hold_closed_other)

lemma active_institution: "select_one (active_for i k) hs = Some h \<Longrightarrow> ho_InstitutionID h = i"
  by (auto simp: active_for_def dest!: select_one_SomeD)

lemma tenant_step: "book_step i s s' \<Longrightarrow> TrimSpace i = i \<Longrightarrow> j \<noteq> i \<Longrightarrow> tenant_rows j s' = tenant_rows j s"
proof (induction rule: book_step.induct)
  case (link_event f U i s)
  have "\<And>r. pe_InstitutionID (f r) = pe_InstitutionID r"
  proof -
    fix r obtain k where "f r = r\<lparr>pe_TransferID := k\<rparr>" using link_event(1) by (auto simp: links_event_def)
    then show "pe_InstitutionID (f r) = pe_InstitutionID r" by simp
  qed
  with link_event show ?case by (auto simp: tenant_rows_def intro!: filter_update_rows_other)
next
  case (set_status f U i s)
  have "\<And>r. acc_InstitutionID (f r) = acc_InstitutionID r"
  proof -
    fix r obtain st now where "f r = r\<lparr>acc_Status := st, acc_UpdatedAt := now\<rparr>" using set_status(1) by blast
    then show "acc_InstitutionID (f r) = acc_InstitutionID r" by simp
  qed
  with set_status show ?case by (auto simp: tenant_rows_def intro!: filter_update_rows_other)
next
  case (place_lien h i s s')
  then show ?case by (auto intro: tenant_placed)
next
  case (release_lien h i s s')
  then show ?case by (auto intro: tenant_released)
next
  case (record_posted i t db cr held e s s1)
  then show ?case using tenant_journal [OF record_posted(1)]
    by (simp add: tenant_rows_def add_row_def row_added_def)
next
  case (record_held i t s h s')
  have "tenant_rows j s' = tenant_rows j (add_row t s)" using record_held by (intro tenant_placed) auto
  with record_held show ?case by (simp add: tenant_rows_def add_row_def row_added_def)
next
  case (settle_posted t s i k db cr held e s1 f)
  then show ?case by (intro tenant_change_row tenant_journal) (auto simp: effect_frames)
next
  case (settle_held t s i k cr e s1 h s2 f)
  have "tenant_rows j s2 = tenant_rows j s1"
    using settle_held by (intro tenant_consumed) (auto dest: active_institution)
  with settle_held show ?case
    by (intro tenant_change_row) (simp_all add: effect_frames tenant_journal)
next
  case (fail_held t s i k h s1 f)
  then show ?case
    by (intro tenant_change_row tenant_released) (auto simp: effect_frames dest: active_institution)
next
  case (fail_unheld t s i k f)
  then show ?case by (intro tenant_change_row) auto
next
  case (still_pending t s i k f)
  then show ?case by (intro tenant_change_row) auto
next
  case (mark_reversal t s i k f)
  then show ?case by (intro tenant_change_row) auto
next
  case (mark_reviewed f i k s)
  then show ?case by (intro tenant_change_row) auto
qed (auto simp: tenant_rows_def add_row_def row_added_def)

section \<open>Runs\<close>

lemma history_steps: "book_steps i s s' \<Longrightarrow> books_ok s \<Longrightarrow> history_kept s s'"
proof (induction rule: rtranclp_induct)
  case (step t u)
  then have "books_ok t" using books_ok_steps by blast
  with step show ?case using history_step history_trans books_okD(1) by blast
qed (rule history_refl)

lemma tenant_steps:
  "book_steps i s s' \<Longrightarrow> TrimSpace i = i \<Longrightarrow> j \<noteq> i \<Longrightarrow> tenant_rows j s' = tenant_rows j s"
  by (induction rule: rtranclp_induct) (auto dest: tenant_step)

end
