(* ===== verification/DemoSeed.thy ===== *)
theory DemoSeed
  imports Runs BookHistory
begin

text \<open>
  \<open>sql_demo_repository.go\<close>: the idempotent seed of the demo institution.  Every statement inserts a row or,
  when the identifier is taken, rewrites some of its columns.  The table of countries and the columns
  that nothing reads (\<open>nuban_prefix\<close>, the name of a currency, \<open>meta\<close> beyond the customer fields) are not
  kept in the store.
\<close>

record SeedResult =
  sr_Institution :: Institution
  sr_Branch :: Branch
  sr_Customer :: Customer
  sr_Account :: Account
  sr_Clearing :: Account

text \<open>\<open>INSERT \<dots> ON CONFLICT (id) DO UPDATE\<close>\<close>

definition upsert :: "(store \<Rightarrow> bool) \<Rightarrow> unit tx \<Rightarrow> unit tx \<Rightarrow> unit tx" where
  "upsert present update_row insert_row = (\<lambda>s. if present s then update_row s else insert_row s)"

section \<open>The rows\<close>

definition seedInstitution :: "time \<Rightarrow> Institution" where
  "seedInstitution now =
     \<lparr>inst_ID = DemoInstitutionID, inst_Name = ''Lenz Demo Microfinance Bank'',
      inst_ShortName = ''Lenz Demo'', inst_Code = ''999001'', inst_CurrencyID = ''NGN'',
      inst_Status = ''active'', inst_CreatedAt = now, inst_UpdatedAt = now\<rparr>"

definition seedBranch :: "time \<Rightarrow> Branch" where
  "seedBranch now =
     \<lparr>br_ID = DemoBranchID, br_InstitutionID = DemoInstitutionID, br_Code = ''HQ'', br_Name = ''Demo HQ'',
      br_Status = ''active'', br_CreatedAt = now, br_UpdatedAt = now\<rparr>"

definition seedCustomer :: "time \<Rightarrow> Customer" where
  "seedCustomer now =
     \<lparr>cus_ID = DemoCustomerID, cus_InstitutionID = DemoInstitutionID, cus_BranchID = DemoBranchID,
      cus_CustomerType = ''individual'', cus_FirstName = ''Ada'', cus_LastName = ''Demo'',
      cus_BusinessName = None, cus_Email = ''ada.demo@example.com'', cus_Phone = ''+2348000000000'',
      cus_Status = ''active'', cus_KYCTier = ''tier1'', cus_BVNStatus = ''not_collected'',
      cus_NINStatus = ''not_collected'', cus_CreatedAt = now, cus_UpdatedAt = now\<rparr>"

definition seedAccount :: "time \<Rightarrow> Account" where
  "seedAccount now =
     \<lparr>acc_ID = DemoCustomerAccountID, acc_InstitutionID = DemoInstitutionID,
      acc_CustomerID = Some DemoCustomerID, acc_AccountNumber = ''9990000001'',
      acc_Name = ''Ada Demo Wallet'', acc_Kind = AccountKindCustomer,
      acc_ProductType = AccountProductStandardWallet, acc_AllowNegative = False,
      acc_CurrencyID = ''NGN'', acc_NormalBalance = NormalBalanceCredit,
      acc_Status = AccountStatusActive, acc_CreatedAt = now, acc_UpdatedAt = now\<rparr>"

definition seedClearing :: "time \<Rightarrow> Account" where
  "seedClearing now =
     \<lparr>acc_ID = DemoClearingAccountID, acc_InstitutionID = DemoInstitutionID, acc_CustomerID = None,
      acc_AccountNumber = ''9999999999'', acc_Name = ''Mock NIP Clearing'', acc_Kind = AccountKindInternal,
      acc_ProductType = AccountProductInternal, acc_AllowNegative = True, acc_CurrencyID = ''NGN'',
      acc_NormalBalance = NormalBalanceDebit, acc_Status = AccountStatusActive,
      acc_CreatedAt = now, acc_UpdatedAt = now\<rparr>"

definition seedBalance :: "string \<Rightarrow> time \<Rightarrow> AccountBalance" where
  "seedBalance accountID now =
     \<lparr>bal_AccountID = accountID, bal_InstitutionID = DemoInstitutionID, bal_AvailableMinor = 0,
      bal_LedgerMinor = 0, bal_CurrencyID = ''NGN'', bal_LastJournalEntryID = None, bal_UpdatedAt = now\<rparr>"

section \<open>The statements\<close>

definition upsertCurrency :: "unit tx" where
  "upsertCurrency =
     txModify (\<lambda>s. if ''NGN'' \<in> set (currencies s) then s else s\<lparr>currencies := currencies s @ [''NGN'']\<rparr>)"

text \<open>\<open>institutions_code_uq\<close>\<close>

definition code_free :: "Institution \<Rightarrow> store \<Rightarrow> bool" where
  "code_free r s \<longleftrightarrow> (\<forall>r'\<in>set (institutions s). inst_ID r' \<noteq> inst_ID r \<longrightarrow> inst_Code r' \<noteq> inst_Code r)"

definition upsertInstitution :: "Institution \<Rightarrow> unit tx" where
  "upsertInstitution r =
     txThen (txCheck (code_free r) unique_violation)
     (upsert (\<lambda>s. institution_exists s (inst_ID r))
       (txModify (\<lambda>s. s\<lparr>institutions := update_rows (\<lambda>r'. inst_ID r' = inst_ID r)
          (\<lambda>r'. r'\<lparr>inst_Name := inst_Name r, inst_ShortName := inst_ShortName r, inst_Code := inst_Code r,
             inst_Status := inst_Status r, inst_UpdatedAt := inst_UpdatedAt r\<rparr>) (institutions s)\<rparr>))
       (txThen (txCheck (\<lambda>s. inst_CurrencyID r \<in> set (currencies s)) foreign_key_violation)
         (txModify (\<lambda>s. s\<lparr>institutions := institutions s @ [r]\<rparr>))))"

definition upsertBranch :: "Branch \<Rightarrow> unit tx" where
  "upsertBranch r =
     upsert (\<lambda>s. br_ID r \<in> br_ID ` set (branches s))
       (txModify (\<lambda>s. s\<lparr>branches := update_rows (\<lambda>r'. br_ID r' = br_ID r)
          (\<lambda>r'. r'\<lparr>br_Name := br_Name r, br_Status := br_Status r, br_UpdatedAt := br_UpdatedAt r\<rparr>)
          (branches s)\<rparr>))
       (txThen (txCheck (\<lambda>s. \<forall>r'\<in>set (branches s). \<not> (br_InstitutionID r' = br_InstitutionID r \<and>
            br_Code r' = br_Code r)) unique_violation)
       (txThen (txCheck (\<lambda>s. institution_exists s (br_InstitutionID r)) foreign_key_violation)
         (txModify (\<lambda>s. s\<lparr>branches := branches s @ [r]\<rparr>))))"

definition upsertCustomer :: "Customer \<Rightarrow> unit tx" where
  "upsertCustomer c =
     upsert (\<lambda>s. cus_ID c \<in> cus_ID ` set (customers s))
       (txModify (\<lambda>s. s\<lparr>customers := update_rows (\<lambda>c'. cus_ID c' = cus_ID c)
          (\<lambda>c'. c'\<lparr>cus_FirstName := cus_FirstName c, cus_LastName := cus_LastName c,
             cus_Email := cus_Email c, cus_Phone := cus_Phone c, cus_Status := cus_Status c,
             cus_CustomerType := cus_CustomerType c, cus_BusinessName := cus_BusinessName c,
             cus_KYCTier := cus_KYCTier c, cus_BVNStatus := cus_BVNStatus c,
             cus_NINStatus := cus_NINStatus c, cus_UpdatedAt := cus_UpdatedAt c\<rparr>) (customers s)\<rparr>))
       (insert_customer c)"

definition upsertAccount :: "Account \<Rightarrow> unit tx" where
  "upsertAccount a =
     upsert (\<lambda>s. account_exists s (acc_ID a))
       (txModify (\<lambda>s. s\<lparr>accounts := update_rows (\<lambda>a'. acc_ID a' = acc_ID a)
          (\<lambda>a'. a'\<lparr>acc_Name := acc_Name a, acc_ProductType := acc_ProductType a,
             acc_AllowNegative := acc_AllowNegative a, acc_Status := acc_Status a,
             acc_UpdatedAt := acc_UpdatedAt a\<rparr>) (accounts s)\<rparr>))
       (insert_account a)"

text \<open>\<open>ON CONFLICT (account_id) DO NOTHING\<close>\<close>

definition insertBalanceOnce :: "AccountBalance \<Rightarrow> unit tx" where
  "insertBalanceOnce b =
     upsert (\<lambda>s. bal_AccountID b \<in> bal_AccountID ` set (account_balances s)) (txReturn ()) (insert_balance b)"

definition ensureDemoData :: "env \<Rightarrow> unit tx" where
  "ensureDemoData e =
     (let now = env_clock e 0 in
      txThen upsertCurrency
      (txThen (upsertInstitution (seedInstitution now))
      (txThen (upsertBranch (seedBranch now))
      (txThen (upsertCustomer (seedCustomer now))
      (txThen (upsertAccount (seedAccount now))
      (txThen (upsertAccount (seedClearing now))
      (txThen (insertBalanceOnce (seedBalance DemoCustomerAccountID now))
        (insertBalanceOnce (seedBalance DemoClearingAccountID now)))))))))"

definition seedResult :: "SeedResult repo" where
  "seedResult =
     repoBind (readDB (getContext (\<lambda>s. select_one (\<lambda>r. inst_ID r = DemoInstitutionID) (institutions s)))) (\<lambda>i.
     repoBind (readDB (getContext (\<lambda>s. select_one (\<lambda>r. br_InstitutionID r = DemoInstitutionID \<and>
         br_ID r = DemoBranchID) (branches s)))) (\<lambda>b.
     repoBind (readDB (getContext (\<lambda>s. select_one (\<lambda>c. cus_InstitutionID c = DemoInstitutionID \<and>
         cus_ID c = DemoCustomerID) (customers s)))) (\<lambda>c.
     repoBind (readDB (getContext (\<lambda>s. select_one (\<lambda>a. acc_InstitutionID a = DemoInstitutionID \<and>
         acc_ID a = DemoCustomerAccountID) (accounts s)))) (\<lambda>a.
     repoBind (readDB (getContext (\<lambda>s. select_one (\<lambda>a. acc_InstitutionID a = DemoInstitutionID \<and>
         acc_ID a = DemoClearingAccountID) (accounts s)))) (\<lambda>l.
     repoReturn \<lparr>sr_Institution = i, sr_Branch = b, sr_Customer = c, sr_Account = a, sr_Clearing = l\<rparr>)))))"

definition EnsureDemoData :: "env \<Rightarrow> SeedResult repo" where
  "EnsureDemoData e = repoBind (WithTx e (ensureDemoData e)) (\<lambda>_. seedResult)"

section \<open>The seed keeps the books\<close>

text \<open>A change of the reference data: no money moves and no transfer, hold or event changes.\<close>

definition quiet :: "store \<Rightarrow> store \<Rightarrow> bool" where
  "quiet s s' \<longleftrightarrow>
     journal_entries s' = journal_entries s \<and> postings s' = postings s \<and> transfers s' = transfers s \<and>
     account_holds s' = account_holds s \<and> provider_events s' = provider_events s \<and>
     audit_events s' = audit_events s \<and> (books_ok s \<longrightarrow> books_ok s')"

interpretation seed: tx_relation quiet
  by unfold_locales (auto simp: quiet_def)

lemma quiet_history: "quiet s s' \<Longrightarrow> history_kept s s'"
  by (rule history_frame) (auto simp: quiet_def)

lemma books_ok_reference:
  assumes "books_ok s" and "journal_entries s' = journal_entries s" "postings s' = postings s"
    "transfers s' = transfers s" "account_holds s' = account_holds s" "accounts s' = accounts s"
    "account_balances s' = account_balances s"
  shows "books_ok s'"
proof -
  have n: "normal_of s' = normal_of s" by (simp add: normal_of_def fun_eq_iff assms(6))
  have sums: "ledger_drift s' = ledger_drift s" "trial_gap s' = trial_gap s" "hold_gap s' = hold_gap s"
    "spendable s' = spendable s"
    by (simp_all add: fun_eq_iff ledger_drift_def posted_def ledger_of_def trial_gap_def debits_of_def
        credits_of_def hold_gap_def available_of_def active_holds_def spendable_def n assms)
  have "journals_ok s'"
    using assms(1) by (simp add: books_ok_def journals_ok_def journal_ok_def journal_exists_def legs_of_def assms)
  moreover have "holds_ok s'"
    using assms(1) by (simp add: books_ok_def holds_ok_def account_exists_def assms)
  moreover have "accounts_ok s'"
    using assms(1) by (simp add: books_ok_def accounts_ok_def account_exists_def assms)
  ultimately show ?thesis using assms(1) by (simp add: books_ok_def sums assms)
qed

lemma gap_new_account:
  assumes "holds_ok s" and a: "\<not> account_exists s (acc_ID a)"
  shows "gap_kept s (s\<lparr>accounts := accounts s @ [a]\<rparr>)" (is "gap_kept s ?s'")
  unfolding gap_kept_def
proof (intro allI impI conjI)
  fix i k assume sp: "spendable ?s' i k"
  show "spendable s i k"
  proof (cases "i = acc_InstitutionID a \<and> k = acc_ID a")
    case True
    have "ho_AccountID h \<noteq> acc_ID a" if "h \<in> set (account_holds s)" for h
      using a holds_okD(2) [OF assms(1) that] by auto
    with True show ?thesis by (auto simp: spendable_def)
  next
    case False
    then have "normal_of ?s' i k = normal_of s i k" using normal_of_open [OF a] by auto
    with sp show ?thesis by (simp add: spendable_def)
  qed
qed (simp add: hold_gap_def available_of_def ledger_of_def active_holds_def)

lemma books_ok_gap:
  assumes "books_ok s" "gap_kept s s'"
  shows "spendable s' i a \<longrightarrow> hold_gap s' i a = 0"
  using assms by (auto simp: books_ok_def gap_kept_def)

lemma books_ok_new_account:
  assumes ok: "books_ok s" and a: "\<not> account_exists s (acc_ID a)" "acc_ID a \<noteq> []"
    "acc_NormalBalance a \<in> {NormalBalanceDebit, NormalBalanceCredit}"
  shows "books_ok (s\<lparr>accounts := accounts s @ [a]\<rparr>)" (is "books_ok ?s'")
proof -
  have "posted ?s' i k = posted s i k" for i k
    using posted_open [OF books_okD(4) [OF ok] a(1), of "account_balances s" i k] by simp
  then have drift: "ledger_drift ?s' i k = 0" for i k
    using books_okD(5) [OF ok, of i k] by (simp add: ledger_drift_def ledger_of_def)
  have trial: "trial_gap ?s' i = 0" for i
    using books_okD(6) [OF ok, of i] by (simp add: trial_gap_def debits_of_def credits_of_def)
  have journals: "journals_ok ?s'"
    using books_okD(2) [OF ok] by (simp add: journals_ok_def journal_ok_def journal_exists_def legs_of_def)
  have holds: "holds_ok ?s'" using books_okD(3) [OF ok] by (auto simp: holds_ok_def)
  have accounts: "accounts_ok ?s'"
    using books_okD(4) [OF ok] a by (auto simp: accounts_ok_def account_exists_def)
  show ?thesis
    using ok drift trial journals holds accounts
      books_ok_gap [OF ok gap_new_account [OF books_okD(3) [OF ok] a(1)]]
    by (simp add: books_ok_def)
qed

lemma books_ok_renamed_account:
  assumes ok: "books_ok s" and f: "\<And>a. acc_ID (f a) = acc_ID a \<and> acc_InstitutionID (f a) = acc_InstitutionID a \<and>
      acc_NormalBalance (f a) = acc_NormalBalance a"
  shows "books_ok (s\<lparr>accounts := update_rows U f (accounts s)\<rparr>)" (is "books_ok ?s'")
proof -
  have n: "normal_of ?s' = normal_of s" by (rule normal_of_update) (simp add: f)
  have sums: "ledger_drift ?s' = ledger_drift s" "trial_gap ?s' = trial_gap s" "hold_gap ?s' = hold_gap s"
    "spendable ?s' = spendable s"
    by (simp_all add: fun_eq_iff ledger_drift_def posted_def ledger_of_def trial_gap_def debits_of_def
        credits_of_def hold_gap_def available_of_def active_holds_def spendable_def n)
  have ids: "map acc_ID (update_rows U f (accounts s)) = map acc_ID (accounts s)"
    "acc_ID ` set (update_rows U f (accounts s)) = acc_ID ` set (accounts s)"
    using f by (auto intro!: map_update_rows_same image_update_rows_same)
  have ex: "account_exists ?s' = account_exists s" by (simp add: account_exists_def fun_eq_iff ids)
  have journals: "journals_ok ?s'"
    using books_okD(2) [OF ok] by (simp add: journals_ok_def journal_ok_def journal_exists_def legs_of_def)
  have holds: "holds_ok ?s'" using books_okD(3) [OF ok] by (simp add: holds_ok_def ex)
  have "acc_NormalBalance a \<in> {NormalBalanceDebit, NormalBalanceCredit}"
    if "a \<in> set (update_rows U f (accounts s))" for a
    using that f books_okD(4) [OF ok] by (auto simp: set_update_rows accounts_ok_def)
  then have "accounts_ok ?s'" using books_okD(4) [OF ok] by (simp add: accounts_ok_def ids ex)
  with ok journals holds show ?thesis by (simp add: books_ok_def sums)
qed

lemma books_ok_new_balance:
  assumes ok: "books_ok s" and b: "bal_AccountID b \<notin> bal_AccountID ` set (account_balances s)"
    "bal_AvailableMinor b = 0" "bal_LedgerMinor b = 0"
  shows "books_ok (s\<lparr>account_balances := account_balances s @ [b]\<rparr>)" (is "books_ok ?s'")
proof -
  have sums: "ledger_drift ?s' = ledger_drift s" "trial_gap ?s' = trial_gap s" "hold_gap ?s' = hold_gap s"
    "spendable ?s' = spendable s"
    using b(2,3)
    by (simp_all add: fun_eq_iff ledger_drift_def posted_def ledger_of_def trial_gap_def debits_of_def
        credits_of_def hold_gap_def available_of_def active_holds_def spendable_def)
  have journals: "journals_ok ?s'"
    using books_okD(2) [OF ok] by (simp add: journals_ok_def journal_ok_def journal_exists_def legs_of_def)
  have holds: "holds_ok ?s'" using books_okD(3) [OF ok] by (simp add: holds_ok_def account_exists_def)
  have "accounts_ok ?s'" using books_okD(4) [OF ok] b
    by (simp add: accounts_ok_def account_exists_def balance_in_range_def in_int64_def)
  with ok journals holds show ?thesis by (simp add: books_ok_def sums)
qed

text \<open>Each statement is quiet.\<close>

lemma seed_upsert: "seed.obeys m \<Longrightarrow> seed.obeys n \<Longrightarrow> seed.obeys (upsert P m n)"
  by (auto simp: seed.obeys_def upsert_def)

lemma quiet_reference:
  "quiet s (s\<lparr>currencies := c\<rparr>)" "quiet s (s\<lparr>institutions := i\<rparr>)" "quiet s (s\<lparr>branches := b\<rparr>)"
  "quiet s (s\<lparr>customers := k\<rparr>)"
  by (simp_all add: quiet_def books_ok_reference)

lemma seed_currency: "seed.obeys upsertCurrency"
  unfolding upsertCurrency_def by (rule seed.obeys_modify) (simp add: quiet_reference seed.R_refl)

lemma seed_institution: "seed.obeys (upsertInstitution r)"
  unfolding upsertInstitution_def
  by (intro seed.obeys_then seed.obeys_check seed_upsert seed.obeys_modify quiet_reference)

lemma seed_branch: "seed.obeys (upsertBranch r)"
  unfolding upsertBranch_def
  by (intro seed.obeys_then seed.obeys_check seed_upsert seed.obeys_modify quiet_reference)

lemma seed_customer: "seed.obeys (upsertCustomer c)"
  unfolding upsertCustomer_def insert_customer_def
  by (intro seed.obeys_then seed.obeys_check seed_upsert seed.obeys_modify quiet_reference)

lemma seed_account: "seed.obeys (upsertAccount a)"
  unfolding upsertAccount_def
proof (intro seed_upsert seed.obeys_modify)
  show "seed.obeys (insert_account a)"
    by (rule seed.obeysI) (auto simp: tx_simps quiet_def intro: books_ok_new_account)
qed (simp add: quiet_def books_ok_renamed_account)

lemma seed_balance: "seed.obeys (insertBalanceOnce (seedBalance k now))"
  unfolding insertBalanceOnce_def
proof (intro seed_upsert seed.obeys_return seed.obeysI)
  fix s u s' assume "insert_balance (seedBalance k now) s = Inr (u, s')"
  then show "quiet s s'"
    by (auto simp: tx_simps quiet_def seedBalance_def intro!: books_ok_new_balance)
qed

lemma seed_ensure: "seed.obeys (ensureDemoData e)"
  unfolding ensureDemoData_def Let_def
  by (intro seed.obeys_then seed_currency seed_institution seed_branch seed_customer seed_account seed_balance)

lemma quiet_EnsureDemoData: "quiet s (snd (EnsureDemoData e s))"
proof -
  have tx: "quiet s (snd (WithTx e (ensureDemoData e) s))"
  proof (cases rule: WithTx_cases [of "ensureDemoData e" s e])
    case (committed u s')
    have locks: "quiet t (t\<lparr>advisory_locks := l\<rparr>)" for t l by (simp add: quiet_def books_ok_reference)
    from seed.R_trans [OF seed.R_trans [OF locks seed.obeysD [OF seed_ensure committed(1)]] locks]
    show ?thesis unfolding committed(2) by simp
  qed (simp add: seed.R_refl)
  have "snd (seedResult t) = t" for t
    by (simp add: seedResult_def snd_repoBind split: sum.splits)
  then have "snd (EnsureDemoData e s) = snd (WithTx e (ensureDemoData e) s)"
    by (simp add: EnsureDemoData_def snd_repoBind split: sum.splits)
  with tx show ?thesis by simp
qed


end
