(* ===== verification/Example.thy ===== *)
theory Example
  imports TransferOps AccountOps
begin

text \<open>
  A small institution on which the witnesses of the properties are evaluated: two customer accounts
  (credit normal), one clearing account (debit normal, may go negative), both with zero balances.
\<close>

fun draw_name :: "draw \<Rightarrow> string" where
  "draw_name DrawTransfer = ''t''"
| "draw_name DrawJournal = ''j''"
| "draw_name (DrawPosting k) = (if k = 0 then ''pa'' else ''pb'')"
| "draw_name DrawHold = ''h''"
| "draw_name DrawProviderEvent = ''e''"
| "draw_name (DrawAudit k) = (if k = 0 then ''va'' else ''vb'')"
| "draw_name DrawAccount = ''a''"
| "draw_name DrawCustomer = ''c''"
| "draw_name DrawReference = ''r''"

definition demo_env :: "string \<Rightarrow> time \<Rightarrow> env" where
  "demo_env tag now =
     \<lparr>env_clock = (\<lambda>k. now + int k), env_uuid = (\<lambda>d. tag @ draw_name d), env_principal = None,
      env_request_id = ''req'', env_tx_outcome = TxCommits\<rparr>"

text \<open>The library calls: a digest that tells the texts of the examples apart, and parsers that accept.\<close>

definition demo_externals :: externals where
  "demo_externals =
     \<lparr>ext_sha256_hex = (\<lambda>v. FormatInt (int (List.length v))), ext_uuid_valid = (\<lambda>v. v \<noteq> []), ext_mail_address = (\<lambda>v. Some v)\<rparr>"

definition demo_account :: "string \<Rightarrow> string \<Rightarrow> bool \<Rightarrow> string \<Rightarrow> Account" where
  "demo_account i k neg normal =
     \<lparr>acc_ID = i, acc_InstitutionID = ''I'', acc_CustomerID = None, acc_AccountNumber = i, acc_Name = i,
      acc_Kind = k,
      acc_ProductType = (if k = AccountKindInternal then AccountProductInternal else ''standard_wallet''), acc_AllowNegative = neg,
      acc_CurrencyID = ''NGN'', acc_NormalBalance = normal, acc_Status = AccountStatusActive,
      acc_CreatedAt = 1, acc_UpdatedAt = 1\<rparr>"

definition demo_balance :: "string \<Rightarrow> AccountBalance" where
  "demo_balance a =
     \<lparr>bal_AccountID = a, bal_InstitutionID = ''I'', bal_AvailableMinor = 0, bal_LedgerMinor = 0,
      bal_CurrencyID = ''NGN'', bal_LastJournalEntryID = None, bal_UpdatedAt = 1\<rparr>"

definition demo_store :: store where
  "demo_store =
     \<lparr>institutions = [\<lparr>inst_ID = ''I'', inst_Name = ''I'', inst_ShortName = ''I'', inst_Code = ''1'',
         inst_CurrencyID = ''NGN'', inst_Status = ''active'', inst_CreatedAt = 1, inst_UpdatedAt = 1\<rparr>],
      branches = [], currencies = [''NGN''], customers = [],
      accounts = [demo_account ''A'' AccountKindCustomer False NormalBalanceCredit,
                  demo_account ''B'' AccountKindCustomer False NormalBalanceCredit,
                  demo_account ''C'' AccountKindInternal True NormalBalanceDebit],
      account_balances = [demo_balance ''A'', demo_balance ''B'', demo_balance ''C''], journal_entries = [], postings = [],
      transfers = [], account_holds = [], provider_events = [], audit_events = [], advisory_locks = []\<rparr>"

text \<open>A transfer of \<open>n\<close> minor units on account \<open>A\<close> against the clearing account.\<close>

definition demo_input :: "string \<Rightarrow> string \<Rightarrow> int \<Rightarrow> string \<Rightarrow> RecordTransferInput" where
  "demo_input direction status n k =
     \<lparr>in_InstitutionID = ''I'', in_AccountID = ''A'', in_ClearingAccountID = ''C'',
      in_Direction = direction, in_Status = status, in_AmountMinor = n, in_CurrencyID = ''NGN'',
      in_IdempotencyKey = k, in_Provider = ProviderMockNIP, in_ProviderReference = ''ref'' @ k,
      in_ProviderEventID = [], in_ProviderStatus = [], in_ReversalOfTransferID = [],
      in_RequestFingerprint = [], in_FailureReason = [], in_Narration = ''n'',
      in_RejectInsufficient = False, in_RequireAvailable = False\<rparr>"

end
