(* ===== verification/System.thy ===== *)
theory System
  imports ServiceRuns DemoSeed Example MockNIP
begin

text \<open>
  Where the program starts: a migrated database with accounts and no money moved yet.  Its books are in
  order, and so are those of the example institution on which the witnesses are evaluated.
\<close>

definition initial :: "store \<Rightarrow> bool" where
  "initial s \<longleftrightarrow>
     journal_entries s = [] \<and> postings s = [] \<and> transfers s = [] \<and> account_holds s = [] \<and>
     accounts_ok s \<and>
     list_all (\<lambda>b. bal_AvailableMinor b = 0 \<and> bal_LedgerMinor b = 0) (account_balances s)"

lemma sum_rows_zero: "list_all (\<lambda>r. v r = 0) rows \<Longrightarrow> sum_rows P v rows = 0"
  by (induction rows) auto

lemma initial_books:
  assumes "initial s"
  shows "books_ok s"
proof -
  have z: "list_all (\<lambda>b. bal_AvailableMinor b = 0) (account_balances s)"
    "list_all (\<lambda>b. bal_LedgerMinor b = 0) (account_balances s)"
    using assms by (auto simp: initial_def list_all_iff)
  have "ledger_of s i a = 0" "available_of s i a = 0" for i a
    unfolding ledger_of_def available_of_def by (rule sum_rows_zero, rule z)+
  then show ?thesis
    using assms
    by (simp add: books_ok_def initial_def rows_ok_def reversal_index_def journals_ok_def holds_ok_def
        hold_index_def ledger_drift_def posted_def trial_gap_def debits_of_def credits_of_def debits_def
        credits_def hold_gap_def active_holds_def)
qed

lemma demo_initial: "initial demo_store"
  by (simp add: initial_def demo_store_def accounts_ok_def demo_account_def demo_balance_def
      balance_in_range_def in_int64_def const_defs)

lemma demo_books: "books_ok demo_store"
  by (rule initial_books [OF demo_initial])

section \<open>What every call does\<close>

text \<open>
  The weakest law all calls share: books in order stay in order and history is kept.  A call of one
  institution obeys it by its book steps; a provider's webhook, which names its own institution, and the
  seed, which is not a step of the books, obey it as well.
\<close>

definition world_moves :: "'p world \<Rightarrow> 'p world \<Rightarrow> bool" where
  "world_moves w w' \<longleftrightarrow> (books_ok (fst w) \<longrightarrow> books_ok (fst w') \<and> history_kept (fst w) (fst w'))"

interpretation system: call_relation world_moves
  by unfold_locales (auto simp: world_moves_def history_refl intro: history_trans)

lemma world_evolves_moves: "world_evolves i w w' \<Longrightarrow> world_moves w w'"
  by (auto simp: world_evolves_def world_moves_def evolves_def intro: books_ok_steps history_steps)

lemma system_of_svc: "svc.keeps i m \<Longrightarrow> system.keeps m"
  unfolding svc.keeps_def system.keeps_def by (blast intro: world_evolves_moves)

lemma system_SeedDemo: "system.keeps (onStore (EnsureDemoData e))"
proof (rule system.keepsI)
  fix w :: "'p world"
  have "quiet (fst w) (fst (snd (onStore (EnsureDemoData e) w)))"
    by (cases w) (simp add: quiet_EnsureDemoData)
  then show "world_moves w (snd (onStore (EnsureDemoData e) w))"
    using quiet_history by (auto simp: world_moves_def quiet_def)
qed

lemma system_MockProviderWebhook: "system.keeps (svcMockProviderWebhook sv e x name body hs)"
  unfolding svcMockProviderWebhook_def
  by (intro system.keeps_bind system.keeps_option system.keeps_lift system.keeps_fail
      system_of_svc [OF svc_onProvider] system_of_svc [OF svc_recordProviderWebhookEvent])

lemma system_MockInbound: "system.keeps (svcMockInbound sv e x req)"
  unfolding svcMockInbound_def by (rule system_MockProviderWebhook)

section \<open>The operations of the service\<close>

text \<open>Every method of \<open>Service\<close> that writes; the others only read.\<close>

definition svcSeedDemo :: "svc_env \<Rightarrow> ('p world, SeedResult) call" where
  "svcSeedDemo e = onStore (EnsureDemoData (se_tx e 0))"

datatype operation =
    OpSeedDemo
  | OpCreateCustomer CreateCustomerInput
  | OpCreateAccount CreateAccountInput
  | OpInternalCredit InternalCreditInput
  | OpInternalDebit InternalDebitInput
  | OpInternalTransfer InternalTransferInput
  | OpReverseTransfer string string string
  | OpMockInbound TransferRequest
  | OpMockOutbound TransferRequest
  | OpMockProviderWebhook string payload headers
  | OpExternalNameEnquiry ExternalNameEnquiryInput
  | OpExternalOutboundTransfer ExternalOutboundTransferInput
  | OpExternalInboundEvent ExternalInboundEventInput
  | OpExternalTransferRequery ExternalTransferRequeryInput
  | OpFreezeAccount AccountControlInput
  | OpUnfreezeAccount AccountControlInput
  | OpActivatePostNoDebit AccountControlInput
  | OpDeactivatePostNoDebit AccountControlInput
  | OpPlaceAccountLien AccountLienInput
  | OpReleaseAccountLien ReleaseLienInput
  | OpMarkReviewed MarkReconciliationItemReviewedInput

definition ran :: "('s, 'a) call \<Rightarrow> 's \<Rightarrow> 's" where
  "ran m s = snd (m s)"

fun performed :: "'p service \<Rightarrow> svc_env \<Rightarrow> externals \<Rightarrow> operation \<Rightarrow> 'p world \<Rightarrow> 'p world" where
  "performed sv e x OpSeedDemo = ran (svcSeedDemo e)"
| "performed sv e x (OpCreateCustomer input) = ran (svcCreateCustomer e x input)"
| "performed sv e x (OpCreateAccount input) = ran (svcCreateAccount e x input)"
| "performed sv e x (OpInternalCredit input) = ran (svcInternalCredit e x input)"
| "performed sv e x (OpInternalDebit input) = ran (svcInternalDebit e x input)"
| "performed sv e x (OpInternalTransfer input) = ran (svcInternalTransfer e x input)"
| "performed sv e x (OpReverseTransfer i k key) = ran (svcReverseTransfer e x i k key)"
| "performed sv e x (OpMockInbound req) = ran (svcMockInbound sv e x req)"
| "performed sv e x (OpMockOutbound req) = ran (svcMockOutbound sv e x req)"
| "performed sv e x (OpMockProviderWebhook name body hs) = ran (svcMockProviderWebhook sv e x name body hs)"
| "performed sv e x (OpExternalNameEnquiry input) = ran (svcExternalNameEnquiry sv e input)"
| "performed sv e x (OpExternalOutboundTransfer input) = ran (svcExternalOutboundTransfer sv e x input)"
| "performed sv e x (OpExternalInboundEvent input) = ran (svcExternalInboundEvent sv e x input)"
| "performed sv e x (OpExternalTransferRequery input) = ran (svcExternalTransferRequery sv e x input)"
| "performed sv e x (OpFreezeAccount input) = ran (svcFreezeAccount e x input)"
| "performed sv e x (OpUnfreezeAccount input) = ran (svcUnfreezeAccount e x input)"
| "performed sv e x (OpActivatePostNoDebit input) = ran (svcActivatePostNoDebit e x input)"
| "performed sv e x (OpDeactivatePostNoDebit input) = ran (svcDeactivatePostNoDebit e x input)"
| "performed sv e x (OpPlaceAccountLien input) = ran (svcPlaceAccountLien e x input)"
| "performed sv e x (OpReleaseAccountLien input) = ran (svcReleaseAccountLien e x input)"
| "performed sv e x (OpMarkReviewed input) = ran (svcMarkReconciliationItemReviewed e x input)"

lemma svc_NameEnquiry: "svc.keeps i (svcExternalNameEnquiry sv e input)"
  unfolding svcExternalNameEnquiry_def Let_def
  by (intro svc.keeps_bind svc.keeps_lift svc.keeps_ensure svc_onProvider svc.keeps_option svc.keeps_return
      svc.keeps_fail svc.keeps_if svc.keeps_attempt svc.keeps_sum svc.keeps_prod)

lemma ran_moves: "system.keeps m \<Longrightarrow> world_moves w (ran m w)"
  unfolding ran_def by (rule system.keepsD)

text \<open>The institution whose rows an operation may touch; a provider's webhook names its own.\<close>

fun op_institution :: "operation \<Rightarrow> string option" where
  "op_institution OpSeedDemo = None"
| "op_institution (OpCreateCustomer input) = Some (TrimSpace (cci_InstitutionID input))"
| "op_institution (OpCreateAccount input) = Some (TrimSpace (cai_InstitutionID input))"
| "op_institution (OpInternalCredit input) = Some (TrimSpace (ici_InstitutionID input))"
| "op_institution (OpInternalDebit input) = Some (TrimSpace (idi_InstitutionID input))"
| "op_institution (OpInternalTransfer input) = Some (TrimSpace (iti_InstitutionID input))"
| "op_institution (OpReverseTransfer i k key) = Some (TrimSpace i)"
| "op_institution (OpMockInbound req) = None"
| "op_institution (OpMockOutbound req) = Some (institutionIDOrDemo (req_InstitutionID req))"
| "op_institution (OpMockProviderWebhook name body hs) = None"
| "op_institution (OpExternalNameEnquiry input) = Some (TrimSpace (eni_InstitutionID input))"
| "op_institution (OpExternalOutboundTransfer input) = Some (TrimSpace (eo_InstitutionID input))"
| "op_institution (OpExternalInboundEvent input) = Some (TrimSpace (ei_InstitutionID input))"
| "op_institution (OpExternalTransferRequery input) = Some (TrimSpace (er_InstitutionID input))"
| "op_institution (OpFreezeAccount input) = Some (TrimSpace (aci_InstitutionID input))"
| "op_institution (OpUnfreezeAccount input) = Some (TrimSpace (aci_InstitutionID input))"
| "op_institution (OpActivatePostNoDebit input) = Some (TrimSpace (aci_InstitutionID input))"
| "op_institution (OpDeactivatePostNoDebit input) = Some (TrimSpace (aci_InstitutionID input))"
| "op_institution (OpPlaceAccountLien input) = Some (TrimSpace (ali_InstitutionID input))"
| "op_institution (OpReleaseAccountLien input) = Some (TrimSpace (rli_InstitutionID input))"
| "op_institution (OpMarkReviewed input) = Some (TrimSpace (mr_InstitutionID input))"

lemma ran_evolves: "svc.keeps i m \<Longrightarrow> world_evolves i w (ran m w)"
  unfolding ran_def by (rule svc.keepsD)

lemmas svc_operations =
  svc_CreateCustomer svc_CreateAccount svc_InternalCredit svc_InternalDebit svc_InternalTransfer
  svc_ReverseTransfer svc_MockOutbound svc_NameEnquiry svc_ExternalOutboundTransfer
  svc_ExternalInboundEvent svc_ExternalTransferRequery svc_controlAccount svc_PlaceAccountLien
  svc_ReleaseAccountLien svc_MarkReviewed

lemma performed_evolves: "op_institution op = Some i \<Longrightarrow> world_evolves i w (performed sv e x op w)"
  by (cases op; simp only: performed.simps op_institution.simps option.inject option.distinct
      svcFreezeAccount_def svcUnfreezeAccount_def svcActivatePostNoDebit_def svcDeactivatePostNoDebit_def)
    (erule subst, rule ran_evolves, rule svc_operations)+

lemma DemoInstitution_trimmed: "TrimSpace DemoInstitutionID = DemoInstitutionID"
  by code_simp

lemma op_institution_trimmed: "op_institution op = Some i \<Longrightarrow> TrimSpace i = i"
  by (cases op) (auto simp: institutionIDOrDemo_def Let_def DemoInstitution_trimmed)

lemma performed_moves: "world_moves w (performed sv e x op w)"
proof (cases "op_institution op")
  case None
  then show ?thesis
    by (cases op) (simp_all add: ran_moves system_MockInbound system_MockProviderWebhook svcSeedDemo_def system_SeedDemo)
qed (rule world_evolves_moves [OF performed_evolves])

section \<open>Reachable states\<close>

text \<open>
  The states a running service can be in: it starts on an initial database with any state of its
  providers, and then any operation is performed, with any environment (clock, drawn identifiers,
  caller, outcome of each transaction, answers of the provider).
\<close>

inductive reachable :: "'p service \<Rightarrow> externals \<Rightarrow> 'p world \<Rightarrow> bool" for sv x where
  start: "initial (fst w) \<Longrightarrow> reachable sv x w"
| perform: "reachable sv x w \<Longrightarrow> reachable sv x (performed sv e x op w)"

lemma reachable_books: "reachable sv x w \<Longrightarrow> books_ok (fst w)"
proof (induction rule: reachable.induct)
  case (start w)
  then show ?case by (rule initial_books)
next
  case (perform w e op)
  then show ?case using performed_moves [of w sv e x op] by (simp add: world_moves_def)
qed

text \<open>One operation from a reachable state.\<close>

lemma performed_history: "reachable sv x w \<Longrightarrow> history_kept (fst w) (fst (performed sv e x op w))"
  using performed_moves [of w sv e x op] reachable_books [of sv x w]
  by (simp add: world_moves_def)

lemma performed_tenants:
  assumes "reachable sv x w" and "op_institution op = Some i" and "j \<noteq> i"
  shows "tenant_rows j (fst (performed sv e x op w)) = tenant_rows j (fst w)"
  using performed_evolves [OF assms(2), of w sv e x] reachable_books [OF assms(1)] assms(3)
    op_institution_trimmed [OF assms(2)] tenant_steps
  by (auto simp: world_evolves_def evolves_def)

end
