(* ===== verification/SystemExample.thy ===== *)
theory SystemExample
  imports System
begin

text \<open>
  A small run of the service with the mock provider, on which the witnesses are evaluated: 100 minor
  units are credited to account \<open>A\<close>, then the provider reports an outbound transfer of 30 whose outcome is
  pending.
\<close>

definition demo_service :: "MockNIPProvider service" where
  "demo_service = NewService [Some (mockNIP demo_externals)]"

definition demo_provider_env :: "string \<Rightarrow> time \<Rightarrow> provider_env" where
  "demo_provider_env tag now = \<lparr>pn_ctx_err = None, pn_clock = now, pn_uuid = tag\<rparr>"

definition demo_svc_env :: "string \<Rightarrow> time \<Rightarrow> svc_env" where
  "demo_svc_env tag now =
     \<lparr>se_tx = (\<lambda>k. demo_env (tag @ (if k = 0 then ''x'' else ''y'')) (now + 100 * int k)),
      se_provider = (\<lambda>k. demo_provider_env tag (now + int k))\<rparr>"

definition demo_world :: "MockNIPProvider world" where
  "demo_world = (demo_store, NewMockNIPProvider)"

definition demo_credit :: "int \<Rightarrow> string \<Rightarrow> InternalCreditInput" where
  "demo_credit n k =
     \<lparr>ici_InstitutionID = ''I'', ici_AccountID = ''A'', ici_SourceAccountID = ''C'', ici_AmountMinor = n,
      ici_CurrencyID = ''NGN'', ici_IdempotencyKey = k, ici_Narration = [], ici_Reference = []\<rparr>"

definition demo_credited :: "MockNIPProvider world" where
  "demo_credited = performed demo_service (demo_svc_env ''1'' 10) demo_externals
     (OpInternalCredit (demo_credit 100 ''k1'')) demo_world"

text \<open>A webhook that reports an outbound transfer of 30 whose outcome is not known yet.\<close>

definition demo_payload :: mockWebhookPayload where
  "demo_payload =
     \<lparr>wp_InstitutionID = ''I'', wp_Provider = [], wp_AccountID = ''A'', wp_DestinationAccountNumber = [],
      wp_Direction = ''outbound'', wp_Status = [], wp_AmountMinor = 30, wp_CurrencyID = ''NGN'',
      wp_IdempotencyKey = ''k2'', wp_ProviderReference = ''r2'', wp_ProviderEventID = ''e2'',
      wp_ReversalOfTransferID = [], wp_SenderName = [], wp_SenderAccountNumber = [],
      wp_SenderInstitutionCode = [], wp_FailureReason = [], wp_Narration = [],
      wp_Scenario = MockProviderScenarioPending, wp_DelaySeconds = 0\<rparr>"

definition demo_pending :: "MockNIPProvider world" where
  "demo_pending = performed demo_service (demo_svc_env ''2'' 1000) demo_externals
     (OpMockProviderWebhook ProviderMockNIP (Some demo_payload) []) demo_credited"

lemma demo_reachable:
  "reachable demo_service demo_externals demo_world"
  "reachable demo_service demo_externals demo_credited"
  "reachable demo_service demo_externals demo_pending"
  unfolding demo_pending_def demo_credited_def demo_world_def
  by (intro reachable.intros; simp add: demo_initial)+

section \<open>The tables of the example\<close>

text \<open>The rows written by the two operations, and the tables that hold them.\<close>

definition demo_inbound :: Transfer where
  "demo_inbound =
     \<lparr>tr_ID = ''1xt'', tr_InstitutionID = ''I'', tr_AccountID = ''A'',
      tr_Direction = ''inbound'', tr_Status = ''succeeded'', tr_ProviderStatus = ''succeeded'',
      tr_LedgerStatus = ''posted'', tr_ReconciliationStatus = ''matched'', tr_AmountMinor = 100,
      tr_CurrencyID = ''NGN'', tr_IdempotencyKey = ''k1'', tr_Provider = ''ledger_internal'',
      tr_ProviderReference = [], tr_ProviderEventID = None, tr_JournalEntryID = Some ''1xj'',
      tr_ReversalOfTransferID = None, tr_RequestFingerprint = ''v1:88'', tr_FailureReason = None,
      tr_Narration = ''Internal credit'', tr_CreatedAt = 10, tr_UpdatedAt = 10,
      tr_ReviewStatus = None, tr_ReviewNote = None, tr_ReviewedAt = None,
      tr_ReviewedBy = None\<rparr>"

definition demo_outbound :: Transfer where
  "demo_outbound =
     \<lparr>tr_ID = ''2xt'', tr_InstitutionID = ''I'', tr_AccountID = ''A'',
      tr_Direction = ''outbound'', tr_Status = ''pending'', tr_ProviderStatus = ''pending'',
      tr_LedgerStatus = ''pending'', tr_ReconciliationStatus = ''pending'', tr_AmountMinor = 30,
      tr_CurrencyID = ''NGN'', tr_IdempotencyKey = ''k2'', tr_Provider = ''mock_nip'',
      tr_ProviderReference = ''r2'', tr_ProviderEventID = Some ''e2'', tr_JournalEntryID = None,
      tr_ReversalOfTransferID = None, tr_RequestFingerprint = ''v1:71'', tr_FailureReason = None,
      tr_Narration = ''Mock NIP webhook'', tr_CreatedAt = 1000, tr_UpdatedAt = 1000,
      tr_ReviewStatus = None, tr_ReviewNote = None, tr_ReviewedAt = None,
      tr_ReviewedBy = None\<rparr>"

definition demo_journal :: JournalEntry where
  "demo_journal =
     \<lparr>je_ID = ''1xj'', je_InstitutionID = ''I'', je_TransferID = Some ''1xt'',
      je_EntryType = ''inbound'', je_CurrencyID = ''NGN'', je_Narration = ''Internal credit'',
      je_TotalDebitMinor = 100, je_TotalCreditMinor = 100, je_CreatedAt = 10\<rparr>"

definition demo_debit :: Posting where
  "demo_debit =
     \<lparr>po_ID = ''1xpa'', po_InstitutionID = ''I'', po_JournalEntryID = ''1xj'',
      po_AccountID = ''C'', po_Direction = ''debit'', po_AmountMinor = 100,
      po_CurrencyID = ''NGN'', po_CreatedAt = 10\<rparr>"

definition demo_credit_leg :: Posting where
  "demo_credit_leg =
     \<lparr>po_ID = ''1xpb'', po_InstitutionID = ''I'', po_JournalEntryID = ''1xj'',
      po_AccountID = ''A'', po_Direction = ''credit'', po_AmountMinor = 100,
      po_CurrencyID = ''NGN'', po_CreatedAt = 10\<rparr>"

definition demo_hold :: AccountHold where
  "demo_hold =
     \<lparr>ho_ID = ''2xh'', ho_InstitutionID = ''I'', ho_AccountID = ''A'', ho_TransferID = Some
      ''2xt'', ho_AmountMinor = 30, ho_CurrencyID = ''NGN'', ho_Status = ''active'',
      ho_Reason = ''pending_outbound_transfer'', ho_Reference = ''r2'', ho_CreatedAt = 1000,
      ho_UpdatedAt = 1000, ho_ReleasedAt = None\<rparr>"

definition demo_event :: ProviderEvent where
  "demo_event =
     \<lparr>pe_ID = ''2xe'', pe_InstitutionID = ''I'', pe_Provider = ''mock_nip'',
      pe_ProviderEventID = ''e2'', pe_ProviderReference = ''r2'', pe_TransferID = Some ''2xt'',
      pe_RequestFingerprint = ''v1:71'', pe_CreatedAt = 1000\<rparr>"

definition demo_audit :: AuditEvent where
  "demo_audit =
     \<lparr>ev_ID = ''1xva'', ev_InstitutionID = ''I'', ev_ActorType = ''system'',
      ev_ActorID = ''system'', ev_RequestID = ''req'', ev_Action = ''internal_credit.posted'',
      ev_EntityType = ''transfer'', ev_EntityID = ''1xt'', ev_CustomerID = None,
      ev_AccountID = Some ''A'', ev_TransferID = Some ''1xt'', ev_JournalEntryID = Some ''1xj'',
      ev_IdempotencyKey = Some ''k1'', ev_Reference = None, ev_OldStatus = None,
      ev_NewStatus = None, ev_Metadata = [(''amount_minor'', ''100''), (''currency_id'',
      ''NGN'')], ev_CreatedAt = 10\<rparr>"

definition demo_credited_store :: store where
  "demo_credited_store =
     demo_store\<lparr>account_balances :=
         [(demo_balance ''A'')\<lparr>bal_AvailableMinor := 100, bal_LedgerMinor := 100,
            bal_LastJournalEntryID := Some ''1xj'', bal_UpdatedAt := 10\<rparr>,
          demo_balance ''B'',
          (demo_balance ''C'')\<lparr>bal_AvailableMinor := 100, bal_LedgerMinor := 100,
            bal_LastJournalEntryID := Some ''1xj'', bal_UpdatedAt := 10\<rparr>],
       journal_entries := [demo_journal], postings := [demo_debit, demo_credit_leg],
       transfers := [demo_inbound], audit_events := [demo_audit]\<rparr>"

definition demo_pending_store :: store where
  "demo_pending_store =
     demo_credited_store\<lparr>account_balances :=
         [(demo_balance ''A'')\<lparr>bal_AvailableMinor := 70, bal_LedgerMinor := 100,
            bal_LastJournalEntryID := Some ''1xj'', bal_UpdatedAt := 1000\<rparr>,
          demo_balance ''B'',
          (demo_balance ''C'')\<lparr>bal_AvailableMinor := 100, bal_LedgerMinor := 100,
            bal_LastJournalEntryID := Some ''1xj'', bal_UpdatedAt := 10\<rparr>],
       transfers := [demo_inbound, demo_outbound], account_holds := [demo_hold],
       provider_events := [demo_event]\<rparr>"

text \<open>An internal credit leaves the provider alone.\<close>

interpretation still_provider: call_relation "\<lambda>w w'. snd w' = snd w"
  by unfold_locales simp_all

lemma provider_onStore: "still_provider.keeps (onStore m)"
  by (rule still_provider.keepsI) (simp add: onStore_def split: prod.splits)

lemma InternalCredit_provider: "snd (performed sv e x (OpInternalCredit input) w) = snd w"
proof -
  have "still_provider.keeps (svcInternalCredit e x input)"
    unfolding svcInternalCredit_def Let_def
    by (intro still_provider.keeps_bind still_provider.keeps_lift still_provider.keeps_ensure provider_onStore)
  from still_provider.keepsD [OF this, of w] show ?thesis by (simp add: ran_def)
qed

lemma demo_credited_is: "demo_credited = (demo_credited_store, NewMockNIPProvider)"
proof (rule prod_eqI)
  have "fst (ran (svcInternalCredit (demo_svc_env ''1'' 10) demo_externals (demo_credit 100 ''k1''))
      demo_world) = demo_credited_store"
    by code_simp
  then show "fst demo_credited = fst (demo_credited_store, NewMockNIPProvider)"
    by (simp add: demo_credited_def)
  show "snd demo_credited = snd (demo_credited_store, NewMockNIPProvider)"
    by (simp only: demo_credited_def InternalCredit_provider) (simp add: demo_world_def)
qed

lemma demo_pending_is: "fst demo_pending = demo_pending_store"
proof -
  have "fst (ran (svcMockProviderWebhook demo_service (demo_svc_env ''2'' 1000) demo_externals
      ProviderMockNIP (Some demo_payload) []) (demo_credited_store, NewMockNIPProvider)) = demo_pending_store"
    by code_simp
  then show ?thesis by (simp add: demo_pending_def demo_credited_is)
qed

lemma demo_pending_books: "books_ok demo_pending_store"
  using reachable_books [OF demo_reachable(3)] by (simp add: demo_pending_is)

lemma demo_credited_books: "books_ok demo_credited_store"
  using reachable_books [OF demo_reachable(2)] by (simp add: demo_credited_is)

end
