(* ===== verification/BookProperties.thy ===== *)
theory BookProperties
  imports SystemExample
begin

text \<open>
  What the books promise in every reachable state, whatever operations were performed, in whatever order,
  and whatever the providers answered.
\<close>

section \<open>From the invariants to the tables\<close>

lemma sum_rows_single:
  assumes "distinct (map key rows)" and "b \<in> set rows" and "\<And>r. P r \<Longrightarrow> key r = key b" and "P b"
  shows "sum_rows P v rows = v b"
  using assms(1,2)
proof (induction rows)
  case (Cons r rows)
  show ?case
  proof (cases "r = b")
    case True
    have "key b \<notin> key ` set rows" using Cons.prems(1) True by simp
    then have "\<not> P r'" if "r' \<in> set rows" for r' using that assms(3) [of r'] by (metis image_eqI)
    then have "sum_rows P v rows = 0" by (simp add: sum_rows_def cong: filter_cong)
    with True assms(4) show ?thesis by simp
  next
    case False
    with Cons.prems have "key r \<noteq> key b" by (metis distinct.simps(2) image_eqI list.set_map list.simps(9) set_ConsD)
    then have "\<not> P r" using assms(3) [of r] by blast
    with False Cons show ?thesis by simp
  qed
qed simp

lemma balance_row_sums:
  assumes "accounts_ok s" and "b \<in> set (account_balances s)"
  shows "ledger_of s (bal_InstitutionID b) (bal_AccountID b) = bal_LedgerMinor b"
    and "available_of s (bal_InstitutionID b) (bal_AccountID b) = bal_AvailableMinor b"
  using assms unfolding ledger_of_def available_of_def
  by (auto intro!: sum_rows_single [where key = bal_AccountID] simp: accounts_ok_def bal_key_def)

lemma reachable_invariants:
  assumes "reachable sv x w"
  shows "rows_ok (transfers (fst w))" "journals_ok (fst w)" "holds_ok (fst w)" "accounts_ok (fst w)"
    "ledger_drift (fst w) i a = 0" "trial_gap (fst w) i = 0"
    "spendable (fst w) i a \<Longrightarrow> hold_gap (fst w) i a = 0"
  using books_okD [OF reachable_books [OF assms]] by blast+

lemmas demo_rows =
  demo_pending_store_def demo_credited_store_def demo_store_def demo_inbound_def demo_outbound_def
  demo_journal_def demo_debit_def demo_credit_leg_def demo_hold_def demo_event_def demo_audit_def
  demo_account_def demo_balance_def

text \<open>At most one reversal of a transfer is pending or succeeded.\<close>

lemma one_active_reversal:
  assumes "rows_ok ts" and "t \<in> set ts" "t' \<in> set ts" and "active_reversal t" "active_reversal t'"
    and "tr_InstitutionID t = tr_InstitutionID t'" "tr_ReversalOfTransferID t = tr_ReversalOfTransferID t'"
  shows "t = t'"
proof -
  have "distinct (map (\<lambda>t. (tr_InstitutionID t, tr_ReversalOfTransferID t)) (filter active_reversal ts))"
    using assms(1) by (simp add: rows_ok_def reversal_index_def)
  from distinct_keysD [OF this, of t t'] assms show ?thesis by simp
qed

section \<open>Properties\<close>

text \<open>
  C1: in every reachable state the ledger balance of an account is the sum of its postings, each counted
  positively in the direction of the account's normal balance and negatively in the other.
\<close>

theorem ledger_is_sum_of_postings:
  assumes "reachable sv x w" and "b \<in> set (account_balances (fst w))"
  shows "bal_LedgerMinor b = posted (fst w) (bal_InstitutionID b) (bal_AccountID b)"
  using reachable_invariants(5) [OF assms(1)] balance_row_sums(1) [OF reachable_invariants(4) [OF assms(1)] assms(2)]
  by (simp add: ledger_drift_def)

theorem ledger_is_sum_of_postings_witness:
  "list_all (\<lambda>b. bal_LedgerMinor b = posted demo_pending_store (bal_InstitutionID b) (bal_AccountID b))
     (account_balances demo_pending_store)"
  using ledger_is_sum_of_postings [OF demo_reachable(3)] by (simp add: demo_pending_is list_all_iff)

text \<open>
  C2: the available balance of a credit-normal account, or of one that never had a transfer hold, is its
  ledger balance less its active holds.
\<close>

theorem available_is_ledger_less_holds:
  assumes "reachable sv x w" and "b \<in> set (account_balances (fst w))"
    and "spendable (fst w) (bal_InstitutionID b) (bal_AccountID b)"
  shows "bal_AvailableMinor b =
    bal_LedgerMinor b - active_holds (fst w) (bal_InstitutionID b) (bal_AccountID b)"
  using reachable_invariants(7) [OF assms(1,3)] balance_row_sums [OF reachable_invariants(4) [OF assms(1)] assms(2)]
  by (simp add: hold_gap_def)

theorem available_is_ledger_less_holds_witness:
  "\<exists>b\<in>set (account_balances demo_pending_store). bal_AvailableMinor b = 70 \<and>
     bal_LedgerMinor b = 100 \<and> active_holds demo_pending_store (bal_InstitutionID b) (bal_AccountID b) = 30"
proof -
  have "\<exists>b\<in>set (account_balances demo_pending_store). bal_AccountID b = ''A'' \<and>
      bal_InstitutionID b = ''I'' \<and> bal_AvailableMinor b = 70 \<and> bal_LedgerMinor b = 100"
    by (simp add: demo_rows)
  then obtain b where b: "b \<in> set (account_balances demo_pending_store)" "bal_AccountID b = ''A''"
      "bal_InstitutionID b = ''I''" "bal_AvailableMinor b = 70" "bal_LedgerMinor b = 100"
    by blast
  moreover have "spendable demo_pending_store ''I'' ''A''"
    by (simp add: spendable_def demo_rows normal_of_def const_defs)
  ultimately have "bal_AvailableMinor b = bal_LedgerMinor b - active_holds demo_pending_store ''I'' ''A''"
    using available_is_ledger_less_holds [OF demo_reachable(3), of b] by (simp add: demo_pending_is)
  with b show ?thesis by (intro bexI [of _ b]) simp_all
qed

text \<open>
  C3: every journal entry has exactly two postings, a debit and a credit of the amount of the transfer it
  belongs to, on two different accounts of the transfer's institution, one of them the transfer's.
\<close>

theorem journal_is_double_entry:
  assumes "reachable sv x w" and "j \<in> set (journal_entries (fst w))"
  shows "\<exists>t\<in>set (transfers (fst w)). \<exists>p q.
    je_TransferID j = Some (tr_ID t) \<and> je_TotalDebitMinor j = tr_AmountMinor t \<and>
    je_TotalCreditMinor j = tr_AmountMinor t \<and>
    filter (\<lambda>r. po_JournalEntryID r = je_ID j) (postings (fst w)) = [p, q] \<and>
    po_Direction p = PostingDebit \<and> po_Direction q = PostingCredit \<and>
    po_AmountMinor p = tr_AmountMinor t \<and> po_AmountMinor q = tr_AmountMinor t \<and>
    po_InstitutionID p = tr_InstitutionID t \<and> po_InstitutionID q = tr_InstitutionID t \<and>
    po_AccountID p \<noteq> po_AccountID q \<and> tr_AccountID t \<in> {po_AccountID p, po_AccountID q}"
proof -
  have "journal_ok (fst w) j"
    using reachable_invariants(2) [OF assms(1)] assms(2) by (simp add: journals_ok_def)
  then show ?thesis unfolding journal_ok_def two_legs_def legs_of_def by blast
qed

theorem journal_is_double_entry_witness:
  "\<exists>t\<in>set (transfers demo_pending_store). je_TransferID demo_journal = Some (tr_ID t) \<and> tr_AmountMinor t = 100"
proof -
  have j: "demo_journal \<in> set (journal_entries (fst demo_pending))"
    by (simp add: demo_pending_is demo_pending_store_def demo_credited_store_def)
  obtain t where t: "t \<in> set (transfers demo_pending_store)" "je_TransferID demo_journal = Some (tr_ID t)"
      "je_TotalDebitMinor demo_journal = tr_AmountMinor t"
    using journal_is_double_entry [OF demo_reachable(3) j] unfolding demo_pending_is by blast
  moreover have "je_TotalDebitMinor demo_journal = 100" by (simp add: demo_journal_def)
  ultimately show ?thesis by metis
qed

text \<open>C4: the debits of an institution equal its credits in every reachable state.\<close>

theorem trial_balance:
  assumes "reachable sv x w"
  shows "debits (filter (\<lambda>p. po_InstitutionID p = i) (postings (fst w))) =
    credits (filter (\<lambda>p. po_InstitutionID p = i) (postings (fst w)))"
  using reachable_invariants(6) [OF assms, of i] by (simp add: trial_gap_def debits_of_def credits_of_def)

theorem trial_balance_witness:
  "debits (filter (\<lambda>p. po_InstitutionID p = ''I'') (postings demo_pending_store)) = 100 \<and>
   credits (filter (\<lambda>p. po_InstitutionID p = ''I'') (postings demo_pending_store)) = 100"
proof -
  have "debits (filter (\<lambda>p. po_InstitutionID p = ''I'') (postings demo_pending_store)) = 100"
    by (simp add: demo_rows debits_def sum_rows_def const_defs)
  then show ?thesis using trial_balance [OF demo_reachable(3), of "''I''"] by (simp add: demo_pending_is)
qed

text \<open>
  C5: a journal belongs to one transfer: no two rows name the same journal, so no transfer is ever posted
  twice.
\<close>

theorem journal_of_one_transfer:
  assumes "reachable sv x w" and "t \<in> set (transfers (fst w))" and "t' \<in> set (transfers (fst w))"
    and "tr_JournalEntryID t = Some k" and "tr_JournalEntryID t' = Some k"
  shows "t = t'"
proof -
  note journals = reachable_invariants(2) [OF assms(1)]
  obtain j j' where j: "j \<in> set (journal_entries (fst w))" "je_ID j = k" "je_TransferID j = Some (tr_ID t)"
    and j': "j' \<in> set (journal_entries (fst w))" "je_ID j' = k" "je_TransferID j' = Some (tr_ID t')"
    using journals assms(2-5) unfolding journals_ok_def by meson
  have "distinct (map je_ID (journal_entries (fst w)))" using journals by (simp add: journals_ok_def)
  with j j' have "j = j'" by (metis distinct_keysD)
  with j(3) j'(3) have "tr_ID t = tr_ID t'" by simp
  then show ?thesis using tr_key_unique [OF reachable_invariants(1) [OF assms(1)] assms(2,3)] by blast
qed

theorem journal_of_one_transfer_witness:
  "list_all (\<lambda>t. if tr_JournalEntryID t = Some ''1xj'' then t = demo_inbound else True)
     (transfers demo_pending_store)"
proof -
  have "demo_inbound \<in> set (transfers (fst demo_pending))" "tr_JournalEntryID demo_inbound = Some ''1xj''"
    by (simp_all add: demo_pending_is demo_pending_store_def demo_inbound_def)
  from journal_of_one_transfer [OF demo_reachable(3) _ this(1) _ this(2)] show ?thesis
    by (simp add: demo_pending_is list_all_iff)
qed

text \<open>
  C6: a pending outbound transfer that the ledger waits for is backed by exactly one active hold of its
  amount on its account.
\<close>

theorem pending_outbound_is_backed:
  assumes "reachable sv x w" and "t \<in> set (transfers (fst w))" and "heldOutbound t"
    and "tr_Status t = TransferStatusPending" and "tr_LedgerStatus t = LedgerStatusPending"
  shows "\<exists>!h. h \<in> set (account_holds (fst w)) \<and> ho_InstitutionID h = tr_InstitutionID t \<and>
      ho_TransferID h = Some (tr_ID t) \<and> ho_Status h = HoldStatusActive \<and>
      ho_AccountID h = tr_AccountID t \<and> ho_AmountMinor h = tr_AmountMinor t"
proof -
  note holds = reachable_invariants(3) [OF assms(1)]
  have "needs_hold t" using assms(3-5) by (simp add: needs_hold_def)
  with holds assms(2) obtain h where h: "h \<in> set (account_holds (fst w))"
      "active_for (tr_InstitutionID t) (tr_ID t) h"
    unfolding holds_ok_def backed_def by blast
  then have f: "hold_for (tr_InstitutionID t) (tr_ID t) h" "ho_Status h = HoldStatusActive"
    by (simp_all add: active_for_iff)
  note same = hold_transfer [OF holds reachable_invariants(1) [OF assms(1)] h(1) f(1) assms(2) refl]
  have unique: "h' = h" if "h' \<in> set (account_holds (fst w))"
      "ho_InstitutionID h' = tr_InstitutionID t" "ho_TransferID h' = Some (tr_ID t)" for h'
    using hold_for_unique [OF holds that(1) h(1) _ f(1)] that(2,3) by (simp add: hold_for_def)
  show ?thesis
  proof (rule ex1I [of _ h])
    show "h \<in> set (account_holds (fst w)) \<and> ho_InstitutionID h = tr_InstitutionID t \<and>
        ho_TransferID h = Some (tr_ID t) \<and> ho_Status h = HoldStatusActive \<and>
        ho_AccountID h = tr_AccountID t \<and> ho_AmountMinor h = tr_AmountMinor t"
      using h(1) f same by (simp add: hold_for_def)
  qed (use unique in blast)
qed

theorem pending_outbound_is_backed_witness:
  "\<exists>!h. h \<in> set (account_holds demo_pending_store) \<and> ho_TransferID h = Some ''2xt'' \<and> ho_InstitutionID h = ''I'' \<and>
     ho_Status h = HoldStatusActive \<and> ho_AccountID h = ''A'' \<and> ho_AmountMinor h = 30"
proof -
  have "demo_outbound \<in> set (transfers (fst demo_pending))" "heldOutbound demo_outbound"
    "tr_Status demo_outbound = TransferStatusPending" "tr_LedgerStatus demo_outbound = LedgerStatusPending"
    by (simp_all add: demo_pending_is demo_pending_store_def demo_outbound_def heldOutbound_def const_defs)
  from pending_outbound_is_backed [OF demo_reachable(3) this] show ?thesis
    by (simp add: demo_pending_is demo_outbound_def conj_ac)
qed

text \<open>
  C7: the hold of a transfer follows it: it is active while the transfer is pending, consumed when it
  succeeded and released when it failed.
\<close>

theorem hold_follows_transfer:
  assumes "reachable sv x w" and "h \<in> set (account_holds (fst w))" and "t \<in> set (transfers (fst w))"
    and "ho_InstitutionID h = tr_InstitutionID t" and "ho_TransferID h = Some (tr_ID t)"
  shows "ho_Status h =
    (if tr_Status t = TransferStatusPending then HoldStatusActive
     else if tr_Status t = TransferStatusSucceeded then HoldStatusConsumed else HoldStatusReleased)"
proof -
  have "hold_for (tr_InstitutionID t) (tr_ID t) h" using assms(4,5) by (simp add: hold_for_def)
  from hold_transfer [OF reachable_invariants(3,1) [OF assms(1)] assms(2) this assms(3) refl]
  show ?thesis by (auto simp: status_sync_def const_defs)
qed

theorem hold_follows_transfer_witness:
  "ho_Status demo_hold = HoldStatusActive \<and> tr_Status demo_outbound = TransferStatusPending"
proof -
  have "demo_hold \<in> set (account_holds (fst demo_pending))" "demo_outbound \<in> set (transfers (fst demo_pending))"
    "ho_InstitutionID demo_hold = tr_InstitutionID demo_outbound" "ho_TransferID demo_hold = Some (tr_ID demo_outbound)"
    and st: "tr_Status demo_outbound = TransferStatusPending"
    by (simp_all add: demo_pending_is demo_pending_store_def demo_outbound_def demo_hold_def const_defs)
  from hold_follows_transfer [OF demo_reachable(3) this(1-4)] st show ?thesis by simp
qed

text \<open>
  C8: a transfer whose provider outcome is unknown, or that failed, has no journal; the unknown one waits
  for manual review.
\<close>

theorem no_journal_without_success:
  assumes "reachable sv x w" and "t \<in> set (transfers (fst w))"
  shows "(tr_ProviderStatus t = TransferProviderStatusUnknown \<longrightarrow>
      tr_JournalEntryID t = None \<and> tr_ReconciliationStatus t = ReconciliationStatusManualReview) \<and>
    (tr_Status t \<noteq> TransferStatusSucceeded \<longrightarrow> tr_JournalEntryID t = None) \<and>
    (tr_JournalEntryID t \<noteq> None \<longleftrightarrow>
      tr_LedgerStatus t = LedgerStatusPosted \<or> tr_LedgerStatus t = LedgerStatusReversalDeficit)"
proof -
  have "status_ok t" using rows_okD [OF reachable_invariants(1) [OF assms(1)] assms(2)] by blast
  then show ?thesis unfolding status_ok_def insert_iff empty_iff by blast
qed

theorem no_journal_without_success_witness:
  "tr_JournalEntryID demo_outbound = None \<and> tr_Status demo_outbound \<noteq> TransferStatusSucceeded"
proof -
  have "demo_outbound \<in> set (transfers (fst demo_pending))" and st: "tr_Status demo_outbound \<noteq> TransferStatusSucceeded"
    by (simp_all add: demo_pending_is demo_pending_store_def demo_outbound_def const_defs)
  from no_journal_without_success [OF demo_reachable(3) this(1)] st show ?thesis by blast
qed

text \<open>
  C9: no operation of the service rewrites history: journals, postings and audit events are only appended.
\<close>

theorem history_is_append_only:
  assumes "reachable sv x w"
  shows "prefix (journal_entries (fst w)) (journal_entries (fst (performed sv e x op w))) \<and>
    prefix (postings (fst w)) (postings (fst (performed sv e x op w))) \<and>
    prefix (audit_events (fst w)) (audit_events (fst (performed sv e x op w)))"
  using performed_history [OF assms, of e op] by (simp add: history_kept_def)

theorem history_is_append_only_witness:
  "prefix [demo_journal] (journal_entries demo_pending_store) \<and>
   prefix [demo_debit, demo_credit_leg] (postings demo_pending_store)"
  using history_is_append_only [OF demo_reachable(2), of "demo_svc_env ''2'' 1000"
      "OpMockProviderWebhook ProviderMockNIP (Some demo_payload) []"]
  unfolding demo_pending_def [symmetric] unfolding demo_pending_is demo_credited_is
  by (simp add: demo_credited_store_def)

text \<open>
  C10: a settled transfer stays settled: whatever operation follows, the transfer is still there with its
  amount, account and keys, and if it was succeeded or failed it keeps that status and its journal.
\<close>

theorem settled_transfer_is_final:
  assumes "reachable sv x w" and "t \<in> set (transfers (fst w))"
  shows "\<exists>t'\<in>set (transfers (fst (performed sv e x op w))).
    tr_ID t' = tr_ID t \<and> tr_InstitutionID t' = tr_InstitutionID t \<and> tr_AccountID t' = tr_AccountID t \<and>
    tr_AmountMinor t' = tr_AmountMinor t \<and> tr_IdempotencyKey t' = tr_IdempotencyKey t \<and>
    (tr_Status t \<noteq> TransferStatusPending \<longrightarrow>
       tr_Status t' = tr_Status t \<and> tr_JournalEntryID t' = tr_JournalEntryID t)"
  using performed_history [OF assms(1), of e op] assms(2)
  by (fastforce simp: history_kept_def kept_row_def same_identity_def)

theorem settled_transfer_is_final_witness:
  "\<exists>t'\<in>set (transfers demo_pending_store). tr_ID t' = ''1xt'' \<and> tr_Status t' = TransferStatusSucceeded \<and>
     tr_JournalEntryID t' = Some ''1xj''"
proof -
  have "demo_inbound \<in> set (transfers (fst demo_credited))"
    and d: "tr_Status demo_inbound = TransferStatusSucceeded" "tr_ID demo_inbound = ''1xt''"
      "tr_JournalEntryID demo_inbound = Some ''1xj''" "TransferStatusSucceeded \<noteq> TransferStatusPending"
    by (simp_all add: demo_credited_is demo_credited_store_def demo_inbound_def const_defs)
  from settled_transfer_is_final [OF demo_reachable(2) this(1), of "demo_svc_env ''2'' 1000"
      "OpMockProviderWebhook ProviderMockNIP (Some demo_payload) []"]
  show ?thesis unfolding demo_pending_def [symmetric] unfolding demo_pending_is d using d(4) by blast
qed

text \<open>
  C11: an operation that names an institution leaves every row of every other institution as it was: its
  accounts, balances, journals, postings, transfers, holds, provider events, audit events and customers.
\<close>

theorem institutions_are_isolated:
  assumes "reachable sv x w" and "op_institution op = Some i" and "j \<noteq> i"
  shows "tenant_rows j (fst (performed sv e x op w)) = tenant_rows j (fst w)"
  by (rule performed_tenants [OF assms])

text \<open>The same bank with a second institution, \<open>J\<close>, and a credit there after the one of the first.\<close>

definition demo_two_world :: "MockNIPProvider world" where
  "demo_two_world =
     (demo_store
        \<lparr>institutions := institutions demo_store @
           [\<lparr>inst_ID = ''J'', inst_Name = ''J'', inst_ShortName = ''J'', inst_Code = ''2'', inst_CurrencyID = ''NGN'',
             inst_Status = ''active'', inst_CreatedAt = 1, inst_UpdatedAt = 1\<rparr>],
         accounts := accounts demo_store @
           [(demo_account ''D'' AccountKindCustomer False NormalBalanceCredit)\<lparr>acc_InstitutionID := ''J''\<rparr>,
            (demo_account ''E'' AccountKindInternal True NormalBalanceDebit)\<lparr>acc_InstitutionID := ''J''\<rparr>],
         account_balances := account_balances demo_store @
           [(demo_balance ''D'')\<lparr>bal_InstitutionID := ''J''\<rparr>, (demo_balance ''E'')\<lparr>bal_InstitutionID := ''J''\<rparr>]\<rparr>,
      NewMockNIPProvider)"

definition demo_two_credited :: "MockNIPProvider world" where
  "demo_two_credited = performed demo_service (demo_svc_env ''1'' 10) demo_externals
     (OpInternalCredit (demo_credit 100 ''k1'')) demo_two_world"

definition demo_second_credit :: InternalCreditInput where
  "demo_second_credit = (demo_credit 40 ''k1'')
     \<lparr>ici_InstitutionID := ''J'', ici_AccountID := ''D'', ici_SourceAccountID := ''E''\<rparr>"

lemma demo_two_reachable: "reachable demo_service demo_externals demo_two_credited"
proof -
  have "initial (fst demo_two_world)"
    by (simp add: demo_two_world_def initial_def demo_store_def accounts_ok_def demo_account_def demo_balance_def
      balance_in_range_def in_int64_def const_defs)
  then show ?thesis unfolding demo_two_credited_def by (intro reachable.intros)
qed

theorem institutions_are_isolated_witness:
  "\<exists>s. s = fst (performed demo_service (demo_svc_env ''3'' 2000) demo_externals (OpInternalCredit demo_second_credit)
        demo_two_credited) \<and>
     map tr_InstitutionID (transfers s) = [''I'', ''J''] \<and> tenant_rows ''I'' s = tenant_rows ''I'' (fst demo_two_credited)"
proof -
  have i: "op_institution (OpInternalCredit demo_second_credit) = Some ''J''" by code_simp
  have "map tr_InstitutionID (transfers (fst (ran (svcInternalCredit (demo_svc_env ''3'' 2000) demo_externals demo_second_credit)
      (ran (svcInternalCredit (demo_svc_env ''1'' 10) demo_externals (demo_credit 100 ''k1'')) demo_two_world)))) = [''I'', ''J'']"
    by code_simp
  then show ?thesis
    using institutions_are_isolated [OF demo_two_reachable i, of "''I''" "demo_svc_env ''3'' 2000"]
    by (simp add: demo_two_credited_def)
qed

end
