(* ===== verification/TransferProperties.thy ===== *)
theory TransferProperties
  imports TransferEffects BookProperties
begin

text \<open>
  What recording a transfer promises to the client that asked for it: a repeated request is recognised, a new
  one moves its amount and nothing else, and one that may not be served is refused with nothing written.
\<close>

section \<open>The example\<close>

definition demo_request :: "string \<Rightarrow> int \<Rightarrow> string \<Rightarrow> RecordTransferInput" where
  "demo_request direction n k =
     (demo_input direction TransferStatusSucceeded n k)
       \<lparr>in_ProviderReference := [], in_RejectInsufficient := True\<rparr>"

definition demo_recorded :: "error + (Transfer \<times> bool) \<times> store" where
  "demo_recorded = recordTransfer (demo_env ''1'' 5) demo_externals
     (demo_request TransferDirectionInbound 70 ''k1'') demo_store"

definition demo_created_row :: Transfer where
  "demo_created_row =
     (case demo_recorded of Inl _ \<Rightarrow> demo_inbound | Inr ((t, created), s) \<Rightarrow> t)"

definition demo_created_store :: store where
  "demo_created_store = (case demo_recorded of Inl _ \<Rightarrow> demo_store | Inr (r, s) \<Rightarrow> s)"

lemma demo_recorded_is: "demo_recorded = Inr ((demo_created_row, True), demo_created_store)"
proof -
  have "case demo_recorded of Inl _ \<Rightarrow> False | Inr ((t, created), s) \<Rightarrow> created" by code_simp
  then obtain t s where r: "demo_recorded = Inr ((t, True), s)" by (auto split: sum.splits)
  show ?thesis unfolding demo_created_row_def demo_created_store_def r by simp
qed

lemma demo_created_status: "tr_Status demo_created_row = TransferStatusSucceeded"
  by code_simp

lemma new_key:
  "(i, k) \<notin> (\<lambda>t. (tr_InstitutionID t, tr_IdempotencyKey t)) ` set (transfers s) \<Longrightarrow> idempotency_row i k s = None"
  by (auto simp: idempotency_row_def select_one_None_iff)

section \<open>Properties\<close>

text \<open>
  C12: a request whose idempotency key was already used by the same institution is answered with the recorded
  transfer when its fingerprint is the same, and nothing is written.
\<close>

theorem repeated_request_returns_the_recorded_transfer:
  assumes "reachable sv x w" and "t \<in> set (transfers (fst w))"
    and "tr_InstitutionID t = in_InstitutionID input" "tr_IdempotencyKey t = in_IdempotencyKey input"
    and "transferRequestFingerprintMatches t (transferRequestFingerprint x input)"
    and "env_tx_outcome e = TxCommits"
  shows "RecordTransfer e x input (fst w) = (Inr t, (fst w)\<lparr>advisory_locks := []\<rparr>)"
proof -
  have "TrimSpace (tr_RequestFingerprint t) \<noteq> []"
    using assms(5) unfolding transferRequestFingerprintMatches_def by (rule conjunct1)
  from RecordTransfer_repeated [OF reachable_invariants(1) [OF assms(1)] assms(2-4) this assms(6)] assms(5)
  show ?thesis by simp
qed

text \<open>The first transfer of the example run and the request that repeats it.\<close>

theorem repeated_request_returns_the_recorded_transfer_witness:
  "RecordTransfer (demo_env ''3'' 2000) demo_externals
     ((demo_request TransferDirectionInbound 100 ''k1'')\<lparr>in_RequestFingerprint := ''v1:88''\<rparr>) (fst demo_pending) =
   (Inr demo_inbound, (fst demo_pending)\<lparr>advisory_locks := []\<rparr>)"
  by (rule repeated_request_returns_the_recorded_transfer [OF demo_reachable(3)])
    (simp add: demo_pending_is demo_pending_store_def, code_simp, code_simp, code_simp, simp add: demo_env_def)

text \<open>
  C13: a request that reuses an idempotency key with another fingerprint is refused as a conflict, and
  nothing is written.
\<close>

theorem reused_key_is_a_conflict:
  assumes "reachable sv x w" and "t \<in> set (transfers (fst w))"
    and "tr_InstitutionID t = in_InstitutionID input" "tr_IdempotencyKey t = in_IdempotencyKey input"
    and "TrimSpace (tr_RequestFingerprint t) \<noteq> []"
    and "\<not> transferRequestFingerprintMatches t (transferRequestFingerprint x input)"
    and "env_tx_outcome e = TxCommits"
  shows "RecordTransfer e x input (fst w) = (Inl ErrConflict, fst w)"
  using RecordTransfer_repeated [OF reachable_invariants(1) [OF assms(1)] assms(2-5,7), of x] assms(6)
  by simp

theorem reused_key_is_a_conflict_witness:
  "RecordTransfer (demo_env ''3'' 2000) demo_externals
     (demo_request TransferDirectionInbound 40 ''k1'') (fst demo_pending) = (Inl ErrConflict, fst demo_pending)"
  by (rule reused_key_is_a_conflict [OF demo_reachable(3), where t = demo_inbound])
    (simp add: demo_pending_is demo_pending_store_def, code_simp, code_simp, code_simp, code_simp,
      simp add: demo_env_def)

text \<open>
  C14: a client that lost the answer to a request that created a transfer, and sends the same request again,
  gets the transfer that was created; it is not posted twice.
\<close>

theorem retry_after_creation_is_safe:
  assumes "books_ok s" and "recordTransfer e x input s = Inr ((t, True), s')"
    and "env_tx_outcome e' = TxCommits"
  shows "RecordTransfer e' x input s' = (Inr t, s'\<lparr>advisory_locks := []\<rparr>)"
proof -
  have "books_ok s'" by (rule books_ok_steps [OF recordTransfer_books [OF assms(1,2)] assms(1)])
  then have rows: "rows_ok (transfers s')" by (rule books_okD(1))
  have t: "t \<in> set (transfers s')"
    using recordTransfer_returns [OF assms(2)] by (simp add: returns_row_def)
  note f = created_fingerprint [OF assms(2)]
  have "transferRequestFingerprintMatches t (transferRequestFingerprint x input)"
    using f by (simp add: fingerprint_replay)
  with RecordTransfer_repeated [OF rows t _ _ _ assms(3), of input x] f show ?thesis
    by (simp add: transferRequestFingerprint_nonblank)
qed

theorem retry_after_creation_is_safe_witness:
  "RecordTransfer (demo_env ''9'' 900) demo_externals (demo_request TransferDirectionInbound 70 ''k1'')
     demo_created_store = (Inr demo_created_row, demo_created_store\<lparr>advisory_locks := []\<rparr>)"
  by (rule retry_after_creation_is_safe [OF demo_books demo_recorded_is [unfolded demo_recorded_def]])
    (simp add: demo_env_def)

text \<open>
  C15: a transfer that is created as succeeded moves exactly its amount: the ledger and the available balance
  of the debited and of the credited account change by it, in the direction of their normal balances, and
  those of every other account of any institution stay.
\<close>

theorem created_transfer_moves_its_amount:
  assumes "books_ok s" and "recordTransfer e x input s = Inr ((t, True), s')"
    and "tr_Status t = TransferStatusSucceeded"
  shows "ledger_of s' i a = ledger_of s i a + moved_sum_of s input i a \<and>
    available_of s' i a = available_of s i a + moved_sum_of s input i a"
  using created_moves(1,2) [OF books_okD(4) [OF assms(1)] assms(2)] assms(3) by simp

theorem created_transfer_moves_its_amount_witness:
  "ledger_of demo_created_store ''I'' ''A'' = 70 \<and> available_of demo_created_store ''I'' ''A'' = 70"
proof -
  have "ledger_of demo_store ''I'' ''A'' = 0 \<and> available_of demo_store ''I'' ''A'' = 0 \<and>
    moved_sum_of demo_store (demo_request TransferDirectionInbound 70 ''k1'') ''I'' ''A'' = 70"
    by code_simp
  with created_transfer_moves_its_amount [OF demo_books demo_recorded_is [unfolded demo_recorded_def]
      demo_created_status, of "''I''" "''A''"]
  show ?thesis by simp
qed

text \<open>
  C16: a debit a customer asked for, when it is created as succeeded or pending, was covered by the available
  balance of his account, unless the account may go negative; and that account was neither frozen nor closed
  nor under post-no-debit.
\<close>

theorem customer_debit_is_covered:
  assumes "recordTransfer e x input s = Inr ((t, True), s')" and "tr_Status t \<noteq> TransferStatusFailed"
    and "customerInitiatedOutbound input"
    and "locked_row (in_InstitutionID input) (in_AccountID input) s = Some account"
    and "acc_Kind (lk_Account account) = AccountKindCustomer" and "\<not> acc_AllowNegative (lk_Account account)"
  shows "in_AmountMinor input \<le> bal_AvailableMinor (lk_Balance account) \<and>
    \<not> blocked (lk_Account account) \<and> \<not> no_debit (lk_Account account)"
proof -
  from created_decision [OF assms(1,4)] obtain d and clearing :: lockedAccountBalance where
    d: "decideTransfer input account = Inr d \<and> tr_Status t = dec_Status d" and
    c: "enforceTransferControls input (lk_Account account) (lk_Account clearing) = Inr ()" by blast
  have "\<not> insufficientFunds input account" using decision_covered [of input account d] d assms(2) by simp
  with c assms(3,5,6) show ?thesis
    by (auto simp: insufficientFunds_def canUseAvailableBalance_def enforceTransferControls_iff
        customerInitiatedOutbound_def)
qed

definition demo_debit_run :: "error + (Transfer \<times> bool) \<times> store" where
  "demo_debit_run = recordTransfer (demo_env ''4'' 3000) demo_externals
     (demo_request TransferDirectionOutbound 60 ''k4'') demo_pending_store"

theorem customer_debit_is_covered_witness:
  "\<exists>t s' account. demo_debit_run = Inr ((t, True), s') \<and> tr_Status t = TransferStatusSucceeded \<and>
     locked_row ''I'' ''A'' demo_pending_store = Some account \<and> 60 \<le> bal_AvailableMinor (lk_Balance account)"
proof -
  have "case demo_debit_run of Inl _ \<Rightarrow> False | Inr ((t, created), s) \<Rightarrow> created \<and> tr_Status t = TransferStatusSucceeded"
    by code_simp
  then obtain t s' where r: "demo_debit_run = Inr ((t, True), s')" "tr_Status t = TransferStatusSucceeded"
    by (auto split: sum.splits)
  obtain account where a: "locked_row ''I'' ''A'' demo_pending_store = Some account"
    "acc_Kind (lk_Account account) = AccountKindCustomer" "\<not> acc_AllowNegative (lk_Account account)"
    by (rule that [of "\<lparr>lk_Account = demo_account ''A'' AccountKindCustomer False NormalBalanceCredit,
      lk_Balance = (demo_balance ''A'')\<lparr>bal_AvailableMinor := 70, bal_LedgerMinor := 100,
            bal_LastJournalEntryID := Some ''1xj'', bal_UpdatedAt := 1000\<rparr>\<rparr>"]) code_simp+
  have i: "in_InstitutionID (demo_request TransferDirectionOutbound 60 ''k4'') = ''I''"
    "in_AccountID (demo_request TransferDirectionOutbound 60 ''k4'') = ''A''"
    "in_AmountMinor (demo_request TransferDirectionOutbound 60 ''k4'') = 60"
    "customerInitiatedOutbound (demo_request TransferDirectionOutbound 60 ''k4'')"
    "tr_Status t \<noteq> TransferStatusFailed"
    unfolding r(2) by code_simp+
  from customer_debit_is_covered [OF r(1) [unfolded demo_debit_run_def] i(5,4), unfolded i, OF a]
  show ?thesis using r a by auto
qed

text \<open>
  C17: a debit of more than a customer account has available, on an account that may not go negative and whose
  status allows debits, is refused with \<open>ErrInsufficient\<close> and nothing is written, when the caller asked for
  rejection, the idempotency key is new to the institution and no provider event or reference is given.
\<close>

theorem overdraft_is_refused:
  assumes "(in_InstitutionID input, in_IdempotencyKey input) \<notin>
      (\<lambda>t. (tr_InstitutionID t, tr_IdempotencyKey t)) ` set (transfers s)"
    and "in_ProviderEventID input = []" and "in_ProviderReference input = []"
    and "in_AccountID input \<noteq> in_ClearingAccountID input"
    and "locked_row (in_InstitutionID input) (in_AccountID input) s = Some account"
    and "locked_row (in_InstitutionID input) (in_ClearingAccountID input) s = Some clearing"
    and "acc_Kind (lk_Account account) = AccountKindCustomer" and "\<not> acc_AllowNegative (lk_Account account)"
    and "acc_Status (lk_Account account) = AccountStatusActive"
    and "acc_Kind (lk_Account clearing) = AccountKindInternal \<or> acc_Status (lk_Account clearing) = AccountStatusActive"
    and "in_Direction input = TransferDirectionOutbound" and "in_ReversalOfTransferID input = []"
    and "bal_AvailableMinor (lk_Balance account) < in_AmountMinor input" and "in_RejectInsufficient input"
    and "env_tx_outcome e = TxCommits"
  shows "RecordTransfer e x input s = (Inl ErrInsufficient, s)"
proof (rule RecordTransfer_new [OF new_key [OF assms(1)] assms(2,3) _ assms(15)])
  fix l
  have rows: "locked_row i a (s\<lparr>advisory_locks := l\<rparr>) = locked_row i a s" for i a
    by (simp add: locked_row_def account_row_def balance_row_def)
  have "enforceTransferControls input (lk_Account account) (lk_Account clearing) = Inr ()"
    using assms(9,10) by (auto simp: enforceTransferControls_iff blocked_def no_debit_def const_defs)
  then show "recordNewTransfer e x input (s\<lparr>advisory_locks := l\<rparr>) = Inl ErrInsufficient"
    using assms uncovered_insufficient [OF assms(11,12,7,8,13)]
    by (intro recordNewTransfer_refused) (simp_all add: rows)
qed

definition demo_spender :: lockedAccountBalance where
  "demo_spender =
     \<lparr>lk_Account = demo_account ''A'' AccountKindCustomer False NormalBalanceCredit,
      lk_Balance = (demo_balance ''A'')\<lparr>bal_AvailableMinor := 70, bal_LedgerMinor := 100,
        bal_LastJournalEntryID := Some ''1xj'', bal_UpdatedAt := 1000\<rparr>\<rparr>"

definition demo_clearing :: lockedAccountBalance where
  "demo_clearing =
     \<lparr>lk_Account = demo_account ''C'' AccountKindInternal True NormalBalanceDebit,
      lk_Balance = (demo_balance ''C'')\<lparr>bal_AvailableMinor := 100, bal_LedgerMinor := 100,
        bal_LastJournalEntryID := Some ''1xj'', bal_UpdatedAt := 10\<rparr>\<rparr>"

theorem overdraft_is_refused_witness:
  "RecordTransfer (demo_env ''4'' 3000) demo_externals (demo_request TransferDirectionOutbound 71 ''k4'')
     demo_pending_store = (Inl ErrInsufficient, demo_pending_store)"
  by (rule overdraft_is_refused [where account = demo_spender and clearing = demo_clearing])
    code_simp+








end
