(* ===== verification/MoneyEffects.thy ===== *)
theory MoneyEffects
  imports TransferEffects
begin

text \<open>
  What a new transfer and its reversal do to the ledger: when a recording returns a row the store already had,
  the two postings a succeeded transfer writes, the account the reversal finds as counterparty, and that
  the reversal moves the opposite amounts.
\<close>

lemma recordNew_known:
  assumes "recordNewTransfer e x input s = Inr ((t, False), s')"
  shows "t \<in> set (transfers s)"
proof -
  from assms obtain a c d where
    r: "reserveEventOr e x input [] (transferRequestFingerprint x input) (env_clock e 0) (\<lambda>t. (t, False))
       (writeNewTransfer e x input a c d (env_clock e 0)) s = Inr ((t, False), s')"
    unfolding recordNewTransfer_def Let_def
    by (auto simp: txBind_Inr txThen_Inr txLift_Inr lockTransferAccountBalances_Inr)
  have "\<not> writeNewTransfer e x input a c d (env_clock e 0) s1 = Inr ((t, False), s')" for s1
    by (auto simp: writeNewTransfer_def Let_def txBind_Inr txThen_Inr)
  with reserveEventOr_Inr [OF r] show ?thesis by (auto dest: event_transfer_SomeD)
qed

lemma recordByReference_known:
  assumes run: "recordByReference e x input s = Inr ((t, False), s')"
  shows "tr_ID t \<in> tr_ID ` set (transfers s)"
proof (cases "in_ProviderReference input \<noteq> [] \<and> in_Status input \<noteq> TransferStatusPending")
  case False
  then have "recordNewTransfer e x input s = Inr ((t, False), s')"
    using run unfolding recordByReference_def by (simp only: if_False)
  then show ?thesis by (auto dest: recordNew_known)
next
  case True
  let ?key = "\<lambda>q. q (in_InstitutionID input) (in_Provider input) (in_ProviderReference input) (in_Direction input) s"
  have pending: ?thesis if p: "?key pending_reference_row = Some pending" for pending
  proof -
    from p True run have "settlePendingTransfer e x pending input s = Inr (t, s')"
      by (auto simp: recordByReference_def getPendingTransferByProviderReference_def ifFound_getRow txBind_Inr)
    moreover have "pending \<in> set (transfers s)" "tr_InstitutionID pending = in_InstitutionID input"
      using p by (auto simp: pending_reference_row_def provider_reference_key_def dest: select_first_SomeD)
    ultimately show ?thesis using settlePendingTransfer_returns [of e x pending input s t s'] by auto
  qed
  have settled: ?thesis if n: "?key pending_reference_row = None" and p: "?key settled_reference_row = Some settled"
    for settled
  proof -
    from n p True run have "t = settled"
      by (auto simp: recordByReference_def getPendingTransferByProviderReference_def
          getSettledTransferByProviderReference_def ifFound_getRow txBind_Inr txThen_Inr)
    then show ?thesis using p by (auto simp: settled_reference_row_def dest: select_first_SomeD)
  qed
  have ?thesis if "?key pending_reference_row = None" "?key settled_reference_row = None"
  proof -
    from that True run have "recordNewTransfer e x input s = Inr ((t, False), s')"
      by (simp add: recordByReference_def getPendingTransferByProviderReference_def
          getSettledTransferByProviderReference_def ifFound_getRow)
    then show ?thesis by (auto dest: recordNew_known)
  qed
  with pending settled show ?thesis by (metis option.exhaust)
qed

lemma recordTransfer_known:
  assumes "recordTransfer e x input s = Inr ((t, False), s')"
  shows "tr_ID t \<in> tr_ID ` set (transfers s)"
proof -
  from assms obtain s0 where l: "recordTransferLocks input s = Inr ((), s0)" and
    rest: "ifFound (getTransferByIdempotency (in_InstitutionID input) (in_IdempotencyKey input))
        (\<lambda>existing. txBind (sameTransferReplay existing input (transferRequestFingerprint x input)) (\<lambda>ok.
           txThen (txEnsure ok ErrConflict) (txReturn (existing, False))))
        (recordByEvent e x input) s0 = Inr ((t, False), s')"
    by (auto simp: recordTransfer_def txThen_Inr)
  from rest have "t \<in> set (transfers s0) \<or> recordByEvent e x input s0 = Inr ((t, False), s')"
    by (auto simp: getTransferByIdempotency_def ifFound_getRow txBind_Inr txThen_Inr split: option.splits
        dest: idempotency_row_SomeD)
  moreover have "t \<in> set (transfers s0) \<or> recordByReference e x input s0 = Inr ((t, False), s')"
    if "recordByEvent e x input s0 = Inr ((t, False), s')"
    using that by (auto simp: recordByEvent_def getEventTransfer_def ifFound_getRow txBind_Inr txThen_Inr
        split: if_splits option.splits dest: event_transfer_SomeD)
  ultimately have "tr_ID t \<in> tr_ID ` set (transfers s0)" using recordByReference_known by blast
  moreover have "transfers s0 = transfers s" using recordTransferLocks_frame [OF l] by auto
  ultimately show ?thesis by simp
qed

section \<open>The legs of a created transfer\<close>

lemma journal_legs:
  assumes "journal_effect i k amount db cr held j s s1" and "\<forall>p\<in>set (postings s). journal_exists s (po_JournalEntryID p)"
  shows "\<exists>p q. legs_of (je_ID j) s1 = [p, q] \<and> po_InstitutionID p = i \<and> po_InstitutionID q = i \<and>
    po_AccountID p = db \<and> po_AccountID q = cr"
    and "normal_of s i db \<noteq> None" "normal_of s i cr \<noteq> None"
proof -
  from assms(1) obtain p q b1 b2 where
    l: "leg_posted i amount held db PostingDebit s j p (account_balances s) b1"
      "leg_posted i amount held cr PostingCredit s j q b1 b2" and
    fresh: "\<not> journal_exists s (je_ID j)" and
    s1: "s1 = s\<lparr>journal_entries := journal_entries s @ [j], postings := postings s @ [p, q], account_balances := b2\<rparr>"
    by (auto simp: journal_effect_def)
  from assms(2) fresh have none: "filter (\<lambda>p. po_JournalEntryID p = je_ID j) (postings s) = []"
    by (auto simp: filter_empty_conv)
  show "\<exists>p q. legs_of (je_ID j) s1 = [p, q] \<and> po_InstitutionID p = i \<and> po_InstitutionID q = i \<and>
      po_AccountID p = db \<and> po_AccountID q = cr"
    using l none by (auto simp: legs_of_def s1 leg_posted_def)
  show "normal_of s i db \<noteq> None" "normal_of s i cr \<noteq> None"
    using l by (auto simp: leg_posted_def)
qed


lemma created_posting:
  assumes "recordTransfer e x input s = Inr ((t, True), s')" and "tr_Status t = TransferStatusSucceeded"
  obtains s1 s2 where "same_money s s1"
    "journal_effect (in_InstitutionID input) (env_uuid e DrawTransfer) (in_AmountMinor input)
      (debitAccount input) (creditAccount input) [] (new_journal e input (env_uuid e DrawTransfer) (env_clock e 0)) s1 s2"
    "same_money s2 s'" "tr_JournalEntryID t = Some (je_ID (new_journal e input (env_uuid e DrawTransfer) (env_clock e 0)))"
proof -
  obtain s0 where l: "recordTransferLocks input s = Inr ((), s0)"
    and r: "recordNewTransfer e x input s0 = Inr ((t, True), s')"
    by (rule recordTransfer_created [OF assms(1)]) (rule that)
  obtain account clearing d s1 where s1: "same_money s0 s1"
    and w: "writeNewTransfer e x input account clearing d (env_clock e 0) s1 = Inr ((t, True), s')"
    by (rule recordNewTransfer_created [OF r]) blast
  obtain jid s2 s3 s4 where
    j: "(if dec_Status d = TransferStatusSucceeded
       then txBind (postJournal e input (env_uuid e DrawTransfer) (env_clock e 0) \<lparr>HeldAccountID = []\<rparr>)
         (\<lambda>journalID. txReturn (Some journalID))
       else txReturn None) s1 = Inr (jid, s2)"
    and t: "t = newTransfer e x input d jid (env_clock e 0)" and m3: "same_money s2 s3"
    and h: "(if dec_Status d = TransferStatusPending \<and>
         in_Direction input = TransferDirectionOutbound \<and> in_ReversalOfTransferID input = []
       then create_hold e t (env_clock e 0) else txReturn ()) s3 = Inr ((), s4)" and m4: "same_money s4 s'"
    by (rule writeNewTransfer_parts [OF w]) (rule that)
  have d: "dec_Status d = TransferStatusSucceeded" using assms(2) by (simp add: t)
  with j obtain jj where p: "postJournal e input (env_uuid e DrawTransfer) (env_clock e 0) \<lparr>HeldAccountID = []\<rparr> s1 = Inr (jj, s2)"
    and jid: "jid = Some jj"
    by (auto simp: txBind_Inr)
  from d h have "s4 = s3" by simp
  with m3 m4 have "same_money s2 s'" using money.R_trans by blast
  moreover have "same_money s s1" by (rule money.R_trans [OF money_locks [OF l] s1])
  moreover have "tr_JournalEntryID t = Some (je_ID (new_journal e input (env_uuid e DrawTransfer) (env_clock e 0)))"
    using postJournal_effect [OF p] by (simp add: t newTransfer_def jid new_journal_def)
  moreover have "journal_effect (in_InstitutionID input) (env_uuid e DrawTransfer) (in_AmountMinor input)
      (debitAccount input) (creditAccount input) [] (new_journal e input (env_uuid e DrawTransfer) (env_clock e 0)) s1 s2"
    using postJournal_effect [OF p] by simp
  ultimately show thesis by (intro that)
qed

text \<open>The counterparty of a created transfer is the clearing account of its input.\<close>

lemma created_counterparty:
  assumes ok: "journals_ok s" and run: "recordTransfer e x input s = Inr ((t, True), s')"
    and st: "tr_Status t = TransferStatusSucceeded"
    and row: "tr_InstitutionID t = in_InstitutionID input" "tr_AccountID t = in_AccountID input"
    and ne: "in_AccountID input \<noteq> in_ClearingAccountID input"
    and cp: "originalCounterpartyAccountID t s' = Inr (cp, s'')"
  shows "cp = in_ClearingAccountID input"
proof -
  obtain s1 s2 where m: "same_money s s1" and eff: "journal_effect (in_InstitutionID input) (env_uuid e DrawTransfer) (in_AmountMinor input)
      (debitAccount input) (creditAccount input) [] (new_journal e input (env_uuid e DrawTransfer) (env_clock e 0)) s1 s2"
    and m': "same_money s2 s'" and jid: "tr_JournalEntryID t = Some (je_ID (new_journal e input (env_uuid e DrawTransfer) (env_clock e 0)))"
    by (rule created_posting [OF run st]) (rule that)
  have "\<forall>p\<in>set (postings s1). journal_exists s1 (po_JournalEntryID p)"
    using ok m by (simp add: journals_ok_def same_money_def journal_exists_def)
  from journal_legs(1) [OF eff this] obtain p q where
    pq: "legs_of (je_ID (new_journal e input (env_uuid e DrawTransfer) (env_clock e 0))) s' = [p, q]"
      "po_InstitutionID p = in_InstitutionID input" "po_InstitutionID q = in_InstitutionID input"
      "po_AccountID p = debitAccount input" "po_AccountID q = creditAccount input"
    using m' by (auto simp: legs_of_def same_money_def)
  have split: "filter (\<lambda>p. po_InstitutionID p = i \<and> po_JournalEntryID p = k \<and> po_AccountID p \<noteq> a) (postings s') =
      filter (\<lambda>p. po_InstitutionID p = i \<and> po_AccountID p \<noteq> a) (legs_of k s')" for i k a
    unfolding legs_of_def by (auto simp: conj_commute intro: filter_cong)
  have "counterparties t (je_ID (new_journal e input (env_uuid e DrawTransfer) (env_clock e 0))) s' = [in_ClearingAccountID input]"
    unfolding counterparties_def split pq(1)
    using ne by (simp add: pq row debitAccount_def creditAccount_def)
  then show ?thesis
    using cp by (simp add: originalCounterpartyAccountID_def jid txBind_Inr)
qed

lemma signed_opposite:
  "n \<in> {Some NormalBalanceDebit, Some NormalBalanceCredit} \<Longrightarrow> signed n PostingDebit m = - signed n PostingCredit m"
  by (auto simp: signed_def)


lemma created_row:
  assumes "recordTransfer e x input s = Inr ((t, True), s')"
  shows "tr_AccountID t = in_AccountID input \<and> tr_AmountMinor t = in_AmountMinor input \<and>
      tr_Direction t = in_Direction input \<and> tr_InstitutionID t = in_InstitutionID input \<and>
      tr_ReversalOfTransferID t = optional_text (in_ReversalOfTransferID input) \<and>
      in_AccountID input \<noteq> in_ClearingAccountID input"
    and "\<exists>account d. decideTransfer input account = Inr d \<and> tr_Status t = dec_Status d"
proof -
  obtain s0 where r: "recordNewTransfer e x input s0 = Inr ((t, True), s')"
    by (rule recordTransfer_created [OF assms]) (rule that)
  obtain account clearing :: lockedAccountBalance and d s1 where ne: "in_AccountID input \<noteq> in_ClearingAccountID input"
    and d: "decideTransfer input account = Inr d"
    and w: "writeNewTransfer e x input (lk_Account account) (lk_Account clearing) d (env_clock e 0) s1 = Inr ((t, True), s')"
    by (rule recordNewTransfer_created [OF r]) blast
  obtain jid where t: "t = newTransfer e x input d jid (env_clock e 0)"
    by (rule writeNewTransfer_parts [OF w]) (rule that)
  show "tr_AccountID t = in_AccountID input \<and> tr_AmountMinor t = in_AmountMinor input \<and>
      tr_Direction t = in_Direction input \<and> tr_InstitutionID t = in_InstitutionID input \<and>
      tr_ReversalOfTransferID t = optional_text (in_ReversalOfTransferID input) \<and>
      in_AccountID input \<noteq> in_ClearingAccountID input"
    using ne by (simp add: t newTransfer_def)
  show "\<exists>account d. decideTransfer input account = Inr d \<and> tr_Status t = dec_Status d"
    using d by (intro exI [of _ account] exI [of _ d]) (simp add: t newTransfer_def)
qed

lemma reversal_decided:
  assumes "decideTransfer (reversalInput rin t cp) account = Inr d" and "tr_ID t \<noteq> []"
  shows "dec_Status d = TransferStatusSucceeded"
proof -
  have "TransferStatusSucceeded \<noteq> TransferProviderStatusUnknown" "ToLower [] = []" by code_simp+
  moreover have "\<not> insufficientFunds (reversalInput rin t cp) account"
    using assms(2) by (simp add: insufficientFunds_def customerInitiatedOutbound_def reversalInput_def Let_def)
  ultimately show ?thesis
    using assms(1) by (auto simp: decideTransfer_def settleStatus_def resolvedProviderStatus_def reversalInput_def Let_def)
qed

lemma reversal_moves:
  assumes "normal_of s i (tr_AccountID t) \<in> {Some NormalBalanceDebit, Some NormalBalanceCredit}"
    and "normal_of s i cp \<in> {Some NormalBalanceDebit, Some NormalBalanceCredit}"
    and "normal_of s' = normal_of s" "in_InstitutionID input = i" "rt_InstitutionID rin = i"
    and "in_AccountID input = tr_AccountID t" "in_ClearingAccountID input = cp" "in_AmountMinor input = tr_AmountMinor t"
    and "in_Direction input = tr_Direction t" "tr_Direction t \<in> {TransferDirectionInbound, TransferDirectionOutbound}"
  shows "moved_sum_of s' (reversalInput rin t cp) j a = - moved_sum_of s input j a"
  using assms signed_opposite [OF assms(1)] signed_opposite [OF assms(2)] transfer_direction_distinct
  by (auto simp: moved_sum_of_def debitAccount_def creditAccount_def reversalInput_def Let_def)


lemma recordReversal_elim:
  assumes "recordReversal e x rin t s = Inr (r, s')"
  obtains cp tr created s1 n where "originalCounterpartyAccountID t s = Inr (cp, s)"
    and "recordTransfer e x (reversalInput rin t cp) s = Inr ((tr, created), s1)"
    and "tr_ReversalOfTransferID tr = Some (tr_ID t)"
    and "update_transfers (tr_key (rt_InstitutionID rin) (tr_ID tr))
         (\<lambda>t. t\<lparr>tr_Direction := TransferDirectionReversal, tr_UpdatedAt := env_clock e 1\<rparr>) s1 = Inr (n, s')"
    and "r = tr\<lparr>tr_Direction := TransferDirectionReversal\<rparr>"
proof -
  from assms obtain cp s0 where cp: "originalCounterpartyAccountID t s = Inr (cp, s0)"
    and rest: "txBind (recordTransfer e x (reversalInput rin t cp)) (\<lambda>(transfer, created).
     txThen (txEnsure (tr_ReversalOfTransferID transfer = Some (tr_ID t)) ErrConflict)
     (txThen (update_transfers (tr_key (rt_InstitutionID rin) (tr_ID transfer))
         (\<lambda>t. t\<lparr>tr_Direction := TransferDirectionReversal, tr_UpdatedAt := env_clock e 1\<rparr>))
     (txReturn (transfer\<lparr>tr_Direction := TransferDirectionReversal\<rparr>)))) s0 = Inr (r, s')"
    unfolding recordReversal_def by (subst (asm) txBind_Inr) blast
  moreover have "s0 = s" using cp by (rule originalCounterparty_state)
  ultimately show thesis using that by (auto simp: txBind_Inr txThen_Inr txEnsure_Inr)
qed

lemma reverse_created:
  assumes rev: "reverseTransfer e x rin s = Inr (r, s')" and rows: "rows_ok (transfers s)"
    and t: "t \<in> set (transfers s)" "tr_InstitutionID t = TrimSpace (rt_InstitutionID rin)"
      "tr_ID t = TrimSpace (rt_TransferID rin)"
    and new: "tr_ID r \<notin> tr_ID ` set (transfers s)"
  obtains rin' cp tr s1 where "rt_InstitutionID rin' = TrimSpace (rt_InstitutionID rin)"
    "originalCounterpartyAccountID t s = Inr (cp, s)"
    "recordTransfer e x (reversalInput rin' t cp) s = Inr ((tr, True), s1)"
    "tr_ReversalOfTransferID tr = Some (tr_ID t)" "same_money s1 s'" "tr_Direction t \<noteq> TransferDirectionReversal"
proof -
  let ?i = "TrimSpace (rt_InstitutionID rin)"
  let ?rin = "rin\<lparr>rt_InstitutionID := ?i, rt_TransferID := TrimSpace (rt_TransferID rin),
                   rt_IdempotencyKey := TrimSpace (rt_IdempotencyKey rin)\<rparr>"
  from rev obtain original where o: "select_one (tr_key ?i (TrimSpace (rt_TransferID rin))) (transfers s) = Some original"
    and dir: "tr_Direction original \<noteq> TransferDirectionReversal"
    and p: "ifFound (getActiveReversalOf ?i (tr_ID original))
        (\<lambda>existing. txThen (txEnsure (tr_IdempotencyKey existing = rt_IdempotencyKey ?rin) ErrConflict)
           (txReturn existing))
        (recordReversal e x ?rin original) s = Inr (r, s')"
    unfolding reverseTransfer_def Let_def txBind_Inr txThen_Inr txEnsure_Inr getTransferForUpdate_Inr by auto
  have "original \<in> set (transfers s)" "tr_ID original = tr_ID t"
    using select_one_SomeD [OF o] t(3) by (auto simp: tr_key_def)
  then have orig: "original = t" using tr_key_unique [OF rows _ t(1)] by blast
  have "r \<in> set (transfers s) \<or> recordReversal e x ?rin t s = Inr (r, s')"
    using p unfolding orig
    by (auto simp: getActiveReversalOf_def ifFound_getRow txThen_Inr txEnsure_Inr split: option.splits dest!: select_one_SomeD)
  with new have rec: "recordReversal e x ?rin t s = Inr (r, s')" by auto
  then obtain cp tr created s1 n where cp: "originalCounterpartyAccountID t s = Inr (cp, s)"
    and run: "recordTransfer e x (reversalInput ?rin t cp) s = Inr ((tr, created), s1)"
    and rid: "tr_ReversalOfTransferID tr = Some (tr_ID t)"
    and u: "update_transfers (tr_key ?i (tr_ID tr))
         (\<lambda>t. t\<lparr>tr_Direction := TransferDirectionReversal, tr_UpdatedAt := env_clock e 1\<rparr>) s1 = Inr (n, s')"
    and r: "r = tr\<lparr>tr_Direction := TransferDirectionReversal\<rparr>"
    by (rule recordReversal_elim) (rule that; simp)
  have created
    using recordTransfer_known [of e x "reversalInput ?rin t cp" s tr s1] run new r by (cases created) auto
  moreover have "same_money s1 s'" using u by (simp add: update_transfers_Inr same_money_def)
  ultimately show thesis using that [of ?rin cp tr s1] cp run rid dir by (simp add: orig)
qed

lemma created_normals:
  assumes run: "recordTransfer e x input s = Inr ((t, True), s')" and st: "tr_Status t = TransferStatusSucceeded"
    and ok: "accounts_ok s" "journals_ok s"
  shows "normal_of s' = normal_of s"
    and "normal_of s (in_InstitutionID input) (in_AccountID input) \<in> {Some NormalBalanceDebit, Some NormalBalanceCredit}"
    and "normal_of s (in_InstitutionID input) (in_ClearingAccountID input) \<in> {Some NormalBalanceDebit, Some NormalBalanceCredit}"
proof -
  obtain s1 s2 where m: "same_money s s1" and eff: "journal_effect (in_InstitutionID input) (env_uuid e DrawTransfer) (in_AmountMinor input)
      (debitAccount input) (creditAccount input) [] (new_journal e input (env_uuid e DrawTransfer) (env_clock e 0)) s1 s2"
    and m': "same_money s2 s'"
    by (rule created_posting [OF run st]) (rule that)
  have n: "normal_of s1 = normal_of s" "normal_of s' = normal_of s2"
    using money_sums(3) [OF m] money_sums(3) [OF m'] by simp_all
  moreover have "normal_of s2 = normal_of s1" using eff by (auto simp: journal_effect_def)
  ultimately show "normal_of s' = normal_of s" by simp
  have posts: "\<forall>p\<in>set (postings s1). journal_exists s1 (po_JournalEntryID p)"
    using ok(2) m by (simp add: journals_ok_def same_money_def journal_exists_def)
  have each: "normal_of s i a \<in> {Some NormalBalanceDebit, Some NormalBalanceCredit}" if "normal_of s i a \<noteq> None" for i a
  proof -
    from that obtain n where "normal_of s i a = Some n" by blast
    then show ?thesis using ok(1) normal_of_SomeD by (fastforce simp: accounts_ok_def)
  qed
  have both: "normal_of s (in_InstitutionID input) (debitAccount input) \<noteq> None"
    "normal_of s (in_InstitutionID input) (creditAccount input) \<noteq> None"
    using journal_legs(2,3) [OF eff posts] by (simp_all add: n)
  then show "normal_of s (in_InstitutionID input) (in_AccountID input) \<in> {Some NormalBalanceDebit, Some NormalBalanceCredit}"
    and "normal_of s (in_InstitutionID input) (in_ClearingAccountID input) \<in> {Some NormalBalanceDebit, Some NormalBalanceCredit}"
    using each [of "in_InstitutionID input" "in_AccountID input"] each [of "in_InstitutionID input" "in_ClearingAccountID input"]
    by (auto simp: debitAccount_def creditAccount_def split: if_splits)
qed

lemma reversal_neutral:
  assumes ok: "books_ok s" and run: "recordTransfer e x input s = Inr ((t, True), s1)"
    and st: "tr_Status t = TransferStatusSucceeded" and rev: "reverseTransfer e' x rin s1 = Inr (r, s2)"
    and key: "TrimSpace (rt_InstitutionID rin) = in_InstitutionID input" "TrimSpace (rt_TransferID rin) = tr_ID t"
    and new: "tr_ID r \<notin> tr_ID ` set (transfers s1)"
  shows "ledger_of s2 i a = ledger_of s i a \<and> available_of s2 i a = available_of s i a"
proof -
  have ok1: "books_ok s1" by (rule books_ok_steps [OF recordTransfer_books [OF ok run] ok])
  note row = created_row(1) [OF run]
  have t: "t \<in> set (transfers s1)" using recordTransfer_returns [OF run] by (simp add: returns_row_def)
  obtain rin' cp tr s3 where rin': "rt_InstitutionID rin' = TrimSpace (rt_InstitutionID rin)"
    and cp: "originalCounterpartyAccountID t s1 = Inr (cp, s1)"
    and undo: "recordTransfer e' x (reversalInput rin' t cp) s1 = Inr ((tr, True), s3)"
    and rof: "tr_ReversalOfTransferID tr = Some (tr_ID t)" and m: "same_money s3 s2"
    and dir: "tr_Direction t \<noteq> TransferDirectionReversal"
    by (rule reverse_created [OF rev books_okD(1) [OF ok1] t _ _ new]) (use row key in auto)
  have cp': "cp = in_ClearingAccountID input"
    by (rule created_counterparty [OF books_okD(2) [OF ok] run st _ _ _ cp]) (use row in auto)
  have "tr_ID t \<noteq> []"
    using created_row(1) [OF undo] rof by (auto simp: reversalInput_def Let_def optional_text_def split: if_splits)
  with created_row(2) [OF undo] have st': "tr_Status tr = TransferStatusSucceeded"
    using reversal_decided by metis
  have dirs: "tr_Direction t \<in> {TransferDirectionInbound, TransferDirectionOutbound}"
    using rows_okD [OF books_okD(1) [OF ok1] t] dir by (auto simp: transfer_check_def)
  note n = created_normals [OF run st books_okD(4) [OF ok] books_okD(2) [OF ok]]
  have "moved_sum_of s1 (reversalInput rin' t cp) i a = - moved_sum_of s input i a"
    by (rule reversal_moves [where i = "in_InstitutionID input"]) (use n row cp' rin' key dirs in simp_all)
  then show ?thesis
    using created_moves(1,2) [OF books_okD(4) [OF ok] run, of i a] created_moves(1,2) [OF books_okD(4) [OF ok1] undo, of i a]
      st st' money_sums(1,2) [OF m] by simp
qed

end
