(* ===== verification/HoldEffects.thy ===== *)
theory HoldEffects
  imports TransferEffects BookProperties
begin

text \<open>
  What holds do to the balances: placing a lien lowers what is available, releasing it gives the amount
  back, an active lien can be released, and an outbound transfer that fails releases its reservation.
\<close>

lemma hold_placed_sums:
  assumes "hold_placed h s s'"
  shows "ledger_of s' i a = ledger_of s i a"
    and "available_of s' i a = available_of s i a -
      (if i = ho_InstitutionID h \<and> a = ho_AccountID h then ho_AmountMinor h else 0)"
  using assms by (auto simp: hold_placed_def ledger_of_def available_of_def moved_sum)

lemma hold_released_sums:
  assumes "hold_released h s s'"
  shows "ledger_of s' i a = ledger_of s i a"
    and "available_of s' i a = available_of s i a +
      (if i = ho_InstitutionID h \<and> a = ho_AccountID h then ho_AmountMinor h else 0)"
  using assms by (auto simp: hold_released_def ledger_of_def available_of_def moved_sum)

lemma audited_sums:
  assumes "insertAuditEvent e k a s = Inr (ev, s')"
  shows "ledger_of s' = ledger_of s" "available_of s' = available_of s" "account_holds s' = account_holds s"
  using assms by (auto simp: insertAuditEvent_Inr fun_eq_iff ledger_of_def available_of_def)

lemma new_lien:
  assumes run: "placeAccountLien e input s = Inr (h, s')" and new: "h \<notin> set (account_holds s)"
  shows "h = newLien e input (env_clock e 0)" and "h \<in> set (account_holds s')"
    and "ledger_of s' i a = ledger_of s i a"
    and "available_of s' i a = available_of s i a -
      (if i = ali_InstitutionID input \<and> a = ali_AccountID input then ali_AmountMinor input else 0)"
proof -
  obtain s0 acct where l: "lockReplayKey ''account_lien_reference'' [ali_InstitutionID input, ali_Reference input] s
      = Inr ((), s0)"
    and r: "h \<in> set (account_holds s0) \<and> s' = s0 \<or> placeNewLien e input acct s0 = Inr (h, s')"
    by (rule placeAccountLien_cases [OF run])
  have s0: "account_holds s0 = account_holds s" "ledger_of s0 = ledger_of s" "available_of s0 = available_of s"
    using l by (auto simp: lockReplayKey_Inr fun_eq_iff ledger_of_def available_of_def)
  with r new have "placeNewLien e input acct s0 = Inr (h, s')" by auto
  then obtain s2 b ev where p: "hold_placed (newLien e input (env_clock e 0)) s0 s2"
    and aud: "insertAuditEvent e 0 b s2 = Inr (ev, s')" and h: "h = newLien e input (env_clock e 0)"
    by (rule placeNewLien_effect)
  show "h = newLien e input (env_clock e 0)" by (rule h)
  show "h \<in> set (account_holds s')"
    using p by (auto simp: hold_placed_def audited_sums(3) [OF aud] h)
  show "ledger_of s' i a = ledger_of s i a"
    by (simp add: audited_sums [OF aud] hold_placed_sums [OF p] s0)
  show "available_of s' i a = available_of s i a -
      (if i = ali_InstitutionID input \<and> a = ali_AccountID input then ali_AmountMinor input else 0)"
    by (simp add: audited_sums [OF aud] hold_placed_sums [OF p] s0 newLien_def)
qed

lemma hold_id_unique:
  assumes "holds_ok s" "h \<in> set (account_holds s)" "h' \<in> set (account_holds s)" "ho_ID h' = ho_ID h"
  shows "h' = h"
proof -
  have "inj_on ho_ID (set (account_holds s))" using assms(1) by (simp add: holds_ok_def distinct_map)
  then show ?thesis using assms(2-4) unfolding inj_on_def by blast
qed

lemma released_lien:
  assumes run: "releaseAccountLien e input s = Inr (r, s')" and ok: "holds_ok s"
    and h: "h \<in> set (account_holds s)" "ho_ID h = rli_LienID input" "ho_Status h = HoldStatusActive"
  shows "ledger_of s' i a = ledger_of s i a"
    and "available_of s' i a = available_of s i a +
      (if i = ho_InstitutionID h \<and> a = ho_AccountID h then ho_AmountMinor h else 0)"
proof -
  have "ledger_of s' i a = ledger_of s i a \<and> available_of s' i a = available_of s i a +
      (if i = ho_InstitutionID h \<and> a = ho_AccountID h then ho_AmountMinor h else 0)"
    using releaseAccountLien_effect [OF run]
  proof cases
    case (1 current)
    then have "current = h" using hold_id_unique [OF ok h(1)] h(2) by simp
    with 1 h(3) show ?thesis by simp
  next
    case (2 current s2 b ev)
    then have "current = h" using hold_id_unique [OF ok h(1)] h(2) by simp
    then show ?thesis using hold_released_sums [OF 2(7)] by (simp add: audited_sums [OF 2(8)])
  qed
  then show "ledger_of s' i a = ledger_of s i a"
    and "available_of s' i a = available_of s i a +
      (if i = ho_InstitutionID h \<and> a = ho_AccountID h then ho_AmountMinor h else 0)" by simp_all
qed

lemma active_hold_bound:
  assumes "holds_ok s" "h \<in> set (account_holds s)" "ho_Status h = HoldStatusActive"
  shows "ho_AmountMinor h \<le> active_holds s (ho_InstitutionID h) (ho_AccountID h)"
  unfolding active_holds_def
  by (rule member_le_sum_rows) (use assms holds_okD(1) [OF assms(1)] in \<open>auto simp: hold_key_def intro: less_imp_le\<close>)

lemma active_lien_releasable:
  assumes ok: "books_ok s" and h: "h \<in> set (account_holds s)" "ho_Status h = HoldStatusActive" "ho_TransferID h = None"
    and b: "b \<in> set (account_balances s)" "bal_key (ho_InstitutionID h) (ho_AccountID h) b"
    and sp: "spendable s (ho_InstitutionID h) (ho_AccountID h)"
    and key: "rli_InstitutionID input = ho_InstitutionID h" "rli_AccountID input = ho_AccountID h"
      "rli_LienID input = ho_ID h"
    and names: "TrimSpace (ho_InstitutionID h) = ho_InstitutionID h" "ho_InstitutionID h \<noteq> []" "TrimSpace (ho_ID h) \<noteq> []"
    and inst: "institution_exists s (ho_InstitutionID h)" and fresh: "env_uuid e (DrawAudit 0) \<notin> ev_ID ` set (audit_events s)"
  shows "\<exists>r s'. releaseAccountLien e input s = Inr (r, s') \<and> ho_Status r = HoldStatusReleased"
proof -
  let ?i = "ho_InstitutionID h" and ?a = "ho_AccountID h" and ?now = "env_clock e 0"
  let ?key = "lien_key ?i ?a (ho_ID h)"
  let ?f = "\<lambda>h. h\<lparr>ho_Status := HoldStatusReleased, ho_UpdatedAt := ?now, ho_ReleasedAt := Some ?now\<rparr>"
  let ?g = "\<lambda>b. b\<lparr>bal_AvailableMinor := bal_AvailableMinor b + ho_AmountMinor h, bal_UpdatedAt := ?now\<rparr>"
  let ?s1 = "s\<lparr>account_holds := update_rows ?key ?f (account_holds s)\<rparr>"
  let ?s2 = "?s1\<lparr>account_balances := update_rows (bal_key ?i ?a) ?g (account_balances s)\<rparr>"
  note okd = books_okD [OF ok]
  have ids: "distinct (map ho_ID (account_holds s))" using okd(3) by (simp add: holds_ok_def)
  have cur: "select_one (\<lambda>h. ?key h \<and> ho_TransferID h = None) (account_holds s) = Some h"
    by (rule select_one_unique [OF ids h(1)]) (auto simp: lien_key_def h(3))
  have one: "count_rows ?key (account_holds s) = 1"
    by (rule count_rows_one [OF ids h(1)]) (auto simp: lien_key_def)
  have ids': "distinct (map ho_ID (account_holds ?s2))" using ids by (simp add: map_update_rows_same)
  have "?f h \<in> set (account_holds ?s2)"
    using h(1) by (simp add: set_update_rows lien_key_def image_iff) (rule bexI [of _ h]; simp)
  then have cur': "select_one (\<lambda>h. ?key h \<and> ho_TransferID h = None) (account_holds ?s2) = Some (?f h)"
    by (rule select_one_unique [OF ids']) (auto simp: lien_key_def h(3))
  have "bal_AvailableMinor b + ho_AmountMinor h \<le> bal_LedgerMinor b" "0 < ho_AmountMinor h" "balance_in_range b"
    using okd(7) [OF sp] balance_row_sums [OF okd(4) b(1)] b(2) active_hold_bound [OF okd(3) h(1,2)]
      holds_okD(1) [OF okd(3) h(1)] okd(4) b(1)
    by (auto simp: hold_gap_def bal_key_def accounts_ok_def list_all_iff)
  then have range_b: "balance_in_range (?g b)" by (simp add: balance_in_range_def in_int64_def)
  have bals: "distinct (map bal_AccountID (account_balances s))" using okd(4) by (simp add: accounts_ok_def)
  have one_b: "count_rows (bal_key ?i ?a) (account_balances s) = 1"
    by (rule count_rows_one [OF bals b(1)]) (use b(2) in \<open>auto simp: bal_key_def\<close>)
  then have "\<forall>r\<in>set (account_balances s). bal_key ?i ?a r \<longrightarrow> balance_in_range (?g r)"
    using range_b count_rows_one_unique [OF one_b b] by blast
  then have run: "execOneRow (update_holds ?key ?f) s = Inr ((), ?s1)"
    "execOneRow (update_balances (bal_key ?i ?a) ?g) ?s1 = Inr ((), ?s2)"
    using one one_b by (simp_all add: execOneRow_Inr update_holds_Inr update_balances_Inr)
  define ai where "ai = auditEventInput_zero
          \<lparr>ai_InstitutionID := ?i, ai_Action := AuditActionLienReleased,
           ai_EntityType := ''account_hold'', ai_EntityID := ho_ID h,
           ai_AccountID := ?a, ai_Reference := rli_Reference input,
           ai_OldStatus := HoldStatusActive, ai_NewStatus := HoldStatusReleased,
           ai_Metadata := [(''amount_minor'', formatAuditInt (ho_AmountMinor h)),
                           (''currency_id'', ho_CurrencyID h), (''reason'', rli_Reason input)],
           ai_CreatedAt := ?now\<rparr>"
  have "TrimSpace AuditActionLienReleased \<noteq> []" "TrimSpace ''account_hold'' \<noteq> []" by code_simp+
  then obtain ev where ev: "newAuditEvent e 0 ai = Inr ev"
    using names by (cases "auditContext e")
      (auto simp: newAuditEvent_def ai_def Let_def)
  have "insertAuditEvent e 0 ai ?s2 = Inr (ev, ?s2\<lparr>audit_events := audit_events s @ [ev]\<rparr>)"
    using newAuditEvent_Inr [OF ev] inst fresh ev names by (simp add: insertAuditEvent_Inr ai_def institution_exists_def)
  then have "releaseAccountLien e input s = Inr (?f h, ?s2\<lparr>audit_events := audit_events s @ [ev]\<rparr>)"
    using run cur cur' h(2) unfolding releaseAccountLien_def getLienForUpdate_def key Let_def
    by (simp add: txBind_Inr txThen_Inr getRow_Inr ai_def)
  then show ?thesis by fastforce
qed

section \<open>A failed outbound transfer\<close>

lemma pending_hold:
  assumes ok: "books_ok s" and t: "t \<in> set (transfers s)" "needs_hold t"
    and h: "select_one (active_for (tr_InstitutionID t) (tr_ID t)) (account_holds s) = Some h"
  shows "ho_InstitutionID h = tr_InstitutionID t" "ho_AccountID h = tr_AccountID t" "ho_AmountMinor h = tr_AmountMinor t"
proof -
  from select_one_SomeD [OF h] have m: "h \<in> set (account_holds s)" "ho_InstitutionID h = tr_InstitutionID t"
    "ho_TransferID h = Some (tr_ID t)" by (auto simp: active_for_def)
  from hold_linkedD [OF holds_okD(3) [OF books_okD(3) [OF ok] m(1)] m(3)] obtain t' where
    t': "t' \<in> set (transfers s)" "tr_key (ho_InstitutionID h) (tr_ID t) t'" "tr_AccountID t' = ho_AccountID h"
      "tr_AmountMinor t' = ho_AmountMinor h" by blast
  have "tr_ID t' = tr_ID t" using t'(2) by (simp add: tr_key_def)
  then have "t' = t" using tr_key_unique [OF books_okD(1) [OF ok] t'(1) t(1)] by blast
  with t' m(2) show "ho_InstitutionID h = tr_InstitutionID t" "ho_AccountID h = tr_AccountID t"
    "ho_AmountMinor h = tr_AmountMinor t" by simp_all
qed

lemma failed_completion:
  assumes ok: "books_ok s" and p: "p \<in> set (transfers s)" "needs_hold p" "tr_InstitutionID p = in_InstitutionID input"
    and run: "completePending e x p input s = Inr (t, s')"
    and t: "tr_ID t = tr_ID p" "tr_Status t = TransferStatusFailed"
  shows "ledger_of s' i a = ledger_of s i a \<and>
    available_of s' i a = available_of s i a +
      (if i = tr_InstitutionID p \<and> a = tr_AccountID p then tr_AmountMinor p else 0)"
  using run
proof (cases rule: completePending_cases)
  case replayed
  then have "t \<in> set (transfers s)" by (auto dest: event_transfer_SomeD)
  then have "t = p" using tr_key_unique [OF books_okD(1) [OF ok] _ p(1)] t(1) by blast
  with t(2) p(2) show ?thesis by (simp add: needs_hold_def TransferStatusFailed_def TransferStatusPending_def)
next
  case (completed account clearing s0 st ps ls rs jid ref s1 n s2 updated)
  have ok0: "books_ok s0" by (rule books_ok_steps [OF completed(2) ok])
  have p0: "p \<in> set (transfers s0)" using p(1) completed(3) by simp
  have "money.obeys (txThen (if in_ProviderEventID input \<noteq> []
       then linkTransfer (tr_ID updated) (in_InstitutionID input) (in_Provider input) (in_ProviderEventID input)
       else txReturn ())
     (txThen (auditExternalOutboundTransfer e 0 input updated (lk_Account account) (lk_Account clearing))
       (txReturn updated)))"
    unfolding transfer_audit_defs by (intro money.obeys_rules money_audit money_link)
  from money.obeysD [OF this completed(10)] have m: "same_money s2 s'" .
  have "t = updated" using completed(10) by (auto simp: txThen_Inr)
  then have st: "st = TransferStatusFailed"
    using t(2) select_one_SomeD [OF completed(9)] completed(8)
    by (auto simp: update_transfers_Inr pendingUpdate_simps tr_key_def elim!: update_rowsE)
  from completed(7) have r: "release_hold (tr_InstitutionID p) (tr_ID p) (env_clock e 0) s0 = Inr ((), s1)"
    by (cases rule: completeEffects_cases)
      (simp_all add: st TransferStatusFailed_def TransferStatusPending_def TransferStatusSucceeded_def)
  have "\<exists>h\<in>set (account_holds s0). active_for (tr_InstitutionID p) (tr_ID p) h"
    using books_okD(3) [OF ok0] p0 p(2) by (auto simp: holds_ok_def backed_def)
  then obtain h where h: "select_one (active_for (tr_InstitutionID p) (tr_ID p)) (account_holds s0) = Some h"
    by (cases "select_one (active_for (tr_InstitutionID p) (tr_ID p)) (account_holds s0)")
      (auto simp: select_one_None_iff)
  have rel: "hold_released h s0 s1" using release_hold_effect [OF r] h by simp
  have "same_money s1 s2" using completed(8) by (simp add: update_transfers_Inr same_money_def)
  moreover have "available_of s0 = available_of s" "ledger_of s0 = ledger_of s"
    using completed(5) by (simp_all add: fun_eq_iff available_of_def ledger_of_def)
  ultimately show ?thesis
    using hold_released_sums [OF rel] pending_hold [OF ok0 p0 p(2) h] money_sums(1,2) [OF m] by (simp add: money_sums(1,2))
qed

theorem failed_outbound:
  assumes ok: "books_ok s" and p: "p \<in> set (transfers s)" "needs_hold p" "tr_InstitutionID p = in_InstitutionID input"
    and run: "completeExternalOutboundTransfer e x (tr_ID p) input s = Inr (t, s')"
    and t: "tr_ID t = tr_ID p" "tr_Status t = TransferStatusFailed"
  shows "ledger_of s' i a = ledger_of s i a \<and>
    available_of s' i a = available_of s i a +
      (if i = tr_InstitutionID p \<and> a = tr_AccountID p then tr_AmountMinor p else 0)"
proof -
  let ?lock = "if in_ProviderEventID input \<noteq> []
        then lockReplayKey ''provider_event''
          [in_InstitutionID input, in_Provider input, in_ProviderEventID input]
        else txReturn ()"
  from run obtain s0 pending where
    l: "?lock s = Inr ((), s0)" and
    sel: "select_one (tr_key (in_InstitutionID input) (tr_ID p)) (transfers s0) = Some pending" and
    r: "(if tr_Status pending \<noteq> TransferStatusPending then txReturn pending
         else completePending e x pending input) s0 = Inr (t, s')"
    unfolding completeExternalOutboundTransfer_def txThen_Inr txBind_Inr txEnsure_Inr getTransferForUpdate_Inr
    by auto
  have "money.obeys ?lock"
    by (intro money.obeys_rules) (auto intro!: money.obeysI simp: lockReplayKey_Inr same_money_def)
  from money.obeysD [OF this l] have m: "same_money s s0" .
  have "book.obeys (in_InstitutionID input) ?lock" by (intro book.obeys_rules book_locks)
  from books_ok_steps [OF book.obeysD [OF this l] ok] have ok0: "books_ok s0" .
  have ts: "transfers s0 = transfers s" using l by (auto simp: lockReplayKey_Inr split: if_splits)
  then have "pending \<in> set (transfers s)" "tr_ID pending = tr_ID p" using select_tr_keyD [OF sel] by auto
  then have "pending = p" using tr_key_unique [OF books_okD(1) [OF ok] _ p(1)] by blast
  with r p(2) have "completePending e x p input s0 = Inr (t, s')" by (simp add: needs_hold_def)
  from failed_completion [OF ok0 _ p(2,3) this t, of i a] p(1) show ?thesis
    by (simp add: ts money_sums(1,2) [OF m])
qed

end
