(* ===== verification/MoneyProperties.thy ===== *)
theory MoneyProperties
  imports MoneyEffects HoldEffects TransferProperties
begin

text \<open>
  Money that goes out comes back: a reversal undoes its transfer, once, a released lien gives back what it set
  aside, a failed outbound transfer gives back its reservation, and no active lien is stuck.
\<close>

section \<open>Properties\<close>

text \<open>
  C28: reversing a transfer that was recorded as succeeded restores the ledger and the available balance of
  every account of every institution.
\<close>

theorem reversal_undoes_the_transfer:
  assumes "books_ok s" and "recordTransfer e x input s = Inr ((t, True), s1)"
    and "tr_Status t = TransferStatusSucceeded"
    and "TrimSpace (rt_InstitutionID reverse) = in_InstitutionID input" "TrimSpace (rt_TransferID reverse) = tr_ID t"
    and "reverseTransfer e' x reverse s1 = Inr (r, s2)" and "tr_ID r \<notin> tr_ID ` set (transfers s1)"
  shows "ledger_of s2 i a = ledger_of s i a \<and> available_of s2 i a = available_of s i a"
  by (rule reversal_neutral [OF assms(1,2,3,6,4,5,7)])

definition demo_reverse :: ReverseTransferInput where
  "demo_reverse =
     \<lparr>rt_InstitutionID = ''I'', rt_TransferID = ''1xt'', rt_IdempotencyKey = ''k2'', rt_Provider = [],
      rt_ProviderReference = [], rt_ProviderEventID = [], rt_FailureReason = [], rt_Narration = []\<rparr>"

text \<open>The first transfer of the example run, recorded directly, and its reversal.\<close>

definition demo_credit_request :: RecordTransferInput where
  "demo_credit_request =
     (demo_input TransferDirectionInbound TransferStatusSucceeded 100 ''k1'')
       \<lparr>in_Provider := ''ledger_internal'', in_ProviderReference := [], in_RequestFingerprint := ''v1:88'',
        in_Narration := ''Internal credit'', in_RejectInsufficient := True\<rparr>"

definition demo_recorded_store :: store where
  "demo_recorded_store = demo_credited_store\<lparr>advisory_locks := [replayKey ''idempotency'' [''I'', ''k1'']]\<rparr>"

lemma demo_credit_recorded:
  "recordTransfer (demo_env ''1x'' 10) demo_externals demo_credit_request demo_store =
     Inr ((demo_inbound, True), demo_recorded_store)"
proof -
  have "case recordTransfer (demo_env ''1x'' 10) demo_externals demo_credit_request demo_store of
      Inl _ \<Rightarrow> False | Inr ((t, created), s) \<Rightarrow> t = demo_inbound \<and> created \<and> s = demo_recorded_store"
    by code_simp
  then show ?thesis by (auto split: sum.splits)
qed

definition reverses_demo_inbound :: "Transfer \<Rightarrow> bool" where
  "reverses_demo_inbound t \<longleftrightarrow>
     tr_InstitutionID t = tr_InstitutionID demo_inbound \<and> tr_ReversalOfTransferID t = Some (tr_ID demo_inbound) \<and>
     tr_Direction t = TransferDirectionReversal \<and> tr_Status t = TransferStatusSucceeded \<and> tr_IdempotencyKey t = ''k2''"

lemma demo_reversal_recorded:
  "case recordReversal (demo_env ''2'' 19) demo_externals demo_reverse demo_inbound demo_recorded_store of
     Inl _ \<Rightarrow> False
   | Inr (r, s) \<Rightarrow> tr_ID r = ''2t'' \<and> length (postings s) = 4 \<and> list_ex (\<lambda>t. t = demo_inbound) (transfers s) \<and>
       list_ex reverses_demo_inbound (transfers s)"
  by code_simp

lemma demo_reversal_checks:
  "demo_reverse\<lparr>rt_InstitutionID := TrimSpace (rt_InstitutionID demo_reverse),
     rt_TransferID := TrimSpace (rt_TransferID demo_reverse),
     rt_IdempotencyKey := TrimSpace (rt_IdempotencyKey demo_reverse)\<rparr> = demo_reverse"
  "tr_Status demo_inbound = TransferStatusSucceeded" "tr_JournalEntryID demo_inbound \<noteq> None"
  "tr_Direction demo_inbound \<noteq> TransferDirectionReversal"
  "rt_InstitutionID demo_reverse \<noteq> [] \<and> rt_TransferID demo_reverse \<noteq> [] \<and> rt_IdempotencyKey demo_reverse \<noteq> []"
  "TrimSpace (rt_InstitutionID demo_reverse) = in_InstitutionID demo_credit_request"
  "TrimSpace (rt_TransferID demo_reverse) = tr_ID demo_inbound"
  by code_simp+

lemma demo_reversal:
  "\<exists>r s. reverseTransfer (demo_env ''2'' 19) demo_externals demo_reverse demo_recorded_store = Inr (r, s) \<and>
     tr_ID r \<notin> tr_ID ` set (transfers demo_recorded_store) \<and> length (postings s) = 4 \<and>
     demo_inbound \<in> set (transfers s) \<and> (\<exists>t\<in>set (transfers s). reverses_demo_inbound t)"
proof -
  obtain r s where r: "recordReversal (demo_env ''2'' 19) demo_externals demo_reverse demo_inbound demo_recorded_store
      = Inr (r, s)" "tr_ID r = ''2t''" "length (postings s) = 4" "demo_inbound \<in> set (transfers s)"
      "\<exists>t\<in>set (transfers s). reverses_demo_inbound t"
    using demo_reversal_recorded by (auto simp: list_ex_iff split: sum.splits)
  have rows: "transfers demo_recorded_store = [demo_inbound]"
    by (simp add: demo_recorded_store_def demo_credited_store_def)
  have "reverseTransfer (demo_env ''2'' 19) demo_externals demo_reverse demo_recorded_store = Inr (r, s)"
    unfolding reverseTransfer_def Let_def demo_reversal_checks(1) txThen_Inr txBind_Inr txEnsure_Inr getTransferForUpdate_Inr
    using r(1) demo_reversal_checks(2-5)
    by (simp add: rows getActiveReversalOf_def ifFound_getRow tr_key_def) (simp add: demo_reverse_def demo_inbound_def)
  with r rows show ?thesis by (simp add: demo_inbound_def)
qed

theorem reversal_undoes_the_transfer_witness:
  "\<exists>r s. reverseTransfer (demo_env ''2'' 19) demo_externals demo_reverse demo_recorded_store = Inr (r, s) \<and>
     length (postings s) = 4 \<and> ledger_of s ''I'' ''A'' = 0 \<and> available_of s ''I'' ''A'' = 0"
proof -
  obtain r s where r: "reverseTransfer (demo_env ''2'' 19) demo_externals demo_reverse demo_recorded_store = Inr (r, s)"
    "tr_ID r \<notin> tr_ID ` set (transfers demo_recorded_store)" "length (postings s) = 4"
    using demo_reversal by blast
  have "ledger_of demo_store ''I'' ''A'' = 0" "available_of demo_store ''I'' ''A'' = 0" by code_simp+
  with reversal_undoes_the_transfer [OF demo_books demo_credit_recorded demo_reversal_checks(2,6,7) r(1,2), of "''I''" "''A''"] r
  show ?thesis by simp
qed

text \<open>
  C29: a transfer that already has a reversal, settled or still pending, is not reversed again: the same
  idempotency key gets the existing reversal back and any other key a conflict, and nothing is written.
\<close>

theorem second_reversal_is_refused:
  assumes "books_ok s" and "original \<in> set (transfers s)" and "r \<in> set (transfers s)"
    and "tr_Status original = TransferStatusSucceeded" "tr_JournalEntryID original \<noteq> None"
    and "tr_Direction original \<noteq> TransferDirectionReversal"
    and "tr_InstitutionID r = tr_InstitutionID original" "tr_ReversalOfTransferID r = Some (tr_ID original)"
    and "tr_Direction r = TransferDirectionReversal"
    and "tr_Status r = TransferStatusSucceeded \<or> tr_Status r = TransferStatusPending"
    and "TrimSpace (rt_InstitutionID reverse) = tr_InstitutionID original" "tr_InstitutionID original \<noteq> []"
    and "TrimSpace (rt_TransferID reverse) = tr_ID original" "tr_ID original \<noteq> []"
    and "TrimSpace (rt_IdempotencyKey reverse) \<noteq> []" and "env_tx_outcome e = TxCommits"
  shows "ReverseTransfer e x reverse s =
    (if TrimSpace (rt_IdempotencyKey reverse) = tr_IdempotencyKey r then (Inr r, s\<lparr>advisory_locks := []\<rparr>)
     else (Inl ErrConflict, s))"
proof -
  have rows: "rows_ok (transfers s)" by (rule books_okD(1) [OF assms(1)])
  then have ids: "distinct (map tr_ID (transfers s))" by (simp add: rows_ok_def)
  have orig: "select_one (tr_key (tr_InstitutionID original) (tr_ID original)) (transfers s) = Some original"
    by (rule select_one_unique [OF ids assms(2)]) (simp_all add: tr_key_def)
  have rev: "select_one (\<lambda>t. tr_InstitutionID t = tr_InstitutionID original \<and>
      tr_ReversalOfTransferID t = Some (tr_ID original) \<and> tr_Direction t = TransferDirectionReversal \<and>
      (tr_Status t = TransferStatusSucceeded \<or> tr_Status t = TransferStatusPending)) (transfers s) = Some r"
  proof (rule select_one_unique [OF ids assms(3)])
    fix r' assume r': "r' \<in> set (transfers s)" and k: "tr_InstitutionID r' = tr_InstitutionID original \<and>
      tr_ReversalOfTransferID r' = Some (tr_ID original) \<and> tr_Direction r' = TransferDirectionReversal \<and>
      (tr_Status r' = TransferStatusSucceeded \<or> tr_Status r' = TransferStatusPending)"
    then have "r' = r"
      using one_active_reversal [OF rows r' assms(3)] assms(7-10) by (simp add: active_reversal_def)
    then show "tr_ID r' = tr_ID r" by simp
  qed (use assms(7-10) in simp)
  have found: "q s' = Some t \<Longrightarrow> getRow q s' = Inr (t, s')" for q s' and t :: Transfer by (simp add: getRow_Inr)
  have "reverseTransfer e x reverse (s\<lparr>advisory_locks := []\<rparr>) =
      (if TrimSpace (rt_IdempotencyKey reverse) = tr_IdempotencyKey r then Inr (r, s\<lparr>advisory_locks := []\<rparr>)
       else Inl ErrConflict)"
    using orig rev assms(4-6,11-15)
    by (simp add: reverseTransfer_def getTransferForUpdate_def getActiveReversalOf_def Let_def txThen_def txBind_def
        txEnsure_def txReturn_def found ifFound_getRow)
  then show ?thesis using assms(16) by (simp add: ReverseTransfer_def WithTx_def)
qed

theorem second_reversal_is_refused_witness:
  "\<exists>s. length (postings s) = 4 \<and>
     ReverseTransfer (demo_env ''3'' 30) demo_externals (demo_reverse\<lparr>rt_IdempotencyKey := ''k3''\<rparr>) s = (Inl ErrConflict, s)"
proof -
  obtain r s t where s: "reverseTransfer (demo_env ''2'' 19) demo_externals demo_reverse demo_recorded_store = Inr (r, s)"
    and n: "length (postings s) = 4" and rows: "demo_inbound \<in> set (transfers s)" "t \<in> set (transfers s)"
    and t: "reverses_demo_inbound t"
    using demo_reversal by blast
  have before: "books_ok demo_recorded_store"
    by (rule books_ok_steps [OF recordTransfer_books [OF demo_books demo_credit_recorded] demo_books])
  have ok: "books_ok s" by (rule books_ok_steps [OF reverseTransfer_books [OF before s] before])
  let ?again = "demo_reverse\<lparr>rt_IdempotencyKey := ''k3''\<rparr>"
  have again: "TrimSpace (rt_InstitutionID ?again) = tr_InstitutionID demo_inbound" "tr_InstitutionID demo_inbound \<noteq> []"
    "TrimSpace (rt_TransferID ?again) = tr_ID demo_inbound" "tr_ID demo_inbound \<noteq> []"
    "TrimSpace (rt_IdempotencyKey ?again) = ''k3''" "env_tx_outcome (demo_env ''3'' 30) = TxCommits" by code_simp+
  have "ReverseTransfer (demo_env ''3'' 30) demo_externals ?again s = (Inl ErrConflict, s)"
    using second_reversal_is_refused [OF ok rows demo_reversal_checks(2,3,4) _ _ _ _ again(1-4) _ again(6)] t again(5)
    by (simp add: reverses_demo_inbound_def)
  with n show ?thesis by blast
qed

text \<open>
  C31: a new lien lowers the available balance of its account by its amount and nothing else, and releasing it
  gives the amount back; the ledger never moves.
\<close>

theorem lien_round_trip:
  assumes "books_ok s" and "placeAccountLien e input s = Inr (h, s1)" and "h \<notin> set (account_holds s)"
    and "releaseAccountLien e' release s1 = Inr (r, s2)" and "rli_LienID release = ho_ID h"
  shows "available_of s1 i a = available_of s i a -
      (if i = ali_InstitutionID input \<and> a = ali_AccountID input then ali_AmountMinor input else 0) \<and>
    available_of s2 i a = available_of s i a \<and>
    ledger_of s1 i a = ledger_of s i a \<and> ledger_of s2 i a = ledger_of s i a"
proof -
  note placed = new_lien [OF assms(2,3)]
  have ok: "holds_ok s1" by (rule books_okD(3) [OF books_ok_steps [OF placeAccountLien_books [OF assms(2)] assms(1)]])
  have "ho_Status h = HoldStatusActive" by (simp add: placed(1) newLien_def)
  note released = released_lien [OF assms(4) ok placed(2) assms(5)[symmetric] this, of i a]
  show ?thesis using placed(3,4) [of i a] released by (simp add: placed(1) newLien_def)
qed

definition demo_lien_input :: AccountLienInput where
  "demo_lien_input =
     \<lparr>ali_InstitutionID = ''I'', ali_AccountID = ''A'', ali_AmountMinor = 40, ali_CurrencyID = ''NGN'',
      ali_Reference = ''court order'', ali_Reason = ''legal''\<rparr>"

definition demo_release :: ReleaseLienInput where
  "demo_release =
     \<lparr>rli_InstitutionID = ''I'', rli_AccountID = ''A'', rli_LienID = ''2h'', rli_Reference = ''court order'',
      rli_Reason = ''lifted''\<rparr>"

text \<open>The institution of the example with a lien of 40 on account \<open>A\<close>, which has 100.\<close>

definition demo_lien_row :: AccountHold where
  "demo_lien_row =
     \<lparr>ho_ID = ''2h'', ho_InstitutionID = ''I'', ho_AccountID = ''A'', ho_TransferID = None, ho_AmountMinor = 40,
      ho_CurrencyID = ''NGN'', ho_Status = ''active'', ho_Reason = ''legal'', ho_Reference = ''court order'',
      ho_CreatedAt = 9, ho_UpdatedAt = 9, ho_ReleasedAt = None\<rparr>"

definition demo_lien_store :: store where
  "demo_lien_store =
     (case placeAccountLien (demo_env ''2'' 9) demo_lien_input demo_credited_store of
        Inl _ \<Rightarrow> demo_credited_store | Inr (h, s) \<Rightarrow> s)"

lemma demo_lien_is:
  "placeAccountLien (demo_env ''2'' 9) demo_lien_input demo_credited_store = Inr (demo_lien_row, demo_lien_store)"
proof -
  have "case placeAccountLien (demo_env ''2'' 9) demo_lien_input demo_credited_store of
      Inl _ \<Rightarrow> False | Inr (h, s) \<Rightarrow> h = demo_lien_row" by code_simp
  then show ?thesis by (auto simp: demo_lien_store_def split: sum.splits)
qed

lemma demo_lien_books: "books_ok demo_lien_store"
  by (rule books_ok_steps [OF placeAccountLien_books [OF demo_lien_is] demo_credited_books])

lemma demo_lien_facts:
  "ho_ID demo_lien_row = ''2h''" "ho_InstitutionID demo_lien_row = ''I''" "ho_AccountID demo_lien_row = ''A''"
  "ho_Status demo_lien_row = HoldStatusActive" "ho_TransferID demo_lien_row = None"
  "account_holds demo_credited_store = []"
  by code_simp+

lemma demo_release_runs:
  "case releaseAccountLien (demo_env ''3'' 11) demo_release demo_lien_store of Inl _ \<Rightarrow> False | Inr _ \<Rightarrow> True"
  by code_simp

theorem lien_round_trip_witness:
  "\<exists>r s. releaseAccountLien (demo_env ''3'' 11) demo_release demo_lien_store = Inr (r, s) \<and>
     available_of demo_lien_store ''I'' ''A'' = 60 \<and> available_of s ''I'' ''A'' = 100 \<and> ledger_of s ''I'' ''A'' = 100"
proof -
  obtain r s where r: "releaseAccountLien (demo_env ''3'' 11) demo_release demo_lien_store = Inr (r, s)"
    using demo_release_runs by (auto split: sum.splits)
  have "available_of demo_credited_store ''I'' ''A'' = 100" "ledger_of demo_credited_store ''I'' ''A'' = 100"
    by code_simp+
  moreover have "demo_lien_row \<notin> set (account_holds demo_credited_store)" "rli_LienID demo_release = ho_ID demo_lien_row"
    by (simp_all add: demo_lien_facts demo_release_def)
  ultimately show ?thesis
    using lien_round_trip [OF demo_credited_books demo_lien_is _ r, of "''I''" "''A''"] r
    by (simp add: demo_lien_input_def)
qed

text \<open>
  C32: an active lien on an account whose available balance is its ledger balance less its holds can be
  released: the only things that could refuse the release are an audit identifier that is already taken and
  the transaction itself.
\<close>

theorem active_lien_can_be_released:
  assumes "books_ok s" and "h \<in> set (account_holds s)" "ho_Status h = HoldStatusActive" "ho_TransferID h = None"
    and "b \<in> set (account_balances s)" "bal_key (ho_InstitutionID h) (ho_AccountID h) b"
    and "spendable s (ho_InstitutionID h) (ho_AccountID h)"
    and "TrimSpace (ho_InstitutionID h) = ho_InstitutionID h" "ho_InstitutionID h \<noteq> []" "TrimSpace (ho_ID h) \<noteq> []"
    and "institution_exists s (ho_InstitutionID h)" "env_uuid e (DrawAudit 0) \<notin> ev_ID ` set (audit_events s)"
    and "env_tx_outcome e = TxCommits"
    and "release = \<lparr>rli_InstitutionID = ho_InstitutionID h, rli_AccountID = ho_AccountID h, rli_LienID = ho_ID h,
      rli_Reference = reference, rli_Reason = reason\<rparr>"
  shows "\<exists>r s'. ReleaseAccountLien e release s = (Inr r, s') \<and> ho_Status r = HoldStatusReleased \<and>
    available_of s' (ho_InstitutionID h) (ho_AccountID h) =
      available_of s (ho_InstitutionID h) (ho_AccountID h) + ho_AmountMinor h"
proof -
  let ?s = "s\<lparr>advisory_locks := []\<rparr>"
  have m: "same_money s ?s" by (simp add: same_money_def)
  have ok: "books_ok ?s" by (rule books_ok_locks [OF assms(1)])
  have sp: "spendable ?s (ho_InstitutionID h) (ho_AccountID h)"
    using assms(7) by (simp add: spendable_def money_sums(3) [OF m])
  obtain r s' where r: "releaseAccountLien e release ?s = Inr (r, s')" "ho_Status r = HoldStatusReleased"
    using active_lien_releasable [OF ok _ assms(3,4) _ assms(6) sp _ _ _ assms(8,9,10), of release e] assms
    by (auto simp: institution_exists_def)
  have "available_of s' (ho_InstitutionID h) (ho_AccountID h) =
      available_of ?s (ho_InstitutionID h) (ho_AccountID h) + ho_AmountMinor h"
    using released_lien(2) [OF r(1) books_okD(3) [OF ok] _ _ assms(3)] assms(2,14) by simp
  moreover have "available_of (s'\<lparr>advisory_locks := []\<rparr>) = available_of s'" "available_of ?s = available_of s"
    by (simp_all add: fun_eq_iff available_of_def)
  ultimately show ?thesis using r assms(13) by (simp add: ReleaseAccountLien_def WithTx_def)
qed

theorem active_lien_can_be_released_witness:
  "\<exists>r s. ReleaseAccountLien (demo_env ''3'' 11) demo_release demo_lien_store = (Inr r, s) \<and>
     ho_Status r = HoldStatusReleased"
proof -
  obtain b where b: "b \<in> set (account_balances demo_lien_store)" "bal_key ''I'' ''A'' b"
  proof -
    have "list_ex (bal_key ''I'' ''A'') (account_balances demo_lien_store)" by code_simp
    then show thesis using that by (auto simp: list_ex_iff)
  qed
  have row: "demo_lien_row \<in> set (account_holds demo_lien_store)"
    by (rule new_lien(2) [OF demo_lien_is]) (simp add: demo_lien_facts)
  have "normal_of demo_lien_store ''I'' ''A'' = Some NormalBalanceCredit" by code_simp
  then have sp: "spendable demo_lien_store ''I'' ''A''" by (simp add: spendable_def)
  have names: "TrimSpace ''I'' = ''I''" "TrimSpace ''2h'' \<noteq> []" "institution_exists demo_lien_store ''I''"
    "env_uuid (demo_env ''3'' 11) (DrawAudit 0) \<notin> ev_ID ` set (audit_events demo_lien_store)"
    "env_tx_outcome (demo_env ''3'' 11) = TxCommits" by code_simp+
  show ?thesis
    using active_lien_can_be_released [OF demo_lien_books row demo_lien_facts(4,5), where b = b
        and e = "demo_env ''3'' 11" and release = demo_release] b sp names
    by (simp add: demo_lien_facts demo_release_def) blast
qed

text \<open>
  C30: when an outbound transfer whose amount was reserved turns out to have failed, its account gets the
  amount back as available balance and the ledger, which it never reached, stays as it was.
\<close>

theorem failed_outbound_gives_back_the_reservation:
  assumes "reachable sv x' w" and "p \<in> set (transfers (fst w))" "needs_hold p"
    and "tr_InstitutionID p = in_InstitutionID input"
    and "completeExternalOutboundTransfer e x (tr_ID p) input (fst w) = Inr (t, s')"
    and "tr_ID t = tr_ID p" "tr_Status t = TransferStatusFailed"
  shows "ledger_of s' i a = ledger_of (fst w) i a \<and>
    available_of s' i a = available_of (fst w) i a +
      (if i = tr_InstitutionID p \<and> a = tr_AccountID p then tr_AmountMinor p else 0)"
  by (rule failed_outbound [OF reachable_books [OF assms(1)] assms(2-7)])

definition demo_failure :: RecordTransferInput where
  "demo_failure = (demo_input TransferDirectionOutbound TransferStatusFailed 30 ''k2'')
     \<lparr>in_ProviderReference := ''r2'', in_ProviderEventID := ''e3''\<rparr>"

lemma demo_failure_runs:
  "case completeExternalOutboundTransfer (demo_env ''5'' 2000) demo_externals ''2xt'' demo_failure demo_pending_store of
     Inl _ \<Rightarrow> False | Inr (t, s) \<Rightarrow> tr_ID t = ''2xt'' \<and> tr_Status t = TransferStatusFailed"
  by code_simp

theorem failed_outbound_gives_back_the_reservation_witness:
  "\<exists>t s. completeExternalOutboundTransfer (demo_env ''5'' 2000) demo_externals ''2xt'' demo_failure (fst demo_pending) =
       Inr (t, s) \<and>
     available_of (fst demo_pending) ''I'' ''A'' = 70 \<and> available_of s ''I'' ''A'' = 100"
proof -
  obtain t s where r: "completeExternalOutboundTransfer (demo_env ''5'' 2000) demo_externals ''2xt'' demo_failure
      (fst demo_pending) = Inr (t, s)" "tr_ID t = ''2xt''" "tr_Status t = TransferStatusFailed"
    using demo_failure_runs unfolding demo_pending_is by (auto split: sum.splits)
  have "demo_outbound \<in> set (transfers (fst demo_pending))" by (simp add: demo_pending_is demo_pending_store_def)
  moreover have "needs_hold demo_outbound" "tr_InstitutionID demo_outbound = in_InstitutionID demo_failure"
    "tr_ID demo_outbound = ''2xt''" "tr_InstitutionID demo_outbound = ''I''" "tr_AccountID demo_outbound = ''A''"
    "tr_AmountMinor demo_outbound = 30" by code_simp+
  moreover have "available_of (fst demo_pending) ''I'' ''A'' = 70" unfolding demo_pending_is by code_simp
  ultimately show ?thesis
    using failed_outbound_gives_back_the_reservation [OF demo_reachable(3), of demo_outbound demo_failure
        "demo_env ''5'' 2000" demo_externals t s "''I''" "''A''"] r
    by simp
qed

end
