(* ===== verification/HttpRequests.thy ===== *)
theory HttpRequests
  imports ServiceExternal ServiceControls
begin

text \<open>
  What the HTTP layer hands to the service (\<open>handler.go\<close>, \<open>handler_account_controls.go\<close>,
  \<open>handler_reconciliation.go\<close>): the decoded request bodies, whose structs are generated from the
  schemas of \<open>design/openapi/core/corebanking.yaml\<close>, their validation, and the binding of a body and of the
  caller's institution to the input of a service operation.  An optional field of a schema is an
  \<open>option\<close>, a UUID is its canonical text, and a body that is missing is \<open>None\<close>.
\<close>

section \<open>Bodies\<close>

record CreateCustomerRequest =
  ccq_BranchId :: string
  ccq_CustomerType :: string
  ccq_FirstName :: "string option"
  ccq_LastName :: "string option"
  ccq_BusinessName :: "string option"
  ccq_Email :: "string option"
  ccq_Phone :: "string option"

record CreateAccountRequest =
  caq_CustomerId :: string
  caq_AccountNumber :: string
  caq_Name :: string
  caq_ProductType :: "string option"
  caq_CurrencyId :: "string option"
  caq_AllowNegativeBalance :: "bool option"

record InternalCreditRequest =
  icq_AccountId :: string
  icq_AmountMinor :: int
  icq_CurrencyId :: string
  icq_IdempotencyKey :: string
  icq_Narration :: "string option"
  icq_SourceAccountId :: "string option"
  icq_Reference :: "string option"

record InternalDebitRequest =
  idq_AccountId :: string
  idq_AmountMinor :: int
  idq_CurrencyId :: string
  idq_IdempotencyKey :: string
  idq_Narration :: "string option"
  idq_DestinationAccountId :: "string option"
  idq_Reference :: "string option"

record InternalTransferRequest =
  itq_SourceAccountId :: string
  itq_DestinationAccountId :: string
  itq_AmountMinor :: int
  itq_CurrencyId :: string
  itq_IdempotencyKey :: string
  itq_Narration :: "string option"
  itq_Reference :: "string option"

record ExternalNameEnquiryRequest =
  enq_Provider :: "string option"
  enq_DestinationInstitutionCode :: string
  enq_AccountNumber :: string
  enq_CurrencyId :: "string option"

record ExternalOutboundTransferRequest =
  eoq_SourceAccountId :: string
  eoq_DestinationInstitutionCode :: "string option"
  eoq_BankCode :: "string option"
  eoq_DestinationAccountNumber :: string
  eoq_DestinationAccountName :: "string option"
  eoq_AmountMinor :: int
  eoq_CurrencyId :: "string option"
  eoq_IdempotencyKey :: string
  eoq_Provider :: "string option"
  eoq_Narration :: "string option"
  eoq_Reference :: "string option"
  eoq_Scenario :: "string option"

record ExternalInboundEventRequest =
  eiq_Provider :: "string option"
  eiq_ProviderEventId :: string
  eiq_ProviderReference :: string
  eiq_AccountId :: "string option"
  eiq_DestinationAccountNumber :: "string option"
  eiq_AmountMinor :: int
  eiq_CurrencyId :: "string option"
  eiq_Status :: string
  eiq_SenderName :: "string option"
  eiq_SenderAccountNumber :: "string option"
  eiq_SenderInstitutionCode :: "string option"
  eiq_Narration :: "string option"
  eiq_Scenario :: "string option"

record ExternalTransferRequeryRequest =
  erq_ProviderReference :: "string option"
  erq_Scenario :: "string option"
  erq_Note :: "string option"

record AccountControlRequest =
  acq_Reference :: string
  acq_Reason :: string

record AccountLienRequest =
  alq_AmountMinor :: int
  alq_CurrencyId :: string
  alq_Reference :: string
  alq_Reason :: string

record ReleaseLienRequest =
  rlq_Reference :: string
  rlq_Reason :: "string option"

record MarkReconciliationItemReviewedRequest =
  mrq_ResolutionNote :: string
  mrq_ResolutionStatus :: string

record MockTransferRequest =
  mtq_InstitutionId :: "string option"
  mtq_AccountId :: string
  mtq_AmountMinor :: int
  mtq_CurrencyId :: "string option"
  mtq_IdempotencyKey :: "string option"
  mtq_ProviderEventId :: "string option"
  mtq_ProviderReference :: "string option"
  mtq_Status :: "string option"
  mtq_Narration :: "string option"
  mtq_Scenario :: "string option"
  mtq_DelaySeconds :: "int option"

text \<open>The query parameters of the three listings.\<close>

record ListParams =
  lp_Limit :: "int option"
  lp_BeforeCreatedAt :: "time option"
  lp_BeforeTransferId :: "string option"

record ListReconciliationItemsParams = ListParams +
  lp_Status :: "string option"
  lp_ProviderStatus :: "string option"
  lp_LedgerStatus :: "string option"
  lp_ReconciliationStatus :: "string option"

section \<open>Optional fields\<close>

definition optionalString :: "string option \<Rightarrow> string" where
  "optionalString v = (case v of None \<Rightarrow> [] | Some s \<Rightarrow> s)"

definition optionalBool :: "bool option \<Rightarrow> bool" where
  "optionalBool v = (case v of None \<Rightarrow> False | Some b \<Rightarrow> b)"

definition optionalInt64 :: "int option \<Rightarrow> int" where
  "optionalInt64 v = (case v of None \<Rightarrow> 0 | Some n \<Rightarrow> n)"

lemma optionalString_simps [simp]: "optionalString None = []" "optionalString (Some s) = s"
  by (simp_all add: optionalString_def)

section \<open>Validation\<close>

definition nilUUID :: string where
  "nilUUID = ''00000000-0000-0000-0000-000000000000''"

definition blank :: "string \<Rightarrow> bool" where
  "blank s \<longleftrightarrow> TrimSpace s = []"

definition given_and_not :: "(string \<Rightarrow> bool) \<Rightarrow> string option \<Rightarrow> bool" where
  "given_and_not P v = (case v of None \<Rightarrow> False | Some s \<Rightarrow> \<not> P s)"

definition validCreateCustomerRequest :: "CreateCustomerRequest \<Rightarrow> bool" where
  "validCreateCustomerRequest req \<longleftrightarrow> \<not> (ccq_BranchId req = nilUUID \<or> blank (ccq_CustomerType req))"

definition validCreateAccountRequest :: "CreateAccountRequest \<Rightarrow> bool" where
  "validCreateAccountRequest req \<longleftrightarrow>
     \<not> (caq_CustomerId req = nilUUID \<or> blank (caq_Name req) \<or> blank (caq_AccountNumber req))"

definition validInternalCreditRequest :: "InternalCreditRequest \<Rightarrow> bool" where
  "validInternalCreditRequest req \<longleftrightarrow>
     \<not> (icq_AccountId req = nilUUID \<or> icq_AmountMinor req \<le> 0 \<or> icq_CurrencyId req \<noteq> ''NGN'' \<or>
        blank (icq_IdempotencyKey req))"

definition validInternalDebitRequest :: "InternalDebitRequest \<Rightarrow> bool" where
  "validInternalDebitRequest req \<longleftrightarrow>
     \<not> (idq_AccountId req = nilUUID \<or> idq_AmountMinor req \<le> 0 \<or> idq_CurrencyId req \<noteq> ''NGN'' \<or>
        blank (idq_IdempotencyKey req))"

definition validInternalTransferRequest :: "InternalTransferRequest \<Rightarrow> bool" where
  "validInternalTransferRequest req \<longleftrightarrow>
     \<not> (itq_SourceAccountId req = nilUUID \<or> itq_DestinationAccountId req = nilUUID \<or>
        itq_SourceAccountId req = itq_DestinationAccountId req \<or> itq_AmountMinor req \<le> 0 \<or>
        itq_CurrencyId req \<noteq> ''NGN'' \<or> blank (itq_IdempotencyKey req))"

definition validExternalNameEnquiryRequest :: "ExternalNameEnquiryRequest \<Rightarrow> bool" where
  "validExternalNameEnquiryRequest req \<longleftrightarrow>
     \<not> (blank (enq_DestinationInstitutionCode req) \<or>
        \<not> isTenDigitAccountNumber (TrimSpace (enq_AccountNumber req))) \<and>
     \<not> given_and_not (\<lambda>c. c = ''NGN'') (enq_CurrencyId req)"

definition validExternalOutboundRequestScenario :: "string \<Rightarrow> bool" where
  "validExternalOutboundRequestScenario scenario \<longleftrightarrow>
     scenario \<in> {''success'', ''failed'', ''pending'', ''timeout'', ''provider_unknown''}"

definition validExternalTransferRequeryRequestScenario :: "string \<Rightarrow> bool" where
  "validExternalTransferRequeryRequestScenario scenario \<longleftrightarrow>
     scenario \<in> {''success'', ''failed'', ''pending'', ''timeout'', ''provider_unknown''}"

definition validExternalInboundRequestStatus :: "string \<Rightarrow> bool" where
  "validExternalInboundRequestStatus status \<longleftrightarrow> status \<in> {''succeeded'', ''pending'', ''failed''}"

definition validExternalInboundRequestScenario :: "string \<Rightarrow> bool" where
  "validExternalInboundRequestScenario scenario \<longleftrightarrow> scenario \<in> {''success'', ''pending'', ''failed''}"

definition validExternalOutboundTransferRequest :: "ExternalOutboundTransferRequest \<Rightarrow> bool" where
  "validExternalOutboundTransferRequest req \<longleftrightarrow>
     \<not> (eoq_SourceAccountId req = nilUUID \<or> eoq_AmountMinor req \<le> 0 \<or> blank (eoq_IdempotencyKey req) \<or>
        (blank (optionalString (eoq_DestinationInstitutionCode req)) \<and>
         blank (optionalString (eoq_BankCode req))) \<or>
        \<not> isTenDigitAccountNumber (TrimSpace (eoq_DestinationAccountNumber req))) \<and>
     \<not> given_and_not (\<lambda>c. c = ''NGN'') (eoq_CurrencyId req) \<and>
     \<not> given_and_not validExternalOutboundRequestScenario (eoq_Scenario req)"

definition validExternalInboundEventRequest :: "ExternalInboundEventRequest \<Rightarrow> bool" where
  "validExternalInboundEventRequest req \<longleftrightarrow>
     \<not> (blank (eiq_ProviderEventId req) \<or> blank (eiq_ProviderReference req) \<or> eiq_AmountMinor req \<le> 0 \<or>
        (eiq_AccountId req = None \<and> blank (optionalString (eiq_DestinationAccountNumber req))) \<or>
        given_and_not (\<lambda>a. a \<noteq> nilUUID) (eiq_AccountId req) \<or>
        given_and_not (\<lambda>n. isTenDigitAccountNumber (TrimSpace n)) (eiq_DestinationAccountNumber req) \<or>
        \<not> validExternalInboundRequestStatus (eiq_Status req)) \<and>
     \<not> given_and_not (\<lambda>c. c = ''NGN'') (eiq_CurrencyId req) \<and>
     \<not> given_and_not validExternalInboundRequestScenario (eiq_Scenario req)"

definition validExternalTransferRequeryRequest :: "ExternalTransferRequeryRequest option \<Rightarrow> bool" where
  "validExternalTransferRequeryRequest req =
     (case req of None \<Rightarrow> True
      | Some r \<Rightarrow> \<not> given_and_not validExternalTransferRequeryRequestScenario (erq_Scenario r))"

definition validMockTransferStatus :: "string \<Rightarrow> bool" where
  "validMockTransferStatus status \<longleftrightarrow>
     status \<in> {TransferStatusPending, TransferStatusSucceeded, TransferStatusFailed}"

definition validMockTransferScenario :: "string \<Rightarrow> bool" where
  "validMockTransferScenario scenario \<longleftrightarrow>
     scenario \<in> {''success'', ''pending'', ''failed'', ''duplicate'', ''delayed'', ''reversal''}"

definition validMockTransferRequest :: "MockTransferRequest \<Rightarrow> bool" where
  "validMockTransferRequest req \<longleftrightarrow>
     \<not> (mtq_AccountId req = nilUUID \<or> mtq_AmountMinor req \<le> 0) \<and>
     \<not> given_and_not validMockTransferStatus (mtq_Status req) \<and>
     \<not> given_and_not validMockTransferScenario (mtq_Scenario req)"

definition validAccountControlRequest :: "AccountControlRequest \<Rightarrow> bool" where
  "validAccountControlRequest req \<longleftrightarrow> \<not> (blank (acq_Reference req) \<or> blank (acq_Reason req))"

definition validAccountLienRequest :: "AccountLienRequest \<Rightarrow> bool" where
  "validAccountLienRequest req \<longleftrightarrow>
     \<not> (alq_AmountMinor req \<le> 0 \<or> blank (alq_CurrencyId req) \<or> blank (alq_Reference req) \<or>
        blank (alq_Reason req))"

definition validReleaseLienRequest :: "ReleaseLienRequest \<Rightarrow> bool" where
  "validReleaseLienRequest req \<longleftrightarrow> \<not> blank (rlq_Reference req)"

definition validMarkReconciliationItemReviewedRequest ::
  "MarkReconciliationItemReviewedRequest \<Rightarrow> bool" where
  "validMarkReconciliationItemReviewedRequest req \<longleftrightarrow>
     \<not> (blank (mrq_ResolutionNote req) \<or> \<not> validReconciliationReviewStatus (mrq_ResolutionStatus req))"

section \<open>The institution of the caller\<close>

definition institutionScopeString :: "env \<Rightarrow> string \<Rightarrow> error + string" where
  "institutionScopeString e header =
     (case PrincipalFromContext e of None \<Rightarrow> Inl ErrUnauthorized
      | Some p \<Rightarrow>
        (let institutionID = TrimSpace (pr_InstitutionID p);
             headerInstitutionID = TrimSpace header in
         if institutionID = [] then Inl ErrUnauthorized
         else if headerInstitutionID \<noteq> [] \<and> headerInstitutionID \<noteq> institutionID then Inl ErrForbidden
         else Inr institutionID))"

definition institutionScope :: "env \<Rightarrow> string option \<Rightarrow> error + string" where
  "institutionScope e header = institutionScopeString e (optionalString header)"

definition applyRequestScope ::
  "env \<Rightarrow> string option \<Rightarrow> string \<Rightarrow> TransferRequest \<Rightarrow> error + TransferRequest" where
  "applyRequestScope e header headerIdempotencyKey req =
     (case institutionScope e header of Inl err \<Rightarrow> Inl err
      | Inr institutionID \<Rightarrow>
          if req_InstitutionID req \<noteq> [] \<and> TrimSpace (req_InstitutionID req) \<noteq> institutionID
          then Inl ErrForbidden
          else Inr (req\<lparr>req_InstitutionID := institutionID,
            req_IdempotencyKey := (if req_IdempotencyKey req = [] then TrimSpace headerIdempotencyKey
              else req_IdempotencyKey req)\<rparr>))"

section \<open>Binding\<close>

text \<open>\<open>bind\<dots>Request\<close>: a missing or invalid body is refused, a valid one is bound.\<close>

definition bindValid :: "('q \<Rightarrow> bool) \<Rightarrow> ('q \<Rightarrow> 'a) \<Rightarrow> 'q option \<Rightarrow> error + 'a" where
  "bindValid valid bound body =
     (case body of None \<Rightarrow> Inl ErrInvalidRequest
      | Some req \<Rightarrow> if valid req then Inr (bound req) else Inl ErrInvalidRequest)"

definition bindCreateCustomerRequest ::
  "string \<Rightarrow> CreateCustomerRequest option \<Rightarrow> error + CreateCustomerInput" where
  "bindCreateCustomerRequest institutionID =
     bindValid validCreateCustomerRequest (\<lambda>body.
       \<lparr>cci_InstitutionID = institutionID, cci_BranchID = ccq_BranchId body,
        cci_CustomerType = ccq_CustomerType body, cci_FirstName = optionalString (ccq_FirstName body),
        cci_LastName = optionalString (ccq_LastName body),
        cci_BusinessName = optionalString (ccq_BusinessName body),
        cci_Email = optionalString (ccq_Email body), cci_Phone = optionalString (ccq_Phone body),
        cci_kycTier = [], cci_bvnStatus = [], cci_ninStatus = []\<rparr>)"

definition bindCreateAccountRequest ::
  "string \<Rightarrow> CreateAccountRequest option \<Rightarrow> error + CreateAccountInput" where
  "bindCreateAccountRequest institutionID =
     bindValid validCreateAccountRequest (\<lambda>body.
       \<lparr>cai_InstitutionID = institutionID, cai_CustomerID = caq_CustomerId body,
        cai_AccountNumber = caq_AccountNumber body, cai_Name = caq_Name body,
        cai_ProductType = optionalString (caq_ProductType body),
        cai_CurrencyID = optionalString (caq_CurrencyId body),
        cai_AllowNegativeBalance = optionalBool (caq_AllowNegativeBalance body)\<rparr>)"

definition bindInternalCreditRequest ::
  "string \<Rightarrow> InternalCreditRequest option \<Rightarrow> error + InternalCreditInput" where
  "bindInternalCreditRequest institutionID =
     bindValid validInternalCreditRequest (\<lambda>body.
       \<lparr>ici_InstitutionID = institutionID, ici_AccountID = icq_AccountId body,
        ici_SourceAccountID = optionalString (icq_SourceAccountId body),
        ici_AmountMinor = icq_AmountMinor body, ici_CurrencyID = icq_CurrencyId body,
        ici_IdempotencyKey = icq_IdempotencyKey body, ici_Narration = optionalString (icq_Narration body),
        ici_Reference = optionalString (icq_Reference body)\<rparr>)"

definition bindInternalDebitRequest ::
  "string \<Rightarrow> InternalDebitRequest option \<Rightarrow> error + InternalDebitInput" where
  "bindInternalDebitRequest institutionID =
     bindValid validInternalDebitRequest (\<lambda>body.
       \<lparr>idi_InstitutionID = institutionID, idi_AccountID = idq_AccountId body,
        idi_DestinationAccountID = optionalString (idq_DestinationAccountId body),
        idi_AmountMinor = idq_AmountMinor body, idi_CurrencyID = idq_CurrencyId body,
        idi_IdempotencyKey = idq_IdempotencyKey body, idi_Narration = optionalString (idq_Narration body),
        idi_Reference = optionalString (idq_Reference body)\<rparr>)"

definition bindInternalTransferRequest ::
  "string \<Rightarrow> InternalTransferRequest option \<Rightarrow> error + InternalTransferInput" where
  "bindInternalTransferRequest institutionID =
     bindValid validInternalTransferRequest (\<lambda>body.
       \<lparr>iti_InstitutionID = institutionID, iti_SourceAccountID = itq_SourceAccountId body,
        iti_DestinationAccountID = itq_DestinationAccountId body, iti_AmountMinor = itq_AmountMinor body,
        iti_CurrencyID = itq_CurrencyId body, iti_IdempotencyKey = itq_IdempotencyKey body,
        iti_Narration = optionalString (itq_Narration body),
        iti_Reference = optionalString (itq_Reference body)\<rparr>)"

definition bindExternalNameEnquiryRequest ::
  "string \<Rightarrow> ExternalNameEnquiryRequest option \<Rightarrow> error + ExternalNameEnquiryInput" where
  "bindExternalNameEnquiryRequest institutionID =
     bindValid validExternalNameEnquiryRequest (\<lambda>body.
       \<lparr>eni_InstitutionID = institutionID, eni_Provider = optionalString (enq_Provider body),
        eni_DestinationInstitutionCode = enq_DestinationInstitutionCode body,
        eni_AccountNumber = enq_AccountNumber body, eni_CurrencyID = optionalString (enq_CurrencyId body)\<rparr>)"

definition bindExternalOutboundTransferRequest ::
  "string \<Rightarrow> ExternalOutboundTransferRequest option \<Rightarrow> error + ExternalOutboundTransferInput" where
  "bindExternalOutboundTransferRequest institutionID =
     bindValid validExternalOutboundTransferRequest (\<lambda>body.
       \<lparr>eo_InstitutionID = institutionID, eo_SourceAccountID = eoq_SourceAccountId body,
        eo_DestinationInstitutionCode = optionalString (eoq_DestinationInstitutionCode body),
        eo_BankCode = optionalString (eoq_BankCode body),
        eo_DestinationAccountNumber = eoq_DestinationAccountNumber body,
        eo_DestinationAccountName = optionalString (eoq_DestinationAccountName body),
        eo_AmountMinor = eoq_AmountMinor body, eo_CurrencyID = optionalString (eoq_CurrencyId body),
        eo_IdempotencyKey = eoq_IdempotencyKey body, eo_Provider = optionalString (eoq_Provider body),
        eo_Narration = optionalString (eoq_Narration body),
        eo_Reference = optionalString (eoq_Reference body),
        eo_Scenario = optionalString (eoq_Scenario body)\<rparr>)"

text \<open>
  \<open>json.Marshal\<close> of the body, as the webhook parser reads it back: the fields of the body under the
  same names, an absent field as the empty text.
\<close>

definition payloadOfEvent :: "ExternalInboundEventRequest \<Rightarrow> mockWebhookPayload" where
  "payloadOfEvent body =
     \<lparr>wp_InstitutionID = [], wp_Provider = optionalString (eiq_Provider body),
      wp_AccountID = optionalString (eiq_AccountId body),
      wp_DestinationAccountNumber = optionalString (eiq_DestinationAccountNumber body), wp_Direction = [],
      wp_Status = eiq_Status body, wp_AmountMinor = eiq_AmountMinor body,
      wp_CurrencyID = optionalString (eiq_CurrencyId body), wp_IdempotencyKey = [],
      wp_ProviderReference = eiq_ProviderReference body, wp_ProviderEventID = eiq_ProviderEventId body,
      wp_ReversalOfTransferID = [], wp_SenderName = optionalString (eiq_SenderName body),
      wp_SenderAccountNumber = optionalString (eiq_SenderAccountNumber body),
      wp_SenderInstitutionCode = optionalString (eiq_SenderInstitutionCode body), wp_FailureReason = [],
      wp_Narration = optionalString (eiq_Narration body), wp_Scenario = optionalString (eiq_Scenario body),
      wp_DelaySeconds = 0\<rparr>"

definition bindExternalInboundEventRequest ::
  "string \<Rightarrow> ExternalInboundEventRequest option \<Rightarrow> error + ExternalInboundEventInput" where
  "bindExternalInboundEventRequest institutionID =
     bindValid validExternalInboundEventRequest (\<lambda>body.
       \<lparr>ei_InstitutionID = institutionID, ei_Provider = optionalString (eiq_Provider body),
        ei_Payload = Some (payloadOfEvent body), ei_Headers = [(''X-Institution-ID'', institutionID)]\<rparr>)"

definition bindExternalTransferRequeryRequest ::
  "string \<Rightarrow> string \<Rightarrow> ExternalTransferRequeryRequest option \<Rightarrow> error + ExternalTransferRequeryInput" where
  "bindExternalTransferRequeryRequest institutionID transferID body =
     (if \<not> validExternalTransferRequeryRequest body then Inl ErrInvalidRequest
      else case body of
        None \<Rightarrow> Inr \<lparr>er_InstitutionID = institutionID, er_TransferID = transferID,
          er_ProviderReference = [], er_Scenario = [], er_Note = []\<rparr>
      | Some r \<Rightarrow> Inr \<lparr>er_InstitutionID = institutionID, er_TransferID = transferID,
          er_ProviderReference = optionalString (erq_ProviderReference r),
          er_Scenario = optionalString (erq_Scenario r), er_Note = optionalString (erq_Note r)\<rparr>)"

definition bindAccountControlRequest ::
  "string \<Rightarrow> string \<Rightarrow> AccountControlRequest option \<Rightarrow> error + AccountControlInput" where
  "bindAccountControlRequest institutionID accountID =
     bindValid validAccountControlRequest (\<lambda>body.
       \<lparr>aci_InstitutionID = institutionID, aci_AccountID = accountID, aci_Reference = acq_Reference body,
        aci_Reason = acq_Reason body\<rparr>)"

definition bindAccountLienRequest ::
  "string \<Rightarrow> string \<Rightarrow> AccountLienRequest option \<Rightarrow> error + AccountLienInput" where
  "bindAccountLienRequest institutionID accountID =
     bindValid validAccountLienRequest (\<lambda>body.
       \<lparr>ali_InstitutionID = institutionID, ali_AccountID = accountID, ali_AmountMinor = alq_AmountMinor body,
        ali_CurrencyID = alq_CurrencyId body, ali_Reference = alq_Reference body,
        ali_Reason = alq_Reason body\<rparr>)"

definition bindReleaseLienRequest ::
  "string \<Rightarrow> string \<Rightarrow> string \<Rightarrow> ReleaseLienRequest option \<Rightarrow> error + ReleaseLienInput" where
  "bindReleaseLienRequest institutionID accountID lienID =
     bindValid validReleaseLienRequest (\<lambda>body.
       \<lparr>rli_InstitutionID = institutionID, rli_AccountID = accountID, rli_LienID = lienID,
        rli_Reference = rlq_Reference body, rli_Reason = optionalString (rlq_Reason body)\<rparr>)"

definition bindMarkReconciliationItemReviewedRequest ::
  "string \<Rightarrow> string \<Rightarrow> MarkReconciliationItemReviewedRequest option \<Rightarrow>
   error + MarkReconciliationItemReviewedInput" where
  "bindMarkReconciliationItemReviewedRequest institutionID transferID =
     bindValid validMarkReconciliationItemReviewedRequest (\<lambda>body.
       \<lparr>mr_InstitutionID = institutionID, mr_TransferID = transferID,
        mr_ResolutionNote = mrq_ResolutionNote body, mr_ResolutionStatus = mrq_ResolutionStatus body\<rparr>)"

definition mockRequest :: "string \<Rightarrow> MockTransferRequest \<Rightarrow> TransferRequest" where
  "mockRequest headerIdempotencyKey body =
     \<lparr>req_InstitutionID = optionalString (mtq_InstitutionId body), req_AccountID = mtq_AccountId body,
      req_AmountMinor = mtq_AmountMinor body, req_CurrencyID = optionalString (mtq_CurrencyId body),
      req_IdempotencyKey = firstNonBlank [optionalString (mtq_IdempotencyKey body), headerIdempotencyKey],
      req_ProviderEventID = optionalString (mtq_ProviderEventId body),
      req_ProviderReference = optionalString (mtq_ProviderReference body),
      req_Status = optionalString (mtq_Status body), req_Narration = optionalString (mtq_Narration body),
      req_Scenario = optionalString (mtq_Scenario body),
      req_DelaySeconds = optionalInt64 (mtq_DelaySeconds body)\<rparr>"

definition bindMockTransferRequest ::
  "env \<Rightarrow> MockTransferRequest option \<Rightarrow> string option \<Rightarrow> string \<Rightarrow> error + TransferRequest" where
  "bindMockTransferRequest e body headerInstitutionID headerIdempotencyKey =
     (case bindValid validMockTransferRequest (mockRequest headerIdempotencyKey) body of
        Inl err \<Rightarrow> Inl err
      | Inr req \<Rightarrow> applyRequestScope e headerInstitutionID headerIdempotencyKey req)"

section \<open>List options\<close>

definition listOptions :: "('a) ListParams_scheme \<Rightarrow> ListOptions" where
  "listOptions params =
     \<lparr>lo_Limit = (case lp_Limit params of None \<Rightarrow> 0 | Some n \<Rightarrow> n),
      lo_BeforeCreatedAt = lp_BeforeCreatedAt params,
      lo_BeforeID = optionalString (lp_BeforeTransferId params)\<rparr>"

definition listReconciliationItemsOptions ::
  "ListReconciliationItemsParams \<Rightarrow> ListReconciliationItemsOptions" where
  "listReconciliationItemsOptions params =
     ListOptions.extend (listOptions params)
       \<lparr>lr_Status = optionalString (lp_Status params),
        lr_ProviderStatus = optionalString (lp_ProviderStatus params),
        lr_LedgerStatus = optionalString (lp_LedgerStatus params),
        lr_ReconciliationStatus = optionalString (lp_ReconciliationStatus params),
        lr_StalePendingMinutes = 0\<rparr>"

section \<open>What binding promises\<close>

lemma bindValidE:
  assumes "bindValid valid bound body = Inr input"
  obtains req where "body = Some req" "valid req" "input = bound req"
  using assms by (auto simp: bindValid_def split: option.splits if_splits)

lemma institutionScope_Inr:
  assumes "institutionScope e header = Inr i"
  shows "i \<noteq> [] \<and> TrimSpace i = i \<and> (\<exists>p. PrincipalFromContext e = Some p \<and> i = TrimSpace (pr_InstitutionID p)) \<and>
    (TrimSpace (optionalString header) \<noteq> [] \<longrightarrow> TrimSpace (optionalString header) = i)"
  using assms
  by (auto simp: institutionScope_def institutionScopeString_def Let_def split: option.splits if_splits)

lemma applyRequestScope_Inr:
  assumes "applyRequestScope e header key req = Inr req'"
  shows "\<exists>i. institutionScope e header = Inr i \<and> req_InstitutionID req' = i"
  using assms by (auto simp: applyRequestScope_def split: sum.splits if_splits)

lemma bindMockTransferRequest_Inr:
  assumes "bindMockTransferRequest e body header key = Inr req"
  shows "\<exists>i. institutionScope e header = Inr i \<and> req_InstitutionID req = i"
  using assms applyRequestScope_Inr by (auto simp: bindMockTransferRequest_def split: sum.splits)

lemma bound_institution:
  "bindCreateCustomerRequest i b1 = Inr r1 \<Longrightarrow> cci_InstitutionID r1 = i"
  "bindCreateAccountRequest i b2 = Inr r2 \<Longrightarrow> cai_InstitutionID r2 = i"
  "bindInternalCreditRequest i b3 = Inr r3 \<Longrightarrow> ici_InstitutionID r3 = i"
  "bindInternalDebitRequest i b4 = Inr r4 \<Longrightarrow> idi_InstitutionID r4 = i"
  "bindInternalTransferRequest i b5 = Inr r5 \<Longrightarrow> iti_InstitutionID r5 = i"
  "bindExternalNameEnquiryRequest i b6 = Inr r6 \<Longrightarrow> eni_InstitutionID r6 = i"
  "bindExternalOutboundTransferRequest i b7 = Inr r7 \<Longrightarrow> eo_InstitutionID r7 = i"
  "bindExternalInboundEventRequest i b8 = Inr r8 \<Longrightarrow> ei_InstitutionID r8 = i"
  "bindExternalTransferRequeryRequest i k b9 = Inr r9 \<Longrightarrow> er_InstitutionID r9 = i"
  "bindAccountControlRequest i k b10 = Inr r10 \<Longrightarrow> aci_InstitutionID r10 = i"
  "bindAccountLienRequest i k b11 = Inr r11 \<Longrightarrow> ali_InstitutionID r11 = i"
  "bindReleaseLienRequest i k l b12 = Inr r12 \<Longrightarrow> rli_InstitutionID r12 = i"
  "bindMarkReconciliationItemReviewedRequest i k b13 = Inr r13 \<Longrightarrow> mr_InstitutionID r13 = i"
  unfolding bindCreateCustomerRequest_def bindCreateAccountRequest_def bindInternalCreditRequest_def
    bindInternalDebitRequest_def bindInternalTransferRequest_def bindExternalNameEnquiryRequest_def
    bindExternalOutboundTransferRequest_def bindExternalInboundEventRequest_def
    bindExternalTransferRequeryRequest_def bindAccountControlRequest_def bindAccountLienRequest_def
    bindReleaseLienRequest_def bindMarkReconciliationItemReviewedRequest_def
  by (erule bindValidE, simp)+ (auto split: if_splits option.splits elim!: bindValidE)

end
