(* ===== verification/Handlers.thy ===== *)
theory Handlers
  imports HttpRequests System
begin

text \<open>
  The routes of the HTTP API (\<open>handler.go\<close>, \<open>handler_account_controls.go\<close>,
  \<open>handler_reconciliation.go\<close>): one handler per operation, the scope of the caller first, then the binding
  of the body, the service operation, and a response or an error; and the mapping of every error to a
  status and a message.  The path patterns and the decoding of parameters and bodies are generated code.
\<close>

section \<open>Responses\<close>

datatype body =
    BodySeed SeedResult
  | BodyCustomer Customer
  | BodyAccount Account
  | BodyAccounts "Account list"
  | BodyBalance AccountBalance
  | BodyTransfer Transfer
  | BodyTransfers "Transfer list"
  | BodyTransactions "Transaction list"
  | BodyJournal JournalWithPostings
  | BodyHold AccountHold
  | BodyNameEnquiry ExternalNameEnquiryResult
  | BodyOutbound ExternalOutboundTransferResult
  | BodyInbound ExternalInboundEventResult
  | BodyRequery ExternalTransferRequeryResult
  | BodyItem ReconciliationItem
  | BodyItems "ReconciliationItem list"
  | BodyMessage string string

record strictJSONResponse =
  rsp_status :: int
  rsp_body :: body

definition okResponse :: "body \<Rightarrow> strictJSONResponse" where
  "okResponse b = \<lparr>rsp_status = 200, rsp_body = b\<rparr>"

definition createdResponse :: "body \<Rightarrow> strictJSONResponse" where
  "createdResponse b = \<lparr>rsp_status = 201, rsp_body = b\<rparr>"

text \<open>What a handler reads of the request to identify it: the header, and a fresh identifier.\<close>

record request_ids =
  rq_XRequestID :: string
  rq_random :: string

definition requestID :: "env \<Rightarrow> request_ids \<Rightarrow> string" where
  "requestID e q =
     (let fromContext = TrimSpace (env_request_id e); fromHeader = TrimSpace (rq_XRequestID q) in
      if fromContext \<noteq> [] then fromContext else if fromHeader \<noteq> [] then fromHeader else rq_random q)"

definition writeErrorWithRequestID :: "int \<Rightarrow> string \<Rightarrow> string \<Rightarrow> strictJSONResponse" where
  "writeErrorWithRequestID status message rid = \<lparr>rsp_status = status, rsp_body = BodyMessage message rid\<rparr>"

definition openAPIRequestError :: "string \<Rightarrow> strictJSONResponse" where
  "openAPIRequestError rid = writeErrorWithRequestID 400 ''invalid_request'' rid"

definition respondError :: "string \<Rightarrow> error \<Rightarrow> strictJSONResponse" where
  "respondError rid err =
     (if errors_Is err ErrUnauthorized then writeErrorWithRequestID 401 ''unauthorized'' rid
      else if errors_Is err ErrForbidden then writeErrorWithRequestID 403 ''forbidden'' rid
      else if errors_Is err ErrNotFound then writeErrorWithRequestID 404 ''not_found'' rid
      else if errors_Is err ErrUnsupportedProvider then writeErrorWithRequestID 400 ''unsupported_provider'' rid
      else if errors_Is err ErrInvalidRequest then writeErrorWithRequestID 400 ''invalid_request'' rid
      else if errors_Is err ErrInsufficient then writeErrorWithRequestID 422 ''insufficient_funds'' rid
      else if errors_Is err ErrConflict then writeErrorWithRequestID 409 ''conflict'' rid
      else writeErrorWithRequestID 500 ''internal_server_error'' rid)"

text \<open>The \<open>Recover\<close> middleware of \<open>packages/shared/httpmiddleware\<close> answers a panic.\<close>

definition recovered :: "env \<Rightarrow> request_ids \<Rightarrow> strictJSONResponse" where
  "recovered e q = writeErrorWithRequestID 500 ''internal_server_error'' (requestID e (q\<lparr>rq_random := ''unknown''\<rparr>))"

definition served ::
  "env \<Rightarrow> request_ids \<Rightarrow> ('s, strictJSONResponse) call \<Rightarrow> 's \<Rightarrow> strictJSONResponse \<times> 's" where
  "served e q m w =
     (case m w of
        (Inr response, w') \<Rightarrow> (response, w')
      | (Inl err, w') \<Rightarrow> (if err = panic then recovered e q else respondError (requestID e q) err, w'))"

text \<open>\<open>safeLogValue\<close>: control characters never reach the log.\<close>

definition safeLogValue :: "string \<Rightarrow> string" where
  "safeLogValue v = filter (\<lambda>c. \<not> (of_char c < (32 :: nat) \<or> of_char c = (127 :: nat))) v"

section \<open>Handlers\<close>

record 'p HTTPServer =
  hs_service :: "'p service"
  hs_demoRoutes :: bool

definition WithDemoRoutes :: "bool \<Rightarrow> 'p HTTPServer \<Rightarrow> 'p HTTPServer" where
  "WithDemoRoutes enabled h = h\<lparr>hs_demoRoutes := enabled\<rparr>"

definition NewHandler :: "'p service \<Rightarrow> ('p HTTPServer \<Rightarrow> 'p HTTPServer) list \<Rightarrow> 'p HTTPServer" where
  "NewHandler service options = foldl (\<lambda>h option. option h) \<lparr>hs_service = service, hs_demoRoutes = False\<rparr> options"

text \<open>The opening of every handler but the mock ones: the institution of the caller.\<close>

definition scoped ::
  "svc_env \<Rightarrow> string option \<Rightarrow> (string \<Rightarrow> ('s, strictJSONResponse) call) \<Rightarrow> ('s, strictJSONResponse) call" where
  "scoped e header act = repoBind (repoLift (institutionScope (se_tx e 0) header)) act"

definition answer :: "('a \<Rightarrow> strictJSONResponse) \<Rightarrow> ('s, 'a) call \<Rightarrow> ('s, strictJSONResponse) call" where
  "answer f m = repoBind m (\<lambda>v. repoReturn (f v))"

definition handleSeedDemo :: "'p HTTPServer \<Rightarrow> svc_env \<Rightarrow> ('p world, strictJSONResponse) call" where
  "handleSeedDemo h e =
     (if \<not> hs_demoRoutes h then repoFail ErrNotFound
      else repoBind (repoLift (institutionScopeString (se_tx e 0) DemoInstitutionID))
        (\<lambda>_. answer (\<lambda>r. okResponse (BodySeed r)) (svcSeedDemo e)))"

definition handleCreateCustomer ::
  "svc_env \<Rightarrow> externals \<Rightarrow> string option \<Rightarrow> CreateCustomerRequest option \<Rightarrow>
   ('p world, strictJSONResponse) call" where
  "handleCreateCustomer e x header body =
     scoped e header (\<lambda>i. repoBind (repoLift (bindCreateCustomerRequest i body))
       (\<lambda>input. answer (\<lambda>c. createdResponse (BodyCustomer c)) (svcCreateCustomer e x input)))"

definition handleGetCustomer ::
  "svc_env \<Rightarrow> string option \<Rightarrow> string \<Rightarrow> ('p world, strictJSONResponse) call" where
  "handleGetCustomer e header customerID =
     scoped e header (\<lambda>i. answer (\<lambda>c. okResponse (BodyCustomer c)) (svcGetCustomer i customerID))"

definition handleCreateAccount ::
  "svc_env \<Rightarrow> externals \<Rightarrow> string option \<Rightarrow> CreateAccountRequest option \<Rightarrow>
   ('p world, strictJSONResponse) call" where
  "handleCreateAccount e x header body =
     scoped e header (\<lambda>i. repoBind (repoLift (bindCreateAccountRequest i body))
       (\<lambda>input. answer (\<lambda>a. createdResponse (BodyAccount a)) (svcCreateAccount e x input)))"

definition handleGetAccount ::
  "svc_env \<Rightarrow> string option \<Rightarrow> string \<Rightarrow> ('p world, strictJSONResponse) call" where
  "handleGetAccount e header accountID =
     scoped e header (\<lambda>i. answer (\<lambda>a. okResponse (BodyAccount a)) (svcGetAccount i accountID))"

definition handleListCustomerAccounts ::
  "svc_env \<Rightarrow> string option \<Rightarrow> string \<Rightarrow> ('p world, strictJSONResponse) call" where
  "handleListCustomerAccounts e header customerID =
     scoped e header (\<lambda>i. answer (\<lambda>l. okResponse (BodyAccounts l)) (svcListCustomerAccounts i customerID))"

definition handleGetAccountBalance ::
  "svc_env \<Rightarrow> externals \<Rightarrow> string option \<Rightarrow> string \<Rightarrow> ('p world, strictJSONResponse) call" where
  "handleGetAccountBalance e x header accountID =
     scoped e header (\<lambda>i. answer (\<lambda>b. okResponse (BodyBalance b)) (svcGetBalance x i accountID))"

definition handleCreateInternalCredit ::
  "svc_env \<Rightarrow> externals \<Rightarrow> string option \<Rightarrow> InternalCreditRequest option \<Rightarrow>
   ('p world, strictJSONResponse) call" where
  "handleCreateInternalCredit e x header body =
     scoped e header (\<lambda>i. repoBind (repoLift (bindInternalCreditRequest i body))
       (\<lambda>input. answer (\<lambda>t. okResponse (BodyTransfer t)) (svcInternalCredit e x input)))"

definition handleCreateInternalDebit ::
  "svc_env \<Rightarrow> externals \<Rightarrow> string option \<Rightarrow> InternalDebitRequest option \<Rightarrow>
   ('p world, strictJSONResponse) call" where
  "handleCreateInternalDebit e x header body =
     scoped e header (\<lambda>i. repoBind (repoLift (bindInternalDebitRequest i body))
       (\<lambda>input. answer (\<lambda>t. okResponse (BodyTransfer t)) (svcInternalDebit e x input)))"

definition handleCreateInternalTransfer ::
  "svc_env \<Rightarrow> externals \<Rightarrow> string option \<Rightarrow> InternalTransferRequest option \<Rightarrow>
   ('p world, strictJSONResponse) call" where
  "handleCreateInternalTransfer e x header body =
     scoped e header (\<lambda>i. repoBind (repoLift (bindInternalTransferRequest i body))
       (\<lambda>input. answer (\<lambda>t. okResponse (BodyTransfer t)) (svcInternalTransfer e x input)))"

definition handleExternalNameEnquiry ::
  "'p HTTPServer \<Rightarrow> svc_env \<Rightarrow> string option \<Rightarrow> ExternalNameEnquiryRequest option \<Rightarrow>
   ('p world, strictJSONResponse) call" where
  "handleExternalNameEnquiry h e header body =
     scoped e header (\<lambda>i. repoBind (repoLift (bindExternalNameEnquiryRequest i body))
       (\<lambda>input. answer (\<lambda>r. okResponse (BodyNameEnquiry r)) (svcExternalNameEnquiry (hs_service h) e input)))"

definition handleExternalOutboundTransfer ::
  "'p HTTPServer \<Rightarrow> svc_env \<Rightarrow> externals \<Rightarrow> string option \<Rightarrow> ExternalOutboundTransferRequest option \<Rightarrow>
   ('p world, strictJSONResponse) call" where
  "handleExternalOutboundTransfer h e x header body =
     scoped e header (\<lambda>i. repoBind (repoLift (bindExternalOutboundTransferRequest i body))
       (\<lambda>input. answer (\<lambda>r. okResponse (BodyOutbound r)) (svcExternalOutboundTransfer (hs_service h) e x input)))"

definition inboundResponse :: "ExternalInboundEventResult \<Rightarrow> strictJSONResponse" where
  "inboundResponse r =
     \<lparr>rsp_status = (if eir_HTTPStatus r \<noteq> 0 then eir_HTTPStatus r else 200), rsp_body = BodyInbound r\<rparr>"

definition handleExternalInboundEvent ::
  "'p HTTPServer \<Rightarrow> svc_env \<Rightarrow> externals \<Rightarrow> string option \<Rightarrow> ExternalInboundEventRequest option \<Rightarrow>
   ('p world, strictJSONResponse) call" where
  "handleExternalInboundEvent h e x header body =
     scoped e header (\<lambda>i. repoBind (repoLift (bindExternalInboundEventRequest i body))
       (\<lambda>input. answer inboundResponse (svcExternalInboundEvent (hs_service h) e x input)))"

definition handleExternalTransferRequery ::
  "'p HTTPServer \<Rightarrow> svc_env \<Rightarrow> externals \<Rightarrow> string option \<Rightarrow> string \<Rightarrow>
   ExternalTransferRequeryRequest option \<Rightarrow> ('p world, strictJSONResponse) call" where
  "handleExternalTransferRequery h e x header transferID body =
     scoped e header (\<lambda>i. repoBind (repoLift (bindExternalTransferRequeryRequest i transferID body))
       (\<lambda>input. answer (\<lambda>r. okResponse (BodyRequery r)) (svcExternalTransferRequery (hs_service h) e x input)))"

definition handleListAccountTransactions ::
  "svc_env \<Rightarrow> externals \<Rightarrow> string option \<Rightarrow> string \<Rightarrow> ListParams \<Rightarrow> ('p world, strictJSONResponse) call" where
  "handleListAccountTransactions e x header accountID params =
     scoped e header (\<lambda>i. answer (\<lambda>l. okResponse (BodyTransactions l))
       (svcGetTransactions x i accountID (listOptions params)))"

definition handleMockInboundTransfer ::
  "'p HTTPServer \<Rightarrow> svc_env \<Rightarrow> externals \<Rightarrow> string option \<Rightarrow> string \<Rightarrow> MockTransferRequest option \<Rightarrow>
   ('p world, strictJSONResponse) call" where
  "handleMockInboundTransfer h e x header idempotencyKey body =
     (if \<not> hs_demoRoutes h then repoFail ErrNotFound
      else repoBind (repoLift (bindMockTransferRequest (se_tx e 0) body header idempotencyKey))
        (\<lambda>req. answer (\<lambda>t. okResponse (BodyTransfer t)) (svcMockInbound (hs_service h) e x req)))"

definition handleMockOutboundTransfer ::
  "'p HTTPServer \<Rightarrow> svc_env \<Rightarrow> externals \<Rightarrow> string option \<Rightarrow> string \<Rightarrow> MockTransferRequest option \<Rightarrow>
   ('p world, strictJSONResponse) call" where
  "handleMockOutboundTransfer h e x header idempotencyKey body =
     (if \<not> hs_demoRoutes h then repoFail ErrNotFound
      else repoBind (repoLift (bindMockTransferRequest (se_tx e 0) body header idempotencyKey))
        (\<lambda>req. answer (\<lambda>t. okResponse (BodyTransfer t)) (svcMockOutbound (hs_service h) e x req)))"

definition handleGetTransfer ::
  "svc_env \<Rightarrow> externals \<Rightarrow> string option \<Rightarrow> string \<Rightarrow> ('p world, strictJSONResponse) call" where
  "handleGetTransfer e x header transferID =
     scoped e header (\<lambda>i. answer (\<lambda>t. okResponse (BodyTransfer t)) (svcGetTransfer x i transferID))"

definition handleReverseTransfer ::
  "svc_env \<Rightarrow> externals \<Rightarrow> string option \<Rightarrow> string \<Rightarrow> string \<Rightarrow> ('p world, strictJSONResponse) call" where
  "handleReverseTransfer e x header transferID idempotencyKey =
     scoped e header (\<lambda>i. answer (\<lambda>t. okResponse (BodyTransfer t))
       (svcReverseTransfer e x i transferID idempotencyKey))"

definition handleGetJournal ::
  "svc_env \<Rightarrow> externals \<Rightarrow> string option \<Rightarrow> string \<Rightarrow> ('p world, strictJSONResponse) call" where
  "handleGetJournal e x header journalEntryID =
     scoped e header (\<lambda>i. answer (\<lambda>j. okResponse (BodyJournal j)) (svcGetJournal x i journalEntryID))"

definition handleListTransfers ::
  "svc_env \<Rightarrow> externals \<Rightarrow> string option \<Rightarrow> ListParams \<Rightarrow> ('p world, strictJSONResponse) call" where
  "handleListTransfers e x header params =
     scoped e header (\<lambda>i. answer (\<lambda>l. okResponse (BodyTransfers l)) (svcListTransfers x i (listOptions params)))"

text \<open>The four status routes bind the same body and differ in the service operation.\<close>

definition handleAccountControl ::
  "(AccountControlInput \<Rightarrow> ('p world, Account) call) \<Rightarrow> svc_env \<Rightarrow> string option \<Rightarrow> string \<Rightarrow>
   AccountControlRequest option \<Rightarrow> ('p world, strictJSONResponse) call" where
  "handleAccountControl operation e header accountID body =
     scoped e header (\<lambda>i. repoBind (repoLift (bindAccountControlRequest i accountID body))
       (\<lambda>input. answer (\<lambda>a. okResponse (BodyAccount a)) (operation input)))"

definition handleFreezeAccount ::
  "svc_env \<Rightarrow> externals \<Rightarrow> string option \<Rightarrow> string \<Rightarrow> AccountControlRequest option \<Rightarrow>
   ('p world, strictJSONResponse) call" where
  "handleFreezeAccount e x = handleAccountControl (svcFreezeAccount e x) e"

definition handleUnfreezeAccount ::
  "svc_env \<Rightarrow> externals \<Rightarrow> string option \<Rightarrow> string \<Rightarrow> AccountControlRequest option \<Rightarrow>
   ('p world, strictJSONResponse) call" where
  "handleUnfreezeAccount e x = handleAccountControl (svcUnfreezeAccount e x) e"

definition handleActivatePostNoDebit ::
  "svc_env \<Rightarrow> externals \<Rightarrow> string option \<Rightarrow> string \<Rightarrow> AccountControlRequest option \<Rightarrow>
   ('p world, strictJSONResponse) call" where
  "handleActivatePostNoDebit e x = handleAccountControl (svcActivatePostNoDebit e x) e"

definition handleDeactivatePostNoDebit ::
  "svc_env \<Rightarrow> externals \<Rightarrow> string option \<Rightarrow> string \<Rightarrow> AccountControlRequest option \<Rightarrow>
   ('p world, strictJSONResponse) call" where
  "handleDeactivatePostNoDebit e x = handleAccountControl (svcDeactivatePostNoDebit e x) e"

definition handlePlaceAccountLien ::
  "svc_env \<Rightarrow> externals \<Rightarrow> string option \<Rightarrow> string \<Rightarrow> AccountLienRequest option \<Rightarrow>
   ('p world, strictJSONResponse) call" where
  "handlePlaceAccountLien e x header accountID body =
     scoped e header (\<lambda>i. repoBind (repoLift (bindAccountLienRequest i accountID body))
       (\<lambda>input. answer (\<lambda>l. okResponse (BodyHold l)) (svcPlaceAccountLien e x input)))"

definition handleReleaseAccountLien ::
  "svc_env \<Rightarrow> externals \<Rightarrow> string option \<Rightarrow> string \<Rightarrow> string \<Rightarrow> ReleaseLienRequest option \<Rightarrow>
   ('p world, strictJSONResponse) call" where
  "handleReleaseAccountLien e x header accountID lienID body =
     scoped e header (\<lambda>i. repoBind (repoLift (bindReleaseLienRequest i accountID lienID body))
       (\<lambda>input. answer (\<lambda>l. okResponse (BodyHold l)) (svcReleaseAccountLien e x input)))"

definition handleListReconciliationItems ::
  "svc_env \<Rightarrow> externals \<Rightarrow> string option \<Rightarrow> ListReconciliationItemsParams \<Rightarrow>
   ('p world, strictJSONResponse) call" where
  "handleListReconciliationItems e x header params =
     scoped e header (\<lambda>i. answer (\<lambda>l. okResponse (BodyItems l))
       (svcListReconciliationItems e x i (listReconciliationItemsOptions params)))"

definition handleGetReconciliationItem ::
  "svc_env \<Rightarrow> externals \<Rightarrow> string option \<Rightarrow> string \<Rightarrow> ('p world, strictJSONResponse) call" where
  "handleGetReconciliationItem e x header transferID =
     scoped e header (\<lambda>i. answer (\<lambda>r. okResponse (BodyItem r)) (svcGetReconciliationItem e x i transferID))"

definition handleMarkReconciliationItemReviewed ::
  "svc_env \<Rightarrow> externals \<Rightarrow> string option \<Rightarrow> string \<Rightarrow> MarkReconciliationItemReviewedRequest option \<Rightarrow>
   ('p world, strictJSONResponse) call" where
  "handleMarkReconciliationItemReviewed e x header transferID body =
     scoped e header (\<lambda>i. repoBind (repoLift (bindMarkReconciliationItemReviewedRequest i transferID body))
       (\<lambda>input. answer (\<lambda>r. okResponse (BodyItem r)) (svcMarkReconciliationItemReviewed e x input)))"

section \<open>The requery route\<close>

text \<open>
  This route is decoded by hand because its body is optional.  \<open>parse\<close> is \<open>uuid.Parse\<close> with the
  canonical text of its result; \<open>body\<close> is the outcome of decoding the body.
\<close>

definition externalTransferRequeryParamsFromRequest ::
  "(string \<Rightarrow> string option) \<Rightarrow> string \<Rightarrow> string option option" where
  "externalTransferRequeryParamsFromRequest parse header =
     (let headerInstitutionID = TrimSpace header in
      if headerInstitutionID = [] then Some None
      else case parse headerInstitutionID of None \<Rightarrow> None | Some institutionID \<Rightarrow> Some (Some institutionID))"

datatype optional_body = NoBody | BadBody | GoodBody ExternalTransferRequeryRequest

definition decodeOptionalExternalRequeryBody ::
  "optional_body \<Rightarrow> ExternalTransferRequeryRequest option option" where
  "decodeOptionalExternalRequeryBody b =
     (case b of NoBody \<Rightarrow> Some None | BadBody \<Rightarrow> None | GoodBody body \<Rightarrow> Some (Some body))"

definition externalTransferRequeryHTTP ::
  "(string \<Rightarrow> string option) \<Rightarrow> 'p HTTPServer \<Rightarrow> svc_env \<Rightarrow> externals \<Rightarrow> request_ids \<Rightarrow> string \<Rightarrow> string \<Rightarrow>
   optional_body \<Rightarrow> 'p world \<Rightarrow> strictJSONResponse \<times> 'p world" where
  "externalTransferRequeryHTTP parse h e x q transferID header body w =
     (case (parse transferID, externalTransferRequeryParamsFromRequest parse header,
        decodeOptionalExternalRequeryBody body) of
        (Some k, Some institutionID, Some b) \<Rightarrow>
          served (se_tx e 0) q (handleExternalTransferRequery h e x institutionID k b) w
      | _ \<Rightarrow> (openAPIRequestError (requestID (se_tx e 0) q), w))"

end
