(* ===== verification/HandlerRuns.thy ===== *)
theory HandlerRuns
  imports Handlers
begin

text \<open>
  What a request can do: the handlers of \<open>Handlers\<close> gathered into one step per route, shown to perform at
  most one operation of \<open>System\<close>, and that on the institution of the caller.
\<close>

section \<open>The routes\<close>

datatype api_request =
    RouteSeedDemo
  | RouteCreateCustomer "string option" "CreateCustomerRequest option"
  | RouteGetCustomer "string option" string
  | RouteCreateAccount "string option" "CreateAccountRequest option"
  | RouteGetAccount "string option" string
  | RouteListCustomerAccounts "string option" string
  | RouteGetAccountBalance "string option" string
  | RouteCreateInternalCredit "string option" "InternalCreditRequest option"
  | RouteCreateInternalDebit "string option" "InternalDebitRequest option"
  | RouteCreateInternalTransfer "string option" "InternalTransferRequest option"
  | RouteExternalNameEnquiry "string option" "ExternalNameEnquiryRequest option"
  | RouteExternalOutboundTransfer "string option" "ExternalOutboundTransferRequest option"
  | RouteExternalInboundEvent "string option" "ExternalInboundEventRequest option"
  | RouteExternalTransferRequery "string option" string "ExternalTransferRequeryRequest option"
  | RouteListAccountTransactions "string option" string ListParams
  | RouteMockInboundTransfer "string option" string "MockTransferRequest option"
  | RouteMockOutboundTransfer "string option" string "MockTransferRequest option"
  | RouteGetTransfer "string option" string
  | RouteReverseTransfer "string option" string string
  | RouteGetJournal "string option" string
  | RouteListTransfers "string option" ListParams
  | RouteFreezeAccount "string option" string "AccountControlRequest option"
  | RouteUnfreezeAccount "string option" string "AccountControlRequest option"
  | RouteActivatePostNoDebit "string option" string "AccountControlRequest option"
  | RouteDeactivatePostNoDebit "string option" string "AccountControlRequest option"
  | RoutePlaceAccountLien "string option" string "AccountLienRequest option"
  | RouteReleaseAccountLien "string option" string string "ReleaseLienRequest option"
  | RouteListReconciliationItems "string option" ListReconciliationItemsParams
  | RouteGetReconciliationItem "string option" string
  | RouteMarkReconciliationItemReviewed "string option" string "MarkReconciliationItemReviewedRequest option"

fun handle ::
  "'p HTTPServer \<Rightarrow> svc_env \<Rightarrow> externals \<Rightarrow> api_request \<Rightarrow> ('p world, strictJSONResponse) call" where
  "handle h e x RouteSeedDemo = handleSeedDemo h e"
| "handle h e x (RouteCreateCustomer hdr b) = handleCreateCustomer e x hdr b"
| "handle h e x (RouteGetCustomer hdr k) = handleGetCustomer e hdr k"
| "handle h e x (RouteCreateAccount hdr b) = handleCreateAccount e x hdr b"
| "handle h e x (RouteGetAccount hdr k) = handleGetAccount e hdr k"
| "handle h e x (RouteListCustomerAccounts hdr k) = handleListCustomerAccounts e hdr k"
| "handle h e x (RouteGetAccountBalance hdr k) = handleGetAccountBalance e x hdr k"
| "handle h e x (RouteCreateInternalCredit hdr b) = handleCreateInternalCredit e x hdr b"
| "handle h e x (RouteCreateInternalDebit hdr b) = handleCreateInternalDebit e x hdr b"
| "handle h e x (RouteCreateInternalTransfer hdr b) = handleCreateInternalTransfer e x hdr b"
| "handle h e x (RouteExternalNameEnquiry hdr b) = handleExternalNameEnquiry h e hdr b"
| "handle h e x (RouteExternalOutboundTransfer hdr b) = handleExternalOutboundTransfer h e x hdr b"
| "handle h e x (RouteExternalInboundEvent hdr b) = handleExternalInboundEvent h e x hdr b"
| "handle h e x (RouteExternalTransferRequery hdr k b) = handleExternalTransferRequery h e x hdr k b"
| "handle h e x (RouteListAccountTransactions hdr k params) = handleListAccountTransactions e x hdr k params"
| "handle h e x (RouteMockInboundTransfer hdr key b) = handleMockInboundTransfer h e x hdr key b"
| "handle h e x (RouteMockOutboundTransfer hdr key b) = handleMockOutboundTransfer h e x hdr key b"
| "handle h e x (RouteGetTransfer hdr k) = handleGetTransfer e x hdr k"
| "handle h e x (RouteReverseTransfer hdr k key) = handleReverseTransfer e x hdr k key"
| "handle h e x (RouteGetJournal hdr k) = handleGetJournal e x hdr k"
| "handle h e x (RouteListTransfers hdr params) = handleListTransfers e x hdr params"
| "handle h e x (RouteFreezeAccount hdr k b) = handleFreezeAccount e x hdr k b"
| "handle h e x (RouteUnfreezeAccount hdr k b) = handleUnfreezeAccount e x hdr k b"
| "handle h e x (RouteActivatePostNoDebit hdr k b) = handleActivatePostNoDebit e x hdr k b"
| "handle h e x (RouteDeactivatePostNoDebit hdr k b) = handleDeactivatePostNoDebit e x hdr k b"
| "handle h e x (RoutePlaceAccountLien hdr k b) = handlePlaceAccountLien e x hdr k b"
| "handle h e x (RouteReleaseAccountLien hdr k l b) = handleReleaseAccountLien e x hdr k l b"
| "handle h e x (RouteListReconciliationItems hdr params) = handleListReconciliationItems e x hdr params"
| "handle h e x (RouteGetReconciliationItem hdr k) = handleGetReconciliationItem e x hdr k"
| "handle h e x (RouteMarkReconciliationItemReviewed hdr k b) = handleMarkReconciliationItemReviewed e x hdr k b"

definition served_request ::
  "'p HTTPServer \<Rightarrow> svc_env \<Rightarrow> externals \<Rightarrow> request_ids \<Rightarrow> api_request \<Rightarrow> 'p world \<Rightarrow>
   strictJSONResponse \<times> 'p world" where
  "served_request h e x q r = served (se_tx e 0) q (handle h e x r)"

text \<open>The header that names an institution; the mock routes check their body first, the seed has none.\<close>

fun route_header :: "api_request \<Rightarrow> string option option" where
  "route_header RouteSeedDemo = None"
| "route_header (RouteCreateCustomer hdr b) = Some hdr"
| "route_header (RouteGetCustomer hdr k) = Some hdr"
| "route_header (RouteCreateAccount hdr b) = Some hdr"
| "route_header (RouteGetAccount hdr k) = Some hdr"
| "route_header (RouteListCustomerAccounts hdr k) = Some hdr"
| "route_header (RouteGetAccountBalance hdr k) = Some hdr"
| "route_header (RouteCreateInternalCredit hdr b) = Some hdr"
| "route_header (RouteCreateInternalDebit hdr b) = Some hdr"
| "route_header (RouteCreateInternalTransfer hdr b) = Some hdr"
| "route_header (RouteExternalNameEnquiry hdr b) = Some hdr"
| "route_header (RouteExternalOutboundTransfer hdr b) = Some hdr"
| "route_header (RouteExternalInboundEvent hdr b) = Some hdr"
| "route_header (RouteExternalTransferRequery hdr k b) = Some hdr"
| "route_header (RouteListAccountTransactions hdr k params) = Some hdr"
| "route_header (RouteMockInboundTransfer hdr key b) = None"
| "route_header (RouteMockOutboundTransfer hdr key b) = None"
| "route_header (RouteGetTransfer hdr k) = Some hdr"
| "route_header (RouteReverseTransfer hdr k key) = Some hdr"
| "route_header (RouteGetJournal hdr k) = Some hdr"
| "route_header (RouteListTransfers hdr params) = Some hdr"
| "route_header (RouteFreezeAccount hdr k b) = Some hdr"
| "route_header (RouteUnfreezeAccount hdr k b) = Some hdr"
| "route_header (RouteActivatePostNoDebit hdr k b) = Some hdr"
| "route_header (RouteDeactivatePostNoDebit hdr k b) = Some hdr"
| "route_header (RoutePlaceAccountLien hdr k b) = Some hdr"
| "route_header (RouteReleaseAccountLien hdr k l b) = Some hdr"
| "route_header (RouteListReconciliationItems hdr params) = Some hdr"
| "route_header (RouteGetReconciliationItem hdr k) = Some hdr"
| "route_header (RouteMarkReconciliationItemReviewed hdr k b) = Some hdr"

lemmas handler_defs =
  handleSeedDemo_def handleCreateCustomer_def handleGetCustomer_def handleCreateAccount_def
  handleGetAccount_def handleListCustomerAccounts_def handleGetAccountBalance_def
  handleCreateInternalCredit_def handleCreateInternalDebit_def handleCreateInternalTransfer_def
  handleExternalNameEnquiry_def handleExternalOutboundTransfer_def handleExternalInboundEvent_def
  handleExternalTransferRequery_def handleListAccountTransactions_def handleMockInboundTransfer_def
  handleMockOutboundTransfer_def handleGetTransfer_def handleReverseTransfer_def handleGetJournal_def
  handleListTransfers_def handleFreezeAccount_def handleUnfreezeAccount_def
  handleActivatePostNoDebit_def handleDeactivatePostNoDebit_def handleAccountControl_def
  handlePlaceAccountLien_def handleReleaseAccountLien_def handleListReconciliationItems_def
  handleGetReconciliationItem_def handleMarkReconciliationItemReviewed_def

section \<open>Requests that stop at the door\<close>

lemma scoped_refused: "institutionScope (se_tx e 0) hdr = Inl err \<Longrightarrow> scoped e hdr act w = (Inl err, w)"
  by (simp add: scoped_def repoBind_def)

lemma handle_scoped: "route_header r = Some hdr \<Longrightarrow> \<exists>act. handle h e x r = scoped e hdr act"
  by (cases r; simp; (unfold handler_defs)?; blast)

lemma served_refused:
  assumes "route_header r = Some hdr" and "institutionScope (se_tx e 0) hdr = Inl err" and "err \<noteq> panic"
  shows "served_request h e x q r w = (respondError (requestID (se_tx e 0) q) err, w)"
proof -
  obtain act where "handle h e x r = scoped e hdr act" using handle_scoped [OF assms(1)] by blast
  then show ?thesis using assms(2,3) by (simp add: served_request_def served_def scoped_refused)
qed

section \<open>Calls that only read\<close>

interpretation still: call_relation "(=)"
  by unfold_locales auto

lemma still_read: "still.keeps (readDB m)"
  by (rule still.keeps_still) simp

lemma still_onStore: "still.keeps m \<Longrightarrow> still.keeps (onStore m)"
  by (auto simp: still.keeps_def onStore_def split: prod.splits) (metis snd_conv)

lemma still_D: "still.keeps m \<Longrightarrow> snd (m w) = w"
  using still.keepsD [of m w] by simp

lemmas repository_reads =
  GetCustomer_def GetAccount_def ListAccountsByCustomer_def GetBalance_def ListTransactions_def
  GetTransfer_def ListTransfers_def ListReconciliationItems_def GetReconciliationItem_def

lemmas still_rules = still.keeps_rules still_onStore still_read

lemma still_queries:
  "still.keeps (svcGetCustomer i k)" "still.keeps (svcGetAccount i k)"
  "still.keeps (svcListCustomerAccounts i k)" "still.keeps (svcGetBalance x i k)"
  "still.keeps (svcGetTransactions x i k options)" "still.keeps (svcGetTransfer x i k)"
  "still.keeps (svcListTransfers x i options)" "still.keeps (svcListReconciliationItems e x i roptions)"
  "still.keeps (svcGetReconciliationItem e x i k)" "still.keeps (svcGetJournal x i k)"
  unfolding svcGetCustomer_def svcGetAccount_def svcListCustomerAccounts_def svcGetBalance_def
    svcGetTransactions_def svcGetTransfer_def svcListTransfers_def svcListReconciliationItems_def
    svcGetReconciliationItem_def svcGetJournal_def Let_def repository_reads
  by (intro still_rules)+

section \<open>A request performs at most one operation\<close>

text \<open>\<open>acts\<close>: a call that leaves the world alone or performs one operation that satisfies the predicate.\<close>

definition acts ::
  "'p service \<Rightarrow> svc_env \<Rightarrow> externals \<Rightarrow> (operation \<Rightarrow> bool) \<Rightarrow> ('p world, 'a) call \<Rightarrow> bool" where
  "acts sv e x P m \<longleftrightarrow> (\<forall>w. snd (m w) = w \<or> (\<exists>op. P op \<and> snd (m w) = performed sv e x op w))"

lemma acts_D:
  assumes "acts sv e x P m"
  obtains "snd (m w) = w" | op where "P op" "snd (m w) = performed sv e x op w"
  using assms unfolding acts_def by blast

lemma acts_still: "still.keeps m \<Longrightarrow> acts sv e x P m"
  by (simp add: acts_def still_D)

lemma acts_op: "P op \<Longrightarrow> performed sv e x op = ran m \<Longrightarrow> acts sv e x P m"
  by (auto simp: acts_def ran_def)

lemma acts_fail: "acts sv e x P (repoFail err)"
  by (rule acts_still) (rule still.keeps_fail)

lemma acts_answer: "acts sv e x P m \<Longrightarrow> acts sv e x P (answer f m)"
  by (auto simp: acts_def answer_def snd_repoBind split: sum.splits)

lemma acts_bind:
  assumes "\<And>v. r = Inr v \<Longrightarrow> acts sv e x P (f v)"
  shows "acts sv e x P (repoBind (repoLift r) f)"
  using assms by (cases r) (simp_all add: acts_def repoBind_def)

lemma acts_scoped:
  assumes "\<And>i. institutionScope (se_tx e 0) hdr = Inr i \<Longrightarrow> acts sv e x P (act i)"
  shows "acts sv e x P (scoped e hdr act)"
  unfolding scoped_def by (rule acts_bind) (rule assms)

lemma acts_if: "(c \<Longrightarrow> acts sv e x P m) \<Longrightarrow> (\<not> c \<Longrightarrow> acts sv e x P n) \<Longrightarrow> acts sv e x P (if c then m else n)"
  by simp

text \<open>The institution of the caller, and the operations a request of his may perform.\<close>

definition caller :: "env \<Rightarrow> string" where
  "caller e = (case PrincipalFromContext e of None \<Rightarrow> [] | Some p \<Rightarrow> TrimSpace (pr_InstitutionID p))"

lemma scope_is_caller: "institutionScope e hdr = Inr i \<Longrightarrow> i = caller e"
  by (auto simp: institutionScope_def institutionScopeString_def caller_def Let_def split: option.splits if_splits)

lemma caller_trimmed [simp]: "TrimSpace (caller e) = caller e"
  by (simp add: caller_def split: option.splits)

fun permitted :: "env \<Rightarrow> api_request \<Rightarrow> operation \<Rightarrow> bool" where
  "permitted e RouteSeedDemo op \<longleftrightarrow> op = OpSeedDemo \<and> caller e = DemoInstitutionID"
| "permitted e (RouteMockInboundTransfer hdr key b) op \<longleftrightarrow>
     (\<exists>req. op = OpMockInbound req \<and> req_InstitutionID req = caller e \<and> caller e \<noteq> [])"
| "permitted e r op \<longleftrightarrow> op_institution op = Some (caller e) \<and> caller e \<noteq> []"

lemma scoped_permitted:
  assumes "\<And>i. institutionScope (se_tx e 0) hdr = Inr i \<Longrightarrow> i = caller (se_tx e 0) \<Longrightarrow> i \<noteq> [] \<Longrightarrow>
    acts sv e x P (act i)"
  shows "acts sv e x P (scoped e hdr act)"
  by (rule acts_scoped) (use assms scope_is_caller institutionScope_Inr in blast)

lemma seed_scope: "institutionScopeString e DemoInstitutionID = Inr i \<Longrightarrow> caller e = DemoInstitutionID"
  using scope_is_caller [of e "Some DemoInstitutionID" i]
  by (auto simp: institutionScope_def institutionScopeString_def Let_def DemoInstitution_trimmed caller_def
      split: option.splits if_splits) (simp_all add: DemoInstitutionID_def)

lemma mock_scope:
  assumes "bindMockTransferRequest e body hdr key = Inr req"
  shows "req_InstitutionID req = caller e \<and> caller e \<noteq> []"
proof -
  obtain i where "institutionScope e hdr = Inr i" "req_InstitutionID req = i"
    using bindMockTransferRequest_Inr [OF assms] by blast
  then show ?thesis using scope_is_caller [of e hdr i] institutionScope_Inr [of e hdr i] by simp
qed

lemma institutionIDOrDemo_id: "TrimSpace i = i \<Longrightarrow> i \<noteq> [] \<Longrightarrow> institutionIDOrDemo i = i"
  by (simp add: institutionIDOrDemo_def Let_def)

lemma handle_reads:
  "acts sv e x P (handle h e x (RouteGetCustomer hdr k))"
  "acts sv e x P (handle h e x (RouteGetAccount hdr k))"
  "acts sv e x P (handle h e x (RouteListCustomerAccounts hdr k))"
  "acts sv e x P (handle h e x (RouteGetAccountBalance hdr k))"
  "acts sv e x P (handle h e x (RouteListAccountTransactions hdr k params))"
  "acts sv e x P (handle h e x (RouteGetTransfer hdr k))"
  "acts sv e x P (handle h e x (RouteGetJournal hdr k))"
  "acts sv e x P (handle h e x (RouteListTransfers hdr params))"
  "acts sv e x P (handle h e x (RouteListReconciliationItems hdr rparams))"
  "acts sv e x P (handle h e x (RouteGetReconciliationItem hdr k))"
  unfolding handle.simps handler_defs
  by (rule acts_scoped acts_answer acts_still still_queries)+

lemma handle_internal:
  "acts (hs_service h) e x (permitted (se_tx e 0) (RouteCreateCustomer hdr b1)) (handle h e x (RouteCreateCustomer hdr b1))"
  "acts (hs_service h) e x (permitted (se_tx e 0) (RouteCreateAccount hdr b2)) (handle h e x (RouteCreateAccount hdr b2))"
  "acts (hs_service h) e x (permitted (se_tx e 0) (RouteCreateInternalCredit hdr b3)) (handle h e x (RouteCreateInternalCredit hdr b3))"
  "acts (hs_service h) e x (permitted (se_tx e 0) (RouteCreateInternalDebit hdr b4)) (handle h e x (RouteCreateInternalDebit hdr b4))"
  "acts (hs_service h) e x (permitted (se_tx e 0) (RouteCreateInternalTransfer hdr b5)) (handle h e x (RouteCreateInternalTransfer hdr b5))"
  "acts (hs_service h) e x (permitted (se_tx e 0) (RouteReverseTransfer hdr k key)) (handle h e x (RouteReverseTransfer hdr k key))"
  unfolding handle.simps handler_defs
  by (intro scoped_permitted acts_bind acts_answer acts_op [OF _ performed.simps(2)]
      acts_op [OF _ performed.simps(3)] acts_op [OF _ performed.simps(4)] acts_op [OF _ performed.simps(5)]
      acts_op [OF _ performed.simps(6)] acts_op [OF _ performed.simps(7)];
      simp add: bound_institution)+

lemma handle_external:
  "acts (hs_service h) e x (permitted (se_tx e 0) (RouteExternalNameEnquiry hdr b1)) (handle h e x (RouteExternalNameEnquiry hdr b1))"
  "acts (hs_service h) e x (permitted (se_tx e 0) (RouteExternalOutboundTransfer hdr b2)) (handle h e x (RouteExternalOutboundTransfer hdr b2))"
  "acts (hs_service h) e x (permitted (se_tx e 0) (RouteExternalInboundEvent hdr b3)) (handle h e x (RouteExternalInboundEvent hdr b3))"
  "acts (hs_service h) e x (permitted (se_tx e 0) (RouteExternalTransferRequery hdr k b4)) (handle h e x (RouteExternalTransferRequery hdr k b4))"
  unfolding handle.simps handler_defs
  by (intro scoped_permitted acts_bind acts_answer acts_op [OF _ performed.simps(11)]
      acts_op [OF _ performed.simps(12)] acts_op [OF _ performed.simps(13)] acts_op [OF _ performed.simps(14)];
      simp add: bound_institution)+

lemma handle_controls:
  "acts (hs_service h) e x (permitted (se_tx e 0) (RouteFreezeAccount hdr k b1)) (handle h e x (RouteFreezeAccount hdr k b1))"
  "acts (hs_service h) e x (permitted (se_tx e 0) (RouteUnfreezeAccount hdr k b1)) (handle h e x (RouteUnfreezeAccount hdr k b1))"
  "acts (hs_service h) e x (permitted (se_tx e 0) (RouteActivatePostNoDebit hdr k b1)) (handle h e x (RouteActivatePostNoDebit hdr k b1))"
  "acts (hs_service h) e x (permitted (se_tx e 0) (RouteDeactivatePostNoDebit hdr k b1)) (handle h e x (RouteDeactivatePostNoDebit hdr k b1))"
  "acts (hs_service h) e x (permitted (se_tx e 0) (RoutePlaceAccountLien hdr k b2)) (handle h e x (RoutePlaceAccountLien hdr k b2))"
  "acts (hs_service h) e x (permitted (se_tx e 0) (RouteReleaseAccountLien hdr k l b3)) (handle h e x (RouteReleaseAccountLien hdr k l b3))"
  "acts (hs_service h) e x (permitted (se_tx e 0) (RouteMarkReconciliationItemReviewed hdr k b4)) (handle h e x (RouteMarkReconciliationItemReviewed hdr k b4))"
  unfolding handle.simps handler_defs
  by (intro scoped_permitted acts_bind acts_answer acts_op [OF _ performed.simps(15)]
      acts_op [OF _ performed.simps(16)] acts_op [OF _ performed.simps(17)] acts_op [OF _ performed.simps(18)]
      acts_op [OF _ performed.simps(19)] acts_op [OF _ performed.simps(20)] acts_op [OF _ performed.simps(21)];
      simp add: bound_institution)+

lemma handle_demo:
  "acts (hs_service h) e x (permitted (se_tx e 0) RouteSeedDemo) (handle h e x RouteSeedDemo)"
  "acts (hs_service h) e x (permitted (se_tx e 0) (RouteMockInboundTransfer hdr key b)) (handle h e x (RouteMockInboundTransfer hdr key b))"
  "acts (hs_service h) e x (permitted (se_tx e 0) (RouteMockOutboundTransfer hdr key b)) (handle h e x (RouteMockOutboundTransfer hdr key b))"
  unfolding handle.simps handler_defs
  by (intro acts_if acts_fail acts_bind acts_answer acts_op [OF _ performed.simps(1)]
      acts_op [OF _ performed.simps(8)] acts_op [OF _ performed.simps(9)];
      auto dest: seed_scope mock_scope simp: institutionIDOrDemo_id)+

lemma handle_acts: "acts (hs_service h) e x (permitted (se_tx e 0) r) (handle h e x r)"
  by (cases r) (simp_all only: handle_reads handle_internal handle_external handle_controls handle_demo)

lemma served_world: "snd (served_request h e x q r w) = snd (handle h e x r w)"
  by (simp add: served_request_def served_def split: prod.splits sum.splits)

end
