(* ===== verification/Authn.thy ===== *)
theory Authn
  imports AuditTrail
begin

text \<open>
  Package \<open>authn\<close> (\<open>authn.go\<close>, \<open>principal.go\<close>): the development token, the principal it stands for, and
  the middleware that admits a request or refuses it; \<open>CSV\<close> lists and the host of \<open>RemoteAddr\<close> are read as
  the standard library reads them.
\<close>

type_synonym getenv = "string \<Rightarrow> string"

datatype AuthScope = AuthRequiredScope | AuthOptionalScope

definition EnvDevAuthToken :: string where "EnvDevAuthToken = ''LENZ_DEV_AUTH_TOKEN''"
definition EnvDevInstitutionID :: string where "EnvDevInstitutionID = ''LENZ_DEV_INSTITUTION_ID''"
definition EnvDevActorType :: string where "EnvDevActorType = ''LENZ_DEV_ACTOR_TYPE''"
definition EnvDevActorID :: string where "EnvDevActorID = ''LENZ_DEV_ACTOR_ID''"
definition EnvDevAuthRoles :: string where "EnvDevAuthRoles = ''LENZ_DEV_AUTH_ROLES''"
definition EnvDevAuthScopes :: string where "EnvDevAuthScopes = ''LENZ_DEV_AUTH_SCOPES''"
definition EnvAppEnv :: string where "EnvAppEnv = ''APP_ENV''"
definition EnvEnv :: string where "EnvEnv = ''ENV''"

definition defaultDevInstitutionID :: string where
  "defaultDevInstitutionID = ''11111111-1111-1111-1111-111111111111''"

section \<open>The guard of the configuration\<close>

definition requiresAuth :: "AuthScope list \<Rightarrow> bool" where
  "requiresAuth scopes \<longleftrightarrow> AuthRequiredScope \<in> set scopes"

definition productionEnv :: "string \<Rightarrow> bool" where
  "productionEnv v = (let v = ToLower (TrimSpace v) in v = ''production'' \<or> v = ''prod'')"

definition guardMessage :: string where
  "guardMessage = EnvDevAuthToken @
     '' development-token auth is disabled in production; production requires real auth/RBAC before enabling non-health routes''"

definition ValidateDevelopmentAuthGuard :: "getenv \<Rightarrow> AuthScope list \<Rightarrow> string option" where
  "ValidateDevelopmentAuthGuard getenv scopes =
     (if \<not> requiresAuth scopes then None
      else if productionEnv (getenv EnvAppEnv) \<or> productionEnv (getenv EnvEnv) then Some guardMessage
      else None)"

section \<open>Requests\<close>

record http_request =
  hr_Path :: string
  hr_Authorization :: string
  hr_RemoteAddr :: string
  hr_UserAgent :: string

definition isPublicPath :: "string \<Rightarrow> bool" where
  "isPublicPath path \<longleftrightarrow> path = ''/api/v1/health'' \<or> path = ''/api/v1/readyz''"

definition getTokenFromHeader :: "http_request \<Rightarrow> string" where
  "getTokenFromHeader r =
     (let v = TrimSpace (hr_Authorization r) in
      if length v < length ''Bearer '' \<or> \<not> EqualFold (take 6 v) ''Bearer'' then []
      else if v ! 6 \<noteq> CHR 0x20 then []
      else TrimSpace (drop 7 v))"

fun VerifyTokens :: "http_request \<Rightarrow> (http_request \<Rightarrow> string) list \<Rightarrow> string" where
  "VerifyTokens r [] = []"
| "VerifyTokens r (f # fs) = (let t = f r in if t \<noteq> [] then t else VerifyTokens r fs)"

text \<open>\<open>net.SplitHostPort\<close>\<close>

definition SplitHostPort :: "string \<Rightarrow> (string \<times> string) option" where
  "SplitHostPort s =
     (let port = rev (takeWhile (\<lambda>c. c \<noteq> CHR '':'') (rev s));
          front = take (length s - length port - 1) s;
          inner = takeWhile (\<lambda>c. c \<noteq> CHR '']'') s
      in if CHR '':'' \<notin> set s then None
      else if hd s = CHR ''['' then
        if CHR '']'' \<notin> set s \<or> length front \<noteq> length inner + 1 \<or> CHR ''['' \<in> set (tl s) \<or>
           CHR '']'' \<in> set (drop (length inner + 1) s)
        then None else Some (tl inner, port)
      else if CHR '':'' \<in> set front \<or> CHR ''['' \<in> set s \<or> CHR '']'' \<in> set s
        then None else Some (front, port))"

definition requestSourceIP :: "http_request \<Rightarrow> string" where
  "requestSourceIP r =
     (case SplitHostPort (TrimSpace (hr_RemoteAddr r)) of
        Some (host, port) \<Rightarrow> host | None \<Rightarrow> TrimSpace (hr_RemoteAddr r))"

section \<open>The principal of the development token\<close>

text \<open>Split on commas, trim, keep what is not empty.\<close>

definition csv_items :: "string \<Rightarrow> string list" where
  "csv_items raw = filter (\<lambda>item. item \<noteq> []) (map TrimSpace (split_on (CHR '','') raw))"

definition envCSV :: "getenv \<Rightarrow> string \<Rightarrow> string list \<Rightarrow> string list" where
  "envCSV getenv name fallback = (let out = csv_items (getenv name) in if out = [] then fallback else out)"

definition validDevelopmentToken :: "getenv \<Rightarrow> string \<Rightarrow> bool" where
  "validDevelopmentToken getenv token =
     (let expected = TrimSpace (getenv EnvDevAuthToken); token = TrimSpace token in
      expected \<noteq> [] \<and> length token = length expected \<and> token = expected)"

definition trimmedEnvOr :: "getenv \<Rightarrow> string \<Rightarrow> string \<Rightarrow> string" where
  "trimmedEnvOr getenv name dflt = (let v = TrimSpace (getenv name) in if v = [] then dflt else v)"

definition developmentPrincipal :: "getenv \<Rightarrow> string \<Rightarrow> Principal option" where
  "developmentPrincipal getenv token =
     (if \<not> validDevelopmentToken getenv token then None
      else Some \<lparr>pr_InstitutionID = trimmedEnvOr getenv EnvDevInstitutionID defaultDevInstitutionID,
        pr_ActorType = trimmedEnvOr getenv EnvDevActorType ''dev_user'',
        pr_ActorID = trimmedEnvOr getenv EnvDevActorID ''dev-user'',
        pr_Roles = envCSV getenv EnvDevAuthRoles [''developer''],
        pr_Scopes = envCSV getenv EnvDevAuthScopes [''corebanking:read'', ''corebanking:write''],
        pr_SourceIP = [], pr_UserAgent = []\<rparr>)"

text \<open>
  What the middleware does with a request: it refuses it with status 401, or hands it on with the
  principal of the context, if any.
\<close>

datatype admission = Refused | Admitted "Principal option"

definition Authentication :: "getenv \<Rightarrow> AuthScope list \<Rightarrow> http_request \<Rightarrow> admission" where
  "Authentication getenv scopes r =
     (if isPublicPath (hr_Path r) then Admitted None
      else
        let token = VerifyTokens r [getTokenFromHeader] in
        if \<not> requiresAuth scopes \<and> token = [] then Admitted None
        else case developmentPrincipal getenv token of
          None \<Rightarrow> Refused
        | Some pr \<Rightarrow> Admitted (Some (pr\<lparr>pr_SourceIP := requestSourceIP r,
            pr_UserAgent := TrimSpace (hr_UserAgent r)\<rparr>)))"

text \<open>\<open>ContextWithPrincipal\<close> for the contexts the request handler hands to the repository.\<close>

definition ContextWithPrincipal :: "env \<Rightarrow> Principal option \<Rightarrow> env" where
  "ContextWithPrincipal e p = (case p of None \<Rightarrow> e\<lparr>env_principal := None\<rparr> | Some q \<Rightarrow> e\<lparr>env_principal := Some q\<rparr>)"

section \<open>Facts\<close>

lemma csv_items_clean: "item \<in> set (csv_items raw) \<Longrightarrow> item \<noteq> [] \<and> TrimSpace item = item"
  by (auto simp: csv_items_def)

lemma trimmedEnvOr_clean:
  "TrimSpace dflt = dflt \<Longrightarrow> dflt \<noteq> [] \<Longrightarrow> trimmedEnvOr getenv name dflt \<noteq> [] \<and>
     TrimSpace (trimmedEnvOr getenv name dflt) = trimmedEnvOr getenv name dflt"
  by (simp add: trimmedEnvOr_def Let_def)

lemma default_institution_clean:
  "TrimSpace defaultDevInstitutionID = defaultDevInstitutionID" "defaultDevInstitutionID \<noteq> []"
  by (code_simp, simp add: defaultDevInstitutionID_def)

lemma validDevelopmentToken_iff:
  "validDevelopmentToken getenv token \<longleftrightarrow>
     TrimSpace token = TrimSpace (getenv EnvDevAuthToken) \<and> TrimSpace token \<noteq> []"
  by (auto simp: validDevelopmentToken_def Let_def)

lemma VerifyTokens_header [simp]: "VerifyTokens r [getTokenFromHeader] = getTokenFromHeader r"
  by (simp add: Let_def)

lemma Authentication_refused:
  "Authentication getenv scopes r = Refused \<longleftrightarrow>
     \<not> isPublicPath (hr_Path r) \<and> (requiresAuth scopes \<or> getTokenFromHeader r \<noteq> []) \<and>
     \<not> validDevelopmentToken getenv (getTokenFromHeader r)"
  by (simp add: Authentication_def Let_def developmentPrincipal_def)

lemma getTokenFromHeader_trimmed [simp]: "TrimSpace (getTokenFromHeader r) = getTokenFromHeader r"
  by (simp add: getTokenFromHeader_def Let_def)

text \<open>An admitted principal has an institution, so the handlers find it in the context.\<close>

lemma Authentication_principal:
  assumes "Authentication getenv scopes r = Admitted (Some p)"
  shows "pr_InstitutionID p = trimmedEnvOr getenv EnvDevInstitutionID defaultDevInstitutionID"
    and "pr_InstitutionID p \<noteq> []" and "TrimSpace (pr_InstitutionID p) = pr_InstitutionID p"
    and "getTokenFromHeader r = TrimSpace (getenv EnvDevAuthToken)" and "getTokenFromHeader r \<noteq> []"
  using assms trimmedEnvOr_clean [OF default_institution_clean, of getenv EnvDevInstitutionID]
  by (auto simp: Authentication_def developmentPrincipal_def validDevelopmentToken_iff Let_def
      split: if_splits option.splits)

lemma PrincipalFromContext_set:
  "pr_InstitutionID p \<noteq> [] \<Longrightarrow> PrincipalFromContext (ContextWithPrincipal e (Some p)) = Some p"
  by (simp add: PrincipalFromContext_def ContextWithPrincipal_def)

end
