(* ===== verification/ApiProperties.thy ===== *)
theory ApiProperties
  imports HandlerRuns SystemExample Startup
begin

text \<open>
  What the HTTP layer and the start of the server promise: who is let in, what a request may touch, and
  with which environment the server runs at all.
\<close>

section \<open>The example\<close>

definition demo_server :: "MockNIPProvider HTTPServer" where
  "demo_server = NewHandler demo_service []"

definition demo_principal :: Principal where
  "demo_principal =
     \<lparr>pr_InstitutionID = ''I'', pr_ActorType = ''dev_user'', pr_ActorID = ''dev-user'', pr_Roles = [],
      pr_Scopes = [], pr_SourceIP = [], pr_UserAgent = []\<rparr>"

definition demo_caller_env :: "Principal option \<Rightarrow> svc_env" where
  "demo_caller_env p =
     \<lparr>se_tx = (\<lambda>k. ContextWithPrincipal (demo_env ''q'' 5000) p), se_provider = (\<lambda>k. demo_provider_env ''q'' 5000)\<rparr>"

definition demo_ids :: request_ids where
  "demo_ids = \<lparr>rq_XRequestID = [], rq_random = ''random''\<rparr>"

definition demo_getenv :: "string \<Rightarrow> string" where
  "demo_getenv name =
     (if name = EnvDevAuthToken then ''token'' else if name = EnvDevInstitutionID then ''I''
      else if name = EnvAppEnv then ''development'' else if name = EnvDemoMode then ''true'' else [])"

definition demo_http_request :: http_request where
  "demo_http_request =
     \<lparr>hr_Path = ''/api/v1/transfers'', hr_Authorization = ''bearer token'', hr_RemoteAddr = ''127.0.0.1:9'',
      hr_UserAgent = ''curl''\<rparr>"

lemma demo_server_service: "hs_service demo_server = demo_service"
  by (simp add: demo_server_def NewHandler_def)

lemma demo_service_reachable: "reachable (hs_service demo_server) demo_externals demo_credited"
  by (simp add: demo_server_service demo_reachable)

section \<open>Properties\<close>

text \<open>
  A request, whatever its route, caller, parameters and body, leaves the service in a reachable state,
  so that every invariant of the books holds after any sequence of HTTP requests.
\<close>

theorem requests_stay_reachable:
  assumes "reachable (hs_service h) x w"
  shows "reachable (hs_service h) x (snd (served_request h e x q r w))"
proof (rule acts_D [OF handle_acts [of h e x r], of w])
  assume "snd (handle h e x r w) = w"
  then show ?thesis using assms by (simp add: served_world)
next
  fix op
  assume "snd (handle h e x r w) = performed (hs_service h) e x op w"
  then show ?thesis using reachable.perform [OF assms] by (simp add: served_world)
qed

theorem requests_stay_reachable_witness:
  "reachable (hs_service demo_server) demo_externals
     (snd (served_request demo_server (demo_caller_env (Some demo_principal)) demo_externals demo_ids
       (RouteReverseTransfer None ''1xt'' ''k9'') demo_credited))"
  by (rule requests_stay_reachable [OF demo_service_reachable])

text \<open>
  A request without a principal is answered with 401 and changes nothing, on every route but the demo
  ones, which are closed or check their body first.
\<close>

theorem unauthenticated_request_is_refused:
  assumes "route_header r = Some hdr" and "PrincipalFromContext (se_tx e 0) = None"
  shows "served_request h e x q r w =
    (writeErrorWithRequestID 401 ''unauthorized'' (requestID (se_tx e 0) q), w)"
proof -
  have "institutionScope (se_tx e 0) hdr = Inl ErrUnauthorized"
    using assms(2) by (simp add: institutionScope_def institutionScopeString_def)
  from served_refused [OF assms(1) this] show ?thesis by (simp add: panic_def respondError_def)
qed

theorem unauthenticated_request_is_refused_witness:
  "served_request demo_server (demo_caller_env None) demo_externals demo_ids
     (RouteGetTransfer None ''1xt'') demo_credited =
   (writeErrorWithRequestID 401 ''unauthorized'' (requestID (se_tx (demo_caller_env None) 0) demo_ids), demo_credited)"
  by (rule unauthenticated_request_is_refused [where hdr = None])
    (simp_all add: demo_caller_env_def ContextWithPrincipal_def PrincipalFromContext_def)

text \<open>
  C22: a request whose header names an institution other than the caller's is answered with 403 and changes
  nothing.
\<close>

theorem foreign_institution_is_forbidden:
  assumes "route_header r = Some (Some header)" and "caller (se_tx e 0) \<noteq> []"
    and "TrimSpace header \<noteq> []" and "TrimSpace header \<noteq> caller (se_tx e 0)"
  shows "served_request h e x q r w =
    (writeErrorWithRequestID 403 ''forbidden'' (requestID (se_tx e 0) q), w)"
proof -
  have "institutionScope (se_tx e 0) (Some header) = Inl ErrForbidden"
    using assms(2-4)
    by (cases "PrincipalFromContext (se_tx e 0)")
      (simp_all add: institutionScope_def institutionScopeString_def caller_def Let_def)
  from served_refused [OF assms(1) this] show ?thesis
    by (simp add: panic_def respondError_def errors_Is_def)
qed

theorem foreign_institution_is_forbidden_witness:
  "served_request demo_server (demo_caller_env (Some demo_principal)) demo_externals demo_ids
     (RouteGetTransfer (Some ''J'') ''1xt'') demo_credited =
   (writeErrorWithRequestID 403 ''forbidden''
      (requestID (se_tx (demo_caller_env (Some demo_principal)) 0) demo_ids), demo_credited)"
  by (rule foreign_institution_is_forbidden [where header = "''J''"]) code_simp+

text \<open>
  C23: whatever a caller of one institution requests on the API's routes, no account, balance, transfer,
  journal, posting, hold, provider event, audit event or customer of another institution is added or changed.
\<close>

theorem requests_touch_only_the_callers_institution:
  assumes "reachable (hs_service h) x w" and "route_header r = Some hdr" and "j \<noteq> caller (se_tx e 0)"
  shows "tenant_rows j (fst (snd (served_request h e x q r w))) = tenant_rows j (fst w)"
proof (rule acts_D [OF handle_acts [of h e x r], of w])
  assume "snd (handle h e x r w) = w"
  then show ?thesis by (simp add: served_world)
next
  fix op
  assume p: "permitted (se_tx e 0) r op" and s: "snd (handle h e x r w) = performed (hs_service h) e x op w"
  have "op_institution op = Some (caller (se_tx e 0))" using p assms(2) by (cases r) auto
  from performed_tenants [OF assms(1) this assms(3)] show ?thesis by (simp add: served_world s)
qed

theorem requests_touch_only_the_callers_institution_witness:
  "tenant_rows ''J'' (fst (snd (served_request demo_server (demo_caller_env (Some demo_principal))
     demo_externals demo_ids (RouteReverseTransfer None ''1xt'' ''k9'') demo_credited))) =
   tenant_rows ''J'' (fst demo_credited)"
  by (rule requests_touch_only_the_callers_institution [OF demo_service_reachable, where hdr = None])
    (simp, code_simp)

text \<open>
  C24: a request of a private path is refused exactly when its bearer token, trimmed, is not the configured
  development token, or no token is configured at all.
\<close>

theorem only_the_configured_token_is_admitted:
  "Authentication getenv [AuthRequiredScope] r = Refused \<longleftrightarrow>
     \<not> isPublicPath (hr_Path r) \<and>
     \<not> (getTokenFromHeader r = TrimSpace (getenv EnvDevAuthToken) \<and> getTokenFromHeader r \<noteq> [])"
  by (simp add: Authentication_refused validDevelopmentToken_iff requiresAuth_def)

text \<open>
  C25: an admitted private request acts for the configured institution, and for no other: with a matching
  header or none its scope is that institution, with any other header it is forbidden.
\<close>

theorem admitted_request_has_one_institution:
  assumes "Authentication getenv scopes r = Admitted (Some p)"
  shows "institutionScopeString (ContextWithPrincipal e (Some p)) header =
    (if TrimSpace header = [] \<or> TrimSpace header = trimmedEnvOr getenv EnvDevInstitutionID defaultDevInstitutionID
     then Inr (trimmedEnvOr getenv EnvDevInstitutionID defaultDevInstitutionID) else Inl ErrForbidden)"
proof -
  note p = Authentication_principal [OF assms]
  show ?thesis
    unfolding institutionScopeString_def PrincipalFromContext_set [OF p(2)] p(1) [symmetric]
    using p(2,3) by (simp add: Let_def)
qed

theorem admitted_request_has_one_institution_witness:
  "\<exists>p. Authentication demo_getenv [AuthRequiredScope] demo_http_request = Admitted (Some p) \<and>
     institutionScopeString (ContextWithPrincipal (demo_env ''q'' 5000) (Some p)) ''J'' = Inl ErrForbidden"
proof -
  obtain p where p: "Authentication demo_getenv [AuthRequiredScope] demo_http_request = Admitted (Some p)"
    by (rule that [of "demo_principal\<lparr>pr_Roles := [''developer''], pr_SourceIP := ''127.0.0.1'', pr_UserAgent := ''curl'',
      pr_Scopes := [''corebanking:read'', ''corebanking:write'']\<rparr>"]) code_simp
  have "TrimSpace ''J'' = ''J''" "trimmedEnvOr demo_getenv EnvDevInstitutionID defaultDevInstitutionID = ''I''"
    by code_simp+
  with admitted_request_has_one_institution [OF p, of "demo_env ''q'' 5000" "''J''"] p show ?thesis by auto
qed

text \<open>
  C26: a server that starts with authentication required does not run in production, by neither of the two
  variables, and it serves the demo routes only when they were asked for in a development environment.
\<close>

theorem started_server_is_not_production:
  assumes "started parseDuration connect getenv [AuthRequiredScope] = Inr (origins, demoRoutes)"
  shows "\<not> productionEnv (getenv EnvAppEnv) \<and> \<not> productionEnv (getenv EnvEnv) \<and> \<not> isProductionEnv getenv \<and>
    demoRoutes = (envBool (getenv EnvDemoMode) \<and>
      effectiveAppEnv getenv \<in> {[], ''development'', ''dev'', ''local'', ''test''})"
  using assms production_seen [of getenv]
  by (auto simp: started_def ValidateDevelopmentAuthGuard_def requiresAuth_def DemoRoutesEnabledFromEnv_def Let_def
      split: if_splits)

theorem started_server_is_not_production_witness:
  "\<exists>origins. started (\<lambda>s. None) (\<lambda>url. None) demo_getenv [AuthRequiredScope] = Inr (origins, True) \<and>
     \<not> productionEnv (demo_getenv EnvAppEnv) \<and> envBool (demo_getenv EnvDemoMode)"
proof -
  obtain origins where o: "started (\<lambda>s. None) (\<lambda>url. None) demo_getenv [AuthRequiredScope] = Inr (origins, True)"
    by (rule that [of "\<lparr>co_AllowedOrigins = defaultDevAllowedOrigins,
        co_AllowedMethods = [''GET'', ''POST'', ''DELETE'', ''OPTIONS''],
        co_AllowedHeaders = [''Authorization'', ''Content-Type'', ''Idempotency-Key'', ''X-Institution-ID'',
          ''X-Request-ID''],
        co_ExposedHeaders = [''X-Request-ID''], co_AllowCredentials = False\<rparr>"]) code_simp
  with started_server_is_not_production [OF o] show ?thesis by simp
qed

text \<open>
  C27: an accepted pool configuration allows at least one connection, keeps no more idle ones than open ones,
  and has no negative lifetime.
\<close>

theorem pool_configuration_is_sane:
  assumes "parseDBPoolConfig parseDuration getenv = Inr pool"
  shows "1 \<le> pool_maxOpenConns pool \<and> 0 \<le> pool_maxIdleConns pool \<and>
    pool_maxIdleConns pool \<le> pool_maxOpenConns pool \<and> 0 \<le> pool_connMaxLifetime pool \<and>
    0 \<le> pool_connMaxIdleTime pool"
proof -
  have d: "0 \<le> v" if "parseDurationEnv parseDuration getenv name (minutes n) = Inr v" "0 \<le> n" for name n v
    using that by (auto simp: parseDurationEnv_def minutes_def Let_def split: if_splits option.splits)
  show ?thesis
    using assms
    by (auto simp: parseDBPoolConfig_def defaultPool_def split: if_splits dest: d parseIntEnv_bound)
qed

theorem pool_configuration_is_sane_witness:
  "\<exists>pool. parseDBPoolConfig (\<lambda>s. None) (\<lambda>name. if name = ''DB_MAX_OPEN_CONNS'' then FormatInt 7 else []) = Inr pool \<and>
     pool_maxOpenConns pool = 7 \<and> pool_maxIdleConns pool \<le> 7"
proof -
  obtain pool where p: "parseDBPoolConfig (\<lambda>s. None) (\<lambda>name. if name = ''DB_MAX_OPEN_CONNS'' then FormatInt 7 else []) = Inr pool"
      "pool_maxOpenConns pool = 7"
    by (rule that [of "defaultPool\<lparr>pool_maxOpenConns := 7\<rparr>"]) code_simp+
  with pool_configuration_is_sane [OF p(1)] show ?thesis by simp
qed

end
