(* ===== verification/Server.thy ===== *)
theory Server
  imports HandlerRuns Startup
begin

text \<open>
  The server around the handlers: \<open>server.go\<close>, \<open>health.go\<close>, the middlewares of
  \<open>packages/shared/httpmiddleware\<close>, the response writers of \<open>handler.go\<close>, and \<open>main\<close> as a composition of
  server options.  A handler maps a request to a response, or to \<open>None\<close> when it panics; a middleware maps
  handlers to handlers, and the chain is composed in the order of the calls of \<open>Use\<close>.  What the chi and
  cors packages decide (the identifier of a request, the answer to a preflight, whether a content type is
  allowed, which route matches and what it decodes) is a record of functions.
\<close>

section \<open>Requests, responses, handlers\<close>

text \<open>
  \<open>ic_ContentLength\<close> is -1 when it is not known; \<open>ic_BodyBytes\<close> is what the client really sends, and \<open>ic_elapsed\<close>
  how long the handlers take.  What is drawn while the request is served comes with it: \<open>ic_env\<close> has the clock,
  the identifiers and the outcomes of its transactions, \<open>ic_random\<close> the request identifier for one that has none.
\<close>

record incoming =
  ic_request :: http_request
  ic_Method :: string
  ic_XRequestID :: string
  ic_InstitutionID :: string
  ic_ContentLength :: int
  ic_BodyBytes :: nat
  ic_elapsed :: int
  ic_env :: svc_env
  ic_random :: string

record http_response =
  hp_status :: int
  hp_header :: "(string \<times> string) list"
  hp_text :: string

record request_context =
  cx_request_id :: string
  cx_principal :: "Principal option"
  cx_body_limited :: bool

type_synonym 'w handler = "incoming \<Rightarrow> request_context \<Rightarrow> 'w \<Rightarrow> http_response option \<times> 'w"

type_synonym 'w middleware = "'w handler \<Rightarrow> 'w handler"

datatype matched =
    MatchedAPI api_request
  | MatchedRequery string optional_body
  | Undecodable
  | NotAllowed
  | Unmatched

datatype cors_answer = CorsAnswers http_response | CorsPasses "(string \<times> string) list"

text \<open>
  \<open>lib_route\<close> also gets whether the body can be read to its end; \<open>lib_encode\<close> is the JSON encoder on the
  values the handlers return.
\<close>

record library =
  lib_requestID :: "incoming \<Rightarrow> string"
  lib_cors :: "cors_options \<Rightarrow> incoming \<Rightarrow> cors_answer"
  lib_allowed :: "string list \<Rightarrow> incoming \<Rightarrow> bool"
  lib_route :: "incoming \<Rightarrow> bool \<Rightarrow> matched"
  lib_encode :: "body \<Rightarrow> string"
  lib_uuid :: "string \<Rightarrow> string option"

definition json_type :: "string \<times> string" where
  "json_type = (''Content-Type'', ''application/json'')"

section \<open>Writing a response\<close>

definition writeJSONResponse :: "library \<Rightarrow> int \<Rightarrow> body \<Rightarrow> http_response" where
  "writeJSONResponse lib status v = \<lparr>hp_status = status, hp_header = [json_type], hp_text = lib_encode lib v\<rparr>"

definition write_response :: "library \<Rightarrow> strictJSONResponse \<Rightarrow> http_response" where
  "write_response lib response = writeJSONResponse lib (rsp_status response) (rsp_body response)"

text \<open>Every \<open>Visit\<dots>Response\<close> method of the generated interface writes the response as it is.\<close>

definition VisitResponse :: "library \<Rightarrow> strictJSONResponse \<Rightarrow> http_response" where
  "VisitResponse lib response = write_response lib response"

definition ids_of :: "incoming \<Rightarrow> request_ids" where
  "ids_of r = \<lparr>rq_XRequestID = ic_XRequestID r, rq_random = ic_random r\<rparr>"

definition context_env :: "request_context \<Rightarrow> svc_env \<Rightarrow> svc_env" where
  "context_env cx e = e\<lparr>se_tx := \<lambda>k. ContextWithPrincipal (se_tx e k) (cx_principal cx) \<lparr>env_request_id := cx_request_id cx\<rparr>\<rparr>"

text \<open>A handler of the API: its response, or the answer to its error; a nil dereference is a panic.\<close>

definition api_handler ::
  "library \<Rightarrow> svc_env \<Rightarrow> request_ids \<Rightarrow> ('w, strictJSONResponse) call \<Rightarrow> 'w \<Rightarrow> http_response option \<times> 'w" where
  "api_handler lib e q m w =
     (case m w of
        (Inr response, w') \<Rightarrow> (Some (VisitResponse lib response), w')
      | (Inl err, w') \<Rightarrow>
          (if err = panic then None
           else Some (write_response lib (respondError (requestID (se_tx e 0) q) err)), w'))"

section \<open>Middlewares\<close>

definition RequestID :: "library \<Rightarrow> 'w middleware" where
  "RequestID lib next r cx w = next r (cx\<lparr>cx_request_id := lib_requestID lib r\<rparr>) w"

definition recover_requestID :: "incoming \<Rightarrow> request_context \<Rightarrow> string" where
  "recover_requestID r cx =
     (let fromContext = TrimSpace (cx_request_id cx); fromHeader = TrimSpace (ic_XRequestID r) in
      if fromContext \<noteq> [] then fromContext else if fromHeader \<noteq> [] then fromHeader else ''unknown'')"

definition Recover :: "library \<Rightarrow> 'w middleware" where
  "Recover lib handler r cx w =
     (case handler r cx w of
        (None, w') \<Rightarrow>
          (Some (writeJSONResponse lib 500 (BodyMessage ''internal_server_error'' (recover_requestID r cx))), w')
      | (Some response, w') \<Rightarrow> (Some response, w'))"

definition CORS :: "library \<Rightarrow> cors_options \<Rightarrow> 'w middleware" where
  "CORS lib options next r cx w =
     (case lib_cors lib options r of
        CorsAnswers response \<Rightarrow> (Some response, w)
      | CorsPasses headers \<Rightarrow>
          (case next r cx w of
             (None, w') \<Rightarrow> (None, w')
           | (Some response, w') \<Rightarrow> (Some (response\<lparr>hp_header := hp_header response @ headers\<rparr>), w')))"

definition defaultLimitSize :: int where "defaultLimitSize = 2 ^ 20"

definition BodyLimit :: "'w middleware" where
  "BodyLimit next r cx w =
     (if ic_ContentLength r > defaultLimitSize
      then (Some \<lparr>hp_status = 413, hp_header = [(''Content-Type'', ''text/plain; charset=utf-8''), (''X-Content-Type-Options'', ''nosniff'')],
        hp_text = ''Request Entity Too Large'' @ [CHR 0x0A]\<rparr>, w)
      else next r (cx\<lparr>cx_body_limited := True\<rparr>) w)"

text \<open>The header is set before the next handler runs, so it is there unless that handler sets its own.\<close>

definition default_header :: "string \<times> string \<Rightarrow> http_response \<Rightarrow> http_response" where
  "default_header kv response =
     (if fst kv \<in> fst ` set (hp_header response) then response
      else response\<lparr>hp_header := kv # hp_header response\<rparr>)"

definition JSONContentType :: "'w middleware" where
  "JSONContentType next r cx w =
     (case next r cx w of
        (None, w') \<Rightarrow> (None, w')
      | (Some response, w') \<Rightarrow> (Some (default_header json_type response), w'))"

definition seconds :: "int \<Rightarrow> int" where "seconds n = n * 1000000000"

definition timeoutMiddlewareDuration :: int where "timeoutMiddlewareDuration = seconds 25"

text \<open>
  \<open>http.TimeoutHandler\<close>: a handler that takes too long is answered for, and goes on in the background;
  what it does to the tables still happens.
\<close>

definition TimeoutHandler :: "int \<Rightarrow> string \<Rightarrow> 'w middleware" where
  "TimeoutHandler limit message next r cx w =
     (case next r cx w of (response, w') \<Rightarrow>
        if ic_elapsed r \<ge> limit then (Some \<lparr>hp_status = 503, hp_header = [], hp_text = message\<rparr>, w')
        else (response, w'))"

definition timeoutMessage :: string where
  "timeoutMessage = ''{\"error\":{\"name\":\"timeout_error\",\"message\":\"Request timed out\"}}''"

definition AllowContentType :: "library \<Rightarrow> string list \<Rightarrow> 'w middleware" where
  "AllowContentType lib contentTypes next r cx w =
     (if lib_allowed lib contentTypes r then next r cx w
      else (Some \<lparr>hp_status = 415, hp_header = [], hp_text = []\<rparr>, w))"

definition writeUnauthorized :: http_response where
  "writeUnauthorized = \<lparr>hp_status = 401, hp_header = [json_type],
     hp_text = ''{\"message\":\"unauthorized\"}'' @ [CHR 0x0A]\<rparr>"

definition AuthenticationMiddleware :: "getenv \<Rightarrow> AuthScope list \<Rightarrow> 'w middleware" where
  "AuthenticationMiddleware getenv scopes next r cx w =
     (case Authentication getenv scopes (ic_request r) of
        Refused \<Rightarrow> (Some writeUnauthorized, w)
      | Admitted pr \<Rightarrow> next r (cx\<lparr>cx_principal := pr\<rparr>) w)"

section \<open>The server\<close>

record 'w server =
  srv_pool :: dbPoolConfig
  srv_cors :: cors_options
  srv_port :: string
  srv_uses :: "'w middleware list"
  srv_notFound :: "'w handler"
  srv_routes :: "'w handler"

text \<open>The first middleware used is the outermost.\<close>

definition router :: "'w server \<Rightarrow> 'w handler" where
  "router s = foldr (\<lambda>mw next. mw next) (srv_uses s) (srv_routes s)"

definition use_middleware :: "'w middleware \<Rightarrow> 'w server \<Rightarrow> 'w server" where
  "use_middleware mw s = s\<lparr>srv_uses := srv_uses s @ [mw]\<rparr>"

definition chi_not_found :: "'w handler" where
  "chi_not_found r cx w = (Some \<lparr>hp_status = 404, hp_header = [], hp_text = ''404 page not found'' @ [CHR 0x0A]\<rparr>, w)"

definition endpoint_not_found :: "'w handler" where
  "endpoint_not_found r cx w =
     (Some \<lparr>hp_status = 404, hp_header = [json_type], hp_text = ''{\"message\": \"Endpoint does not exist\"}''\<rparr>, w)"

definition defaultServerConf ::
  "(string \<Rightarrow> int option) \<Rightarrow> (string \<Rightarrow> string option) \<Rightarrow> getenv \<Rightarrow> string + 'w server" where
  "defaultServerConf parseDuration connect getenv =
     sumBind (NewDB parseDuration connect getenv) (\<lambda>pool.
     sumBind (newCORSFromEnv getenv) (\<lambda>cors.
     Inr \<lparr>srv_pool = pool, srv_cors = cors, srv_port = [], srv_uses = [], srv_notFound = chi_not_found,
       srv_routes = chi_not_found\<rparr>))"

text \<open>\<open>viper.AutomaticEnv\<close>: an environment variable that is set and not empty, else the default.\<close>

definition initViper :: "getenv \<Rightarrow> 'w server \<Rightarrow> 'w server" where
  "initViper getenv s = s\<lparr>srv_port := (if getenv ''PORT'' = [] then ''3001'' else getenv ''PORT'')\<rparr>"

definition setGlobalMiddlewares :: "library \<Rightarrow> 'w server \<Rightarrow> 'w server" where
  "setGlobalMiddlewares lib s =
     (let s = s\<lparr>srv_notFound := endpoint_not_found\<rparr>;
          s = use_middleware (RequestID lib) s;
          s = use_middleware (Recover lib) s;
          s = use_middleware (CORS lib (srv_cors s)) s;
          s = use_middleware BodyLimit s;
          s = use_middleware JSONContentType s;
          s = use_middleware (TimeoutHandler timeoutMiddlewareDuration timeoutMessage) s
      in use_middleware (AllowContentType lib [''application/json'', ''text/csv'']) s)"

type_synonym 'w ServerOption = "'w server \<Rightarrow> string + 'w server"

definition WithAuthn :: "getenv \<Rightarrow> AuthScope list \<Rightarrow> 'w ServerOption" where
  "WithAuthn getenv scopes s =
     (case ValidateDevelopmentAuthGuard getenv scopes of
        Some err \<Rightarrow> Inl err
      | None \<Rightarrow> Inr (use_middleware (AuthenticationMiddleware getenv scopes) s))"

definition fixed_response :: "int \<times> string \<Rightarrow> http_response" where
  "fixed_response sb = \<lparr>hp_status = fst sb, hp_header = [json_type], hp_text = snd sb\<rparr>"

text \<open>
  The probes come first.  The error of \<open>WithRouter\<close> for a missing router does not arise, since every server
  here has one; \<open>pinger\<close> is the outcome of pinging the database, if there is one.
\<close>

definition registerHealthRoutes :: "bool option \<Rightarrow> 'w handler \<Rightarrow> 'w handler" where
  "registerHealthRoutes pinger next r cx w =
     (if ic_Method r = ''GET'' \<and> hr_Path (ic_request r) = ''/api/v1/health''
      then (Some (fixed_response health), w)
      else if ic_Method r = ''GET'' \<and> hr_Path (ic_request r) = ''/api/v1/readyz''
      then (Some (fixed_response (readyz pinger)), w)
      else next r cx w)"

definition WithRouter :: "bool option \<Rightarrow> ('w server \<Rightarrow> string + 'w handler) \<Rightarrow> 'w ServerOption" where
  "WithRouter pinger fn s =
     sumBind (fn s) (\<lambda>routes. Inr (s\<lparr>srv_routes := registerHealthRoutes pinger routes\<rparr>))"

definition NewServer ::
  "library \<Rightarrow> (string \<Rightarrow> int option) \<Rightarrow> (string \<Rightarrow> string option) \<Rightarrow> getenv \<Rightarrow> 'w ServerOption list \<Rightarrow>
   string + 'w server" where
  "NewServer lib parseDuration connect getenv fns =
     foldl (\<lambda>r fn. sumBind r fn)
       (sumBind (defaultServerConf parseDuration connect getenv)
          (\<lambda>s. Inr (setGlobalMiddlewares lib (initViper getenv s)))) fns"

section \<open>Routes and main\<close>

text \<open>
  \<open>Routes\<close>: the generated routes and the hand-written requery route, with the errors of decoding.
\<close>

definition Routes ::
  "library \<Rightarrow> 'p HTTPServer \<Rightarrow> externals \<Rightarrow> 'p world handler \<Rightarrow> 'p world handler" where
  "Routes lib h x notFound r cx w =
     (let e = context_env cx (ic_env r); q = ids_of r;
          readable = (cx_body_limited cx \<longrightarrow> int (ic_BodyBytes r) \<le> defaultLimitSize)
      in case lib_route lib r readable of
           MatchedAPI request \<Rightarrow> api_handler lib e q (handle h e x request) w
         | MatchedRequery transferID body \<Rightarrow>
             (case (lib_uuid lib transferID, externalTransferRequeryParamsFromRequest (lib_uuid lib) (ic_InstitutionID r),
                decodeOptionalExternalRequeryBody body) of
                (Some k, Some institutionID, Some b) \<Rightarrow>
                  api_handler lib e q (handleExternalTransferRequery h e x institutionID k b) w
              | _ \<Rightarrow> (Some (write_response lib (openAPIRequestError (requestID (se_tx e 0) q))), w))
         | Undecodable \<Rightarrow> (Some (write_response lib (openAPIRequestError (requestID (se_tx e 0) q))), w)
         | NotAllowed \<Rightarrow> (Some \<lparr>hp_status = 405, hp_header = [], hp_text = []\<rparr>, w)
         | Unmatched \<Rightarrow> notFound r cx w)"

text \<open>\<open>routes\<close> of \<open>main.go\<close>: the demo switch decides whether the process goes on.\<close>

definition routes ::
  "library \<Rightarrow> getenv \<Rightarrow> 'p service \<Rightarrow> externals \<Rightarrow> 'p world server \<Rightarrow> string + 'p world handler" where
  "routes lib getenv sv x s =
     sumBind (DemoRoutesEnabledFromEnv getenv) (\<lambda>demoRoutes.
       Inr (Routes lib (NewHandler sv [WithDemoRoutes demoRoutes]) x (srv_notFound s)))"

definition main_server ::
  "library \<Rightarrow> (string \<Rightarrow> int option) \<Rightarrow> (string \<Rightarrow> string option) \<Rightarrow> getenv \<Rightarrow> bool option \<Rightarrow> 'p service \<Rightarrow>
   externals \<Rightarrow> string + 'p world server" where
  "main_server lib parseDuration connect getenv pinger sv x =
     NewServer lib parseDuration connect getenv
       [WithAuthn getenv [AuthRequiredScope], WithRouter pinger (routes lib getenv sv x)]"

section \<open>Running\<close>

record http_server =
  hts_Addr :: string
  hts_ReadTimeout :: int
  hts_ReadHeaderTimeout :: int
  hts_WriteTimeout :: int
  hts_IdleTimeout :: int
  hts_MaxHeaderBytes :: int

definition httpServer :: "'w server \<Rightarrow> http_server" where
  "httpServer s =
     \<lparr>hts_Addr = '':'' @ srv_port s, hts_ReadTimeout = seconds 5, hts_ReadHeaderTimeout = seconds 2,
      hts_WriteTimeout = seconds 30, hts_IdleTimeout = seconds 60, hts_MaxHeaderBytes = 2 ^ 20\<rparr>"

datatype listen_error = ErrServerClosed | ListenFailed string

definition shouldLogListenAndServeError :: "listen_error option \<Rightarrow> bool" where
  "shouldLogListenAndServeError err \<longleftrightarrow> err \<noteq> None \<and> err \<noteq> Some ErrServerClosed"

text \<open>
  \<open>strings.ReplaceAll\<close>, for a text to replace that is not empty, as its two callers check; and
  \<open>sanitizeDatabaseError\<close>, where \<open>password\<close> is the password that \<open>net/url\<close> reads in the text, if any.
\<close>

function replace_all :: "string \<Rightarrow> string \<Rightarrow> string \<Rightarrow> string" where
  "replace_all old new [] = []"
| "replace_all old new (c # cs) =
     (if old = [] then c # replace_all old new cs
      else case drop_prefix old (c # cs) of
          Some rest \<Rightarrow> new @ replace_all old new rest
        | None \<Rightarrow> c # replace_all old new cs)"
  by pat_completeness auto

termination
  by (relation "measure (\<lambda>(old, new, s). length s)")
    (auto simp: drop_prefix_Some_iff dest!: arg_cong [of _ _ length])

definition sanitizeDatabaseError ::
  "(string \<Rightarrow> string option) \<Rightarrow> string option \<Rightarrow> string \<Rightarrow> string" where
  "sanitizeDatabaseError password err dataSourceName =
     (case err of None \<Rightarrow> []
      | Some message \<Rightarrow>
          if dataSourceName = [] then message
          else
            let message = replace_all dataSourceName ''[redacted DATABASE_URL]'' message in
            case password dataSourceName of
              None \<Rightarrow> message
            | Some p \<Rightarrow> if p \<noteq> [] then replace_all p ''[redacted]'' message else message)"

text \<open>How \<open>NewDB\<close> reports a failed connection.\<close>

definition connect_sanitized ::
  "(string \<Rightarrow> string option) \<Rightarrow> (string \<Rightarrow> string option) \<Rightarrow> string \<Rightarrow> string option" where
  "connect_sanitized password open dataSourceName =
     (case open dataSourceName of None \<Rightarrow> None
      | Some err \<Rightarrow> Some (sanitizeDatabaseError password (Some err) dataSourceName))"

end
