(* ===== verification/ServerRuns.thy ===== *)
theory ServerRuns
  imports Server
begin

text \<open>
  What the composed server guarantees: it answers every request, its private routes refuse a request
  without the token before any of them runs, and any sequence of requests leaves the service in a reachable
  state.  A middleware is judged by the relation between the worlds before and after it.
\<close>

section \<open>What a handler does to the world\<close>

definition serves :: "(incoming \<Rightarrow> bool) \<Rightarrow> ('w \<Rightarrow> 'w \<Rightarrow> bool) \<Rightarrow> 'w handler \<Rightarrow> bool" where
  "serves P R h \<longleftrightarrow> (\<forall>r cx w. P r \<longrightarrow> R w (snd (h r cx w)))"

locale world_law =
  fixes P :: "incoming \<Rightarrow> bool" and R :: "'w \<Rightarrow> 'w \<Rightarrow> bool"
  assumes still: "R w w"
begin

lemma servesI: "(\<And>r cx w. P r \<Longrightarrow> R w (snd (h r cx w))) \<Longrightarrow> serves P R h"
  by (simp add: serves_def)

lemma answers: "(\<And>r cx w. snd (h r cx w) = w) \<Longrightarrow> serves P R h"
  by (simp add: serves_def still)

lemma global_middlewares:
  assumes "serves P R next"
  shows "serves P R (RequestID lib next)" "serves P R (Recover lib next)" "serves P R (CORS lib options next)"
    "serves P R (BodyLimit next)" "serves P R (JSONContentType next)" "serves P R (TimeoutHandler limit message next)"
    "serves P R (AllowContentType lib types next)" "serves P R (AuthenticationMiddleware getenv scopes next)"
    "serves P R (registerHealthRoutes pinger next)"
  using assms
  unfolding serves_def RequestID_def Recover_def CORS_def BodyLimit_def JSONContentType_def TimeoutHandler_def
    AllowContentType_def AuthenticationMiddleware_def registerHealthRoutes_def
  by (auto simp: still split: prod.splits option.splits cors_answer.splits admission.splits) (metis snd_conv)+

lemma chain:
  assumes "\<And>mw next. mw \<in> set mws \<Longrightarrow> serves P R next \<Longrightarrow> serves P R (mw next)" and "serves P R h"
  shows "serves P R (foldr (\<lambda>mw next. mw next) mws h)"
  using assms by (induction mws) auto

end

section \<open>The server that main builds\<close>

definition global_uses :: "library \<Rightarrow> cors_options \<Rightarrow> 'w middleware list" where
  "global_uses lib cors =
     [RequestID lib, Recover lib, CORS lib cors, BodyLimit, JSONContentType,
      TimeoutHandler timeoutMiddlewareDuration timeoutMessage,
      AllowContentType lib [''application/json'', ''text/csv'']]"

lemma main_server_Inr:
  "main_server lib parseDuration connect getenv pinger sv x = Inr s \<longleftrightarrow>
     (\<exists>pool cors demoRoutes.
        NewDB parseDuration connect getenv = Inr pool \<and> newCORSFromEnv getenv = Inr cors \<and>
        ValidateDevelopmentAuthGuard getenv [AuthRequiredScope] = None \<and>
        DemoRoutesEnabledFromEnv getenv = Inr demoRoutes \<and>
        s = \<lparr>srv_pool = pool, srv_cors = cors,
          srv_port = (if getenv ''PORT'' = [] then ''3001'' else getenv ''PORT''),
          srv_uses = global_uses lib cors @ [AuthenticationMiddleware getenv [AuthRequiredScope]],
          srv_notFound = endpoint_not_found,
          srv_routes = registerHealthRoutes pinger
            (Routes lib (NewHandler sv [WithDemoRoutes demoRoutes]) x endpoint_not_found)\<rparr>)"
  by (auto simp: main_server_def NewServer_def defaultServerConf_def initViper_def setGlobalMiddlewares_def
      WithAuthn_def WithRouter_def routes_def use_middleware_def global_uses_def Let_def split: option.splits)

text \<open>The server starts exactly when \<open>started\<close> says so, with the same origins and demo switch.\<close>

theorem main_server_started:
  "(\<exists>s. main_server lib parseDuration connect getenv pinger sv x = Inr s) \<longleftrightarrow>
     (\<exists>cors demoRoutes. started parseDuration connect getenv [AuthRequiredScope] = Inr (cors, demoRoutes))"
  unfolding main_server_Inr by (auto simp: started_def split: option.splits)

theorem timeout_answer_can_be_written: "timeoutMiddlewareDuration < hts_WriteTimeout (httpServer s)"
  by (simp add: timeoutMiddlewareDuration_def httpServer_def seconds_def)

section \<open>Every request is answered\<close>

lemma registered_answers: "fst (Recover lib next r cx w) \<noteq> None"
  by (simp add: Recover_def split: prod.splits option.splits)

theorem server_answers_every_request:
  assumes "main_server lib parseDuration connect getenv pinger sv x = Inr s"
  shows "fst (router s r cx w) \<noteq> None"
proof -
  from assms obtain cors h where "srv_uses s = RequestID lib # Recover lib # CORS lib cors #
      [BodyLimit, JSONContentType, TimeoutHandler timeoutMiddlewareDuration timeoutMessage,
       AllowContentType lib [''application/json'', ''text/csv''], AuthenticationMiddleware getenv [AuthRequiredScope]]"
    by (auto simp: main_server_Inr global_uses_def)
  then show ?thesis by (simp add: router_def RequestID_def registered_answers)
qed

section \<open>The books behind the server\<close>

lemma routes_reachable:
  assumes "hs_service h = sv"
  shows "serves (\<lambda>r. True) (\<lambda>w w'. reachable sv x w \<longrightarrow> reachable sv x w') (Routes lib h x endpoint_not_found)"
proof -
  have api: "reachable sv x (snd (api_handler lib e' q (handle h e' x request) w))"
    if "reachable sv x w" for e' q request w
  proof -
    have eq: "snd (api_handler lib e' q (handle h e' x request) w) = snd (handle h e' x request w)"
      by (simp add: api_handler_def split: prod.splits sum.splits)
    show ?thesis
      by (rule acts_D [OF handle_acts [of h e' x request], of w])
        (use that reachable.perform [OF that] assms eq in auto)
  qed
  note requery = api [of _ _ _ "RouteExternalTransferRequery i k b" for i k b, unfolded handle.simps]
  show ?thesis
    unfolding serves_def Routes_def Let_def
    by (auto simp: api requery endpoint_not_found_def split: matched.splits option.splits prod.splits)
qed

text \<open>The requests the server answers one after the other.\<close>

fun serve_all :: "'w server \<Rightarrow> incoming list \<Rightarrow> request_context \<Rightarrow> 'w \<Rightarrow> 'w" where
  "serve_all s [] cx w = w"
| "serve_all s (r # rs) cx w = serve_all s rs cx (snd (router s r cx w))"

interpretation reachability: world_law "\<lambda>r. True" "\<lambda>w w'. reachable sv x w \<longrightarrow> reachable sv x w'" for sv x
  by unfold_locales simp

lemma serve_all_reachable:
  assumes "main_server lib parseDuration connect getenv pinger sv x = Inr s" and "reachable sv x w"
  shows "reachable sv x (serve_all s rs cx w)"
proof -
  from assms(1) obtain cors h where s: "srv_uses s = global_uses lib cors @ [AuthenticationMiddleware getenv [AuthRequiredScope]]"
    "srv_routes s = registerHealthRoutes pinger (Routes lib h x endpoint_not_found)" and h: "hs_service h = sv"
    by (auto simp: main_server_Inr NewHandler_def WithDemoRoutes_def)
  have "serves (\<lambda>r. True) (\<lambda>w w'. reachable sv x w \<longrightarrow> reachable sv x w') (router s)"
    unfolding router_def s
    by (rule reachability.chain)
      (auto simp: global_uses_def intro: reachability.global_middlewares routes_reachable [OF h])
  then have step: "reachable sv x w \<Longrightarrow> reachable sv x (snd (router s r cx w))" for r cx w
    unfolding serves_def by blast
  show ?thesis
    using assms(2) by (induction rs arbitrary: w) (simp_all add: step)
qed

section \<open>Requests without the token\<close>

interpretation refused: world_law "\<lambda>r. Authentication getenv scopes (ic_request r) = Refused" "(=)" for getenv scopes
  by unfold_locales simp

lemma refused_still:
  assumes "main_server lib parseDuration connect getenv pinger sv x = Inr s"
    and "Authentication getenv [AuthRequiredScope] (ic_request r) = Refused"
  shows "snd (router s r cx w) = w"
proof -
  let ?P = "\<lambda>r. Authentication getenv [AuthRequiredScope] (ic_request r) = Refused"
  from assms(1) obtain cors where s: "srv_uses s = global_uses lib cors @ [AuthenticationMiddleware getenv [AuthRequiredScope]]"
    by (auto simp: main_server_Inr)
  have "serves ?P (=) (AuthenticationMiddleware getenv [AuthRequiredScope] (srv_routes s))"
    by (simp add: serves_def AuthenticationMiddleware_def)
  then have "serves ?P (=) (foldr (\<lambda>mw next. mw next) (global_uses lib cors)
      (AuthenticationMiddleware getenv [AuthRequiredScope] (srv_routes s)))"
    by (intro refused.chain) (auto simp: global_uses_def intro: refused.global_middlewares)
  then have "w = snd (router s r cx w)"
    using assms(2) unfolding serves_def router_def s foldr_append foldr.simps comp_def id_def by blast
  then show ?thesis by (rule sym)
qed

lemma refused_unauthorized:
  assumes "main_server lib parseDuration connect getenv pinger sv x = Inr s"
    and "Authentication getenv [AuthRequiredScope] (ic_request r) = Refused"
    and "lib_cors lib (srv_cors s) r = CorsPasses headers" and "ic_ContentLength r \<le> defaultLimitSize"
    and "ic_elapsed r < timeoutMiddlewareDuration" and "lib_allowed lib [''application/json'', ''text/csv''] r"
  shows "\<exists>response. router s r cx w = (Some response, w) \<and> hp_status response = 401 \<and>
    hp_text response = hp_text writeUnauthorized"
proof -
  from assms(1) obtain cors where s: "srv_uses s = global_uses lib cors @ [AuthenticationMiddleware getenv [AuthRequiredScope]]"
    "srv_cors s = cors"
    by (auto simp: main_server_Inr)
  show ?thesis
    using assms(2-6)
    by (simp add: router_def s global_uses_def RequestID_def Recover_def CORS_def BodyLimit_def JSONContentType_def
        TimeoutHandler_def AllowContentType_def AuthenticationMiddleware_def default_header_def writeUnauthorized_def)
qed

section \<open>Requests that take too long\<close>

text \<open>An admitted request that takes too long is answered with 503, whatever it did.\<close>

theorem timed_out_request_may_have_happened:
  assumes "ic_elapsed r \<ge> limit"
  shows "TimeoutHandler limit message next r cx w =
    (Some \<lparr>hp_status = 503, hp_header = [], hp_text = message\<rparr>, snd (next r cx w))"
  using assms by (simp add: TimeoutHandler_def split: prod.splits)

section \<open>Errors of the connection\<close>

lemma replace_all_absent: "old \<noteq> [] \<Longrightarrow> (\<And>p q. s \<noteq> p @ old @ q) \<Longrightarrow> replace_all old new s = s"
proof (induction old new s rule: replace_all.induct)
  case (2 old new c cs)
  have "drop_prefix old (c # cs) = None"
    using "2.prems"(2) [of "[]"] by (cases "drop_prefix old (c # cs)") (auto simp: drop_prefix_Some_iff)
  moreover have "cs \<noteq> p @ old @ q" for p q using "2.prems"(2) [of "c # p" q] by auto
  ultimately show ?case using 2 by simp
qed simp

lemma replace_all_whole: "old \<noteq> [] \<Longrightarrow> replace_all old new (old @ s) = new @ replace_all old new s"
  by (cases old) (simp_all add: drop_prefix_Some_iff [THEN iffD2])

end
