(* ===== verification/ServerProperties.thy ===== *)
theory ServerProperties
  imports ServerRuns ApiProperties
begin

text \<open>
  What the composed server promises to whoever sends it requests: it keeps the books in order, and a request
  without the token gets no further than the door.
\<close>

section \<open>The example\<close>

text \<open>Libraries that accept every content type, answer no preflight and route every path to one transfer.\<close>

definition demo_library :: library where
  "demo_library =
     \<lparr>lib_requestID = ic_XRequestID, lib_cors = (\<lambda>options r. CorsPasses []), lib_allowed = (\<lambda>types r. True),
      lib_route = (\<lambda>r readable. if readable then MatchedAPI (RouteReverseTransfer None ''1xt'' ''k9'') else Undecodable),
      lib_encode = (\<lambda>v. []), lib_uuid = Some\<rparr>"

definition demo_incoming :: "string \<Rightarrow> string \<Rightarrow> time \<Rightarrow> incoming" where
  "demo_incoming authorization tag now =
     \<lparr>ic_request = demo_http_request\<lparr>hr_Authorization := authorization\<rparr>, ic_Method = ''POST'', ic_XRequestID = ''id'',
      ic_InstitutionID = [], ic_ContentLength = 0, ic_BodyBytes = 0, ic_elapsed = 1,
      ic_env = demo_svc_env tag now, ic_random = ''random''\<rparr>"

definition demo_context :: request_context where
  "demo_context = \<lparr>cx_request_id = [], cx_principal = None, cx_body_limited = False\<rparr>"

definition demo_main :: "string + MockNIPProvider world server" where
  "demo_main = main_server demo_library (\<lambda>s. None) (\<lambda>url. None) demo_getenv (Some True) demo_service demo_externals"

lemma demo_main_starts: "\<exists>s. demo_main = Inr s"
proof -
  have "case started (\<lambda>s. None) (\<lambda>url. None) demo_getenv [AuthRequiredScope] of Inl _ \<Rightarrow> False | Inr _ \<Rightarrow> True"
    by code_simp
  then show ?thesis unfolding demo_main_def main_server_started by (auto split: sum.splits)
qed

section \<open>Properties\<close>

text \<open>
  C20: whatever requests the server that \<open>main\<close> builds gets, in whatever order, however long they take and
  whatever the libraries make of them, the tables stay in a reachable state, so that every invariant of the
  books holds.
\<close>

theorem server_keeps_the_books:
  assumes "main_server lib parseDuration connect getenv pinger sv x = Inr s" and "reachable sv x w"
  shows "reachable sv x (serve_all s rs cx w) \<and> books_ok (fst (serve_all s rs cx w))"
  using serve_all_reachable [OF assms, of rs cx] reachable_books by blast

theorem server_keeps_the_books_witness:
  "\<exists>s. demo_main = Inr s \<and>
     books_ok (fst (serve_all s [demo_incoming ''Bearer token'' ''8'' 4000, demo_incoming [] ''9'' 5000] demo_context demo_credited))"
proof -
  obtain s where s: "demo_main = Inr s" using demo_main_starts by blast
  from server_keeps_the_books [OF s [unfolded demo_main_def] demo_reachable(2)] s show ?thesis by blast
qed

text \<open>
  C21: a request to a path other than the probes that does not carry the token is answered with 401 and
  changes nothing, before any handler sees it and whether or not its path exists, unless the cross-origin
  check, the size limit, the time limit or the content type answered it before.
\<close>

theorem request_without_token_is_refused:
  assumes "main_server lib parseDuration connect getenv pinger sv x = Inr s"
    and "Authentication getenv [AuthRequiredScope] (ic_request r) = Refused"
    and "lib_cors lib (srv_cors s) r = CorsPasses headers" and "ic_ContentLength r \<le> defaultLimitSize"
    and "ic_elapsed r < timeoutMiddlewareDuration" and "lib_allowed lib [''application/json'', ''text/csv''] r"
  shows "\<exists>response. router s r cx w = (Some response, w) \<and> hp_status response = 401 \<and>
    hp_text response = hp_text writeUnauthorized"
  by (rule refused_unauthorized [OF assms])

theorem request_without_token_is_refused_witness:
  "\<exists>s response. demo_main = Inr s \<and> hp_status response = 401 \<and>
     router s (demo_incoming ''Bearer guess'' ''8'' 4000) demo_context demo_credited = (Some response, demo_credited)"
proof -
  obtain s where s: "demo_main = Inr s" using demo_main_starts by blast
  have "Authentication demo_getenv [AuthRequiredScope] (ic_request (demo_incoming ''Bearer guess'' ''8'' 4000)) = Refused"
    by code_simp
  then show ?thesis
    using request_without_token_is_refused [OF s [unfolded demo_main_def], of "demo_incoming ''Bearer guess'' ''8'' 4000" "[]"
        demo_context demo_credited] s
    by (auto simp: demo_library_def demo_incoming_def defaultLimitSize_def timeoutMiddlewareDuration_def seconds_def)
qed

end
