(* ===== verification/AuditRuns.thy ===== *)
theory AuditRuns
  imports System
begin

text \<open>
  What an operation may append to the audit trail: events that name their institution, actor, action and
  entity, and whose metadata holds nothing that looks like a credential or an identity number.  Every
  statement obeys the law, so every transaction, every repository method and every service call does,
  whichever of them fails.
\<close>

section \<open>The law\<close>

definition audit_row_ok :: "AuditEvent \<Rightarrow> bool" where
  "audit_row_ok ev \<longleftrightarrow>
     ev_InstitutionID ev \<noteq> [] \<and> ev_ActorType ev \<noteq> [] \<and> ev_ActorID ev \<noteq> [] \<and> ev_RequestID ev \<noteq> [] \<and>
     ev_Action ev \<noteq> [] \<and> ev_EntityType ev \<noteq> [] \<and> ev_EntityID ev \<noteq> [] \<and> clean_metadata (ev_Metadata ev)"

definition audits :: "store \<Rightarrow> store \<Rightarrow> bool" where
  "audits s s' \<longleftrightarrow>
     (\<forall>ev\<in>set (audit_events s'). ev \<in> set (audit_events s) \<or> audit_row_ok ev)"

interpretation audited: tx_relation audits
  by unfold_locales (auto simp: audits_def)

lemma audits_same: "audit_events s' = audit_events s \<Longrightarrow> audits s s'"
  by (simp add: audits_def)

lemma auditContext_named: "auditContext e = (ty, actor, req, m) \<Longrightarrow> ty \<noteq> [] \<and> actor \<noteq> [] \<and> req \<noteq> []"
  by (auto simp: auditContext_def Let_def split: option.splits if_splits)

lemma newAuditEvent_ok: "newAuditEvent e k a = Inr ev \<Longrightarrow> audit_row_ok ev"
  by (cases "auditContext e")
    (auto simp: newAuditEvent_def audit_row_ok_def Let_def clean_merge clean_sanitized
      dest: auditContext_named split: if_splits)

section \<open>Statements\<close>

lemma audited_insertAuditEvent: "audited.obeys (insertAuditEvent e k a)"
  by (rule audited.obeysI) (auto simp: insertAuditEvent_Inr audits_def dest: newAuditEvent_ok)

lemma audited_ifFound:
  assumes "audited.obeys m" "\<And>v. audited.obeys (f v)" "audited.obeys n"
  shows "audited.obeys (ifFound m f n)"
  unfolding ifFound_def by (intro audited.obeys_rules assms)

lemma audited_reads:
  "audited.obeys (getRow q)" "audited.obeys (getContext q)" "audited.obeys (requireOneRow n)"
  by (rule audited.obeysI; auto simp: getRow_Inr getContext_def requireOneRow_def txEnsure_Inr txMapError_Inr
      audits_def split: option.splits)+

lemma audited_modify: "(\<And>s. audit_events (f s) = audit_events s) \<Longrightarrow> audited.obeys (txModify f)"
  by (intro audited.obeys_modify audits_same)

lemma audited_execOneRow: "audited.obeys m \<Longrightarrow> audited.obeys (execOneRow m)"
  unfolding execOneRow_def by (intro audited.obeys_rules audited_reads)

lemmas audited_base =
  audited.obeys_rules audited_ifFound audited_reads audited_execOneRow audited_insertAuditEvent

lemma audited_statements:
  fixes f :: "Transfer \<Rightarrow> Transfer" and g :: "AccountHold \<Rightarrow> AccountHold"
  shows
  "audited.obeys (insert_journal j)" "audited.obeys (insert_posting p)" "audited.obeys (insert_transfer t)"
  "audited.obeys (update_transfers P f)" "audited.obeys (insert_hold h)" "audited.obeys (update_holds Q g)"
  "audited.obeys (update_balances B b)" "audited.obeys (insert_event v)" "audited.obeys (update_events V u)"
  "audited.obeys (insert_customer c)" "audited.obeys (insert_account a)" "audited.obeys (update_accounts A aa)"
  "audited.obeys (insert_balance bal)" "audited.obeys (lockReplayKey ns ks)"
  unfolding insert_journal_def insert_posting_def insert_transfer_def update_transfers_def insert_hold_def
    update_holds_def update_balances_def insert_event_def update_events_def insert_customer_def
    insert_account_def update_accounts_def insert_balance_def lockReplayKey_def Let_def
  by (intro audited_base audited_modify; simp; fail)+

section \<open>Transactions\<close>

lemmas audited_rules = audited_base audited_statements

lemma audited_auditWhen: "audited.obeys (auditWhen e k a)"
  unfolding auditWhen_def by (intro audited_rules)

lemma audited_audits:
  "audited.obeys (auditPostedInternalTransfer e k input t account clearing)"
  "audited.obeys (auditExternalInboundTransfer e k input t account)"
  "audited.obeys (auditExternalOutboundTransfer e k input t account clearing)"
  "audited.obeys (auditExternalInboundReview e k rinput t account)"
  unfolding auditPostedInternalTransfer_def auditExternalInboundTransfer_def auditExternalOutboundTransfer_def
    auditExternalInboundReview_def
  by (rule audited_auditWhen)+

lemma audited_postLegs: "audited.obeys (postLegs e input j now options balances k legs)"
proof (induction legs arbitrary: k)
  case (Cons leg legs)
  then show ?case
    unfolding postLegs.simps applyPostingBalance_def Let_def by (intro audited_rules)
qed (simp add: audited.obeys_return)

lemma audited_postJournal: "audited.obeys (postJournal e input k now options)"
  unfolding postJournal_def normalBalances_def Let_def by (intro audited_rules audited_postLegs)

lemma audited_holds:
  "audited.obeys (create_hold e t now)" "audited.obeys (release_hold i k now)"
  "audited.obeys (consume_hold i k now)"
  unfolding create_hold_def release_hold_def consume_hold_def getActiveForTransfer_def
  by (intro audited_rules)+

lemma audited_events:
  "audited.obeys (reserve e x input k now)" "audited.obeys (linkTransfer k i p v)"
  "audited.obeys (payloadMatches input fp)" "audited.obeys (getEventTransfer i p v)"
  "audited.obeys (existingProviderEventTransfer input fp)"
  unfolding reserve_def linkTransfer_def payloadMatches_def getEventTransfer_def
    existingProviderEventTransfer_def Let_def
  by (intro audited_rules; fail)+

lemma audited_locks:
  "audited.obeys (lockAccountBalance i a)" "audited.obeys (lockTransferAccountBalances i a c)"
  "audited.obeys (recordTransferLocks input)"
  unfolding lockAccountBalance_def lockTransferAccountBalances_def recordTransferLocks_def
  by (intro audited_rules; fail)+

lemma audited_lookups:
  "audited.obeys (getTransferForUpdate i k)" "audited.obeys (getTransferByIdempotency i key)"
  "audited.obeys (getActiveReversalOf i k)"
  "audited.obeys (getPendingTransferByProviderReference i p ref dir)"
  "audited.obeys (getSettledTransferByProviderReference i p ref dir)"
  unfolding getTransferForUpdate_def getTransferByIdempotency_def getActiveReversalOf_def
    getPendingTransferByProviderReference_def getSettledTransferByProviderReference_def
  by (rule audited_reads)+

lemma audited_counterparty: "audited.obeys (originalCounterpartyAccountID t)"
  by (rule audited.obeysI) (auto simp: originalCounterpartyAccountID_def txBind_Inr audits_def
      split: option.splits list.splits)

lemma audited_replay:
  "audited.obeys (sameTransferReplayByFields t input)" "audited.obeys (sameTransferReplay t input fp)"
  unfolding sameTransferReplay_def sameTransferReplayByFields_def
  by (intro audited_rules audited_counterparty)+

lemmas audited_parts =
  audited_rules audited_audits audited_postJournal audited_holds audited_events audited_locks audited_lookups
  audited_counterparty audited_replay

lemma audited_reserveEventOr: "audited.obeys m \<Longrightarrow> audited.obeys (reserveEventOr e x input k fp now f m)"
  unfolding reserveEventOr_def by (intro audited_parts)

lemma audited_settlePending: "audited.obeys (settlePendingTransfer e x pending input)"
  unfolding settlePendingTransfer_def settleEffects_def settleSucceeded_def
    getActiveForTransfer_def Let_def
  by (intro audited_parts audited_reserveEventOr)

lemma audited_updatePending: "audited.obeys (updatePendingInboundTransferRequery e pending input st)"
  unfolding updatePendingInboundTransferRequery_def Let_def by (intro audited_parts)

lemma audited_completeOutbound: "audited.obeys (completeExternalOutboundTransfer e x k input)"
  unfolding completeExternalOutboundTransfer_def completePending_def completeEffects_def settleSucceeded_def
    getActiveForTransfer_def Let_def
  by (intro audited_parts audited_reserveEventOr)

lemma audited_recordTransfer: "audited.obeys (recordTransfer e x input)"
  unfolding recordTransfer_def recordByEvent_def recordByReference_def recordNewTransfer_def
    writeNewTransfer_def Let_def
  by (intro audited_parts audited_reserveEventOr audited_settlePending)

lemma audited_review: "audited.obeys (recordProviderEventReview e x input)"
  unfolding recordProviderEventReview_def recordNewReview_def writeReview_def Let_def
  by (intro audited_parts)

lemma audited_requery: "audited.obeys (completeExternalTransferRequery e x k input)"
  unfolding completeExternalTransferRequery_def requeryPending_def Let_def
  by (intro audited_parts audited_completeOutbound audited_updatePending audited_settlePending)

lemma audited_reverse: "audited.obeys (reverseTransfer e x input)"
  unfolding reverseTransfer_def recordReversal_def Let_def
  by (intro audited_parts audited_recordTransfer)

lemma audited_accounts:
  "audited.obeys (createCustomer e cinput)" "audited.obeys (createAccount e ainput)"
  "audited.obeys (setAccountStatus e sinput status allowed)"
  unfolding createCustomer_def createAccount_def setAccountStatus_def Let_def
  by (intro audited_parts; fail)+

lemma audited_liens:
  "audited.obeys (placeAccountLien e pinput)" "audited.obeys (releaseAccountLien e rinput)"
  unfolding placeAccountLien_def placeNewLien_def releaseAccountLien_def getActiveLienByReference_def
    ensureNoOtherActiveLienByReference_def getLienForUpdate_def Let_def
  by (intro audited_parts; fail)+

lemma audited_marked: "audited.obeys (markReconciliationItemReviewed e input)"
  unfolding markReconciliationItemReviewed_def getReconciliationItem_def Let_def
  by (intro audited_parts)

section \<open>Calls\<close>

definition world_audits :: "'p world \<Rightarrow> 'p world \<Rightarrow> bool" where
  "world_audits w w' \<longleftrightarrow> audits (fst w) (fst w')"

interpretation trail: call_relation world_audits
  by unfold_locales (auto simp: world_audits_def intro: audited.R_refl audited.R_trans)

interpretation repo_trail: call_relation audits
  by unfold_locales (auto intro: audited.R_refl audited.R_trans)

lemma repo_trail_tx:
  assumes "audited.obeys fn"
  shows "repo_trail.keeps (WithTx e fn)"
proof (rule repo_trail.keepsI)
  fix s
  show "audits s (snd (WithTx e fn s))"
    by (cases rule: WithTx_cases [of fn s e])
      (use audited.obeysD [OF assms] in \<open>force simp: audits_def\<close>)+
qed

lemma repo_trail_writes:
  "repo_trail.keeps (RecordTransfer e x input)" "repo_trail.keeps (BeginExternalOutboundTransfer e x input)"
  "repo_trail.keeps (CompleteExternalOutboundTransfer e x k input)"
  "repo_trail.keeps (CompleteExternalTransferRequery e x k input)"
  "repo_trail.keeps (RecordProviderEventReview e x vinput)" "repo_trail.keeps (ReverseTransfer e x rinput)"
  "repo_trail.keeps (CreateCustomer e cinput)" "repo_trail.keeps (CreateAccount e ainput)"
  "repo_trail.keeps (SetAccountStatus e sinput status allowed)" "repo_trail.keeps (PlaceAccountLien e pinput)"
  "repo_trail.keeps (ReleaseAccountLien e linput)" "repo_trail.keeps (MarkReconciliationItemReviewed e minput)"
  unfolding RecordTransfer_def BeginExternalOutboundTransfer_def CompleteExternalOutboundTransfer_def
    CompleteExternalTransferRequery_def RecordProviderEventReview_def ReverseTransfer_def CreateCustomer_def
    CreateAccount_def SetAccountStatus_def PlaceAccountLien_def ReleaseAccountLien_def
    MarkReconciliationItemReviewed_def
  by (intro repo_trail_tx audited_recordTransfer audited_completeOutbound audited_requery audited_review
      audited_reverse audited_accounts audited_liens audited_marked audited.obeys_rules; fail)+

lemma repo_trail_read: "(\<And>s. snd (m s) = s) \<Longrightarrow> repo_trail.keeps m"
  by (rule repo_trail.keeps_still)

lemma trail_onStore: "repo_trail.keeps m \<Longrightarrow> trail.keeps (onStore m)"
  by (rule trail.keepsI) (auto simp: world_audits_def repo_trail.keepsD)

lemma trail_onProvider: "trail.keeps (onProvider m)"
  by (rule trail.keepsI) (auto simp: world_audits_def audited.R_refl)

lemmas trail_writes = repo_trail_writes [THEN trail_onStore]

lemma trail_reads:
  "trail.keeps (onStore (GetAccount i a))" "trail.keeps (onStore (GetDefaultInternalSettlementAccount i c))"
  "trail.keeps (onStore (GetTransfer i k))" "trail.keeps (onStore (GetTransferHold i k))"
  "trail.keeps (onStore (GetCustomer i k))" "trail.keeps (onStore (settlementAccount i a c))"
  "trail.keeps (onStore (GetAccountByNumber i n))"
  by (intro trail_onStore repo_trail_read; simp)+

lemmas trail_rules = trail.keeps_rules trail_onProvider trail_writes trail_reads

section \<open>Operations\<close>

lemma trail_accounts:
  "trail.keeps (svcCreateCustomer e x cinput)" "trail.keeps (svcCreateAccount e x ainput)"
  "trail.keeps (controlAccount e x status allowed sinput)" "trail.keeps (svcPlaceAccountLien e x pinput)"
  "trail.keeps (svcReleaseAccountLien e x linput)" "trail.keeps (svcMarkReconciliationItemReviewed e x minput)"
  unfolding svcCreateCustomer_def svcCreateAccount_def controlAccount_def svcPlaceAccountLien_def
    svcReleaseAccountLien_def svcMarkReconciliationItemReviewed_def Let_def
  by (intro trail_rules; fail)+

lemma trail_internal:
  "trail.keeps (svcInternalCredit e x cinput)" "trail.keeps (svcInternalDebit e x dinput)"
  "trail.keeps (svcInternalTransfer e x tinput)" "trail.keeps (svcReverseTransfer e x i k key)"
  unfolding svcInternalCredit_def svcInternalDebit_def svcInternalTransfer_def svcReverseTransfer_def Let_def
  by (intro trail_rules; fail)+

lemma trail_provider:
  "trail.keeps (svcMockProviderWebhook sv e x name body hs)" "trail.keeps (svcMockInbound sv e x req)"
  "trail.keeps (svcMockOutbound sv e x req)" "trail.keeps (svcExternalNameEnquiry sv e ninput)"
  unfolding svcMockProviderWebhook_def svcMockInbound_def svcMockOutbound_def svcExternalNameEnquiry_def
    recordProviderWebhookEvent_def recordProviderTransfer_def initiateAndComplete_def Let_def
  by (intro trail_rules; fail)+

lemma trail_results:
  "trail.keeps (externalOutboundTransferResult t)" "trail.keeps (externalTransferRequeryResult t m)"
  unfolding externalOutboundTransferResult_def externalTransferRequeryResult_def transferHoldID_def
  by (intro trail_rules)+

lemma trail_outbound: "trail.keeps (svcExternalOutboundTransfer sv e x input)"
  unfolding svcExternalOutboundTransfer_def initiateAndComplete_def Let_def
  by (intro trail_rules trail_results)

lemma trail_requery: "trail.keeps (svcExternalTransferRequery sv e x input)"
  unfolding svcExternalTransferRequery_def requeryKnown_def requeryTransfer_def applyMockRequeryScenario_def
  by (intro trail_rules trail_results)

lemma repo_trail_inbound: "repo_trail.keeps (inboundEvent e x i event)"
  unfolding inboundEvent_def inboundToAccount_def afterInboundTransfer_def recordExternalInboundReview_def
    recordExternalInboundTransfer_def externalInboundDestinationAccount_def Let_def
  by (intro repo_trail.keeps_rules repo_trail_writes repo_trail_read; simp)

lemma trail_inbound: "trail.keeps (svcExternalInboundEvent sv e x input)"
  unfolding svcExternalInboundEvent_def Let_def
  by (intro trail_rules trail_onStore [OF repo_trail_inbound])

lemma trail_seed: "trail.keeps (svcSeedDemo e)"
proof (rule trail.keepsI)
  fix w :: "'p world"
  have "quiet (fst w) (fst (snd (onStore (EnsureDemoData (se_tx e 0)) w)))"
    by (cases w) (simp add: quiet_EnsureDemoData)
  then show "world_audits w (snd (svcSeedDemo e w))"
    by (simp add: svcSeedDemo_def world_audits_def quiet_def audits_same)
qed

lemmas trail_operations =
  trail_accounts trail_internal trail_provider trail_outbound trail_requery trail_inbound trail_seed

lemma performed_audits: "audits (fst w) (fst (performed sv e x op w))"
proof -
  have "world_audits w (performed sv e x op w)"
    by (cases op; simp only: performed.simps ran_def svcFreezeAccount_def svcUnfreezeAccount_def
        svcActivatePostNoDebit_def svcDeactivatePostNoDebit_def)
      (rule trail.keepsD, rule trail_operations)+
  then show ?thesis by (simp add: world_audits_def)
qed

end
