(* ===== verification/History.thy ===== *)
theory History
  imports HoldEffects Queries "HOL-Library.Multiset"
begin

text \<open>
  The history of an account, as \<open>ListTransactions\<close> joins it from transfers, accounts and postings, against the
  postings themselves: every posting of the account shows up in exactly one row, with its sign.
\<close>

section \<open>One row per posting\<close>

lemma sum_rows_swap:
  assumes "\<And>p. p \<in> set ps \<Longrightarrow> count_rows (\<lambda>t. M t p) ts = (if Q p then 1 else 0)"
  shows "sum_list (map (\<lambda>t. sum_rows (M t) v ps) ts) = sum_rows Q v ps"
  using assms
proof (induction ps)
  case Nil
  show ?case by (induction ts) simp_all
next
  case (Cons p ps)
  have "sum_list (map (\<lambda>t. sum_rows (M t) v (p # ps)) ts) =
      int (count_rows (\<lambda>t. M t p) ts) * v p + sum_list (map (\<lambda>t. sum_rows (M t) v ps) ts)"
    by (induction ts) (simp_all add: algebra_simps)
  also have "\<dots> = sum_rows Q v (p # ps)"
    using Cons by simp
  finally show ?case .
qed

definition signed_rows :: "(bool \<times> Transaction) list \<Rightarrow> int" where
  "signed_rows rows = sum_list (map (\<lambda>r. txn_SignedAmountMinor (snd r)) rows)"

lemma signed_rows_simps [simp]:
  "signed_rows [] = 0" "signed_rows (r # rows) = txn_SignedAmountMinor (snd r) + signed_rows rows"
  "signed_rows (rows @ rows') = signed_rows rows + signed_rows rows'"
  by (simp_all add: signed_rows_def)

lemma signed_rows_concat: "signed_rows (concat rs) = sum_list (map signed_rows rs)"
  by (induction rs) simp_all

lemma account_of_key:
  assumes "accounts_ok s" "a \<in> set (accounts s)" "acc_InstitutionID a = i" "acc_ID a = k"
  shows "filter (\<lambda>a. acc_InstitutionID a = i \<and> acc_ID a = k) (accounts s) = [a]"
    and "normal_of s i k = Some (acc_NormalBalance a)"
proof -
  have d: "distinct (map acc_ID (accounts s))" using assms(1) by (simp add: accounts_ok_def)
  have "count_rows (\<lambda>a. acc_InstitutionID a = i \<and> acc_ID a = k) (accounts s) = 1"
    by (rule count_rows_one [OF d assms(2)]) (use assms in auto)
  then obtain b where f: "filter (\<lambda>a. acc_InstitutionID a = i \<and> acc_ID a = k) (accounts s) = [b]"
    by (auto simp: count_rows_def length_Suc_conv)
  moreover have "a \<in> set (filter (\<lambda>a. acc_InstitutionID a = i \<and> acc_ID a = k) (accounts s))"
    using assms by simp
  ultimately show f': "filter (\<lambda>a. acc_InstitutionID a = i \<and> acc_ID a = k) (accounts s) = [a]" by simp
  have "distinct (map fst (rev (map (\<lambda>r. (acc_ID r, acc_NormalBalance r)) (filter (\<lambda>r. acc_InstitutionID r = i) (accounts s)))))"
    using d by (simp add: rev_map [symmetric] comp_def distinct_map_filter)
  then show "normal_of s i k = Some (acc_NormalBalance a)"
    unfolding normal_of_def using assms(2-4) by (auto intro!: map_of_is_SomeI simp: image_iff)
qed

lemma signed_leg:
  assumes "tr_Status t = TransferStatusSucceeded"
  shows "txn_SignedAmountMinor (transactionRow s k t a (Some p) cp) =
    signed (Some (acc_NormalBalance a)) (po_Direction p) (po_AmountMinor p)"
  using assms by (simp add: transactionRow_def signedAmount_def in_normal_direction_def signed_def)

lemma signed_none: "txn_SignedAmountMinor (transactionRow s k t a None cp) = 0"
  by (simp add: transactionRow_def signedAmount_def)

definition leg_of :: "string \<Rightarrow> string \<Rightarrow> Transfer \<Rightarrow> Posting \<Rightarrow> bool" where
  "leg_of i k t p \<longleftrightarrow> po_InstitutionID p = i \<and> Some (po_JournalEntryID p) = tr_JournalEntryID t \<and> po_AccountID p = k"

lemma journal_transfer:
  assumes ok: "journals_ok s" "rows_ok (transfers s)" and t: "t \<in> set (transfers s)" "tr_JournalEntryID t = Some j"
  obtains p q where "legs_of j s = [p, q]" "two_legs t p q" "tr_Status t = TransferStatusSucceeded"
proof -
  obtain e where e: "e \<in> set (journal_entries s)" "je_ID e = j" "je_TransferID e = Some (tr_ID t)"
    using ok(1) t unfolding journals_ok_def by blast
  then obtain t' p q where t': "t' \<in> set (transfers s)" "je_TransferID e = Some (tr_ID t')"
    and legs: "legs_of j s = [p, q]" "two_legs t' p q"
    using ok(1) by (auto simp: journals_ok_def journal_ok_def)
  have "t' = t" using t' e(3) tr_key_unique [OF ok(2) t'(1) t(1)] by simp
  moreover have "tr_Status t = TransferStatusSucceeded"
    using rows_okD [OF ok(2) t(1)] t(2) by (auto simp: status_ok_def)
  ultimately show thesis using that legs by blast
qed

lemma transaction_rows_sum:
  assumes ok: "journals_ok s" "rows_ok (transfers s)" "accounts_ok s"
    and a: "a \<in> set (accounts s)" "acc_InstitutionID a = i" "acc_ID a = k"
    and t: "t \<in> set (transfers s)" "tr_InstitutionID t = i"
  shows "signed_rows (transactionRows s k t) =
    sum_rows (leg_of i k t) (\<lambda>p. signed (normal_of s i k) (po_Direction p) (po_AmountMinor p)) (postings s)"
proof (cases "tr_JournalEntryID t")
  case None
  then have "own_legs s k t = [None]" "other_legs s k t = [None]"
    by (simp_all add: own_legs_def other_legs_def left_join_def)
  then have "signed_rows (transactionRows s k t) = 0"
    using account_of_key(1) [OF ok(3) a] t(2) by (simp add: transactionRows_def signed_none)
  moreover have "sum_rows (leg_of i k t) v (postings s) = 0" for v
    by (rule sum_rows_none) (simp add: leg_of_def None)
  ultimately show ?thesis by simp
next
  case (Some j)
  obtain p q where legs: "legs_of j s = [p, q]" "two_legs t p q" and st: "tr_Status t = TransferStatusSucceeded"
    by (rule journal_transfer [OF ok(1,2) t(1) Some])
  have pick: "filter (\<lambda>p. po_InstitutionID p = i \<and> Some (po_JournalEntryID p) = tr_JournalEntryID t \<and> P p) (postings s) =
      filter P [p, q]" for P
  proof -
    have "filter (\<lambda>p. po_InstitutionID p = i \<and> Some (po_JournalEntryID p) = tr_JournalEntryID t \<and> P p) (postings s) =
        filter (\<lambda>p. po_InstitutionID p = i \<and> P p) (legs_of j s)"
      by (simp add: legs_of_def Some conj_ac)
    also have "\<dots> = filter P [p, q]"
      using legs t(2) by (simp add: two_legs_def)
    finally show ?thesis .
  qed
  have own: "own_legs s k t = left_join (\<lambda>p. po_AccountID p = k) [p, q]"
    and other: "other_legs s k t = left_join (\<lambda>p. po_AccountID p \<noteq> k) [p, q]"
    using pick t(2) by (simp_all add: own_legs_def other_legs_def left_join_def)
  have sum: "sum_rows (leg_of i k t) v (postings s) = sum_list (map v (filter (\<lambda>p. po_AccountID p = k) [p, q]))" for v
    unfolding sum_rows_def leg_of_def [abs_def] pick [of "\<lambda>p. po_AccountID p = k"] by (rule refl)
  note acct = account_of_key [OF ok(3) a]
  have ne: "po_AccountID p \<noteq> po_AccountID q" and of_t: "tr_AccountID t \<in> {po_AccountID p, po_AccountID q}"
    using legs(2) by (simp_all add: two_legs_def)
  consider "po_AccountID p = k" "po_AccountID q \<noteq> k" | "po_AccountID q = k" "po_AccountID p \<noteq> k"
    | "po_AccountID p \<noteq> k" "po_AccountID q \<noteq> k"
    using ne by blast
  then show ?thesis
  proof cases
    case 3
    then have "tr_AccountID t \<noteq> k" using of_t by auto
    with 3 show ?thesis
      using acct(1) t(2) by (simp add: transactionRows_def own other left_join_def sum)
  qed (use acct t(2) signed_leg [OF st] in \<open>simp_all add: transactionRows_def own other left_join_def sum\<close>)
qed

lemma posting_of_one_transfer:
  assumes ok: "journals_ok s" "rows_ok (transfers s)" and p: "p \<in> set (postings s)"
  shows "count_rows (\<lambda>t. leg_of i k t p) (filter (\<lambda>t. tr_InstitutionID t = i) (transfers s)) = (if post_key i k p then 1 else 0)"
proof (cases "post_key i k p")
  case False
  then show ?thesis by (auto simp: count_rows_zero_iff leg_of_def post_key_def)
next
  case True
  obtain j where j: "j \<in> set (journal_entries s)" "je_ID j = po_JournalEntryID p"
    using ok(1) p by (auto simp: journals_ok_def journal_exists_def)
  then obtain t a b where t: "t \<in> set (transfers s)" "tr_JournalEntryID t = Some (po_JournalEntryID p)"
    and legs: "legs_of (po_JournalEntryID p) s = [a, b]" "two_legs t a b"
    using ok(1) unfolding journals_ok_def journal_ok_def by (metis (no_types))
  have "p \<in> set (legs_of (po_JournalEntryID p) s)" using p by (simp add: legs_of_def)
  then have i: "tr_InstitutionID t = i" using legs True by (auto simp: two_legs_def post_key_def)
  have same: "t' = t" if t': "t' \<in> set (transfers s)" "tr_JournalEntryID t' = Some (po_JournalEntryID p)" for t'
  proof -
    obtain j' where "j' \<in> set (journal_entries s)" "je_ID j' = po_JournalEntryID p" "je_TransferID j' = Some (tr_ID t')"
      using ok(1) t' unfolding journals_ok_def by blast
    moreover obtain j'' where "j'' \<in> set (journal_entries s)" "je_ID j'' = po_JournalEntryID p" "je_TransferID j'' = Some (tr_ID t)"
      using ok(1) t unfolding journals_ok_def by blast
    moreover have "distinct (map je_ID (journal_entries s))" using ok(1) by (simp add: journals_ok_def)
    ultimately have "tr_ID t' = tr_ID t" by (metis distinct_keysD option.inject)
    then show ?thesis using tr_key_unique [OF ok(2) t'(1) t(1)] by blast
  qed
  have d: "distinct (map tr_ID (filter (\<lambda>t. tr_InstitutionID t = i) (transfers s)))"
    using ok(2) by (simp add: rows_ok_def distinct_map_filter)
  have "count_rows (\<lambda>t'. t' = t) (filter (\<lambda>t. tr_InstitutionID t = i) (transfers s)) = 1"
    by (rule count_rows_one [OF d]) (use t(1) i in simp_all)
  moreover have leg: "leg_of i k t' p = (t' = t)" if t': "t' \<in> set (transfers s)" for t'
  proof
    assume "leg_of i k t' p"
    then have "tr_JournalEntryID t' = Some (po_JournalEntryID p)" by (simp add: leg_of_def)
    with t' show "t' = t" by (rule same)
  next
    assume "t' = t"
    then show "leg_of i k t' p" using t(2) True by (simp add: leg_of_def post_key_def)
  qed
  then have "filter (\<lambda>t. leg_of i k t p) (filter (\<lambda>t. tr_InstitutionID t = i) (transfers s)) =
      filter (\<lambda>t'. t' = t) (filter (\<lambda>t. tr_InstitutionID t = i) (transfers s))"
    by (intro filter_cong refl) simp
  ultimately show ?thesis using True by (simp only: count_rows_def if_True)
qed

lemma history_sum:
  assumes "journals_ok s" "rows_ok (transfers s)" "accounts_ok s"
    and "a \<in> set (accounts s)" "acc_InstitutionID a = i" "acc_ID a = k"
  shows "signed_rows (accountTransactions s i k) = posted s i k"
proof -
  let ?ts = "filter (\<lambda>t. tr_InstitutionID t = i) (transfers s)"
  let ?v = "\<lambda>p. signed (normal_of s i k) (po_Direction p) (po_AmountMinor p)"
  have "signed_rows (accountTransactions s i k) = sum_list (map (\<lambda>t. signed_rows (transactionRows s k t)) ?ts)"
    by (simp add: accountTransactions_def signed_rows_concat comp_def)
  also have "\<dots> = sum_list (map (\<lambda>t. sum_rows (leg_of i k t) ?v (postings s)) ?ts)"
    by (intro arg_cong [where f = sum_list] map_cong refl) (simp add: transaction_rows_sum [OF assms])
  also have "\<dots> = posted s i k"
    unfolding posted_def by (rule sum_rows_swap) (rule posting_of_one_transfer [OF assms(1,2)])
  finally show ?thesis .
qed

section \<open>The list a client gets\<close>

lemma whole_page:
  assumes "cursor_time options = None" and "length (page key options rows) < nat (lo_Limit options)"
  shows "page key options rows = rev (sort_key key rows)"
  using assms by (simp add: page_def below_cursor_def)

lemma signed_rows_permuted: "signed_rows (rev (sort_key key rows)) = signed_rows rows"
proof -
  have "mset (map (\<lambda>r. txn_SignedAmountMinor (snd r)) (rev (sort_key key rows))) =
      mset (map (\<lambda>r. txn_SignedAmountMinor (snd r)) rows)" by simp
  then show ?thesis unfolding signed_rows_def by (metis sum_mset_sum_list)
qed

lemma listed_history:
  assumes "fst (ListTransactions i k options s) = Inr ts" and "lo_BeforeCreatedAt options = None"
    and "length ts < nat (lo_Limit (normalizeListTransactionsOptions options))"
  shows "sum_list (map txn_SignedAmountMinor ts) = signed_rows (accountTransactions s i k)"
proof -
  let ?v = "normalizeListTransactionsOptions options"
  let ?page = "page transaction_page_key ?v (accountTransactions s i k)"
  have ts: "ts = map snd ?page"
    using assms(1) by (auto simp: ListTransactions_def Let_def readDB_def txBind_def txThen_def txGets_def txEnsure_def
        txReturn_def split: if_splits sum.splits prod.splits)
  have "cursor_time ?v = None" using assms(2) by (simp add: cursor_time_def normalizeListTransactionsOptions_def)
  from whole_page [OF this, of transaction_page_key] assms(3)
  have "?page = rev (sort_key transaction_page_key (accountTransactions s i k))" by (simp add: ts)
  then show ?thesis
    using signed_rows_permuted [of transaction_page_key "accountTransactions s i k"] by (simp add: ts signed_rows_def comp_def)
qed

end
