(* ===== verification/OperationProperties.thy ===== *)
theory OperationProperties
  imports AuditRuns BookProperties History Startup
begin

text \<open>
  What the operations around the books promise: the lists a client walks through, the reconciliation
  queue, the account history against the ledger, the audit trail, the fingerprints and the mock provider.
\<close>

section \<open>Walking through a list\<close>

text \<open>A client that asks for a page and then for the page below its last row, at most \<open>n\<close> times.\<close>

fun follow_cursor :: "nat \<Rightarrow> externals \<Rightarrow> string \<Rightarrow> ListOptions \<Rightarrow> store \<Rightarrow> Transfer list" where
  "follow_cursor 0 x i options s = []"
| "follow_cursor (Suc n) x i options s =
     (case fst (ListTransfers x i options s) of
        Inl err \<Rightarrow> []
      | Inr ts \<Rightarrow>
          (if ts = [] then []
           else ts @ follow_cursor n x i (next_cursor transfer_page_key options (last ts)) s))"

definition listed_rows :: "string \<Rightarrow> store \<Rightarrow> Transfer list" where
  "listed_rows i s = filter (\<lambda>t. tr_InstitutionID t = i) (transfers s)"

text \<open>Rows the code wrote with a usable cursor: a creation time and a parsed identifier.\<close>

definition cursor_ok :: "externals \<Rightarrow> Transfer \<Rightarrow> bool" where
  "cursor_ok x t \<longleftrightarrow>
     tr_CreatedAt t \<noteq> 0 \<and> tr_ID t \<noteq> [] \<and> TrimSpace (tr_ID t) = tr_ID t \<and> ext_uuid_valid x (tr_ID t)"

lemma ListTransfers_page:
  "normalizeListTransfersOptions x options = Inr v \<Longrightarrow>
     fst (ListTransfers x i options s) = Inr (page transfer_page_key v (listed_rows i s))"
  by (simp add: ListTransfers_def repoBind_def repoLift_def readDB_def listed_rows_def)

lemma normalize_next:
  assumes "normalizeListTransfersOptions x options = Inr v" "cursor_ok x t"
  shows "normalizeListTransfersOptions x (next_cursor transfer_page_key options t) =
    Inr (next_cursor transfer_page_key v t)"
  using assms
  by (auto simp: normalizeListTransfersOptions_def normalizeCursor_def next_cursor_def transfer_page_key_def
      cursor_ok_def Let_def split: if_splits)

lemma follow_cursor_walk:
  assumes "list_all (cursor_ok x) (listed_rows i s)" and "normalizeListTransfersOptions x options = Inr v"
  shows "follow_cursor n x i options s = walk n transfer_page_key v (listed_rows i s)"
  using assms(2)
proof (induction n arbitrary: options v)
  case (Suc n)
  let ?page = "page transfer_page_key v (listed_rows i s)"
  show ?case
  proof (cases ?page)
    case (Cons r rs)
    have "set ?page \<subseteq> set (listed_rows i s)"
      unfolding page_def by (auto dest: in_set_takeD)
    then have "last ?page \<in> set (listed_rows i s)"
      using last_in_set [of ?page] Cons by (metis list.distinct(1) subsetD)
    with assms(1) have "cursor_ok x (last (r # rs))"
      unfolding Cons by (simp only: list_all_iff)
    from Suc.IH [OF normalize_next [OF Suc.prems this]] show ?thesis
      by (simp add: ListTransfers_page [OF Suc.prems] Cons del: last.simps)
  qed (simp add: ListTransfers_page [OF Suc.prems])
qed simp

section \<open>Properties\<close>

text \<open>
  C38: a client that follows the cursors of the transfer list sees every transfer of its institution exactly
  once, newest first, after finitely many pages, whatever page size it asked for.
\<close>

theorem following_the_cursor_lists_every_transfer:
  assumes "reachable sv x' w" and "list_all (cursor_ok x) (transfers (fst w))"
    and "lo_BeforeCreatedAt options = None" "lo_BeforeID options = []" and "length (transfers (fst w)) \<le> n"
  shows "follow_cursor n x i options (fst w) = rev (sort_key transfer_page_key (listed_rows i (fst w)))"
proof -
  let ?rows = "listed_rows i (fst w)"
  define v where "v = options\<lparr>lo_Limit := normalizeLimit DefaultTransferListLimit MaxTransferListLimit
    (lo_Limit options)\<rparr>"
  have norm: "normalizeListTransfersOptions x options = Inr v"
    using assms(3,4) by (simp add: normalizeListTransfersOptions_def normalizeCursor_def v_def Let_def)
  have rows: "list_all (cursor_ok x) ?rows" "length ?rows \<le> n"
    using assms(2,5) length_filter_le [of "\<lambda>t. tr_InstitutionID t = i" "transfers (fst w)"]
    unfolding listed_rows_def by (simp add: list_all_iff, linarith)
  have "distinct (map tr_ID ?rows)"
    using reachable_invariants(1) [OF assms(1)] by (simp add: rows_ok_def listed_rows_def distinct_map_filter)
  then have d: "distinct (map transfer_page_key ?rows)"
    by (auto simp: distinct_map inj_on_def transfer_page_key_def)
  have limit: "0 < lo_Limit v"
    by (simp add: v_def normalizeLimit_def DefaultTransferListLimit_def MaxTransferListLimit_def
        DefaultTransactionHistoryLimit_def MaxTransactionHistoryLimit_def Let_def)
  show ?thesis
    unfolding follow_cursor_walk [OF rows(1) norm] ordered_def [symmetric]
    by (rule walk_visits_all [OF d _ limit _ rows(2)])
      (use rows(1) assms(3) in \<open>auto simp: v_def list_all_iff cursor_ok_def transfer_page_key_def\<close>)
qed

theorem following_the_cursor_lists_every_transfer_witness:
  "follow_cursor 2 demo_externals ''I'' \<lparr>lo_Limit = 1, lo_BeforeCreatedAt = None, lo_BeforeID = []\<rparr> (fst demo_pending) =
     [demo_outbound, demo_inbound]"
proof -
  have "list_all (cursor_ok demo_externals) (transfers (fst demo_pending))"
    unfolding demo_pending_is by code_simp
  moreover have "rev (sort_key transfer_page_key (listed_rows ''I'' (fst demo_pending))) = [demo_outbound, demo_inbound]"
    unfolding demo_pending_is by code_simp
  moreover have "length (transfers (fst demo_pending)) \<le> 2"
    unfolding demo_pending_is by (simp add: demo_pending_store_def)
  ultimately show ?thesis
    using following_the_cursor_lists_every_transfer [OF demo_reachable(3), where i = "''I''" and n = 2
        and options = "\<lparr>lo_Limit = 1, lo_BeforeCreatedAt = None, lo_BeforeID = []\<rparr>"]
    by simp
qed

text \<open>
  C33: the reconciliation list, whose condition is evaluated in SQL, holds exactly the open transfers of the
  institution that the classification in Go says need review, each with the reason it gives.
\<close>

theorem reconciliation_lists_what_needs_review:
  assumes "fst (ListReconciliationItems e i options s) = Inr items"
    and "lo_BeforeCreatedAt options = None" and "int (length (transfers s)) \<le> lo_Limit options"
    and "keepsFilter (lr_Status options) = (\<lambda>_. True)" "keepsFilter (lr_ProviderStatus options) = (\<lambda>_. True)"
      "keepsFilter (lr_LedgerStatus options) = (\<lambda>_. True)"
      "keepsFilter (lr_ReconciliationStatus options) = (\<lambda>_. True)"
    and cutoff: "cutoff = reconciliationStalePendingCutoff (lr_StalePendingMinutes options) (env_clock e 0)"
  shows "set items = (\<lambda>t. decorateReconciliationItem (reconciliationItem t) cutoff) `
      {t \<in> set (transfers s). tr_InstitutionID t = i \<and> needsReview (reconciliationItem t) cutoff \<and>
         tr_ReviewStatus t \<in> {None, Some ReconciliationReviewStatusManualFollowupRequired}}
    \<and> list_all (\<lambda>item. ri_ReviewReason item \<noteq> ''none'') items"
proof -
  let ?rows = "filter (listedItem i options cutoff) (transfers s)"
  define options' where "options' = \<lparr>lo_Limit = lo_Limit options, lo_BeforeCreatedAt = lo_BeforeCreatedAt options,
     lo_BeforeID = TrimSpace (lo_BeforeID options)\<rparr>"
  have items: "items = map (\<lambda>t. decorateReconciliationItem (reconciliationItem t) cutoff)
      (page transfer_page_key options' ?rows)"
    using assms(1) by (simp add: ListReconciliationItems_def readDB_def Let_def cutoff options'_def)
  have "int (length ?rows) \<le> lo_Limit options'"
    using assms(3) order_trans [OF of_nat_mono [OF length_filter_le [of "listedItem i options cutoff" "transfers s"]]]
    unfolding options'_def by simp
  then have "set (page transfer_page_key options' ?rows) = set ?rows"
    using assms(2) by (simp add: page_def below_cursor_def cursor_time_def options'_def)
  moreover have "ri_ReviewReason (decorateReconciliationItem item cutoff) \<noteq> ''none''"
    if "needsReview item cutoff" for item
    using that by (auto simp: needsReview_def decorateReconciliationItem_def reconciliationReviewState_def
        split: if_splits)
  ultimately show ?thesis
    unfolding items by (auto simp: list_all_iff listedItem_def assms(4-7) issue_iff_needsReview)
qed

lemma keepsFilter_blank: "keepsFilter [] = (\<lambda>_. True)"
  by (simp add: keepsFilter_def fun_eq_iff)

text \<open>At a time when the pending transfer of the example is stale it is listed, the settled one is not.\<close>

definition demo_queue :: "ReconciliationItem list" where
  "demo_queue =
     (case fst (ListReconciliationItems (demo_env ''4'' 100000000000000) ''I''
        \<lparr>lo_Limit = 10, lo_BeforeCreatedAt = None, lo_BeforeID = [], lr_Status = [], lr_ProviderStatus = [],
         lr_LedgerStatus = [], lr_ReconciliationStatus = [], lr_StalePendingMinutes = 0\<rparr> demo_pending_store) of
        Inl err \<Rightarrow> [] | Inr items \<Rightarrow> items)"

theorem reconciliation_lists_what_needs_review_witness:
  "map ri_TransferID demo_queue = [''2xt''] \<and> list_all (\<lambda>item. ri_ReviewReason item \<noteq> ''none'') demo_queue"
proof
  let ?options = "\<lparr>lo_Limit = 10, lo_BeforeCreatedAt = None, lo_BeforeID = [], lr_Status = [], lr_ProviderStatus = [],
    lr_LedgerStatus = [], lr_ReconciliationStatus = [], lr_StalePendingMinutes = 0\<rparr>"
  have "\<exists>items. fst (ListReconciliationItems e ''I'' ?options demo_pending_store) = Inr items" for e
    by (simp add: ListReconciliationItems_def readDB_def Let_def)
  then have q: "fst (ListReconciliationItems (demo_env ''4'' 100000000000000) ''I'' ?options demo_pending_store) =
      Inr demo_queue"
    unfolding demo_queue_def by (metis sum.simps(6))
  show "map ri_TransferID demo_queue = [''2xt'']" by code_simp
  show "list_all (\<lambda>item. ri_ReviewReason item \<noteq> ''none'') demo_queue"
    by (rule conjunct2 [OF reconciliation_lists_what_needs_review [OF q _ _ _ _ _ _ refl]])
      (simp_all add: demo_pending_store_def keepsFilter_blank)
qed

text \<open>
  C35: whatever operation is performed, successfully or not, every audit event it leaves behind names its
  institution, actor, request, action and entity; no key of its metadata speaks of an authorization, token,
  secret, password, credential or API key or is \<open>bvn\<close> or \<open>nin\<close>; and no value of it contains one of those words.
  A number or token that carries no such word is not recognised.
\<close>

theorem audit_trail_is_clean:
  assumes "ev \<in> set (audit_events (fst (performed sv e x op w)))" and "ev \<notin> set (audit_events (fst w))"
    and "(k, v) \<in> set (ev_Metadata ev)"
  shows "ev_InstitutionID ev \<noteq> [] \<and> ev_ActorType ev \<noteq> [] \<and> ev_ActorID ev \<noteq> [] \<and> ev_RequestID ev \<noteq> [] \<and>
    ev_Action ev \<noteq> [] \<and> ev_EntityType ev \<noteq> [] \<and> ev_EntityID ev \<noteq> [] \<and>
    k \<noteq> [] \<and> ToLower (TrimSpace k) \<noteq> ''bvn'' \<and> ToLower (TrimSpace k) \<noteq> ''nin'' \<and>
    list_all (\<lambda>word. \<not> Contains (ToLower (TrimSpace k)) word)
      [''authorization'', ''token'', ''secret'', ''password'', ''credential'', ''api_key'', ''apikey''] \<and>
    list_all (\<lambda>word. \<not> Contains (ToLower v) word)
      [''authorization'', ''bearer '', ''token'', ''secret'', ''password'', ''credential'', ''api key'', ''api_key'',
       ''apikey'', ''bvn'', ''nin'']"
proof -
  have ok: "audit_row_ok ev" using performed_audits [of w sv e x op] assms(1,2) by (auto simp: audits_def)
  then have "clean_entry (k, v)" using assms(3) by (simp add: audit_row_ok_def clean_metadata_def list_all_iff)
  with ok show ?thesis
    by (simp add: audit_row_ok_def clean_entry_def unsafeAuditMetadataKey_def sensitive_words_def Let_def)
qed

theorem audit_trail_is_clean_witness:
  "ev_ActorID demo_audit \<noteq> [] \<and> \<not> Contains (ToLower ''NGN'') ''nin''"
proof -
  have "demo_audit \<in> set (audit_events (fst demo_credited))"
    by (simp add: demo_credited_is demo_credited_store_def)
  moreover have "demo_audit \<notin> set (audit_events (fst demo_world))"
    by (simp add: demo_world_def demo_store_def)
  moreover have "(''currency_id'', ''NGN'') \<in> set (ev_Metadata demo_audit)"
    by (simp add: demo_audit_def)
  ultimately show ?thesis
    using audit_trail_is_clean [of demo_audit demo_service "demo_svc_env ''1'' 10" demo_externals
        "OpInternalCredit (demo_credit 100 ''k1'')" demo_world "''currency_id''" "''NGN''"]
    unfolding demo_credited_def by (simp only: list.pred_inject simp_thms)
qed

section \<open>The history a client sees\<close>

text \<open>
  C34: an account history that fits on one page adds up: the signed amounts of the transactions that
  ListTransactions answers with sum to the ledger balance of the account, in every reachable state.
\<close>

theorem history_adds_up_to_the_ledger:
  assumes "reachable sv x w" and "b \<in> set (account_balances (fst w))" and "a \<in> set (accounts (fst w))"
    and "acc_InstitutionID a = bal_InstitutionID b" "acc_ID a = bal_AccountID b"
    and "fst (ListTransactions (bal_InstitutionID b) (bal_AccountID b) options (fst w)) = Inr ts"
    and "lo_BeforeCreatedAt options = None"
    and "length ts < nat (lo_Limit (normalizeListTransactionsOptions options))"
  shows "sum_list (map txn_SignedAmountMinor ts) = bal_LedgerMinor b"
proof -
  note inv = reachable_invariants [OF assms(1)]
  have "sum_list (map txn_SignedAmountMinor ts) = posted (fst w) (bal_InstitutionID b) (bal_AccountID b)"
    using listed_history [OF assms(6-8)] history_sum [OF inv(2,1,4) assms(3-5)] by simp
  also have "\<dots> = ledger_of (fst w) (bal_InstitutionID b) (bal_AccountID b)"
    using inv(5) by (simp add: ledger_drift_def)
  also have "\<dots> = bal_LedgerMinor b"
    by (rule balance_row_sums(1) [OF inv(4) assms(2)])
  finally show ?thesis .
qed

text \<open>The options of a request that sets no limit and no cursor.\<close>

definition first_page :: ListOptions where
  "first_page = \<lparr>lo_Limit = 0, lo_BeforeCreatedAt = None, lo_BeforeID = []\<rparr>"

theorem history_adds_up_to_the_ledger_witness:
  "\<exists>ts. fst (ListTransactions ''I'' ''A'' first_page demo_pending_store) = Inr ts \<and>
     length ts = 2 \<and> sum_list (map txn_SignedAmountMinor ts) = 100"
proof -
  have "case fst (ListTransactions ''I'' ''A'' first_page demo_pending_store) of
      Inl _ \<Rightarrow> False | Inr ts \<Rightarrow> length ts = 2"
    by code_simp
  then obtain ts where ts: "fst (ListTransactions ''I'' ''A'' first_page demo_pending_store) = Inr ts"
      "length ts = 2" by (auto split: sum.splits)
  have "list_ex (\<lambda>b. bal_AccountID b = ''A'' \<and> bal_InstitutionID b = ''I'' \<and> bal_LedgerMinor b = 100)
      (account_balances demo_pending_store)" by code_simp
  then obtain b where b: "b \<in> set (account_balances demo_pending_store)" "bal_AccountID b = ''A''"
      "bal_InstitutionID b = ''I''" "bal_LedgerMinor b = 100" by (auto simp: list_ex_iff)
  have "list_ex (\<lambda>a. acc_ID a = ''A'' \<and> acc_InstitutionID a = ''I'') (accounts demo_pending_store)" by code_simp
  then obtain a where a: "a \<in> set (accounts demo_pending_store)" "acc_ID a = ''A''" "acc_InstitutionID a = ''I''"
    by (auto simp: list_ex_iff)
  have "2 < nat (lo_Limit (normalizeListTransactionsOptions first_page))" by code_simp
  moreover have "lo_BeforeCreatedAt first_page = None" by (simp add: first_page_def)
  ultimately have "sum_list (map txn_SignedAmountMinor ts) = bal_LedgerMinor b"
    using a b ts by (intro history_adds_up_to_the_ledger [OF demo_reachable(3), of b a]) (simp_all add: demo_pending_is)
  with ts b(4) show ?thesis by (intro exI [of _ ts] conjI) (simp_all only:)
qed

section \<open>Fingerprints\<close>

lemma TrimSpace_id:
  assumes "\<forall>r\<in>set space_runes. \<forall>c\<in>set r. c \<notin> set v"
  shows "TrimSpace v = v"
proof -
  have "r \<noteq> []" if "r \<in> set space_runes" for r
    using that by (auto simp: space_runes_def)
  then have "\<exists>c. c \<in> set r \<and> c \<notin> set v" if "r \<in> set space_runes" for r
    using assms that by (meson last_in_set)
  then have "strip_rune space_runes v = None" "strip_rune (map rev space_runes) (rev v) = None"
    by (fastforce simp: strip_rune_None_iff rev_swap)+
  then show ?thesis by (simp add: TrimSpace_fixed_iff)
qed

lemma FormatInt_chars: "set (FormatInt v) \<subseteq> insert CHR ''-'' (Collect is_digit)"
  using decimal_digits [of "nat v"] decimal_digits [of "nat (- v)"]
  by (auto simp: FormatInt_def list_all_iff)

lemma TrimSpace_FormatInt: "TrimSpace (FormatInt v) = FormatInt v"
proof (rule TrimSpace_id, intro ballI)
  fix r c assume "r \<in> set space_runes" "c \<in> set r"
  then have "c \<noteq> CHR ''-'' \<and> \<not> is_digit c"
    unfolding space_runes_def by (auto simp: is_digit_def)
  with FormatInt_chars [of v] show "c \<notin> set (FormatInt v)" by auto
qed

lemma FormatInt_inj: "in_int64 m \<Longrightarrow> in_int64 n \<Longrightarrow> FormatInt m = FormatInt n \<Longrightarrow> m = n"
  by (metis Atoi_FormatInt option.inject)

lemma TrimSpace_FormatBool: "TrimSpace (FormatBool b) = FormatBool b"
proof -
  have "TrimSpace ''true'' = ''true''" "TrimSpace ''false'' = ''false''" by code_simp+
  then show ?thesis by (simp add: FormatBool_def)
qed

text \<open>
  C39: two requests with the same computed fingerprint ask for the same transfer (same parties, direction,
  status, amount, currency, provider, provider reference, event and status, reversed transfer and policy, up to
  surrounding space), or else the digest collides on their texts; no field may hold the separator byte.
\<close>

theorem fingerprint_identifies_the_request:
  assumes "transferRequestFingerprint x a = transferRequestFingerprint x b"
    and "TrimSpace (in_RequestFingerprint a) = []" "TrimSpace (in_RequestFingerprint b) = []"
    and "in_int64 (in_AmountMinor a)" "in_int64 (in_AmountMinor b)"
    and "list_all (\<lambda>v. CHR 0x1F \<notin> set (TrimSpace v)) (record_transfer_fields a @ record_transfer_fields b)"
  shows "TrimSpace (in_InstitutionID a) = TrimSpace (in_InstitutionID b) \<and>
    TrimSpace (in_AccountID a) = TrimSpace (in_AccountID b) \<and>
    TrimSpace (in_ClearingAccountID a) = TrimSpace (in_ClearingAccountID b) \<and>
    TrimSpace (in_Direction a) = TrimSpace (in_Direction b) \<and> TrimSpace (in_Status a) = TrimSpace (in_Status b) \<and>
    in_AmountMinor a = in_AmountMinor b \<and> TrimSpace (in_CurrencyID a) = TrimSpace (in_CurrencyID b) \<and>
    TrimSpace (in_Provider a) = TrimSpace (in_Provider b) \<and>
    TrimSpace (in_ProviderReference a) = TrimSpace (in_ProviderReference b) \<and>
    TrimSpace (in_ProviderEventID a) = TrimSpace (in_ProviderEventID b) \<and>
    TrimSpace (in_ProviderStatus a) = TrimSpace (in_ProviderStatus b) \<and>
    TrimSpace (in_ReversalOfTransferID a) = TrimSpace (in_ReversalOfTransferID b) \<and>
    in_RejectInsufficient a = in_RejectInsufficient b \<and> in_RequireAvailable a = in_RequireAvailable b
    \<or> fingerprint_text (record_transfer_fields a) \<noteq> fingerprint_text (record_transfer_fields b) \<and>
      ext_sha256_hex x (fingerprint_text (record_transfer_fields a)) =
        ext_sha256_hex x (fingerprint_text (record_transfer_fields b))"
proof (cases "fingerprint_text (record_transfer_fields a) = fingerprint_text (record_transfer_fields b)")
  case True
  then have "map TrimSpace (record_transfer_fields a) = map TrimSpace (record_transfer_fields b)"
    using assms(6) by (intro fingerprint_text_inj) (simp_all add: list_all_iff record_transfer_fields_def)
  moreover have "p = q" if "FormatBool p = FormatBool q" for p q
    using that by (simp add: FormatBool_def split: if_splits)
  ultimately show ?thesis
    using FormatInt_inj [OF assms(4,5)]
    by (simp add: record_transfer_fields_def TrimSpace_FormatInt TrimSpace_FormatBool)
next
  case False
  then show ?thesis using assms(1-3) by (simp add: transferRequestFingerprint_def fingerprintValues_def Let_def)
qed

text \<open>A digest that does not collide: the identity.\<close>

definition injective_externals :: externals where
  "injective_externals = demo_externals\<lparr>ext_sha256_hex := (\<lambda>v. v)\<rparr>"

theorem fingerprint_identifies_the_request_witness:
  "transferRequestFingerprint injective_externals (demo_input TransferDirectionInbound TransferStatusSucceeded 70 ''k1'') \<noteq>
   transferRequestFingerprint injective_externals (demo_input TransferDirectionInbound TransferStatusSucceeded 71 ''k1'')"
proof
  let ?a = "demo_input TransferDirectionInbound TransferStatusSucceeded 70 ''k1''"
  let ?b = "demo_input TransferDirectionInbound TransferStatusSucceeded 71 ''k1''"
  assume same: "transferRequestFingerprint injective_externals ?a = transferRequestFingerprint injective_externals ?b"
  have fields: "list_all (\<lambda>v. CHR 0x1F \<notin> set (TrimSpace v)) (record_transfer_fields ?a @ record_transfer_fields ?b)"
    by code_simp
  have "in_AmountMinor ?a = in_AmountMinor ?b"
    using fingerprint_identifies_the_request [OF same _ _ _ _ fields]
    by (simp add: demo_input_def injective_externals_def in_int64_def)
  then show False by (simp add: demo_input_def)
qed

section \<open>The mock provider\<close>

text \<open>The states of the mock: it starts empty, and any of its calls is made any number of times.\<close>

inductive mock_state :: "externals \<Rightarrow> MockNIPProvider \<Rightarrow> bool" for x where
  fresh: "mock_state x NewMockNIPProvider"
| enquired: "mock_state x p \<Longrightarrow> mock_state x (snd (mockNameEnquiry e q p))"
| initiated: "mock_state x p \<Longrightarrow> mock_state x (snd (mockInitiateTransfer e request p))"
| requeried: "mock_state x p \<Longrightarrow> mock_state x (snd (mockRequeryTransfer e reference p))"
| notified: "mock_state x p \<Longrightarrow> mock_state x (snd (mockParseWebhook x e body hs p))"
| scripted: "mock_state x p \<Longrightarrow> mock_state x (snd (mockSetRequeryScenario e reference scenario p))"

lemma mockNIP_calls:
  "pv_Name (mockNIP x) = ProviderMockNIP" "pv_NameEnquiry (mockNIP x) = mockNameEnquiry"
  "pv_InitiateTransfer (mockNIP x) = mockInitiateTransfer" "pv_RequeryTransfer (mockNIP x) = mockRequeryTransfer"
  "pv_ParseWebhook (mockNIP x) = mockParseWebhook x"
  "pv_SetRequeryScenario (mockNIP x) = Some mockSetRequeryScenario"
  by (simp_all add: mockNIP_def)

lemma mock_state_inv: "mock_state x p \<Longrightarrow> mock_inv p"
proof (induction rule: mock_state.induct)
  case fresh
  show ?case by (rule mock_inv_new)
next
  case (scripted p e reference scenario)
  from scripted.IH show ?case by (rule mock_inv_scenario)
qed (use mock.inv_enquiry mock.inv_initiate mock.inv_requery mock.inv_webhook in \<open>simp_all add: mockNIP_calls\<close>)

text \<open>
  C37: whatever happened to the mock provider before and whatever its answer, the outcome the service acts on
  after initiating a transfer carries the provider's name, a reference, and a pair of statuses the ledger
  can record, where an unknown provider status goes with a pending transfer.
\<close>

theorem provider_outcome_is_usable:
  assumes "mock_state x p" and "providerTransferReference request \<noteq> []"
    and "outcome = providerOutcome (mockNIP x) request (fst (mockInitiateTransfer e request p))"
  shows "res_Provider outcome = ProviderMockNIP \<and> TrimSpace (res_ProviderReference outcome) \<noteq> [] \<and>
    validTransferStatus (res_Status outcome) \<and> validProviderStatus (res_ProviderStatus outcome) \<and>
    (res_ProviderStatus outcome \<noteq> TransferProviderStatusUnknown \<or> res_Status outcome = TransferStatusPending)"
  using mock.outcome_valid [OF mock_state_inv [OF assms(1)] assms(2), of x e]
  unfolding assms(3) mockNIP_calls valid_result_def validTransferStatus_def validProviderStatus_def by blast

definition demo_request_to_provider :: "string \<Rightarrow> string \<Rightarrow> ProviderTransferRequest" where
  "demo_request_to_provider ref scenario =
     \<lparr>pq_InstitutionID = ''I'', pq_AccountID = ''A'', pq_DestinationInstitutionCode = ''044'',
      pq_DestinationAccountNumber = ''9990000001'', pq_DestinationAccountName = ''X'', pq_AmountMinor = 30,
      pq_CurrencyID = ''NGN'', pq_IdempotencyKey = ''k2'', pq_ProviderReference = ref, pq_ProviderEventID = [],
      pq_Status = [], pq_FailureReason = [], pq_Narration = [], pq_Scenario = scenario, pq_DelaySeconds = 0\<rparr>"

text \<open>A timeout: the mock remembers nothing and the service records an unknown outcome.\<close>

theorem provider_outcome_is_usable_witness:
  "res_Status (providerOutcome (mockNIP demo_externals) (demo_request_to_provider ''r9'' MockProviderScenarioTimeout)
     (fst (mockInitiateTransfer (demo_provider_env ''9'' 5)
       (demo_request_to_provider ''r9'' MockProviderScenarioTimeout) NewMockNIPProvider))) = TransferStatusPending"
proof -
  let ?outcome = "providerOutcome (mockNIP demo_externals) (demo_request_to_provider ''r9'' MockProviderScenarioTimeout)
     (fst (mockInitiateTransfer (demo_provider_env ''9'' 5)
       (demo_request_to_provider ''r9'' MockProviderScenarioTimeout) NewMockNIPProvider))"
  have "providerTransferReference (demo_request_to_provider ''r9'' MockProviderScenarioTimeout) \<noteq> []" by code_simp
  moreover have "res_ProviderStatus ?outcome = TransferProviderStatusUnknown" by code_simp
  ultimately show ?thesis
    using provider_outcome_is_usable [OF mock_state.fresh _ refl] by metis
qed

lemma status_texts:
  "ToLower (TrimSpace TransferStatusPending) = TransferStatusPending"
  "ToLower (TrimSpace TransferStatusSucceeded) = TransferStatusSucceeded"
  "TransferStatusPending \<noteq> []" "TransferStatusSucceeded \<noteq> []"
  "TransferStatusPending \<noteq> TransferStatusSucceeded" "TransferStatusPending \<noteq> TransferProviderStatusUnknown"
  by code_simp+

text \<open>The result the mock gives once the delay of a pending result is over contradicts itself.\<close>

lemma expired_delay_conflicts:
  assumes "res_Delayed result" "res_DelayedUntil result = Some until" "\<not> pn_clock e < until"
    and "res_Status result = TransferStatusPending" "res_ProviderStatus result = TransferStatusPending"
  shows "externalTransferRequeryCompletionInput t c ref text_note (afterDelay e result) = Inl ErrConflict"
  using assms status_texts by (simp add: externalTransferRequeryCompletionInput_def afterDelay_def Let_def)

text \<open>
  C36: once the delay of a delayed transfer of the mock is over, a requery does not settle the transfer: the
  mock answers with a succeeded status beside a pending provider status, which the service refuses as a
  conflict, and nothing changes.
\<close>

theorem delayed_transfer_is_not_settled_by_requery:
  assumes "mk_transfers p reference = Some result" "mk_requeryErrors p reference = None"
    and "TrimSpace reference = reference" "reference \<noteq> []" and "pn_ctx_err (se_provider e 1) = None"
    and "res_Delayed result" "res_DelayedUntil result = Some until" "\<not> pn_clock (se_provider e 1) < until"
    and "res_Status result = TransferStatusPending" "res_ProviderStatus result = TransferStatusPending"
    and "er_Scenario input = []"
    and "fst (GetDefaultInternalSettlementAccount (tr_InstitutionID t) (tr_CurrencyID t) s) = Inr clearing"
  shows "requeryTransfer e x (mockNIP x) t reference input (s, p) = (Inl ErrConflict, (s, p))"
proof -
  have r: "mockRequeryTransfer (se_provider e 1) reference p = (Inr (Some (afterDelay (se_provider e 1) result)), p)"
    using assms(1-5) by (simp add: mockRequeryTransfer_def ctxGuard_run)
  have g: "GetDefaultInternalSettlementAccount (tr_InstitutionID t) (tr_CurrencyID t) s = (Inr clearing, s)"
    using assms(12) reads_still(3) [of "tr_InstitutionID t" "tr_CurrencyID t" s] by (metis prod.collapse)
  show ?thesis
    using expired_delay_conflicts [OF assms(6-10)]
    by (simp add: requeryTransfer_def applyMockRequeryScenario_def assms(11) repoBind_def repoReturn_def
        repoAttempt_def repoLift_def repoFail_def requeryOutcome_def mockNIP_calls r g del: One_nat_def)
qed

definition demo_delayed :: MockNIPProvider where
  "demo_delayed = snd (mockInitiateTransfer (demo_provider_env ''7'' 0)
     (demo_request_to_provider ''r2'' MockProviderScenarioDelayed) NewMockNIPProvider)"

theorem delayed_transfer_is_not_settled_by_requery_witness:
  "fst (requeryTransfer (demo_svc_env ''8'' 6000000000) demo_externals (mockNIP demo_externals) demo_outbound ''r2''
     \<lparr>er_InstitutionID = ''I'', er_TransferID = ''2xt'', er_ProviderReference = ''r2'', er_Scenario = [], er_Note = []\<rparr>
     (demo_pending_store, demo_delayed)) = Inl ErrConflict"
proof -
  obtain result where r: "mk_transfers demo_delayed ''r2'' = Some result" "res_Delayed result"
    "res_DelayedUntil result = Some 5000000000" "res_Status result = TransferStatusPending"
    "res_ProviderStatus result = TransferStatusPending"
  proof -
    have "case mk_transfers demo_delayed ''r2'' of None \<Rightarrow> False
      | Some result \<Rightarrow> res_Delayed result \<and> res_DelayedUntil result = Some 5000000000 \<and>
          res_Status result = TransferStatusPending \<and> res_ProviderStatus result = TransferStatusPending"
      by code_simp
    then show thesis by (auto intro: that split: option.splits)
  qed
  have e: "mk_requeryErrors demo_delayed ''r2'' = None" "TrimSpace ''r2'' = ''r2''" by code_simp+
  have c: "pn_ctx_err (se_provider (demo_svc_env ''8'' 6000000000) 1) = None"
    "\<not> pn_clock (se_provider (demo_svc_env ''8'' 6000000000) 1) < 5000000000"
    by (simp_all add: demo_svc_env_def demo_provider_env_def)
  have "case fst (GetDefaultInternalSettlementAccount (tr_InstitutionID demo_outbound) (tr_CurrencyID demo_outbound)
      demo_pending_store) of Inl _ \<Rightarrow> False | Inr _ \<Rightarrow> True"
    by code_simp
  then obtain clearing where g: "fst (GetDefaultInternalSettlementAccount (tr_InstitutionID demo_outbound)
      (tr_CurrencyID demo_outbound) demo_pending_store) = Inr clearing"
    by (auto split: sum.splits)
  show ?thesis
    by (subst delayed_transfer_is_not_settled_by_requery [OF r(1) e(1,2) _ c(1) r(2,3) c(2) r(4,5) _ g]) simp_all
qed

end
