(* ===== verification/Spec2Isabelle.thy ===== *)
theory Spec2Isabelle
  imports TransferProperties MoneyProperties ApiProperties ServerProperties OperationProperties
begin

text \<open>
  Lenz Core: a ledger and transfer service (\<open>apps/core\<close>, Go, over PostgreSQL) behind an HTTP API, with a
  development-token guard (\<open>apps/auth\<close>) and shared configuration and middlewares (\<open>packages/shared\<close>).

  \<^bold>\<open>The program.\<close>  An HTTP request passes the middlewares and the token guard, is decoded and bound by a
  handler, and becomes one call of the service.  The service normalises its input, asks the transfer provider
  (a mock of the NIP network) where the operation is external, and calls a repository method.  A repository
  method runs one transaction over the tables: institutions, branches, customers, accounts, account
  balances, journal entries, postings, transfers, holds and liens, provider events, audit events.  Money moves
  only by a journal with two postings; an outbound transfer reserves its amount with a hold until its outcome
  is known; a repeated request is recognised by its idempotency key, its provider event or its provider
  reference, and compared by fingerprint.

  \<^bold>\<open>From the code to the theories.\<close>  Definitions keep the names of the Go functions; service methods have
  the prefix \<open>svc\<close>, handlers \<open>handle\<close>.
  \<^item> \<open>Prelude\<close>, \<open>GoLib\<close>: the transaction monad (\<open>store \<Rightarrow> error + 'a \<times> store\<close>), rows, and what the source uses of the
    Go library on byte strings (\<open>TrimSpace\<close>, \<open>ToLower\<close>, \<open>EqualFold\<close>, \<open>FormatInt\<close>, \<open>Join\<close>, \<open>Split\<close>, 64-bit wrap-around).
  \<^item> \<open>Model\<close>: \<open>model.go\<close>, \<open>repository.go\<close>, the principal and the errors.  \<open>Store\<close>: the tables and the constraints of the
    migrations, the SQL statements as operations on lists of rows, \<open>WithTx\<close> (\<open>transaction.go\<close>, \<open>sql_errors.go\<close>,
    \<open>sql_integrity.go\<close>), advisory locks.
  \<^item> \<open>AuditTrail\<close>, \<open>TransferAudit\<close>: \<open>audit.go\<close>, \<open>sql_audit_repository.go\<close>.  \<open>Fingerprint\<close>: \<open>idempotency.go\<close>.  \<open>Policy\<close>:
    \<open>policy.go\<close>.  \<open>Ledger\<close>, \<open>Holds\<close>, \<open>ProviderEvents\<close>, \<open>AccountLocks\<close>: the repositories of the same names.
  \<^item> \<open>Transfers\<close>, \<open>TransferOps\<close>: \<open>sql_transfer_repository.go\<close> (recording, replays, settlement, completion, requery,
    review, reversal).  \<open>AccountOps\<close>: customers, accounts, account controls and liens.  \<open>Paging\<close>, \<open>Queries\<close>,
    \<open>Reconciliation\<close>, \<open>DemoSeed\<close>: the lists, the transaction history, the review queue, the demo data.
  \<^item> \<open>Provider\<close>, \<open>MockNIP\<close>: the provider interface as a record of functions and the mock with its two maps.
  \<^item> \<open>Service\<close>, \<open>ServiceProvider\<close>, \<open>ServiceExternal\<close>, \<open>ServiceControls\<close>: \<open>service*.go\<close>.  \<open>System\<close> gathers every operation
    of the service into one step function \<open>performed\<close> and the states it can reach, \<open>reachable\<close>.
  \<^item> \<open>HttpRequests\<close>, \<open>Handlers\<close>: validation and binding of bodies, tenant scope, every handler, the mapping of errors
    to responses.  \<open>Authn\<close>: the guard.  \<open>Startup\<close>: configuration, origins, pool, demo switch.  \<open>Server\<close>:
    \<open>server.go\<close>, \<open>health.go\<close>, the middlewares, and \<open>main\<close> as a composition.

  \<^bold>\<open>What the lemmas show.\<close>  \<open>Books\<close> is the abstract specification: \<open>book_step i\<close> lists what may happen to the tables
  on behalf of institution \<open>i\<close>.  \<open>BookJournals\<close>, \<open>BookHolds\<close>, \<open>BookMoney\<close> prove the invariants \<open>books_ok\<close> over these steps, and
  \<open>BookHistory\<close> what they never touch.  \<open>TransferRefine\<close>, \<open>OpsRefine\<close>, \<open>Runs\<close>, \<open>ServiceRuns\<close>, \<open>System\<close> prove that every
  repository method, service call and operation takes only such steps; \<open>HandlerRuns\<close> that a request performs at
  most one operation, on the institution of its caller; \<open>ServerRuns\<close> that the middleware chain adds nothing to that.
  \<open>TransferEffects\<close>, \<open>MoneyEffects\<close>, \<open>HoldEffects\<close> say what one operation does to the balances, \<open>AuditRuns\<close> what it adds
  to the audit trail, and \<open>History\<close> that the rows of the transaction history carry the postings of the account.
  The interfaces are locales: \<open>tx_relation\<close> (a relation every statement of a transaction obeys), \<open>call_relation\<close> (the same for calls of repositories and services),
  \<open>transfer_provider\<close> (the contract of a provider, interpreted on the mock) and \<open>world_law\<close> (what a middleware
  keeps); they are interpreted on the book steps, the ledger sums, the hold gap, the audit law, the worlds of
  the system and the reachable states.  The properties are in \<open>BookProperties\<close>, \<open>TransferProperties\<close>,
  \<open>MoneyProperties\<close>, \<open>ApiProperties\<close>, \<open>ServerProperties\<close>, \<open>OperationProperties\<close> and below; their witnesses run on the
  institution of \<open>Example\<close> and \<open>SystemExample\<close>.

  \<^bold>\<open>How things are represented.\<close>
  \<^item> A table is the list of its rows in insertion order; \<open>ORDER BY \<dots> DESC\<close> is the reverse of a sorted list; \<open>NULL\<close>
    is \<open>None\<close>; an \<open>UPDATE\<close> that must hit one row fails on another count.  Constraint violations roll back.
  \<^item> A transaction is one atomic step that commits, or fails to begin or to commit (\<open>env_tx_outcome\<close>), in which case
    the tables stay.  The advisory locks it takes are recorded; row locks have no separate effect.
  \<^item> Clock readings, fresh UUIDs, request identifier and principal come from an \<open>env\<close>, one per transaction of a call;
    the environment of a provider call is separate, and every request to the server brings its own.  Freshness is
    not assumed: an identifier that is taken is a constraint violation.
  \<^item> Times are integers of nanoseconds, 0 the zero time.  Amounts are integers; Go's 64-bit arithmetic wraps, and
    Postgres refuses a \<open>bigint\<close> out of range, both written out.
  \<^item> SHA-256 in hexadecimal, UUID and mail parsing, \<open>time.ParseDuration\<close>, the JSON encoder, chi and cors are
    functions given as parameters.  Nothing is assumed of the digest: the property of the fingerprints has a
    collision as its other outcome.
  \<^item> A JSON body is its decoded value or \<open>None\<close>; the structs of requests are those of
    \<open>design/openapi/core/corebanking.yaml\<close>.  Metadata maps are association lists.
  \<^item> A nil dereference (\<open>MockProviderWebhook\<close> with no event) is the error \<open>panic\<close>, answered by \<open>Recover\<close> with 500.

  \<^bold>\<open>Bounds.\<close>  The loops of the source run over finite lists and texts: they are structural recursions, or have a
  length as their measure.  The only fuel is the
  number of pages a client asks for in \<open>follow_cursor\<close> and \<open>walk\<close>: as many as there are rows is enough, since every page
  but the last has at least one row, and the property about it says so.

  \<^bold>\<open>Not modelled.\<close>  Connection errors within a statement, the rounding of times to microseconds, column
  lengths, NUL bytes and invalid UTF-8 in texts; row locks and isolation below one transaction; the
  countries table and columns the code never reads; the mutex of the mock; names of JSON fields and
  generated code; logging; listening, signals and shutdown of \<open>Run\<close>; the text of database errors beyond their
  class.  The isolation of institutions is not claimed of the service operations for the demo seed, mock
  inbound transfers and webhooks, which read their institution from the payload; the handlers scope it.
\<close>

section \<open>Properties\<close>

text \<open>
  C40: a transfer recorded from books in order is a sequence of book steps of its institution.
\<close>

theorem recordTransfer_refines_books:
  assumes "books_ok s" and "recordTransfer e x input s = Inr (r, s')"
  shows "book_steps (in_InstitutionID input) s s' \<and> books_ok s'"
  using recordTransfer_books [OF assms] books_ok_steps assms(1) by blast

definition demo_credit_run :: "error + (Transfer \<times> bool) \<times> store" where
  "demo_credit_run = recordTransfer (demo_env ''1'' 5) demo_externals
     (demo_input TransferDirectionInbound TransferStatusSucceeded 70 ''k1'') demo_store"

lemma demo_credit_ok: "case demo_credit_run of Inl _ \<Rightarrow> False | Inr (_, s) \<Rightarrow> available_of s ''I'' ''A'' = 70"
  by code_simp

theorem recordTransfer_refines_books_witness:
  "\<exists>r s'. demo_credit_run = Inr (r, s') \<and> books_ok s' \<and> available_of s' ''I'' ''A'' = 70"
proof -
  obtain r s' where r: "demo_credit_run = Inr (r, s')" "available_of s' ''I'' ''A'' = 70"
    using demo_credit_ok by (auto split: sum.splits)
  with recordTransfer_refines_books [OF demo_books] show ?thesis
    unfolding demo_credit_run_def by blast
qed

end
